(* ===== verification/Prelude.thy ===== *)
theory Prelude
  imports Main "HOL-Library.Word"
begin

text \<open>
  The vocabulary the components share: bytes and byte strings, the result type of fallible
  operations, the fragment of the Go standard library on strings and integers that the source
  uses (\<open>strings.HasPrefix\<close>, \<open>Cut\<close>, \<open>Split\<close>, \<open>TrimRight\<close>, \<open>LastIndexAny\<close>, \<open>strconv.Itoa\<close>,
  \<open>strconv.Atoi\<close>, \<open>utf8\<close> bit tests) and the lemmas about them that more than one component
  uses.

  Conventions of the whole development.  A Go \<open>string\<close> is a HOL \<open>string\<close>, a list of characters
  of 8 bits each, so its length is the length in bytes as in Go.  A Go \<open>[]byte\<close> is a list of
  \<open>8 word\<close>.  A Go \<open>int\<close> is a HOL \<open>int\<close> or, for lengths and indices, a \<open>nat\<close>; where the width
  matters the bound is written out.  A function that returns \<open>(T, error)\<close> returns \<open>error + T\<close>.
\<close>

section \<open>Types and collections of facts\<close>

type_synonym byte = "8 word"
type_synonym bytes = "byte list"

named_theorems codec_simps \<open>equations of the encoders and decoders\<close>
named_theorems inv_intros \<open>preservation of the invariants\<close>
named_theorems model_defs \<open>definitions that the component proofs unfold together\<close>

abbreviation is_ok :: "'e + 'a \<Rightarrow> bool" where
  "is_ok r \<equiv> (\<exists>x. r = Inr x)"

abbreviation is_err :: "'e + 'a \<Rightarrow> bool" where
  "is_err r \<equiv> (\<exists>e. r = Inl e)"

section \<open>Bytes and strings\<close>

definition byte_of_char :: "char \<Rightarrow> byte" where
  "byte_of_char c = of_char c"

definition char_of_byte :: "byte \<Rightarrow> char" where
  "char_of_byte b = char_of (unat b)"

definition bytes_of :: "string \<Rightarrow> bytes" where
  "bytes_of s = map byte_of_char s"

definition string_of_bytes :: "bytes \<Rightarrow> string" where
  "string_of_bytes bs = map char_of_byte bs"

lemma of_char_lt_256 [simp]: "(of_char c :: nat) < 256"
  by simp

lemma unat_byte_of_char: "unat (byte_of_char c) = of_char c"
proof -
  have "byte_of_char c = word_of_nat (of_char c)"
    by (simp add: byte_of_char_def of_nat_of_char)
  then show ?thesis by (simp add: unat_of_nat)
qed

lemma char_of_byte_of_char [simp]: "char_of_byte (byte_of_char c) = c"
  by (simp add: char_of_byte_def unat_byte_of_char)

lemma byte_of_char_of_byte [simp]: "byte_of_char (char_of_byte b) = b"
proof -
  have "of_char (char_of (unat b)) = unat b mod 256" by simp
  also have "\<dots> = unat b" using unsigned_less [of b, where ?'a = nat] by simp
  finally have "unat (byte_of_char (char_of_byte b)) = unat b"
    by (simp add: unat_byte_of_char char_of_byte_def)
  then show ?thesis by (simp add: word_unat_eq_iff)
qed

lemma string_of_bytes_of [simp]: "string_of_bytes (bytes_of s) = s"
  by (induction s) (auto simp: bytes_of_def string_of_bytes_def)

lemma bytes_of_string_of [simp]: "bytes_of (string_of_bytes b) = b"
  by (induction b) (auto simp: bytes_of_def string_of_bytes_def)

lemma length_bytes_of [simp]: "length (bytes_of s) = length s"
  by (simp add: bytes_of_def)

lemma length_string_of_bytes [simp]: "length (string_of_bytes b) = length b"
  by (simp add: string_of_bytes_def)

lemma bytes_of_inject [simp]: "bytes_of s = bytes_of t \<longleftrightarrow> s = t"
  by (metis string_of_bytes_of)

lemma bytes_of_append [simp]: "bytes_of (s @ t) = bytes_of s @ bytes_of t"
  by (simp add: bytes_of_def)

section \<open>The string functions of the Go library\<close>

text \<open>\<open>strings.HasPrefix\<close>, \<open>strings.HasSuffix\<close> and \<open>strings.Contains\<close>, on any element type.\<close>

definition has_prefix :: "'a list \<Rightarrow> 'a list \<Rightarrow> bool" where
  "has_prefix p s \<longleftrightarrow> take (length p) s = p"

definition has_suffix :: "'a list \<Rightarrow> 'a list \<Rightarrow> bool" where
  "has_suffix p s \<longleftrightarrow> has_prefix (rev p) (rev s)"

fun str_contains :: "'a list \<Rightarrow> 'a list \<Rightarrow> bool" where
  "str_contains p [] = (p = [])"
| "str_contains p (x # xs) = (has_prefix p (x # xs) \<or> str_contains p xs)"

text \<open>\<open>strings.Cut\<close>: the parts before and after the first separator, if there is one.\<close>

fun str_cut :: "'a list \<Rightarrow> 'a list \<Rightarrow> ('a list \<times> 'a list) option" where
  "str_cut sep [] = (if sep = [] then Some ([], []) else None)"
| "str_cut sep (x # xs) =
     (if has_prefix sep (x # xs) then Some ([], drop (length sep) (x # xs))
      else map_option (\<lambda>(a, b). (x # a, b)) (str_cut sep xs))"

text \<open>\<open>strings.Split\<close> on a separator of one byte: always at least one part.\<close>

fun str_split :: "'a \<Rightarrow> 'a list \<Rightarrow> 'a list list" where
  "str_split c [] = [[]]"
| "str_split c (x # xs) =
     (if x = c then [] # str_split c xs
      else (case str_split c xs of [] \<Rightarrow> [[x]] | p # ps \<Rightarrow> (x # p) # ps))"

text \<open>\<open>strings.Join\<close>.\<close>

fun str_join :: "'a list \<Rightarrow> 'a list list \<Rightarrow> 'a list" where
  "str_join sep [] = []"
| "str_join sep [x] = x"
| "str_join sep (x # y # ys) = x @ sep @ str_join sep (y # ys)"

text \<open>\<open>strings.TrimRight\<close> with the cut set as a predicate.\<close>

definition trim_right :: "('a \<Rightarrow> bool) \<Rightarrow> 'a list \<Rightarrow> 'a list" where
  "trim_right P s = rev (dropWhile P (rev s))"

text \<open>\<open>strings.TrimPrefix\<close> and \<open>strings.TrimSuffix\<close>.\<close>

definition trim_suffix :: "'a list \<Rightarrow> 'a list \<Rightarrow> 'a list" where
  "trim_suffix suf s = (if has_suffix suf s then take (length s - length suf) s else s)"

text \<open>\<open>strings.LastIndexAny\<close>: the last index of a byte of the set.\<close>

fun last_index_any :: "('a \<Rightarrow> bool) \<Rightarrow> 'a list \<Rightarrow> nat option" where
  "last_index_any P [] = None"
| "last_index_any P (x # xs) =
     (case last_index_any P xs of Some i \<Rightarrow> Some (Suc i) | None \<Rightarrow> if P x then Some 0 else None)"

text \<open>
  \<open>unicode.IsSpace\<close> on the code points below 256 that are one byte in UTF-8, and the UTF-8
  encodings of the others; \<open>strings.TrimSpace\<close> removes them at both ends.
\<close>

definition space_encodings :: "nat list list" where
  "space_encodings =
     [[9], [10], [11], [12], [13], [32], [0xC2, 0x85], [0xC2, 0xA0], [0xE1, 0x9A, 0x80],
      [0xE2, 0x80, 0x80], [0xE2, 0x80, 0x81], [0xE2, 0x80, 0x82], [0xE2, 0x80, 0x83],
      [0xE2, 0x80, 0x84], [0xE2, 0x80, 0x85], [0xE2, 0x80, 0x86], [0xE2, 0x80, 0x87],
      [0xE2, 0x80, 0x88], [0xE2, 0x80, 0x89], [0xE2, 0x80, 0x8A], [0xE2, 0x80, 0xA8],
      [0xE2, 0x80, 0xA9], [0xE2, 0x80, 0xAF], [0xE2, 0x81, 0x9F], [0xE3, 0x80, 0x80]]"

definition spaces :: "string list" where
  "spaces = map (map char_of) space_encodings"

definition leading_space :: "string list \<Rightarrow> string \<Rightarrow> nat option" where
  "leading_space encs s =
     (case find (\<lambda>e. has_prefix e s) encs of None \<Rightarrow> None | Some e \<Rightarrow> Some (length e))"

function trim_left_enc :: "string list \<Rightarrow> string \<Rightarrow> string" where
  "trim_left_enc encs s =
     (case leading_space encs s of
        Some n \<Rightarrow> if 0 < n \<and> s \<noteq> [] then trim_left_enc encs (drop n s) else s
      | None \<Rightarrow> s)"
  by pat_completeness auto
termination
  by (relation "measure (\<lambda>(encs, s). length s)") auto

declare trim_left_enc.simps [simp del]

definition trim_space :: "string \<Rightarrow> string" where
  "trim_space s = rev (trim_left_enc (map rev spaces) (rev (trim_left_enc spaces s)))"

text \<open>\<open>strings.ToLower\<close> and \<open>strings.ToUpper\<close> on a byte of an ASCII string.\<close>

definition lower_char :: "char \<Rightarrow> char" where
  "lower_char c = (let n = (of_char c :: nat) in if 65 \<le> n \<and> n \<le> 90 then char_of (n + 32) else c)"

definition upper_char :: "char \<Rightarrow> char" where
  "upper_char c = (let n = (of_char c :: nat) in if 97 \<le> n \<and> n \<le> 122 then char_of (n - 32) else c)"

section \<open>Decimal numbers\<close>

definition is_digit :: "char \<Rightarrow> bool" where
  "is_digit c \<longleftrightarrow> 48 \<le> (of_char c :: nat) \<and> (of_char c :: nat) \<le> 57"

definition digit_val :: "char \<Rightarrow> nat" where
  "digit_val c = of_char c - 48"

definition digit_char :: "nat \<Rightarrow> char" where
  "digit_char d = char_of (48 + d)"

text \<open>\<open>strconv.Itoa\<close> (base 10).\<close>

fun nat_itoa :: "nat \<Rightarrow> string" where
  "nat_itoa n = (if n < 10 then [digit_char n] else nat_itoa (n div 10) @ [digit_char (n mod 10)])"

declare nat_itoa.simps [simp del]

definition itoa :: "int \<Rightarrow> string" where
  "itoa i = (if i < 0 then CHR ''-'' # nat_itoa (nat (- i)) else nat_itoa (nat i))"

definition hex_digit :: "nat \<Rightarrow> char" where
  "hex_digit d = (if d < 10 then char_of (48 + d) else char_of (87 + d))"

function hex_string :: "nat \<Rightarrow> string" where
  "hex_string n = (if n < 16 then [hex_digit n] else hex_string (n div 16) @ [hex_digit (n mod 16)])"
  by pat_completeness auto
termination
  by (relation "measure id") auto

declare hex_string.simps [simp del]

definition digits_value :: "nat \<Rightarrow> string \<Rightarrow> nat" where
  "digits_value acc s = foldl (\<lambda>n c. n * 10 + digit_val c) acc s"

text \<open>
  \<open>strconv.Atoi\<close>: an optional sign, then decimal digits only; \<open>None\<close> is the error (syntax, or
  a value outside the 64-bit range).
\<close>

definition max_int64 :: int where "max_int64 = 2 ^ 63 - 1"
definition min_int64 :: int where "min_int64 = - (2 ^ 63)"

definition parse_digits :: "string \<Rightarrow> nat option" where
  "parse_digits s = (if s = [] \<or> \<not> list_all is_digit s then None else Some (digits_value 0 s))"

definition in_int64 :: "int \<Rightarrow> bool" where
  "in_int64 i \<longleftrightarrow> min_int64 \<le> i \<and> i \<le> max_int64"

definition atoi :: "string \<Rightarrow> int option" where
  "atoi s =
     (let (sg, ds) = (case s of [] \<Rightarrow> (1, [])
                      | c # cs \<Rightarrow> if c = CHR ''-'' then (- 1, cs)
                                 else if c = CHR ''+'' then (1, cs) else (1, s))
      in case parse_digits ds of None \<Rightarrow> None
         | Some n \<Rightarrow> (let i = sg * int n in if in_int64 i then Some i else None))"

section \<open>Shared lemmas\<close>

lemma has_prefix_append [simp]: "has_prefix p (p @ s)"
  by (simp add: has_prefix_def)

lemma has_prefix_iff: "has_prefix p s \<longleftrightarrow> (\<exists>t. s = p @ t)"
  by (metis append_take_drop_id append_eq_conv_conj has_prefix_def)

lemma has_prefix_Nil [simp]: "has_prefix [] s"
  by (simp add: has_prefix_def)

lemma has_prefix_Cons [simp]:
  "has_prefix (a # p) (x # s) \<longleftrightarrow> a = x \<and> has_prefix p s"
  "\<not> has_prefix (a # p) []"
  by (auto simp: has_prefix_def)

lemma has_suffix_iff: "has_suffix p s \<longleftrightarrow> (\<exists>t. s = t @ p)"
  by (metis has_prefix_iff has_suffix_def rev_append rev_rev_ident)

lemma str_contains_iff: "str_contains p s \<longleftrightarrow> (\<exists>u v. s = u @ p @ v)"
proof (induction s)
  case Nil
  then show ?case by auto
next
  case (Cons x xs)
  then show ?case
    by (auto simp: has_prefix_iff Cons_eq_append_conv append_eq_Cons_conv)
qed

lemma str_cut_Some: "str_cut sep s = Some (a, b) \<Longrightarrow> s = a @ sep @ b"
proof (induction s arbitrary: a)
  case Nil
  then show ?case by (auto split: if_splits)
next
  case (Cons x xs)
  show ?case
  proof (cases "has_prefix sep (x # xs)")
    case True
    with Cons.prems show ?thesis by (auto simp: has_prefix_iff)
  next
    case False
    with Cons.prems obtain a' where "str_cut sep xs = Some (a', b)" "a = x # a'"
      by (auto split: if_splits)
    with Cons.IH show ?thesis by auto
  qed
qed

lemma str_cut_None: "str_cut sep s = None \<longleftrightarrow> \<not> str_contains sep s"
  by (induction s) auto

lemma str_split_not_Nil [simp]: "str_split c s \<noteq> []"
  by (induction s) (auto split: list.splits)

lemma str_join_split: "str_join [c] (str_split c s) = s"
proof (induction s)
  case Nil
  then show ?case by simp
next
  case (Cons x xs)
  obtain p ps where "str_split c xs = p # ps"
    using str_split_not_Nil [of c xs] by (cases "str_split c xs") auto
  with Cons show ?case by (cases ps) auto
qed

lemma str_split_no_sep: "p \<in> set (str_split c s) \<Longrightarrow> c \<notin> set p"
  by (induction s arbitrary: p) (auto split: if_splits list.splits)

lemma trim_right_append_all:
  "list_all P t \<Longrightarrow> trim_right P (s @ t) = trim_right P s"
  by (induction t rule: rev_induct) (auto simp: trim_right_def)

lemma trim_right_last: "trim_right P s \<noteq> [] \<Longrightarrow> \<not> P (last (trim_right P s))"
  using hd_dropWhile [of P "rev s"] by (auto simp: trim_right_def last_rev)

lemma trim_right_idem [simp]: "trim_right P (trim_right P s) = trim_right P s"
  by (simp add: trim_right_def)

lemma last_index_any_None: "last_index_any P s = None \<longleftrightarrow> \<not> list_ex P s"
  by (induction s) (auto split: option.splits)

lemma last_index_any_Some:
  "last_index_any P s = Some i \<Longrightarrow> i < length s \<and> P (s ! i) \<and> \<not> list_ex P (drop (Suc i) s)"
  by (induction s arbitrary: i) (auto split: option.splits if_splits simp: last_index_any_None)

lemma digit_char_props:
  assumes "d < 10"
  shows "is_digit (digit_char d)" "digit_val (digit_char d) = d"
  using assms by (auto simp: is_digit_def digit_val_def digit_char_def)

lemma nat_itoa_not_Nil [simp]: "nat_itoa n \<noteq> []"
  by (subst nat_itoa.simps) simp

lemma digits_value_snoc: "digits_value acc (s @ [c]) = digits_value acc s * 10 + digit_val c"
  by (simp add: digits_value_def)

lemma nat_itoa_digits: "list_all is_digit (nat_itoa n)"
proof (induction n rule: nat_itoa.induct)
  case (1 n)
  then show ?case
    by (subst nat_itoa.simps) (auto simp: digit_char_props)
qed

lemma nat_itoa_value: "digits_value 0 (nat_itoa n) = n"
proof (induction n rule: nat_itoa.induct)
  case (1 n)
  show ?case
  proof (cases "n < 10")
    case True
    then show ?thesis
      by (subst nat_itoa.simps) (simp add: digits_value_def digit_char_props)
  next
    case False
    with 1 show ?thesis
      by (subst nat_itoa.simps) (simp add: digits_value_snoc digit_char_props)
  qed
qed

lemma parse_digits_itoa [simp]: "parse_digits (nat_itoa n) = Some n"
  by (simp add: parse_digits_def nat_itoa_digits nat_itoa_value)

lemma nat_itoa_hd_digit: "is_digit (hd (nat_itoa n))"
  using nat_itoa_digits [of n] by (cases "nat_itoa n") auto

lemma atoi_itoa: "in_int64 i \<Longrightarrow> atoi (itoa i) = Some i"
proof (cases "i < 0")
  case True
  assume "in_int64 i"
  with True show ?thesis by (simp add: atoi_def itoa_def)
next
  case False
  assume r: "in_int64 i"
  obtain c cs where s: "nat_itoa (nat i) = c # cs"
    by (cases "nat_itoa (nat i)") auto
  then have "is_digit c" using nat_itoa_hd_digit [of "nat i"] by simp
  then have "c \<noteq> CHR ''-''" "c \<noteq> CHR ''+''" by (auto simp: is_digit_def)
  moreover have "parse_digits (c # cs) = Some (nat i)"
    using parse_digits_itoa [of "nat i"] s by simp
  ultimately show ?thesis
    using False r by (simp add: atoi_def itoa_def s)
qed

lemma itoa_inject: "in_int64 i \<Longrightarrow> in_int64 j \<Longrightarrow> itoa i = itoa j \<Longrightarrow> i = j"
  by (metis atoi_itoa option.inject)

end
