(* ===== verification/Utils.thy ===== *)
theory Utils
  imports Prelude "HOL-Library.AList"
begin

text \<open>
  \<open>internal/utils\<close>: session identifiers and their generator, path expansion, the current user's
  name; and \<open>internal/terminal/options.go\<close>, the options of a terminal.  The random source, the
  environment and the user database are parameters.

  A Go map is an association list with distinct keys, in the order the runtime enumerates it; the
  operations are \<open>map_of\<close>, \<open>AList.update\<close> and \<open>AList.delete\<close>, and no statement depends on the
  order.
\<close>

section \<open>Go maps\<close>

abbreviation map_put :: "'k \<Rightarrow> 'v \<Rightarrow> ('k \<times> 'v) list \<Rightarrow> ('k \<times> 'v) list" where
  "map_put \<equiv> AList.update"

abbreviation map_delete :: "'k \<Rightarrow> ('k \<times> 'v) list \<Rightarrow> ('k \<times> 'v) list" where
  "map_delete \<equiv> AList.delete"

abbreviation distinct_keys :: "('k \<times> 'v) list \<Rightarrow> bool" where
  "distinct_keys m \<equiv> distinct (map fst m)"

lemma map_of_put [simp]: "map_of (map_put k v m) = (map_of m)(k \<mapsto> v)"
  by (simp add: update_conv')

lemma map_of_delete [simp]: "map_of (map_delete k m) = (map_of m)(k := None)"
  by (simp add: delete_conv')

lemma distinct_keys_put [simp]: "distinct_keys m \<Longrightarrow> distinct_keys (map_put k v m)"
  by (rule distinct_update)

lemma distinct_keys_delete [simp]: "distinct_keys m \<Longrightarrow> distinct_keys (map_delete k m)"
  by (rule distinct_delete)

declare map_of_eq_Some_iff [simp del]

lemma set_values: "distinct_keys m \<Longrightarrow> set (map snd m) = ran (map_of m)"
  by (simp add: ran_distinct)

lemma in_map_iff: "distinct_keys m \<Longrightarrow> (k, v) \<in> set m \<longleftrightarrow> map_of m k = Some v"
  by (simp add: map_of_eq_Some_iff)

lemma in_map_put: "distinct_keys m \<Longrightarrow>
  (a, b) \<in> set (map_put k v m) \<longleftrightarrow> (if a = k then b = v else (a, b) \<in> set m)"
proof -
  assume d: "distinct_keys m"
  have "(a, b) \<in> set (map_put k v m) \<longleftrightarrow> map_of (map_put k v m) a = Some b"
    using d by (subst in_map_iff) simp_all
  with d show ?thesis by (auto simp: map_of_eq_Some_iff)
qed

lemma update_fresh: "k \<notin> fst ` set m \<Longrightarrow> map_put k v m = m @ [(k, v)]"
  by (induction m) auto

section \<open>Session identifiers\<close>

definition is_base36 :: "char \<Rightarrow> bool" where
  "is_base36 c \<longleftrightarrow> (48 \<le> (of_char c :: nat) \<and> (of_char c :: nat) \<le> 57)
                 \<or> (97 \<le> (of_char c :: nat) \<and> (of_char c :: nat) \<le> 122)"

definition isValidSessionID :: "string \<Rightarrow> bool" where
  "isValidSessionID sid \<longleftrightarrow> length sid = 16 \<and> list_all is_base36 sid"

text \<open>
  \<open>strconv.FormatInt(c, 36)[0]\<close> for \<open>c < 36\<close>; the numbers are what \<open>rand.Int\<close> returned, each
  below 36.
\<close>

definition base36_char :: "nat \<Rightarrow> char" where
  "base36_char c = (if c < 10 then char_of (48 + c) else char_of (87 + c))"

definition randomString :: "nat list \<Rightarrow> string" where
  "randomString rs = map base36_char rs"

lemma base36_char_ok: "c < 36 \<Longrightarrow> is_base36 (base36_char c)"
  by (auto simp: is_base36_def base36_char_def)

text \<open>
  The identifiers the server generates are identifiers it accepts: sixteen random
  base-36 digits always form a valid session id.
\<close>

lemma randomString_valid:
  assumes "length rs = 16" and "list_all (\<lambda>c. c < 36) rs"
  shows "isValidSessionID (randomString rs)"
  using assms by (auto simp: isValidSessionID_def randomString_def list_all_iff base36_char_ok)

lemma randomString_valid_witness:
  "isValidSessionID (randomString [0, 1, 2, 3, 4, 5, 6, 7, 8, 9, 10, 11, 12, 13, 14, 35])"
  by (rule randomString_valid) simp_all

section \<open>Paths and the current user\<close>

definition expand_path :: "string \<Rightarrow> string \<Rightarrow> string" where
  "expand_path home path = (if has_prefix ''~/'' path then home @ drop 1 path else path)"

definition currentUser :: "string option \<Rightarrow> (string \<Rightarrow> string) \<Rightarrow> string" where
  "currentUser username getenv =
     (let from_env =
        (case find (\<lambda>v. v \<noteq> '''')
                (map (\<lambda>k. trim_space (getenv k)) [''USER'', ''USERNAME'', ''LOGNAME'']) of
           Some v \<Rightarrow> v | None \<Rightarrow> ''local'')
      in case username of
           None \<Rightarrow> from_env
         | Some u \<Rightarrow>
             (let name = trim_space u
              in if name = '''' then from_env
                 else (case last_index_any (\<lambda>c. c = CHR 0x5C \<or> c = CHR ''/'') name of
                         None \<Rightarrow> name
                       | Some i \<Rightarrow> if i < length name - 1 then drop (i + 1) name else name)))"

lemma find_nonempty: "find (\<lambda>v. v \<noteq> '''') xs = Some v \<Longrightarrow> v \<noteq> ''''"
  by (induction xs) (auto split: if_splits)

lemma currentUser_nonempty: "currentUser username getenv \<noteq> ''''"
  by (auto simp: currentUser_def Let_def split: option.splits dest: find_nonempty)

section \<open>Terminal options\<close>

record dial_credentials =
  dc_password :: string
  dc_passphrase :: string

record term_options =
  to_closeSignal :: int
  to_closeTimeout :: int
  to_term :: string
  to_dialCredentials :: "dial_credentials option"

text \<open>\<open>syscall.SIGHUP\<close> and three seconds.\<close>

definition defaultCloseSignal :: int where "defaultCloseSignal = 1"
definition defaultCloseTimeout :: int where "defaultCloseTimeout = 3 * 1000000000"

type_synonym term_option = "term_options \<Rightarrow> term_options"

definition withCloseSignal :: "int \<Rightarrow> term_option" where
  "withCloseSignal sig opt = opt\<lparr>to_closeSignal := sig\<rparr>"

text \<open>A duration is a number of nanoseconds; the division truncates towards zero.\<close>

definition withCloseTimeout :: "int \<Rightarrow> term_option" where
  "withCloseTimeout timeout opt =
     opt\<lparr>to_closeTimeout := (if timeout < 0 then - ((- timeout) div 1000000000)
                            else timeout div 1000000000)\<rparr>"

definition withTerm :: "string \<Rightarrow> term_option" where
  "withTerm t opt = opt\<lparr>to_term := t\<rparr>"

definition withDialCredentials :: "dial_credentials option \<Rightarrow> term_option" where
  "withDialCredentials c opt = opt\<lparr>to_dialCredentials := c\<rparr>"

definition apply_options :: "term_option list \<Rightarrow> term_options" where
  "apply_options opts =
     fold (\<lambda>f o'. f o') opts
       \<lparr>to_closeSignal = defaultCloseSignal, to_closeTimeout = defaultCloseTimeout div 1000000000,
        to_term = ''xterm-256color'', to_dialCredentials = None\<rparr>"

text \<open>\<open>time.Duration(seconds) * time.Second\<close> and back, for the seconds of a valid duration.\<close>

lemma withCloseTimeout_seconds:
  "to_closeTimeout (withCloseTimeout (n * 1000000000) opt) = n"
  by (auto simp: withCloseTimeout_def simp flip: mult_minus_left)

end
