(* ===== verification/Json.thy ===== *)
theory Json
  imports Utils
begin

text \<open>
  \<open>encoding/json\<close> as the source uses it.  The text grammar of JSON is the library's: a parser is
  a parameter \<open>string \<Rightarrow> json option\<close> of the operations that read JSON.  What the source relies
  on beyond it is modelled here: how a JSON value is stored into the fields of a struct (keys
  match the field tag exactly or else up to case, the last duplicate wins, \<open>null\<close> leaves a field
  as it is and empties a pointer, a value of the wrong type is an error, unknown keys are
  ignored).
\<close>

datatype json =
    JNull
  | JBool bool
  | JNum int
  | JReal string
  | JStr string
  | JArr "json list"
  | JObj "(string \<times> json) list"

type_synonym json_parser = "string \<Rightarrow> json option"

text \<open>
  Folding of a key: ASCII letters to upper case, and the two code points outside ASCII whose
  simple case folding is an ASCII letter (U+017F, long s, and U+212A, the Kelvin sign).
\<close>

fun fold_name :: "string \<Rightarrow> string" where
  "fold_name (a # b # c # s) =
     (if a = CHR 0xC5 \<and> b = CHR 0xBF then CHR ''S'' # fold_name (c # s)
      else if a = CHR 0xE2 \<and> b = CHR 0x84 \<and> c = CHR 0xAA then CHR ''K'' # fold_name s
      else upper_char a # fold_name (b # c # s))"
| "fold_name [a, b] =
     (if a = CHR 0xC5 \<and> b = CHR 0xBF then ''S'' else [upper_char a, upper_char b])"
| "fold_name [a] = [upper_char a]"
| "fold_name [] = []"

type_synonym 'r field_decoder = "json \<Rightarrow> 'r \<Rightarrow> 'r option"

definition find_field :: "(string \<times> 'f) list \<Rightarrow> string \<Rightarrow> 'f option" where
  "find_field fs k =
     (case map_of fs k of Some f \<Rightarrow> Some f
      | None \<Rightarrow> map_of (map (\<lambda>(n, f). (fold_name n, f)) fs) (fold_name k))"

fun decode_members ::
  "(string \<times> 'r field_decoder) list \<Rightarrow> (string \<times> json) list \<Rightarrow> 'r \<Rightarrow> 'r option" where
  "decode_members fs [] r = Some r"
| "decode_members fs ((k, v) # ms) r =
     (case find_field fs k of
        None \<Rightarrow> decode_members fs ms r
      | Some d \<Rightarrow> (case d v r of None \<Rightarrow> None | Some r' \<Rightarrow> decode_members fs ms r'))"

definition decode_struct :: "(string \<times> 'r field_decoder) list \<Rightarrow> 'r field_decoder" where
  "decode_struct fs j r =
     (case j of JNull \<Rightarrow> Some r | JObj ms \<Rightarrow> decode_members fs ms r | _ \<Rightarrow> None)"

text \<open>The decoders of the field types.  A field is given by its update function.\<close>

definition f_int :: "((int \<Rightarrow> int) \<Rightarrow> 'r \<Rightarrow> 'r) \<Rightarrow> 'r field_decoder" where
  "f_int upd j r =
     (case j of JNull \<Rightarrow> Some r
      | JNum i \<Rightarrow> if in_int64 i then Some (upd (\<lambda>_. i) r) else None
      | _ \<Rightarrow> None)"

definition f_bool :: "((bool \<Rightarrow> bool) \<Rightarrow> 'r \<Rightarrow> 'r) \<Rightarrow> 'r field_decoder" where
  "f_bool upd j r =
     (case j of JNull \<Rightarrow> Some r | JBool b \<Rightarrow> Some (upd (\<lambda>_. b) r) | _ \<Rightarrow> None)"

definition f_str :: "((string \<Rightarrow> string) \<Rightarrow> 'r \<Rightarrow> 'r) \<Rightarrow> 'r field_decoder" where
  "f_str upd j r =
     (case j of JNull \<Rightarrow> Some r | JStr s \<Rightarrow> Some (upd (\<lambda>_. s) r) | _ \<Rightarrow> None)"

text \<open>A pointer field (\<open>*string\<close>): \<open>null\<close> makes it nil.\<close>

definition f_opt_str :: "((string option \<Rightarrow> string option) \<Rightarrow> 'r \<Rightarrow> 'r) \<Rightarrow> 'r field_decoder" where
  "f_opt_str upd j r =
     (case j of JNull \<Rightarrow> Some (upd (\<lambda>_. None) r)
      | JStr s \<Rightarrow> Some (upd (\<lambda>_. Some s) r) | _ \<Rightarrow> None)"

fun decode_strings :: "json list \<Rightarrow> string list option" where
  "decode_strings [] = Some []"
| "decode_strings (JStr s # js) = map_option (Cons s) (decode_strings js)"
| "decode_strings (JNull # js) = map_option (Cons '''') (decode_strings js)"
| "decode_strings (_ # js) = None"

definition f_strs :: "((string list \<Rightarrow> string list) \<Rightarrow> 'r \<Rightarrow> 'r) \<Rightarrow> 'r field_decoder" where
  "f_strs upd j r =
     (case j of JNull \<Rightarrow> Some (upd (\<lambda>_. []) r)
      | JArr js \<Rightarrow> map_option (\<lambda>xs. upd (\<lambda>_. xs) r) (decode_strings js)
      | _ \<Rightarrow> None)"

text \<open>A field that is a struct itself is decoded into its current value.\<close>

definition f_struct ::
  "(string \<times> 'a field_decoder) list \<Rightarrow> ('r \<Rightarrow> 'a) \<Rightarrow> (('a \<Rightarrow> 'a) \<Rightarrow> 'r \<Rightarrow> 'r) \<Rightarrow> 'r field_decoder" where
  "f_struct fs get upd j r =
     (case decode_struct fs j (get r) of None \<Rightarrow> None | Some a \<Rightarrow> Some (upd (\<lambda>_. a) r))"

text \<open>
  A map with string keys: every member's value is decoded into a fresh zero value and put under
  its key; \<open>null\<close> is the nil map.  A slice: likewise, element by element.
\<close>

fun decode_map_members ::
  "'v field_decoder \<Rightarrow> 'v \<Rightarrow> (string \<times> json) list \<Rightarrow> (string \<times> 'v) list \<Rightarrow> (string \<times> 'v) list option" where
  "decode_map_members dec zero [] m = Some m"
| "decode_map_members dec zero ((k, j) # ms) m =
     (case dec j zero of None \<Rightarrow> None
      | Some v \<Rightarrow> decode_map_members dec zero ms (map_put k v m))"

definition f_map ::
  "'v field_decoder \<Rightarrow> 'v \<Rightarrow> ('r \<Rightarrow> (string \<times> 'v) list)
     \<Rightarrow> (((string \<times> 'v) list \<Rightarrow> (string \<times> 'v) list) \<Rightarrow> 'r \<Rightarrow> 'r) \<Rightarrow> 'r field_decoder" where
  "f_map dec zero get upd j r =
     (case j of JNull \<Rightarrow> Some (upd (\<lambda>_. []) r)
      | JObj ms \<Rightarrow> map_option (\<lambda>m. upd (\<lambda>_. m) r) (decode_map_members dec zero ms (get r))
      | _ \<Rightarrow> None)"

fun decode_elems :: "'v field_decoder \<Rightarrow> 'v \<Rightarrow> json list \<Rightarrow> 'v list option" where
  "decode_elems dec zero [] = Some []"
| "decode_elems dec zero (j # js) =
     (case dec j zero of None \<Rightarrow> None | Some v \<Rightarrow> map_option (Cons v) (decode_elems dec zero js))"

definition f_list ::
  "'v field_decoder \<Rightarrow> 'v \<Rightarrow> (('v list \<Rightarrow> 'v list) \<Rightarrow> 'r \<Rightarrow> 'r) \<Rightarrow> 'r field_decoder" where
  "f_list dec zero upd j r =
     (case j of JNull \<Rightarrow> Some (upd (\<lambda>_. []) r)
      | JArr js \<Rightarrow> map_option (\<lambda>vs. upd (\<lambda>_. vs) r) (decode_elems dec zero js)
      | _ \<Rightarrow> None)"

lemmas json_decoders =
  decode_struct_def find_field_def f_int_def f_bool_def f_str_def f_opt_str_def f_strs_def
  f_struct_def f_map_def f_list_def

text \<open>What is encoded is decoded: a map whose values survive decoding survives as a whole.\<close>

lemma decode_map_members_all:
  assumes "\<forall>(k, v) \<in> set m. dec (enc v) zero = Some v" and "distinct_keys m"
    and "\<forall>(k, v) \<in> set m. k \<notin> fst ` set acc"
  shows "decode_map_members dec zero (map (\<lambda>(k, v). (k, enc v)) m) acc = Some (acc @ m)"
  using assms
proof (induction m arbitrary: acc)
  case Nil
  then show ?case by simp
next
  case (Cons kv m)
  obtain k v where kv: "kv = (k, v)" by fastforce
  have "map_put k v acc = acc @ [(k, v)]"
    using Cons.prems kv by (intro update_fresh) auto
  moreover have "decode_map_members dec zero (map (\<lambda>(k, v). (k, enc v)) m) (acc @ [(k, v)])
      = Some ((acc @ [(k, v)]) @ m)"
    using Cons.prems kv by (intro Cons.IH) (auto simp: image_iff)
  ultimately show ?case using Cons.prems kv by simp
qed

lemma decode_members_append:
  "decode_members fs (xs @ ys) r =
     (case decode_members fs xs r of None \<Rightarrow> None | Some r' \<Rightarrow> decode_members fs ys r')"
  by (induction xs arbitrary: r) (auto split: option.splits)

end
