(* ===== verification/Wire.thy ===== *)
theory Wire
  imports Json
begin

text \<open>
  The wire protocol, \<open>internal/terminal/protocol.go\<close> and \<open>errors.go\<close>: the plain session frames
  \<open>[type][payload]\<close> and the multiplexed frames \<open>[session id][type][length][payload]\<close> that
  carry them over one WebSocket.  The lemmas show that the decoders accept exactly the encoders'
  output and recover what was encoded; the locale \<open>frame_codec\<close> states that contract once and is
  interpreted on the three frame formats.
\<close>

unbundle bit_operations_syntax

section \<open>Message types\<close>

definition UnknownInput :: byte where "UnknownInput = 0x30"
definition Input :: byte where "Input = 0x31"
definition Ping :: byte where "Ping = 0x32"
definition ResizeTerminal :: byte where "ResizeTerminal = 0x33"

definition UnknownOutput :: byte where "UnknownOutput = 0x30"
definition Output :: byte where "Output = 0x31"
definition Pong :: byte where "Pong = 0x32"
definition SetWindowTitle :: byte where "SetWindowTitle = 0x33"
definition SetPreferences :: byte where "SetPreferences = 0x34"
definition SetReconnect :: byte where "SetReconnect = 0x35"
definition SetReplayDone :: byte where "SetReplayDone = 0x36"

definition Attach :: byte where "Attach = 0x41"
definition Detach :: byte where "Detach = 0x44"
definition AttachOK :: byte where "AttachOK = 0x61"
definition AttachFail :: byte where "AttachFail = 0x62"
definition SessionEvent :: byte where "SessionEvent = 0x45"
definition EventPreempted :: byte where "EventPreempted = 1"
definition EventDestroyed :: byte where "EventDestroyed = 2"

lemmas msg_types = UnknownInput_def Input_def Ping_def ResizeTerminal_def UnknownOutput_def
  Output_def Pong_def SetWindowTitle_def SetPreferences_def SetReconnect_def SetReplayDone_def
  Attach_def Detach_def AttachOK_def AttachFail_def SessionEvent_def

section \<open>Plain frames\<close>

text \<open>The reasons for \<open>ErrInvalidMessage\<close>, one per \<open>fmt.Errorf\<close> of the source.\<close>

datatype wire_error =
    EmptyFrame
  | UnknownType byte
  | InvalidResize
  | BadSessionID nat
  | PayloadTooLong nat
  | EmptySessionFrame
  | ShortFrame nat
  | LengthMismatch nat nat

definition encodeFrame :: "byte \<Rightarrow> bytes \<Rightarrow> bytes" where
  "encodeFrame msgType payload = msgType # payload"

definition encodeOutput :: "bytes \<Rightarrow> bytes" where
  "encodeOutput payload = encodeFrame Output payload"

definition encodePong :: bytes where
  "encodePong = [Pong]"

definition encodeWindowTitle :: "bytes \<Rightarrow> bytes" where
  "encodeWindowTitle title = encodeFrame SetWindowTitle title"

definition encodePreferences :: "bytes \<Rightarrow> bytes" where
  "encodePreferences prefs = encodeFrame SetPreferences prefs"

text \<open>\<open>json.Marshal\<close> of an \<open>int\<close> is its decimal representation.\<close>

definition encodeReconnect :: "int \<Rightarrow> bytes" where
  "encodeReconnect seconds = encodeFrame SetReconnect (bytes_of (itoa seconds))"

definition encodeReplayDone :: bytes where
  "encodeReplayDone = [SetReplayDone]"

record client_message =
  cm_type :: byte
  cm_payload :: bytes

definition decodeClientFrame :: "bytes \<Rightarrow> wire_error + client_message" where
  "decodeClientFrame frame =
     (case frame of
        [] \<Rightarrow> Inl EmptyFrame
      | t # payload \<Rightarrow>
          if t = Input \<or> t = Ping \<or> t = ResizeTerminal
          then Inr \<lparr>cm_type = t, cm_payload = payload\<rparr>
          else Inl (UnknownType t))"

text \<open>\<open>ParseResizeArgs\<close>: the JSON payload of a \<open>ResizeTerminal\<close> message.\<close>

record resize_args =
  ra_columns :: int
  ra_rows :: int

definition parseResizeArgs :: "json_parser \<Rightarrow> bytes \<Rightarrow> wire_error + resize_args" where
  "parseResizeArgs unmarshal payload =
     (case unmarshal (string_of_bytes payload) of
        None \<Rightarrow> Inl InvalidResize
      | Some j \<Rightarrow>
          (case decode_struct [(''columns'', f_int ra_columns_update), (''rows'', f_int ra_rows_update)]
                  j \<lparr>ra_columns = 0, ra_rows = 0\<rparr> of
             None \<Rightarrow> Inl InvalidResize | Some args \<Rightarrow> Inr args))"

section \<open>Multiplexed frames\<close>

definition SessionIDLen :: nat where "SessionIDLen = 16"
definition routedHeaderLen :: nat where "routedHeaderLen = SessionIDLen + 3"
definition maxRoutedPayload :: nat where "maxRoutedPayload = 0xFFFF"

definition connLevelID :: string where
  "connLevelID = replicate 16 (CHR 0x00)"

record routed_frame =
  rf_session :: string
  rf_type :: byte
  rf_payload :: bytes

definition isConnLevel :: "routed_frame \<Rightarrow> bool" where
  "isConnLevel f \<longleftrightarrow> rf_session f = ''''"

text \<open>
  The frame both encoders lay out: \<open>byte(n >> 8)\<close> and \<open>byte(n)\<close> keep the low eight bits of the
  length's two bytes.
\<close>

definition routed_layout :: "string \<Rightarrow> byte \<Rightarrow> bytes \<Rightarrow> bytes" where
  "routed_layout sid msgType payload =
     bytes_of sid @ [msgType, word_of_nat (drop_bit 8 (length payload)), word_of_nat (length payload)]
       @ payload"

definition encodeRouted :: "string \<Rightarrow> byte \<Rightarrow> bytes \<Rightarrow> wire_error + bytes" where
  "encodeRouted sid msgType payload =
     (if length sid \<noteq> SessionIDLen then Inl (BadSessionID (length sid))
      else if length payload > maxRoutedPayload then Inl (PayloadTooLong (length payload))
      else Inr (routed_layout sid msgType payload))"

definition encodeRoutedConn :: "byte \<Rightarrow> bytes \<Rightarrow> bytes" where
  "encodeRoutedConn msgType payload = routed_layout connLevelID msgType payload"

definition encodeRoutedSession :: "string \<Rightarrow> bytes \<Rightarrow> wire_error + bytes" where
  "encodeRoutedSession sid b =
     (case b of [] \<Rightarrow> Inl EmptySessionFrame | t # payload \<Rightarrow> encodeRouted sid t payload)"

definition decodeRouted :: "bytes \<Rightarrow> wire_error + routed_frame" where
  "decodeRouted frame =
     (if length frame < routedHeaderLen then Inl (ShortFrame (length frame))
      else
        let sid0 = string_of_bytes (take SessionIDLen frame);
            sid = (if sid0 = connLevelID then '''' else sid0);
            len = (push_bit 8 (unat (frame ! (SessionIDLen + 1)))) OR unat (frame ! (SessionIDLen + 2));
            payload = drop routedHeaderLen frame
        in if len \<noteq> length payload then Inl (LengthMismatch len (length payload))
           else if length payload > maxRoutedPayload then Inl (PayloadTooLong (length payload))
           else Inr \<lparr>rf_session = sid, rf_type = frame ! SessionIDLen, rf_payload = payload\<rparr>)"

section \<open>The codec contract\<close>

text \<open>
  What a peer relies on: on valid messages the encoder succeeds and the decoder recovers the
  message, and whatever the decoder accepts is the encoding of a valid message.  \<open>enc\<close> returns
  \<open>error + bytes\<close>, \<open>dec\<close> returns \<open>error + message\<close>.
\<close>

locale frame_codec =
  fixes enc :: "'m \<Rightarrow> 'e + bytes"
    and dec :: "bytes \<Rightarrow> 'e + 'm"
    and valid :: "'m \<Rightarrow> bool"
  assumes enc_dec: "valid m \<Longrightarrow> \<exists>f. enc m = Inr f \<and> dec f = Inr m"
    and dec_enc: "dec f = Inr m \<Longrightarrow> valid m \<and> enc m = Inr f"
begin

lemma dec_inject: "dec f = Inr m \<Longrightarrow> dec g = Inr m \<Longrightarrow> f = g"
  using dec_enc by (metis sum.inject(2))

lemma enc_inject: "valid m \<Longrightarrow> valid n \<Longrightarrow> enc m = enc n \<Longrightarrow> m = n"
  using enc_dec by (metis sum.inject(2))

lemma dec_iff: "dec f = Inr m \<longleftrightarrow> valid m \<and> enc m = Inr f"
  using enc_dec dec_enc by (metis sum.inject(2))

lemma dec_fails_iff: "is_err (dec f) \<longleftrightarrow> (\<forall>m. valid m \<longrightarrow> enc m \<noteq> Inr f)"
proof (cases "dec f")
  case (Inl e)
  then show ?thesis using dec_iff [of f] by auto
next
  case (Inr m)
  then show ?thesis using dec_enc [of f m] by auto
qed

text \<open>A stream of valid messages is recovered frame by frame.\<close>

lemma stream_recovered:
  "list_all valid ms \<Longrightarrow> \<exists>fs. map enc ms = map Inr fs \<and> map dec fs = map Inr ms"
proof (induction ms)
  case Nil
  then show ?case by simp
next
  case (Cons m ms)
  then obtain fs where "map enc ms = map Inr fs" "map dec fs = map Inr ms" by auto
  moreover obtain f where "enc m = Inr f" "dec f = Inr m" using Cons.prems enc_dec by auto
  ultimately have "map enc (m # ms) = map Inr (f # fs) \<and> map dec (f # fs) = map Inr (m # ms)"
    by simp
  then show ?case by blast
qed

end

section \<open>Plain frames meet the contract\<close>

text \<open>What a client sends: the type byte is one of the three the server knows.\<close>

definition valid_client :: "client_message \<Rightarrow> bool" where
  "valid_client m \<longleftrightarrow> cm_type m \<in> {Input, Ping, ResizeTerminal}"

definition enc_client :: "client_message \<Rightarrow> wire_error + bytes" where
  "enc_client m = Inr (encodeFrame (cm_type m) (cm_payload m))"

interpretation client: frame_codec enc_client decodeClientFrame valid_client
  by unfold_locales
     (auto simp: enc_client_def decodeClientFrame_def valid_client_def encodeFrame_def
           split: list.splits if_splits)

section \<open>Multiplexed frames meet the contract\<close>

lemma length_connLevelID [simp]: "length connLevelID = 16"
  by (simp add: connLevelID_def)

lemma two_bytes_length:
  assumes "n < 65536"
  shows "push_bit 8 (unat (word_of_nat (drop_bit 8 n) :: byte)) OR unat (word_of_nat n :: byte) = n"
proof -
  have d: "drop_bit 8 n < 256"
    using assms by (simp add: drop_bit_eq_div)
  have "push_bit 8 (drop_bit 8 n) OR take_bit 8 n = n"
    by (rule bit_eqI) (auto simp: bit_simps)
  with d show ?thesis
    by (simp add: unat_of_nat take_bit_eq_mod)
qed

lemma two_bytes_value: "push_bit 8 (unat (a::byte)) OR unat (b::byte) = unat a * 256 + unat b"
proof -
  have "unat b < 2 ^ 8" using unsigned_less [of b, where ?'a = nat] by simp
  then have b: "take_bit 8 (unat b) = unat b" by (simp add: take_bit_nat_eq_self)
  have "push_bit 8 (unat a) AND take_bit 8 (unat b) = 0"
    by (rule bit_eqI) (auto simp: bit_simps)
  then have "push_bit 8 (unat a) + take_bit 8 (unat b) = push_bit 8 (unat a) OR take_bit 8 (unat b)"
    by (rule disjunctive_add_eq_or)
  with b show ?thesis by (simp add: push_bit_eq_mult)
qed

lemma routed_layout_parts:
  assumes "length sid = 16"
  shows "length (routed_layout sid t p) = 19 + length p"
    and "take 16 (routed_layout sid t p) = bytes_of sid"
    and "drop 19 (routed_layout sid t p) = p"
    and "routed_layout sid t p ! 16 = t"
    and "routed_layout sid t p ! 17 = word_of_nat (drop_bit 8 (length p))"
    and "routed_layout sid t p ! 18 = word_of_nat (length p)"
  using assms by (simp_all add: routed_layout_def nth_append)

lemmas routed_consts = SessionIDLen_def routedHeaderLen_def maxRoutedPayload_def

lemma decodeRouted_layout:
  assumes "length sid = 16" and "length p \<le> 65535"
  shows "decodeRouted (routed_layout sid t p) =
    Inr \<lparr>rf_session = (if sid = connLevelID then '''' else sid), rf_type = t, rf_payload = p\<rparr>"
  using assms two_bytes_length [of "length p"]
  by (simp add: decodeRouted_def routed_consts routed_layout_parts Let_def)

text \<open>Conversely, an accepted frame is the layout of its fields.\<close>

lemma decodeRouted_Inr:
  assumes "decodeRouted f = Inr r"
  obtains sid where "length sid = 16" "length (rf_payload r) \<le> 65535"
    "f = routed_layout sid (rf_type r) (rf_payload r)"
    "rf_session r = (if sid = connLevelID then '''' else sid)"
proof -
  define sid where "sid = string_of_bytes (take 16 f)"
  from assms have len: "19 \<le> length f" and
    l: "push_bit 8 (unat (f ! 17)) OR unat (f ! 18) = length (drop 19 f)" and
    r: "r = \<lparr>rf_session = (if sid = connLevelID then '''' else sid), rf_type = f ! 16,
             rf_payload = drop 19 f\<rparr>"
    by (auto simp: decodeRouted_def routed_consts sid_def Let_def split: if_splits)
  from l have l': "unat (f ! 17) * 256 + unat (f ! 18) = length (drop 19 f)"
    by (simp add: two_bytes_value)
  have u: "unat (f ! 17) < 256" "unat (f ! 18) < 256"
    using unsigned_less [of "f ! 17", where ?'a = nat] unsigned_less [of "f ! 18", where ?'a = nat]
    by simp_all
  have "drop_bit 8 (length (drop 19 f)) = unat (f ! 17)"
    unfolding l' [symmetric] using u by (simp add: drop_bit_eq_div)
  then have hi: "word_of_nat (drop_bit 8 (length (drop 19 f))) = f ! 17"
    by (simp del: length_drop)
  have lo: "word_of_nat (length (drop 19 f)) = f ! 18"
  proof -
    have "(256::byte) = 0" by simp
    then have "word_of_nat (unat (f ! 17) * 256 + unat (f ! 18)) = f ! 18"
      by (simp only: of_nat_add of_nat_mult of_nat_unat of_nat_numeral mult_zero_right add_0_left)
         simp
    then show ?thesis unfolding l' .
  qed
  have "f = take 16 f @ drop 16 f" by simp
  also have "drop 16 f = [f ! 16, f ! 17, f ! 18] @ drop 19 f"
    using len by (simp add: Cons_nth_drop_Suc numeral_eq_Suc)
  finally have "f = routed_layout sid (f ! 16) (drop 19 f)"
    by (simp only: routed_layout_def hi lo sid_def bytes_of_string_of append_Cons append_Nil)
  moreover have "length sid = 16" using len by (simp add: sid_def)
  moreover have "length (drop 19 f) \<le> 65535" using u l' by linarith
  ultimately show thesis using r by (intro that [of sid]) simp_all
qed

text \<open>A frame of a session: its id is a real one, not the all-zero id of the connection.\<close>

definition valid_routed :: "routed_frame \<Rightarrow> bool" where
  "valid_routed m \<longleftrightarrow> (rf_session m = '''' \<or> length (rf_session m) = SessionIDLen \<and> rf_session m \<noteq> connLevelID)
     \<and> length (rf_payload m) \<le> maxRoutedPayload"

definition enc_routed :: "routed_frame \<Rightarrow> wire_error + bytes" where
  "enc_routed m = (if isConnLevel m then Inr (encodeRoutedConn (rf_type m) (rf_payload m))
                   else encodeRouted (rf_session m) (rf_type m) (rf_payload m))"

interpretation routed: frame_codec enc_routed decodeRouted valid_routed
proof (unfold_locales, goal_cases)
  case (1 m)
  then show ?case
    by (cases m)
       (auto simp: valid_routed_def enc_routed_def isConnLevel_def encodeRouted_def
          encodeRoutedConn_def routed_consts decodeRouted_layout)
next
  case (2 f m)
  then show ?case
    by (elim decodeRouted_Inr)
       (auto simp: valid_routed_def enc_routed_def isConnLevel_def encodeRouted_def
          encodeRoutedConn_def routed_consts split: if_splits)
qed

section \<open>Properties\<close>

text \<open>
  Property C1.  The decoder of multiplexed frames accepts exactly the encoders' output: a byte
  string decodes to a frame precisely when the frame is valid (a payload of at most 65535 bytes,
  and either no session or a 16-byte id other than the all-zero one) and the byte string is its
  encoding.
\<close>

theorem decodeRouted_exact:
  "decodeRouted f = Inr r \<longleftrightarrow> valid_routed r \<and> enc_routed r = Inr f"
  by (rule routed.dec_iff)

text \<open>
  A session's own frame survives the multiplexing: when a frame \<open>[type][payload]\<close>
  of a session is wrapped for the shared connection, the receiver finds the same session id and
  the same frame inside.
\<close>

lemma routed_session_frame_trip:
  assumes "encodeRoutedSession sid b = Inr f" and "sid \<noteq> connLevelID"
  shows "\<exists>r. decodeRouted f = Inr r \<and> rf_session r = sid
             \<and> encodeFrame (rf_type r) (rf_payload r) = b"
  using assms
  by (auto simp: encodeRoutedSession_def encodeRouted_def routed_consts decodeRouted_layout
      encodeFrame_def split: list.splits if_splits)

lemma routed_session_frame_trip_witness:
  "\<exists>r. decodeRouted (routed_layout ''0123456789abcdef'' 0x31 [7, 8]) = Inr r
       \<and> rf_session r = ''0123456789abcdef'' \<and> encodeFrame (rf_type r) (rf_payload r) = [0x31, 7, 8]"
  by (rule routed_session_frame_trip, simp add: encodeRoutedSession_def encodeRouted_def routed_consts)
     (simp add: connLevelID_def numeral_eq_Suc)

end
