(* ===== verification/Ring_Buffer.thy ===== *)
theory Ring_Buffer
  imports Prelude
begin

text \<open>
  \<open>internal/session/ring.go\<close>: the byte buffer that keeps the most recent terminal output.  Its
  contract is the locale \<open>tail_buffer\<close> (the content is always the last \<open>cap\<close> bytes of
  everything written), interpreted on the ring's own operations.
\<close>

record ring =
  ring_cap :: nat
  ring_b :: bytes

definition newRing :: "nat \<Rightarrow> ring" where
  "newRing c = \<lparr>ring_cap = c, ring_b = []\<rparr>"

definition ring_write :: "bytes \<Rightarrow> ring \<Rightarrow> ring" where
  "ring_write p r =
     (if length p \<ge> ring_cap r then r\<lparr>ring_b := drop (length p - ring_cap r) p\<rparr>
      else
        let b = ring_b r @ p
        in if length b > ring_cap r then r\<lparr>ring_b := drop (length b - ring_cap r) b\<rparr>
           else r\<lparr>ring_b := b\<rparr>)"

definition ring_bytes :: "ring \<Rightarrow> bytes" where
  "ring_bytes r = ring_b r"

section \<open>The contract of a tail buffer\<close>

definition last_n :: "nat \<Rightarrow> 'a list \<Rightarrow> 'a list" where
  "last_n n xs = drop (length xs - n) xs"

lemma length_last_n [simp]: "length (last_n n xs) = min n (length xs)"
  by (simp add: last_n_def)

lemma last_n_all: "length xs \<le> n \<Longrightarrow> last_n n xs = xs"
  by (simp add: last_n_def)

lemma last_n_suffix: "\<exists>ys. xs = ys @ last_n n xs"
  by (metis append_take_drop_id last_n_def)

lemma last_n_last_n_append: "last_n n (last_n n xs @ ys) = last_n n (xs @ ys)"
proof (cases "length xs \<le> n")
  case True
  then show ?thesis by (simp add: last_n_def)
next
  case False
  then show ?thesis
    by (cases "length ys \<le> n") (simp_all add: last_n_def add.commute)
qed

locale tail_buffer =
  fixes put :: "'a list \<Rightarrow> 'b \<Rightarrow> 'b"
    and content :: "'b \<Rightarrow> 'a list"
    and capacity :: "'b \<Rightarrow> nat"
  assumes content_write: "content (put p r) = last_n (capacity r) (content r @ p)"
    and capacity_write: "capacity (put p r) = capacity r"
begin

lemma capacity_fold: "capacity (fold put ps r) = capacity r"
  by (induction ps arbitrary: r) (simp_all add: capacity_write)

lemma content_bound: "length (content (put p r)) \<le> capacity r"
  by (simp add: content_write)

lemma content_fold:
  "content r = last_n (capacity r) h \<Longrightarrow>
   content (fold put ps r) = last_n (capacity r) (h @ concat ps)"
proof (induction ps arbitrary: r h)
  case Nil
  then show ?case by simp
next
  case (Cons p ps)
  then have "content (put p r) = last_n (capacity (put p r)) (h @ p)"
    by (simp add: content_write capacity_write last_n_last_n_append)
  from Cons.IH [OF this] show ?case by (simp add: capacity_write)
qed

end

lemma ring_write_content: "ring_b (ring_write p r) = last_n (ring_cap r) (ring_b r @ p)"
  by (auto simp: ring_write_def last_n_def Let_def)

lemma ring_write_cap [simp]: "ring_cap (ring_write p r) = ring_cap r"
  by (simp add: ring_write_def Let_def)

interpretation ringbuf: tail_buffer ring_write ring_bytes ring_cap
  by unfold_locales (simp_all add: ring_bytes_def ring_write_content)

text \<open>
  Whatever the writes and their sizes, the ring holds exactly the last
  \<open>cap\<close> bytes of the concatenation of everything written to it since it was created: nothing
  older, nothing lost, nothing reordered, and never more than its capacity.
\<close>

lemma ring_holds_tail:
  "ring_bytes (fold ring_write ps (newRing c)) = last_n c (concat ps)"
  using ringbuf.content_fold [of "newRing c" "[]" ps]
  by (simp add: newRing_def ring_bytes_def last_n_def)

end
