(* ===== verification/Session.thy ===== *)
theory Session
  imports Wire Ring_Buffer
begin

text \<open>
  \<open>internal/session/session.go\<close>: one terminal process with its lifecycle state.  This theory has
  the data (the session, the attach options, the terminal and the client connection as the
  session uses them) and every operation as a function of the state: the critical sections of
  \<open>Attach\<close>, \<open>Destroy\<close> and \<open>pumpChunk\<close>, the replay of the output tail, the dispatch of client
  frames and the wait loop.  \<open>Session_Steps\<close> interleaves the critical sections.

  The terminal (\<open>session.Terminal\<close>) and the connection (\<open>io.ReadWriter\<close>) are interfaces: a
  session sees only which calls it makes and whether they fail.  They are modelled by the list
  of calls made so far and by a function that says, from that list, whether the next call
  succeeds.  The screen mirror (\<open>session.ScreenMirror\<close>) is an interface too: a record of its four
  methods over a state of any type.
\<close>

section \<open>Data\<close>

datatype state = StateIdle | StateRunning | StateDestroyed

fun state_string :: "state \<Rightarrow> string" where
  "state_string StateIdle = ''idle''"
| "state_string StateRunning = ''running''"
| "state_string StateDestroyed = ''destroyed''"

datatype sess_error =
    ErrSessionPreempted
  | ErrSessionDestroyed
  | ErrClientClosed
  | ErrMirrorDisabled
  | ErrTerminalClosed
  | CtxCanceled
  | InitFailed
  | ConnWriteFailed
  | TermWriteFailed
  | TermResizeFailed
  | TermSignalFailed
  | TermCloseFailed
  | BadFrame wire_error

record attach_options =
  ao_permitWrite :: bool
  ao_fixedCols :: int
  ao_fixedRows :: int
  ao_windowTitle :: bytes
  ao_reconnectSeconds :: int
  ao_preferences :: bytes

record connect_spec =
  cs_hostID :: string
  cs_name :: string
  cs_addr :: string
  cs_user :: string

text \<open>The terminal as the session sees it: the calls made on it, in order.\<close>

datatype term_call =
    TWrite bytes
  | TResize int int
  | TSignal int
  | TClose

type_synonym term_log = "term_call list"
type_synonym term_oracle = "term_log \<Rightarrow> term_call \<Rightarrow> bool"

definition term_do :: "term_oracle \<Rightarrow> term_call \<Rightarrow> term_log \<Rightarrow> bool \<times> term_log" where
  "term_do tok c l = (tok l c, l @ [c])"

text \<open>A client connection: the frames written to it; a failed write sends nothing.\<close>

type_synonym conn_log = "bytes list"
type_synonym conn_oracle = "conn_log \<Rightarrow> bytes \<Rightarrow> bool"

definition conn_write :: "conn_oracle \<Rightarrow> bytes \<Rightarrow> conn_log \<Rightarrow> bool \<times> conn_log" where
  "conn_write cok f l = (if cok l f then (True, l @ [f]) else (False, l))"

text \<open>Writing a list of frames stops at the first failure.\<close>

fun conn_write_all :: "conn_oracle \<Rightarrow> bytes list \<Rightarrow> conn_log \<Rightarrow> bool \<times> conn_log" where
  "conn_write_all cok [] l = (True, l)"
| "conn_write_all cok (f # fs) l =
     (case conn_write cok f l of (ok, l') \<Rightarrow> if ok then conn_write_all cok fs l' else (False, l'))"

record 'm mirror_ops =
  mo_write :: "bytes \<Rightarrow> 'm \<Rightarrow> 'm"
  mo_resize :: "int \<Rightarrow> int \<Rightarrow> 'm \<Rightarrow> 'm"
  mo_drain :: "'m \<Rightarrow> bytes \<times> 'm"
  mo_text :: "'m \<Rightarrow> string"

type_synonym conn_id = nat

record 'm session =
  s_id :: string
  s_spec :: connect_spec
  s_created :: int
  s_title :: string
  s_state :: state
  s_conn :: "conn_id option"
  s_touched :: int
  s_epoch :: nat
  s_total :: nat
  s_replaySeq :: nat
  s_out :: ring
  s_lastCols :: int
  s_lastRows :: int
  s_termExited :: bool
  s_mirror :: "'m option"
  s_mirrorVer :: nat
  s_mirrorLast :: int
  s_answerQueries :: bool

definition outputRingCapacity :: nat where
  "outputRingCapacity = 4 * 1024 * 1024"

definition attachReplayTailBytes :: nat where
  "attachReplayTailBytes = 256 * 1024"

definition new_session ::
  "string \<Rightarrow> connect_spec \<Rightarrow> 'm option \<Rightarrow> bool \<Rightarrow> int \<Rightarrow> 'm session" where
  "new_session sid spec mirror answer now =
     \<lparr>s_id = sid, s_spec = spec, s_created = now, s_title = '''', s_state = StateIdle,
      s_conn = None, s_touched = now, s_epoch = 0, s_total = 0, s_replaySeq = 0,
      s_out = newRing outputRingCapacity, s_lastCols = 0, s_lastRows = 0,
      s_termExited = False, s_mirror = mirror, s_mirrorVer = 0, s_mirrorLast = 0,
      s_answerQueries = answer\<rparr>"

section \<open>Attach and destroy: the critical sections\<close>

text \<open>
  The first critical section of \<open>Attach\<close>: \<open>None\<close> when the session is destroyed, otherwise the
  epoch this attach owns, the connection it evicts and the new state.
\<close>

definition attach_begin ::
  "int \<Rightarrow> conn_id \<Rightarrow> 'm session \<Rightarrow> sess_error + (nat \<times> conn_id option \<times> 'm session)" where
  "attach_begin now c s =
     (if s_state s = StateDestroyed then Inl ErrSessionDestroyed
      else
        let old = s_conn s; e = s_epoch s + 1
        in Inr (e, old, s\<lparr>s_epoch := e, s_conn := Some c, s_state := StateRunning,
                          s_touched := now\<rparr>))"

text \<open>The second one, after the bridge returned \<open>err\<close>: only the current owner goes back to idle.\<close>

definition attach_end ::
  "int \<Rightarrow> nat \<Rightarrow> conn_id \<Rightarrow> sess_error option \<Rightarrow> 'm session \<Rightarrow> sess_error option \<times> 'm session" where
  "attach_end now myEpoch c err s =
     (let (err', s') =
        (if s_state s = StateDestroyed then (err, s)
         else if s_epoch s = myEpoch
         then (err, let s1 = s\<lparr>s_state := StateIdle\<rparr>
                    in if s_conn s1 = Some c then s1\<lparr>s_conn := None\<rparr> else s1)
         else (Some ErrSessionPreempted, s))
      in (err', s'\<lparr>s_touched := now\<rparr>))"

text \<open>
  The critical section of \<open>Destroy\<close>: \<open>None\<close> when it already happened, otherwise the connection
  to close.  The terminal is closed after it.
\<close>

definition destroy_begin :: "'m session \<Rightarrow> (conn_id option \<times> 'm session) option" where
  "destroy_begin s =
     (if s_state s = StateDestroyed then None
      else Some (s_conn s, s\<lparr>s_state := StateDestroyed, s_epoch := s_epoch s + 1, s_conn := None\<rparr>))"

definition session_destroy ::
  "term_oracle \<Rightarrow> 'm session \<Rightarrow> term_log \<Rightarrow> sess_error option \<times> 'm session \<times> term_log" where
  "session_destroy tok s l =
     (case destroy_begin s of
        None \<Rightarrow> (None, s, l)
      | Some (_, s') \<Rightarrow>
          (case term_do tok TClose l of
             (ok, l') \<Rightarrow> ((if ok then None else Some TermCloseFailed), s', l')))"

text \<open>\<open>Detach\<close> closes the current connection, if there is one, and changes nothing else.\<close>

definition session_detach :: "'m session \<Rightarrow> conn_id option" where
  "session_detach s = s_conn s"

definition session_input ::
  "term_oracle \<Rightarrow> bytes \<Rightarrow> 'm session \<Rightarrow> term_log \<Rightarrow> sess_error option \<times> term_log" where
  "session_input tok p s l =
     (if s_state s = StateDestroyed then (Some ErrSessionDestroyed, l)
      else case term_do tok (TWrite p) l of
             (ok, l') \<Rightarrow> ((if ok then None else Some TermWriteFailed), l'))"

definition session_signal ::
  "term_oracle \<Rightarrow> int \<Rightarrow> 'm session \<Rightarrow> term_log \<Rightarrow> sess_error option \<times> term_log" where
  "session_signal tok sig s l =
     (if s_state s = StateDestroyed then (Some ErrSessionDestroyed, l)
      else case term_do tok (TSignal sig) l of
             (ok, l') \<Rightarrow> ((if ok then None else Some TermSignalFailed), l'))"

definition syncMirrorSize :: "'m mirror_ops \<Rightarrow> int \<Rightarrow> int \<Rightarrow> 'm session \<Rightarrow> 'm session" where
  "syncMirrorSize mo cols rows s = s\<lparr>s_mirror := map_option (mo_resize mo cols rows) (s_mirror s)\<rparr>"

definition session_resize ::
  "term_oracle \<Rightarrow> 'm mirror_ops \<Rightarrow> int \<Rightarrow> int \<Rightarrow> 'm session \<Rightarrow> term_log
     \<Rightarrow> sess_error option \<times> 'm session \<times> term_log" where
  "session_resize tok mo cols rows s l =
     (case term_do tok (TResize cols rows) l of
        (ok, l') \<Rightarrow> if ok then (None, syncMirrorSize mo cols rows s, l')
                   else (Some TermResizeFailed, s, l'))"

definition session_screen :: "'m mirror_ops \<Rightarrow> 'm session \<Rightarrow> sess_error + string" where
  "session_screen mo s =
     (case s_mirror s of None \<Rightarrow> Inl ErrMirrorDisabled | Some m \<Rightarrow> Inr (mo_text mo m))"

section \<open>Replay of the output tail\<close>

definition is_continuation :: "byte \<Rightarrow> bool" where
  "is_continuation b \<longleftrightarrow> b AND 0xC0 = 0x80"

function skip_continuation :: "bytes \<Rightarrow> nat \<Rightarrow> nat" where
  "skip_continuation b start =
     (if start < length b \<and> is_continuation (b ! start) then skip_continuation b (start + 1)
      else start)"
  by pat_completeness auto
termination
  by (relation "measure (\<lambda>(b, start). length b - start)") auto

declare skip_continuation.simps [simp del]

text \<open>The backward search for an escape byte: indices \<open>n - 1, n - 2, \<dots>\<close> within 1024 of the start.\<close>

fun find_esc :: "bytes \<Rightarrow> nat \<Rightarrow> nat \<Rightarrow> nat option" where
  "find_esc b start 0 = None"
| "find_esc b start (Suc i) =
     (if start - i \<le> 1024 then (if b ! i = 0x1b then Some i else find_esc b start i) else None)"

definition alignTailStart :: "bytes \<Rightarrow> nat \<Rightarrow> nat" where
  "alignTailStart b start =
     (if start \<ge> length b then start
      else
        let st = skip_continuation b start
        in case find_esc b st st of Some i \<Rightarrow> i | None \<Rightarrow> st)"

definition replay_chunk :: nat where
  "replay_chunk = 32 * 1024"

function chunks :: "nat \<Rightarrow> 'a list \<Rightarrow> 'a list list" where
  "chunks n xs =
     (if xs = [] \<or> n = 0 then [] else take (min n (length xs)) xs # chunks n (drop (min n (length xs)) xs))"
  by pat_completeness auto
termination
  by (relation "measure (\<lambda>(n, xs). length xs)") auto

declare chunks.simps [simp del]

definition replay_tail :: "bytes \<Rightarrow> bytes" where
  "replay_tail data =
     (if length data > attachReplayTailBytes
      then drop (alignTailStart data (length data - attachReplayTailBytes)) data else data)"

definition replayOutput ::
  "conn_oracle \<Rightarrow> bytes \<Rightarrow> conn_log \<Rightarrow> bool \<times> conn_log" where
  "replayOutput cok data l =
     conn_write_all cok (map encodeOutput (chunks replay_chunk (replay_tail data))) l"

definition initialize_messages :: "attach_options \<Rightarrow> bytes list" where
  "initialize_messages opts =
     [encodeWindowTitle (ao_windowTitle opts)]
     @ (if ao_reconnectSeconds opts > 0 then [encodeReconnect (ao_reconnectSeconds opts)] else [])
     @ (if ao_preferences opts \<noteq> [] then [encodePreferences (ao_preferences opts)] else [])"

definition sendInitializeMessage ::
  "conn_oracle \<Rightarrow> attach_options \<Rightarrow> conn_log \<Rightarrow> bool \<times> conn_log" where
  "sendInitializeMessage cok opts l = conn_write_all cok (initialize_messages opts) l"

text \<open>\<open>jitterSize\<close>: two resizes, the second only when the first succeeded.\<close>

definition jitter :: "term_oracle \<Rightarrow> int \<Rightarrow> int \<Rightarrow> term_log \<Rightarrow> term_log" where
  "jitter tok cols rows l =
     (case term_do tok (TResize cols (rows - 1)) l of
        (ok, l') \<Rightarrow> if ok then snd (term_do tok (TResize cols rows) l') else l')"

definition jitterSize :: "term_oracle \<Rightarrow> 'm session \<Rightarrow> term_log \<Rightarrow> term_log" where
  "jitterSize tok s l =
     (if s_lastCols s \<le> 1 \<or> s_lastRows s \<le> 1 then l
      else jitter tok (s_lastCols s) (s_lastRows s) l)"

text \<open>The replay snapshot, taken under the output lock.\<close>

definition take_snapshot :: "'m session \<Rightarrow> bytes \<times> 'm session" where
  "take_snapshot s = (ring_bytes (s_out s), s\<lparr>s_replaySeq := s_total s\<rparr>)"

text \<open>
  The first half of \<open>bridge\<close>, up to the start of the relay: snapshot, initializing messages,
  replay, the replay-done mark, and the jitter when something was replayed.
\<close>

definition bridge_handshake ::
  "term_oracle \<Rightarrow> conn_oracle \<Rightarrow> attach_options \<Rightarrow> 'm session \<Rightarrow> term_log \<Rightarrow> conn_log
     \<Rightarrow> sess_error option \<times> 'm session \<times> term_log \<times> conn_log" where
  "bridge_handshake tok cok opts s tlog clog =
     (case take_snapshot s of (snapshot, s1) \<Rightarrow>
        (case sendInitializeMessage cok opts clog of (ok1, cl1) \<Rightarrow>
           if \<not> ok1 then (Some InitFailed, s1, tlog, cl1)
           else (case replayOutput cok snapshot cl1 of (ok2, cl2) \<Rightarrow>
             if \<not> ok2 then (Some ConnWriteFailed, s1, tlog, cl2)
             else (case conn_write cok encodeReplayDone cl2 of (ok3, cl3) \<Rightarrow>
               if \<not> ok3 then (Some ConnWriteFailed, s1, tlog, cl3)
               else (None, s1, (if length snapshot > 0 then jitterSize tok s1 tlog else tlog), cl3)))))"

section \<open>The output pump\<close>

text \<open>
  \<open>pumpChunk\<close> in its two parts.  Under the locks: the chunk goes into the ring and the receiver
  is chosen.  After them: the mirror is fed and drained, its answers are written back when nobody
  is attached, and the chunk is sent.
\<close>

definition pump_ring :: "bytes \<Rightarrow> 'm session \<Rightarrow> conn_id option \<times> 'm session" where
  "pump_ring chunk s =
     (let chunkStart = s_total s;
          s1 = s\<lparr>s_total := chunkStart + length chunk, s_out := ring_write chunk (s_out s)\<rparr>
      in ((if chunkStart \<ge> s_replaySeq s then s_conn s else None), s1))"

definition pump_mirror ::
  "'m mirror_ops \<Rightarrow> int \<Rightarrow> bytes \<Rightarrow> 'm session \<Rightarrow> bytes \<times> 'm session" where
  "pump_mirror mo now chunk s =
     (case s_mirror s of
        None \<Rightarrow> ([], s)
      | Some m \<Rightarrow>
          (case mo_drain mo (mo_write mo chunk m) of (answers, m') \<Rightarrow>
             (answers, s\<lparr>s_mirror := Some m', s_mirrorVer := s_mirrorVer s + 1,
                         s_mirrorLast := now\<rparr>)))"

definition pumpChunk ::
  "term_oracle \<Rightarrow> conn_oracle \<Rightarrow> 'm mirror_ops \<Rightarrow> int \<Rightarrow> bytes \<Rightarrow> 'm session \<Rightarrow> term_log \<Rightarrow> conn_log
     \<Rightarrow> 'm session \<times> term_log \<times> conn_log" where
  "pumpChunk tok cok mo now chunk s tlog clog =
     (case pump_ring chunk s of (deliverTo, s1) \<Rightarrow>
        if chunk = [] then (s1, tlog, clog)
        else (case pump_mirror mo now chunk s1 of (answers, s2) \<Rightarrow>
          let tlog' = (if answers \<noteq> [] \<and> deliverTo = None \<and> s_answerQueries s2
                       then snd (term_do tok (TWrite answers) tlog) else tlog)
          in (case deliverTo of
                None \<Rightarrow> (s2, tlog', clog)
              | Some _ \<Rightarrow> (s2, tlog', snd (conn_write cok (encodeOutput chunk) clog)))))"

text \<open>
  \<open>outputPump\<close> over the results of the terminal's reads: the data of a read is processed before
  its error, and the first error ends the pump and closes \<open>termExited\<close>.
\<close>

fun outputPump ::
  "term_oracle \<Rightarrow> conn_oracle \<Rightarrow> 'm mirror_ops \<Rightarrow> int \<Rightarrow> (bytes \<times> bool) list
     \<Rightarrow> 'm session \<Rightarrow> term_log \<Rightarrow> conn_log \<Rightarrow> 'm session \<times> term_log \<times> conn_log" where
  "outputPump tok cok mo now [] s tlog clog = (s, tlog, clog)"
| "outputPump tok cok mo now ((chunk, err) # reads) s tlog clog =
     (case (if chunk \<noteq> [] then pumpChunk tok cok mo now chunk s tlog clog else (s, tlog, clog)) of
        (s1, tlog1, clog1) \<Rightarrow>
          if err then (s1\<lparr>s_termExited := True\<rparr>, tlog1, clog1)
          else outputPump tok cok mo now reads s1 tlog1 clog1)"

section \<open>Relaying client frames to the terminal\<close>

record 'm relay =
  re_session :: "'m session"
  re_term :: term_log
  re_conn :: conn_log
  re_firstResize :: bool

definition relay_resize ::
  "term_oracle \<Rightarrow> 'm mirror_ops \<Rightarrow> int \<Rightarrow> int \<Rightarrow> 'm relay \<Rightarrow> sess_error option \<times> 'm relay" where
  "relay_resize tok mo cols rows r =
     (case term_do tok (TResize cols rows) (re_term r) of (ok, tlog) \<Rightarrow>
        if \<not> ok then (Some TermResizeFailed, r\<lparr>re_term := tlog\<rparr>)
        else
          let s = (syncMirrorSize mo cols rows (re_session r))\<lparr>s_lastCols := cols, s_lastRows := rows\<rparr>
          in (None,
              r\<lparr>re_session := s,
                re_term := (if re_firstResize r \<and> rows > 1 \<and> cols > 1
                            then jitter tok cols rows tlog else tlog),
                re_firstResize := False\<rparr>))"

definition dispatch ::
  "term_oracle \<Rightarrow> conn_oracle \<Rightarrow> 'm mirror_ops \<Rightarrow> json_parser \<Rightarrow> attach_options
     \<Rightarrow> client_message \<Rightarrow> 'm relay \<Rightarrow> sess_error option \<times> 'm relay" where
  "dispatch tok cok mo unmarshal opts m r =
     (if cm_type m = Input then
        (if \<not> ao_permitWrite opts \<or> cm_payload m = [] then (None, r)
         else (case term_do tok (TWrite (cm_payload m)) (re_term r) of (ok, tlog) \<Rightarrow>
                 ((if ok then None else Some TermWriteFailed), r\<lparr>re_term := tlog\<rparr>)))
      else if cm_type m = Ping then
        (case conn_write cok encodePong (re_conn r) of (ok, clog) \<Rightarrow>
           ((if ok then None else Some ErrClientClosed), r\<lparr>re_conn := clog\<rparr>))
      else if cm_type m = ResizeTerminal then
        (if ao_fixedCols opts > 0 \<and> ao_fixedRows opts > 0 then (None, r)
         else (case parseResizeArgs unmarshal (cm_payload m) of
                 Inl e \<Rightarrow> (Some (BadFrame e), r)
               | Inr args \<Rightarrow>
                   if ra_columns args < 2 \<or> ra_rows args < 2 then (None, r)
                   else relay_resize tok mo (ra_columns args) (ra_rows args) r))
      else (None, r))"

text \<open>What the read loop sees next: the context done, a failed read, or one complete message.\<close>

datatype relay_input = CtxDone | ReadFailed | ClientMsg bytes

text \<open>
  \<open>masterToSlave\<close> on a connection that reads frames.  \<open>None\<close>: the loop is still waiting for
  input; otherwise the error it returned.
\<close>

fun masterToSlave ::
  "term_oracle \<Rightarrow> conn_oracle \<Rightarrow> 'm mirror_ops \<Rightarrow> json_parser \<Rightarrow> attach_options
     \<Rightarrow> relay_input list \<Rightarrow> 'm relay \<Rightarrow> sess_error option \<times> 'm relay" where
  "masterToSlave tok cok mo unmarshal opts [] r = (None, r)"
| "masterToSlave tok cok mo unmarshal opts (CtxDone # ins) r = (Some CtxCanceled, r)"
| "masterToSlave tok cok mo unmarshal opts (ReadFailed # ins) r = (Some ErrClientClosed, r)"
| "masterToSlave tok cok mo unmarshal opts (ClientMsg message # ins) r =
     (if message = [] then masterToSlave tok cok mo unmarshal opts ins r
      else (case decodeClientFrame message of
              Inl e \<Rightarrow> (Some (BadFrame e), r)
            | Inr m \<Rightarrow>
                (case dispatch tok cok mo unmarshal opts m r of
                   (Some e, r') \<Rightarrow> (Some e, r')
                 | (None, r') \<Rightarrow> masterToSlave tok cok mo unmarshal opts ins r')))"

text \<open>What ends \<open>bridge\<close> while the relay is still waiting for input: the context or the exit.\<close>

datatype bridge_end = BridgeCtxDone | BridgeTermExited

definition session_bridge ::
  "term_oracle \<Rightarrow> conn_oracle \<Rightarrow> 'm mirror_ops \<Rightarrow> json_parser \<Rightarrow> attach_options
     \<Rightarrow> relay_input list \<Rightarrow> bridge_end \<Rightarrow> 'm session \<Rightarrow> term_log \<Rightarrow> conn_log
     \<Rightarrow> sess_error option \<times> 'm session \<times> term_log \<times> conn_log" where
  "session_bridge tok cok mo unmarshal opts ins fin s tlog clog =
     (case bridge_handshake tok cok opts s tlog clog of
        (Some e, s1, tlog1, clog1) \<Rightarrow> (Some e, s1, tlog1, clog1)
      | (None, s1, tlog1, clog1) \<Rightarrow>
          (case masterToSlave tok cok mo unmarshal opts ins
                  \<lparr>re_session = s1, re_term = tlog1, re_conn = clog1, re_firstResize = True\<rparr> of
             (err, r) \<Rightarrow>
               ((case err of Some e \<Rightarrow> Some e
                 | None \<Rightarrow> (case fin of BridgeCtxDone \<Rightarrow> Some CtxCanceled
                              | BridgeTermExited \<Rightarrow> Some ErrTerminalClosed)),
                re_session r, re_term r, re_conn r)))"

section \<open>Wait and the description\<close>

record wait_result =
  wr_matched :: bool
  wr_quiet :: bool
  wr_timedOut :: bool

datatype wait_event = WTick | WCtxDone | WExited "string option"

text \<open>
  One round of the wait loop: the screen (\<open>None\<close> when the mirror is off), the time of the last
  write, the current time, and what the select at its end saw.  \<open>WExited\<close> carries the final
  screen.
\<close>

record wait_obs =
  wo_screen :: "string option"
  wo_lastWrite :: int
  wo_now :: int
  wo_event :: wait_event

definition wait_flags :: "bool \<Rightarrow> bool \<Rightarrow> bool \<Rightarrow> wait_result" where
  "wait_flags m q t = \<lparr>wr_matched = m, wr_quiet = q, wr_timedOut = t\<rparr>"

fun session_wait ::
  "(string \<Rightarrow> bool) option \<Rightarrow> int \<Rightarrow> int \<Rightarrow> int \<Rightarrow> wait_obs list
     \<Rightarrow> (sess_error + (string \<times> wait_result)) option" where
  "session_wait regex deadline timeout quiet [] = None"
| "session_wait regex deadline timeout quiet (ob # obs) =
     (let matches = (\<lambda>t. case regex of None \<Rightarrow> False | Some p \<Rightarrow> p t)
      in case wo_screen ob of
           None \<Rightarrow> Some (Inl ErrMirrorDisabled)
         | Some text \<Rightarrow>
             if matches text then Some (Inr (text, wait_flags True False False))
             else if quiet > 0 \<and> wo_now ob - wo_lastWrite ob \<ge> quiet
             then Some (Inr (text, wait_flags False True False))
             else if timeout > 0 \<and> wo_now ob > deadline
             then Some (Inr (text, wait_flags False False True))
             else (case wo_event ob of
                     WCtxDone \<Rightarrow> Some (Inl CtxCanceled)
                   | WExited None \<Rightarrow> Some (Inl ErrMirrorDisabled)
                   | WExited (Some final) \<Rightarrow>
                       Some (Inr (final, wait_flags (matches final) False False))
                   | WTick \<Rightarrow> session_wait regex deadline timeout quiet obs))"

record state_description =
  sd_id :: string
  sd_state :: string
  sd_spec :: connect_spec
  sd_exited :: bool
  sd_title :: string
  sd_createdAt :: string

text \<open>
  \<open>Exited\<close> is the terminal's own report.  The creation time is a text in the local time zone; the
  formatter (RFC 3339) is a parameter.
\<close>

definition stateDescription :: "(int \<Rightarrow> string) \<Rightarrow> bool \<Rightarrow> 'm session \<Rightarrow> state_description" where
  "stateDescription fmt exited s =
     \<lparr>sd_id = s_id s, sd_state = state_string (s_state s), sd_spec = s_spec s, sd_exited = exited,
      sd_title = s_title s, sd_createdAt = fmt (s_created s)\<rparr>"

end
