(* ===== verification/Session_Props.thy ===== *)
theory Session_Props
  imports Session
begin

text \<open>
  Properties of the sequential operations of \<open>Session\<close>: what the replay sends, where its tail is
  cut, how the relay treats each client frame, and when \<open>Wait\<close> returns.
\<close>

section \<open>Chunks and frames\<close>

lemma concat_chunks: "0 < n \<Longrightarrow> concat (chunks n xs) = xs"
proof (induction n xs rule: chunks.induct)
  case (1 n xs)
  then show ?case
    by (subst chunks.simps) auto
qed

lemma chunks_length: "c \<in> set (chunks n xs) \<Longrightarrow> 0 < length c \<and> length c \<le> n"
proof (induction n xs rule: chunks.induct)
  case (1 n xs)
  show ?case
  proof (cases "xs = [] \<or> n = 0")
    case True
    with "1.prems" show ?thesis by (subst (asm) chunks.simps) simp
  next
    case False
    with 1 show ?thesis by (subst (asm) (2) chunks.simps) (auto simp: min_def split: if_splits)
  qed
qed

lemma conn_write_all_prefix:
  "conn_write_all cok fs l = (ok, l') \<Longrightarrow> \<exists>n. l' = l @ take n fs \<and> n \<le> length fs \<and> (ok \<longleftrightarrow> n = length fs)"
proof (induction fs arbitrary: l)
  case Nil
  then show ?case by auto
next
  case (Cons f fs)
  show ?case
  proof (cases "cok l f")
    case True
    with Cons.prems have "conn_write_all cok fs (l @ [f]) = (ok, l')"
      by (simp add: conn_write_def)
    from Cons.IH [OF this] obtain n where "l' = (l @ [f]) @ take n fs" "n \<le> length fs" "ok \<longleftrightarrow> n = length fs"
      by auto
    then show ?thesis by (intro exI [of _ "Suc n"]) auto
  next
    case False
    with Cons.prems show ?thesis
      by (intro exI [of _ 0]) (auto simp: conn_write_def)
  qed
qed

lemma conn_write_all_ok:
  "(\<And>l f. cok l f) \<Longrightarrow> conn_write_all cok fs l = (True, l @ fs)"
  by (induction fs arbitrary: l) (simp_all add: conn_write_def)

section \<open>Where the tail is cut\<close>

lemma skip_continuation_bounds:
  "start \<le> length b \<Longrightarrow> start \<le> skip_continuation b start \<and> skip_continuation b start \<le> length b"
proof (induction b start rule: skip_continuation.induct)
  case (1 b start)
  then show ?case
    by (subst (1 2) skip_continuation.simps) auto
qed

lemma skip_continuation_stops:
  "skip_continuation b start < length b \<Longrightarrow> \<not> is_continuation (b ! skip_continuation b start)"
proof (induction b start rule: skip_continuation.induct)
  case (1 b start)
  show ?case
  proof (cases "start < length b \<and> is_continuation (b ! start)")
    case True
    with 1 show ?thesis by (metis skip_continuation.simps)
  next
    case False
    with "1.prems" show ?thesis by (metis skip_continuation.simps)
  qed
qed

lemma skip_continuation_skips:
  "start \<le> i \<Longrightarrow> i < skip_continuation b start \<Longrightarrow> is_continuation (b ! i)"
proof (induction b start rule: skip_continuation.induct)
  case (1 b start)
  show ?case
  proof (cases "start < length b \<and> is_continuation (b ! start)")
    case True
    with "1.prems" have "i < skip_continuation b (start + 1)"
      by (metis skip_continuation.simps)
    with 1 True show ?thesis by (cases "i = start") auto
  next
    case False
    with "1.prems" show ?thesis by (subst (asm) skip_continuation.simps) auto
  qed
qed

lemma find_esc_Some:
  "find_esc b start n = Some i \<Longrightarrow>
     i < n \<and> b ! i = 0x1b \<and> start - i \<le> 1024 \<and> (\<forall>j. i < j \<and> j < n \<longrightarrow> b ! j \<noteq> 0x1b)"
  by (induction n) (auto split: if_splits simp: less_Suc_eq)

lemma find_esc_None:
  "find_esc b start n = None \<Longrightarrow> n \<le> start \<Longrightarrow>
     (\<forall>j. j < n \<and> start - j \<le> 1024 \<longrightarrow> b ! j \<noteq> 0x1b)"
proof (induction n)
  case 0
  then show ?case by simp
next
  case (Suc n)
  then show ?case
    by (auto split: if_splits simp: less_Suc_eq)
qed

definition aligned_cut :: "bytes \<Rightarrow> nat \<Rightarrow> nat \<Rightarrow> bool" where
  "aligned_cut b start k \<longleftrightarrow>
     (let st = skip_continuation b start in
        (k \<le> st \<and> st \<le> k + 1024)
        \<and> (if k < st then b ! k = 0x1b \<and> (\<forall>j. k < j \<and> j < st \<longrightarrow> b ! j \<noteq> 0x1b)
           else (\<forall>j < st. st - j \<le> 1024 \<longrightarrow> b ! j \<noteq> 0x1b)
                \<and> (k < length b \<longrightarrow> \<not> is_continuation (b ! k))))"

lemma alignTailStart_aligned:
  assumes "start < length b"
  shows "aligned_cut b start (alignTailStart b start)"
proof -
  let ?st = "skip_continuation b start"
  show ?thesis
  proof (cases "find_esc b ?st ?st")
    case None
    with assms have "alignTailStart b start = ?st"
      by (simp add: alignTailStart_def Let_def)
    then show ?thesis
      using find_esc_None [OF None] skip_continuation_stops [of b start]
      by (simp add: aligned_cut_def Let_def)
  next
    case (Some i)
    with assms have "alignTailStart b start = i"
      by (simp add: alignTailStart_def Let_def)
    then show ?thesis
      using find_esc_Some [OF Some] by (auto simp: aligned_cut_def Let_def)
  qed
qed

lemma alignTailStart_le:
  assumes "start < length b"
  shows "alignTailStart b start \<le> length b" and "start \<le> alignTailStart b start + 1024"
  using alignTailStart_aligned [OF assms] skip_continuation_bounds [of start b] assms
  by (auto simp: aligned_cut_def Let_def)

lemma replay_tail_suffix: "\<exists>k. replay_tail data = drop k data"
  by (auto simp: replay_tail_def intro: exI [of _ 0])

lemma replay_tail_length: "length (replay_tail data) \<le> attachReplayTailBytes + 1024"
proof (cases "length data > attachReplayTailBytes")
  case True
  then have "length data - attachReplayTailBytes < length data"
    by (simp add: attachReplayTailBytes_def)
  from alignTailStart_le [OF this] True show ?thesis
    by (simp add: replay_tail_def)
next
  case False
  then show ?thesis by (simp add: replay_tail_def)
qed

section \<open>The handshake of an attach\<close>

definition handshake_frames :: "attach_options \<Rightarrow> bytes \<Rightarrow> bytes list" where
  "handshake_frames opts snapshot =
     initialize_messages opts @ map encodeOutput (chunks replay_chunk (replay_tail snapshot))
     @ [encodeReplayDone]"

lemma conn_write_all_append:
  "conn_write_all cok (fs @ gs) l =
     (case conn_write_all cok fs l of
        (ok, l') \<Rightarrow> if ok then conn_write_all cok gs l' else (False, l'))"
  by (induction fs arbitrary: l) (auto simp: conn_write_def)

lemma bridge_handshake_writes:
  "bridge_handshake tok cok opts s tlog clog =
     (case conn_write_all cok (handshake_frames opts (ring_bytes (s_out s))) clog of (ok, clog') \<Rightarrow>
        ((if ok then None
          else if fst (sendInitializeMessage cok opts clog) then Some ConnWriteFailed
          else Some InitFailed),
         s\<lparr>s_replaySeq := s_total s\<rparr>,
         (if ok \<and> ring_bytes (s_out s) \<noteq> []
          then jitterSize tok (s\<lparr>s_replaySeq := s_total s\<rparr>) tlog else tlog),
         clog'))"
  by (auto simp: bridge_handshake_def take_snapshot_def sendInitializeMessage_def replayOutput_def
      handshake_frames_def conn_write_all_append split: prod.splits)

text \<open>
  The handshake of an attach writes its frames in one fixed order (window title,
  reconnect, preferences, the replayed tail of the output, the replay-done mark) and stops at the
  first failed write: what the client got is always a prefix of that sequence, the handshake
  succeeds exactly when it got all of it, and a failed handshake leaves the terminal alone.
\<close>

lemma handshake_sends_prefix:
  "\<exists>n \<le> length (handshake_frames opts (ring_bytes (s_out s))).
     case bridge_handshake tok cok opts s tlog clog of (err, s', tlog', clog') \<Rightarrow>
       clog' = clog @ take n (handshake_frames opts (ring_bytes (s_out s)))
       \<and> (err = None \<longleftrightarrow> n = length (handshake_frames opts (ring_bytes (s_out s))))
       \<and> (err = None \<or> tlog' = tlog)
       \<and> s' = s\<lparr>s_replaySeq := s_total s\<rparr>"
proof -
  let ?fs = "handshake_frames opts (ring_bytes (s_out s))"
  obtain ok clog' where w: "conn_write_all cok ?fs clog = (ok, clog')" by fastforce
  from conn_write_all_prefix [OF w] obtain n
    where n: "clog' = clog @ take n ?fs" "n \<le> length ?fs" "ok \<longleftrightarrow> n = length ?fs" by auto
  show ?thesis
    unfolding bridge_handshake_writes w
    using n by (intro exI [of _ n]) (cases ok, auto split: prod.splits)
qed

definition replay_cut_ok :: "bytes \<Rightarrow> nat \<Rightarrow> bool" where
  "replay_cut_ok data k \<longleftrightarrow>
     (if length data \<le> attachReplayTailBytes then k = 0
      else aligned_cut data (length data - attachReplayTailBytes) k)"


section \<open>What the relay lets through\<close>

fun relay_call_ok :: "attach_options \<Rightarrow> term_call \<Rightarrow> bool" where
  "relay_call_ok opts (TWrite p) = (ao_permitWrite opts \<and> p \<noteq> [])"
| "relay_call_ok opts (TResize c r) =
     (\<not> (ao_fixedCols opts > 0 \<and> ao_fixedRows opts > 0) \<and> 2 \<le> c \<and> 1 \<le> r)"
| "relay_call_ok opts _ = False"

lemma jitter_calls:
  "\<exists>cs. jitter tok c r l = l @ cs \<and> (cs = [TResize c (r - 1)] \<or> cs = [TResize c (r - 1), TResize c r])"
  by (simp add: jitter_def term_do_def)

lemma dispatch_calls:
  "\<exists>cs. re_term (snd (dispatch tok cok mo unmarshal opts m r)) = re_term r @ cs
        \<and> list_all (relay_call_ok opts) cs"
proof -
  have "\<exists>cs. re_term (snd (relay_resize tok mo c d r)) = re_term r @ cs
        \<and> list_all (relay_call_ok opts) cs"
    if "2 \<le> c" "2 \<le> d" "\<not> (ao_fixedCols opts > 0 \<and> ao_fixedRows opts > 0)" for c d
    using that jitter_calls [of tok c d "re_term r @ [TResize c d]"]
    by (auto simp: relay_resize_def term_do_def Let_def)
  then show ?thesis
    by (auto simp: dispatch_def term_do_def conn_write_def not_less split: sum.splits)
qed

text \<open>
  Property C7.  Whatever a client sends, the terminal gets from the relay only what the attach
  options allow: no input at all without write permission and never an empty write, no resize when
  the size is pinned, no resize below two columns or one row, and never a signal or a close.
\<close>

theorem relay_calls_allowed:
  "\<exists>cs. re_term (snd (masterToSlave tok cok mo unmarshal opts ins r)) = re_term r @ cs
        \<and> list_all (relay_call_ok opts) cs"
proof (induction ins arbitrary: r)
  case Nil
  then show ?case by simp
next
  case (Cons i ins)
  show ?case
  proof (cases i)
    case (ClientMsg msg)
    show ?thesis
    proof (cases "decodeClientFrame msg")
      case (Inl e)
      with ClientMsg Cons.IH [of r] show ?thesis by simp
    next
      case (Inr m)
      obtain err r' where d: "dispatch tok cok mo unmarshal opts m r = (err, r')" by fastforce
      with dispatch_calls [of tok cok mo unmarshal opts m r] obtain cs
        where "re_term r' = re_term r @ cs" "list_all (relay_call_ok opts) cs" by auto
      with Cons.IH [of r] Cons.IH [of r'] ClientMsg Inr d show ?thesis
        by (cases err) (auto simp: list_all_append)
    qed
  qed simp_all
qed

text \<open>The input a client typed, in order: the payloads of its input frames.\<close>

fun typed_input :: "attach_options \<Rightarrow> relay_input list \<Rightarrow> bytes list" where
  "typed_input opts [] = []"
| "typed_input opts (ClientMsg (t # p) # ins) =
     (if t = Input \<and> ao_permitWrite opts \<and> p \<noteq> [] then p # typed_input opts ins
      else typed_input opts ins)"
| "typed_input opts (_ # ins) = typed_input opts ins"

fun writes_of :: "term_log \<Rightarrow> bytes list" where
  "writes_of [] = []"
| "writes_of (TWrite p # l) = p # writes_of l"
| "writes_of (_ # l) = writes_of l"

lemma writes_of_append [simp]: "writes_of (l @ m) = writes_of l @ writes_of m"
  by (induction l rule: writes_of.induct) auto

lemma writes_of_jitter [simp]: "writes_of (jitter tok c r l) = writes_of l"
  using jitter_calls [of tok c r l] by auto

lemma dispatch_writes:
  "writes_of (re_term (snd (dispatch tok cok mo unmarshal opts m r))) =
     writes_of (re_term r)
     @ (if cm_type m = Input \<and> ao_permitWrite opts \<and> cm_payload m \<noteq> [] then [cm_payload m] else [])"
  by (auto simp: dispatch_def relay_resize_def term_do_def conn_write_def Let_def
      msg_types split: sum.splits)

text \<open>
  The input reaches the terminal complete and in order: while the relay runs, the
  bytes written to the terminal are exactly the payloads of the client's input frames so far, and
  when the relay has ended they are a prefix of them.
\<close>

lemma relay_input_in_order:
  "case masterToSlave tok cok mo unmarshal opts ins r of (err, r') \<Rightarrow>
     (if err = None
      then writes_of (re_term r') = writes_of (re_term r) @ typed_input opts ins
      else (\<exists>n. writes_of (re_term r') = writes_of (re_term r) @ take n (typed_input opts ins)))"
proof (induction ins arbitrary: r)
  case Nil
  then show ?case by simp
next
  case (Cons i ins)
  show ?case
  proof (cases i)
    case (ClientMsg msg)
    show ?thesis
    proof (cases msg)
      case Nil
      with ClientMsg Cons.IH [of r] show ?thesis by (simp split: prod.splits)
    next
      case (Cons t p)
      show ?thesis
      proof (cases "decodeClientFrame msg")
        case (Inl e)
        then show ?thesis using ClientMsg Cons by (simp add: exI [of _ 0])
      next
        case (Inr m)
        then have m: "cm_type m = t" "cm_payload m = p"
          using Cons by (auto simp: decodeClientFrame_def split: if_splits)
        obtain err r' where d: "dispatch tok cok mo unmarshal opts m r = (err, r')" by fastforce
        then have w: "writes_of (re_term r') = writes_of (re_term r)
            @ (if t = Input \<and> ao_permitWrite opts \<and> p \<noteq> [] then [p] else [])"
          using dispatch_writes [of tok cok mo unmarshal opts m r] m by simp
        have ti: "typed_input opts (i # ins) =
            (if t = Input \<and> ao_permitWrite opts \<and> p \<noteq> [] then [p] else []) @ typed_input opts ins"
          using ClientMsg Cons by simp
        show ?thesis
        proof (cases err)
          case None
          then show ?thesis
            using Cons.IH [of r'] ClientMsg Cons Inr d w ti
            by (auto split: prod.splits if_splits simp: take_Cons')
        next
          case (Some e)
          then show ?thesis
            using ClientMsg Cons Inr d w ti
            by (auto intro: exI [of _ 1] exI [of _ 0])
        qed
      qed
    qed
  qed (auto intro: exI [of _ 0])
qed

section \<open>Wait\<close>

text \<open>
  What \<open>Wait\<close> answers is justified by what it saw: the screen it returns is one
  it observed, at most one of the three flags is set, \<open>matched\<close> only on a screen the expression
  matches, \<open>quiet\<close> only after the requested silence, \<open>timed_out\<close> only after the deadline, and no
  flag only when the terminal exited.
\<close>

definition wait_obs_justifies ::
  "(string \<Rightarrow> bool) option \<Rightarrow> int \<Rightarrow> int \<Rightarrow> int \<Rightarrow> string \<Rightarrow> wait_result \<Rightarrow> wait_obs \<Rightarrow> bool" where
  "wait_obs_justifies regex deadline timeout quiet text w ob \<longleftrightarrow>
     (let matches = (case regex of None \<Rightarrow> False | Some p \<Rightarrow> p text) in
      if wr_matched w
      then matches \<and> \<not> wr_quiet w \<and> \<not> wr_timedOut w
           \<and> (wo_screen ob = Some text \<or> wo_event ob = WExited (Some text))
      else if wr_quiet w
      then \<not> matches \<and> \<not> wr_timedOut w \<and> wo_screen ob = Some text
           \<and> quiet > 0 \<and> wo_now ob - wo_lastWrite ob \<ge> quiet
      else if wr_timedOut w
      then \<not> matches \<and> wo_screen ob = Some text \<and> timeout > 0 \<and> wo_now ob > deadline
      else \<not> matches \<and> wo_event ob = WExited (Some text))"

lemma wait_answer_justified:
  assumes "session_wait regex deadline timeout quiet obs = Some (Inr (text, w))"
  shows "list_ex (wait_obs_justifies regex deadline timeout quiet text w) obs"
  using assms
proof (induction obs)
  case Nil
  then show ?case by simp
next
  case (Cons ob obs)
  show ?case
  proof (cases "wait_obs_justifies regex deadline timeout quiet text w ob")
    case True
    then show ?thesis by simp
  next
    case False
    with Cons.prems have "session_wait regex deadline timeout quiet obs = Some (Inr (text, w))"
      by (auto simp: Let_def wait_flags_def wait_obs_justifies_def
          split: option.splits if_splits wait_event.splits)
    with Cons.IH show ?thesis by simp
  qed
qed

definition wait_demo :: "wait_obs list" where
  "wait_demo =
     [\<lparr>wo_screen = Some ''a'', wo_lastWrite = 0, wo_now = 1, wo_event = WTick\<rparr>,
      \<lparr>wo_screen = Some ''ab'', wo_lastWrite = 0, wo_now = 9, wo_event = WTick\<rparr>]"

lemma wait_answer_justified_witness:
  "list_ex (wait_obs_justifies (Some (\<lambda>t. t = ''b'')) 5 5 0 ''ab'' (wait_flags False False True)) wait_demo"
  by (rule wait_answer_justified) (simp add: wait_demo_def wait_flags_def)

text \<open>
  Property C8.  With a timeout, \<open>Wait\<close> returns: as soon as one round sees a time past the
  deadline it has an answer, whatever the screen, the expression and the events were.
\<close>

theorem wait_returns_after_deadline:
  assumes "timeout > 0" and "list_ex (\<lambda>ob. wo_now ob > deadline) obs"
  shows "session_wait regex deadline timeout quiet obs \<noteq> None"
  using assms(2)
proof (induction obs)
  case Nil
  then show ?case by simp
next
  case (Cons ob obs)
  with assms(1) show ?case
    by (auto simp: Let_def split: option.splits wait_event.splits)
qed

theorem wait_returns_after_deadline_witness:
  "session_wait None 5 5 0 wait_demo \<noteq> None"
  by (rule wait_returns_after_deadline) (simp_all add: wait_demo_def)

end
