(* ===== verification/Session_Steps.thy ===== *)
theory Session_Steps
  imports Session
begin

text \<open>
  The concurrent session: attaches, destroy and the output pump run in their own goroutines and
  meet in the critical sections of \<open>Session\<close>.  A step of the relation is one critical section
  or one write outside the locks, so a run is an interleaving of them.  Every output byte has
  its position in the stream (\<open>total\<close>), so what a connection received is a list of segments.
\<close>

section \<open>States\<close>

text \<open>
  An attach is identified by its connection.  It owns an epoch after its first critical section,
  has a snapshot boundary after \<open>take_snapshot\<close>, has written the replay after the handshake, and
  ends with the result of its last critical section.
\<close>

datatype attach_phase =
    Fresh
  | Owning nat
  | Snapped nat nat
  | Relaying nat nat
  | Done "sess_error option"

datatype segment = Live nat nat | Replayed nat nat

record 'm sys =
  y_sess :: "'m session"
  y_phase :: "conn_id \<Rightarrow> attach_phase"
  y_base :: "conn_id \<Rightarrow> nat"
  y_sent :: "conn_id \<Rightarrow> segment list"
  y_broken :: "conn_id set"
  y_pending :: "(conn_id \<times> nat \<times> nat) option"

text \<open>
  \<open>y_base c\<close> is the value of \<open>total\<close> when \<open>c\<close> became the session's connection, kept for the
  statements only.  The pump is one goroutine: \<open>y_pending\<close> is the chunk it has chosen a receiver
  for and not written yet.
\<close>

definition sys_init :: "'m session \<Rightarrow> 'm sys" where
  "sys_init s =
     \<lparr>y_sess = s, y_phase = (\<lambda>_. Fresh), y_base = (\<lambda>_. 0), y_sent = (\<lambda>_. []), y_broken = {},
      y_pending = None\<rparr>"

fun phase_epoch :: "attach_phase \<Rightarrow> nat option" where
  "phase_epoch (Owning e) = Some e"
| "phase_epoch (Snapped e k) = Some e"
| "phase_epoch (Relaying e k) = Some e"
| "phase_epoch _ = None"

section \<open>Steps\<close>

inductive sys_step :: "'m sys \<Rightarrow> 'm sys \<Rightarrow> bool" where
  attach: "\<lbrakk>y_phase y c = Fresh; attach_begin now c (y_sess y) = Inr (e, old, s')\<rbrakk>
     \<Longrightarrow> sys_step y (y\<lparr>y_sess := s', y_phase := (y_phase y)(c := Owning e),
                       y_base := (y_base y)(c := s_total s')\<rparr>)"
| attach_refused: "\<lbrakk>y_phase y c = Fresh; attach_begin now c (y_sess y) = Inl err\<rbrakk>
     \<Longrightarrow> sys_step y (y\<lparr>y_phase := (y_phase y)(c := Done (Some err))\<rparr>)"
| snapshot: "\<lbrakk>y_phase y c = Owning e; take_snapshot (y_sess y) = (b, s')\<rbrakk>
     \<Longrightarrow> sys_step y (y\<lparr>y_sess := s', y_phase := (y_phase y)(c := Snapped e (s_total s'))\<rparr>)"
| replay: "\<lbrakk>y_phase y c = Snapped e k; a \<le> k\<rbrakk>
     \<Longrightarrow> sys_step y (y\<lparr>y_phase := (y_phase y)(c := Relaying e k),
                       y_sent := (y_sent y)(c := y_sent y c @ [Replayed a k])\<rparr>)"
| finish: "\<lbrakk>phase_epoch (y_phase y c) = Some e; attach_end now e c err (y_sess y) = (err', s')\<rbrakk>
     \<Longrightarrow> sys_step y (y\<lparr>y_sess := s', y_phase := (y_phase y)(c := Done err')\<rparr>)"
| destroy: "destroy_begin (y_sess y) = Some (c, s') \<Longrightarrow> sys_step y (y\<lparr>y_sess := s'\<rparr>)"
| pump: "\<lbrakk>y_pending y = None; chunk \<noteq> []; pump_ring chunk (y_sess y) = (d, s')\<rbrakk>
     \<Longrightarrow> sys_step y (y\<lparr>y_sess := s',
           y_pending := map_option (\<lambda>c. (c, s_total (y_sess y), s_total s')) d\<rparr>)"
| deliver: "y_pending y = Some (c, a, b)
     \<Longrightarrow> sys_step y (y\<lparr>y_sent := (y_sent y)(c := y_sent y c @ [Live a b]), y_pending := None\<rparr>)"
| deliver_fail: "y_pending y = Some (c, a, b)
     \<Longrightarrow> sys_step y (y\<lparr>y_broken := insert c (y_broken y), y_pending := None\<rparr>)"

inductive_cases sys_stepE: "sys_step y y'"

inductive sys_reach :: "'m session \<Rightarrow> 'm sys \<Rightarrow> bool" for s0 where
  init: "sys_reach s0 (sys_init s0)"
| step: "sys_reach s0 y \<Longrightarrow> sys_step y y' \<Longrightarrow> sys_reach s0 y'"

section \<open>The session's own invariant\<close>

definition session_inv :: "'m session \<Rightarrow> bool" where
  "session_inv s \<longleftrightarrow>
     (s_state s = StateRunning \<longleftrightarrow> s_conn s \<noteq> None)
     \<and> s_replaySeq s \<le> s_total s
     \<and> length (ring_bytes (s_out s)) \<le> s_total s
     \<and> length (ring_bytes (s_out s)) \<le> ring_cap (s_out s)"

lemma new_session_inv [inv_intros]: "session_inv (new_session sid spec m aq now)"
  by (simp add: session_inv_def new_session_def newRing_def ring_bytes_def)

lemma attach_begin_inv [inv_intros]:
  "session_inv s \<Longrightarrow> attach_begin now c s = Inr (e, old, s') \<Longrightarrow> session_inv s'"
  by (auto simp: session_inv_def attach_begin_def Let_def split: if_splits)

lemma take_snapshot_inv [inv_intros]:
  "session_inv s \<Longrightarrow> take_snapshot s = (b, s') \<Longrightarrow> session_inv s'"
  by (auto simp: session_inv_def take_snapshot_def)

lemma destroy_begin_inv [inv_intros]:
  "destroy_begin s = Some (c, s') \<Longrightarrow> session_inv s \<Longrightarrow> session_inv s'"
  by (auto simp: session_inv_def destroy_begin_def split: if_splits)

lemma pump_ring_inv [inv_intros]:
  "session_inv s \<Longrightarrow> pump_ring chunk s = (d, s') \<Longrightarrow> session_inv s'"
  by (auto simp: session_inv_def pump_ring_def Let_def ring_bytes_def ring_write_content)

text \<open>
  The replay boundary never lies beyond the stream, so the test \<open>chunkStart >= replaySeq\<close> of
  \<open>pumpChunk\<close> always succeeds: every chunk goes to whoever is attached when it is read.
\<close>

lemma pump_ring_receiver:
  "session_inv s \<Longrightarrow> fst (pump_ring chunk s) = s_conn s"
  by (simp add: session_inv_def pump_ring_def Let_def)

section \<open>The invariant of the interleaving\<close>

fun live_contig :: "nat \<Rightarrow> segment list \<Rightarrow> nat option" where
  "live_contig a [] = Some a"
| "live_contig a (Live b c # xs) = (if a = b \<and> b < c then live_contig c xs else None)"
| "live_contig a (Replayed b c # xs) = live_contig a xs"

lemma live_contig_append:
  "live_contig a (xs @ ys) = (case live_contig a xs of None \<Rightarrow> None | Some b \<Rightarrow> live_contig b ys)"
  by (induction a xs rule: live_contig.induct) auto

definition pend_of :: "'m sys \<Rightarrow> conn_id \<Rightarrow> segment list" where
  "pend_of y c =
     (case y_pending y of None \<Rightarrow> [] | Some (d, a, b) \<Rightarrow> if d = c then [Live a b] else [])"

definition owner_inv :: "'m sys \<Rightarrow> bool" where
  "owner_inv y \<longleftrightarrow>
     (\<forall>c. phase_epoch (y_phase y c) = None \<longrightarrow> s_conn (y_sess y) \<noteq> Some c)
     \<and> (\<forall>c e. phase_epoch (y_phase y c) = Some e \<longrightarrow> e \<le> s_epoch (y_sess y)
              \<and> (e = s_epoch (y_sess y) \<longleftrightarrow> s_conn (y_sess y) = Some c))
     \<and> (\<forall>c. y_phase y c = Fresh \<longrightarrow>
            y_sent y c = [] \<and> (\<forall>a b. y_pending y \<noteq> Some (c, a, b)) \<and> c \<notin> y_broken y)"

definition stream_inv :: "'m sys \<Rightarrow> bool" where
  "stream_inv y \<longleftrightarrow>
     (\<forall>c. c \<notin> y_broken y \<and> s_conn (y_sess y) = Some c \<longrightarrow>
          live_contig (y_base y c) (y_sent y c @ pend_of y c) = Some (s_total (y_sess y)))
     \<and> (\<forall>c e k. y_phase y c = Snapped e k \<or> y_phase y c = Relaying e k \<longrightarrow>
          y_base y c \<le> k \<and> k \<le> s_total (y_sess y))
     \<and> (\<forall>c. phase_epoch (y_phase y c) \<noteq> None \<longrightarrow> y_base y c \<le> s_total (y_sess y))"

definition sys_inv :: "'m sys \<Rightarrow> bool" where
  "sys_inv y \<longleftrightarrow> session_inv (y_sess y) \<and> owner_inv y \<and> stream_inv y"

lemma attach_begin_fields:
  "attach_begin now c s = Inr (e, old, s') \<Longrightarrow>
     s_state s \<noteq> StateDestroyed \<and> e = s_epoch s + 1 \<and> s_epoch s' = e \<and> s_conn s' = Some c
     \<and> s_state s' = StateRunning \<and> s_total s' = s_total s \<and> old = s_conn s"
  by (auto simp: attach_begin_def Let_def split: if_splits)

lemma attach_end_fields:
  "attach_end now e c err s = (err', s') \<Longrightarrow>
     s_epoch s' = s_epoch s \<and> s_total s' = s_total s \<and> s_out s' = s_out s
     \<and> s_replaySeq s' = s_replaySeq s
     \<and> (if s_state s \<noteq> StateDestroyed \<and> s_epoch s = e
        then s_state s' = StateIdle \<and> s_conn s' = (if s_conn s = Some c then None else s_conn s)
        else s_state s' = s_state s \<and> s_conn s' = s_conn s)"
  by (auto simp: attach_end_def Let_def split: if_splits)

lemma take_snapshot_fields:
  "take_snapshot s = (b, s') \<Longrightarrow>
     s_epoch s' = s_epoch s \<and> s_conn s' = s_conn s \<and> s_total s' = s_total s
     \<and> s_replaySeq s' = s_total s"
  by (auto simp: take_snapshot_def)

lemma destroy_begin_fields:
  "destroy_begin s = Some (c, s') \<Longrightarrow>
     s_epoch s' = s_epoch s + 1 \<and> s_conn s' = None \<and> s_total s' = s_total s
     \<and> s_state s' = StateDestroyed"
  by (auto simp: destroy_begin_def split: if_splits)

lemma pump_ring_fields:
  "pump_ring chunk s = (d, s') \<Longrightarrow>
     s_epoch s' = s_epoch s \<and> s_conn s' = s_conn s \<and> s_total s' = s_total s + length chunk
     \<and> s_replaySeq s' = s_replaySeq s"
  by (auto simp: pump_ring_def Let_def)

lemma attach_end_inv:
  assumes "session_inv s" and "attach_end now e c err s = (err', s')"
    and "s_epoch s = e \<Longrightarrow> s_conn s = Some c \<or> s_state s = StateDestroyed"
  shows "session_inv s'"
  using assms attach_end_fields [OF assms(2)] by (auto simp: session_inv_def split: if_splits)

lemmas step_fields =
  attach_begin_fields attach_end_fields take_snapshot_fields destroy_begin_fields pump_ring_fields

lemma owner_conn:
  "owner_inv y \<Longrightarrow> phase_epoch (y_phase y c) = Some e \<Longrightarrow>
     e \<le> s_epoch (y_sess y) \<and> (e = s_epoch (y_sess y) \<longleftrightarrow> s_conn (y_sess y) = Some c)"
  by (auto simp: owner_inv_def)

lemma owner_no_conn:
  "owner_inv y \<Longrightarrow> phase_epoch (y_phase y c) = None \<Longrightarrow> s_conn (y_sess y) \<noteq> Some c"
  by (auto simp: owner_inv_def)

lemma session_inv_step:
  "sys_step y y' \<Longrightarrow> session_inv (y_sess y) \<Longrightarrow> owner_inv y \<Longrightarrow> session_inv (y_sess y')"
proof (induction rule: sys_step.induct)
  case (finish y c e now err err' s')
  have "s_epoch (y_sess y) = e \<Longrightarrow> s_conn (y_sess y) = Some c"
    using owner_conn [OF finish.prems(2) finish.hyps(1)] by auto
  with attach_end_inv [OF finish.prems(1) finish.hyps(2)] show ?case by simp
qed (auto intro: inv_intros)

lemma owner_inv_step:
  "sys_step y y' \<Longrightarrow> session_inv (y_sess y) \<Longrightarrow> owner_inv y \<Longrightarrow> owner_inv y'"
proof (induction rule: sys_step.induct)
  case (attach y c now e old s')
  then show ?case
    using attach_begin_fields [OF attach.hyps(2)]
    by (auto simp: owner_inv_def) (force)+
next
  case (attach_refused y c now err)
  then show ?case
    by (auto simp: owner_inv_def)
next
  case (snapshot y c e b s')
  then show ?case
    using take_snapshot_fields [OF snapshot.hyps(2)] owner_conn [OF snapshot.prems(2), of c e]
    by (auto simp: owner_inv_def)
next
  case (replay y c e k a)
  then show ?case
    using owner_conn [OF replay.prems(2), of c e]
    by (auto simp: owner_inv_def)
next
  case (finish y c e now err err' s')
  then show ?case
    using attach_end_fields [OF finish.hyps(2)] owner_conn [OF finish.prems(2) finish.hyps(1)]
    by (auto simp: owner_inv_def session_inv_def split: if_splits; blast)
next
  case (destroy y c s')
  then show ?case
    using destroy_begin_fields [OF destroy.hyps]
    by (auto simp: owner_inv_def intro: le_SucI) (metis Suc_n_not_le_n)
next
  case (pump y chunk d s')
  then show ?case
    using pump_ring_fields [OF pump.hyps(3)] pump_ring_receiver [OF pump.prems(1), of chunk]
    by (auto simp: owner_inv_def)
next
  case (deliver y c a b)
  then show ?case
    by (auto simp: owner_inv_def)
next
  case (deliver_fail y c a b)
  then show ?case
    by (auto simp: owner_inv_def)
qed

lemma live_contig_replayed [simp]:
  "live_contig a (xs @ Replayed b c # ys) = live_contig a (xs @ ys)"
  by (simp add: live_contig_append split: option.split)

lemma pend_of_upd [simp]:
  "pend_of (y\<lparr>y_sess := s\<rparr>) = pend_of y"
  "pend_of (y\<lparr>y_phase := p\<rparr>) = pend_of y"
  "pend_of (y\<lparr>y_base := b\<rparr>) = pend_of y"
  "pend_of (y\<lparr>y_sent := t\<rparr>) = pend_of y"
  by (simp_all add: pend_of_def fun_eq_iff)

lemma stream_inv_conn:
  "stream_inv y \<Longrightarrow> c \<notin> y_broken y \<Longrightarrow> s_conn (y_sess y) = Some c \<Longrightarrow>
     live_contig (y_base y c) (y_sent y c @ pend_of y c) = Some (s_total (y_sess y))"
  by (simp add: stream_inv_def)

lemma stream_inv_step:
  "sys_step y y' \<Longrightarrow> session_inv (y_sess y) \<Longrightarrow> owner_inv y \<Longrightarrow> stream_inv y \<Longrightarrow> stream_inv y'"
proof (induction rule: sys_step.induct)
  case (attach y c now e old s')
  have "y_sent y c = []" "pend_of y c = []"
    using attach.hyps(1) attach.prems(2)
    by (auto simp: owner_inv_def pend_of_def split: option.splits)
  then show ?case
    using attach.prems(3) attach_begin_fields [OF attach.hyps(2)]
    by (auto simp: stream_inv_def)
next
  case (attach_refused y c now err)
  then show ?case
    by (auto simp: stream_inv_def split: if_splits)
next
  case (snapshot y c e b s')
  then show ?case
    using take_snapshot_fields [OF snapshot.hyps(2)]
    by (auto simp: stream_inv_def split: if_splits)
next
  case (replay y c e k a)
  then show ?case
    by (auto simp: stream_inv_def)
next
  case (finish y c e now err err' s')
  then show ?case
    using attach_end_fields [OF finish.hyps(2)]
    by (auto simp: stream_inv_def split: if_splits)
next
  case (destroy y c s')
  then show ?case
    using destroy_begin_fields [OF destroy.hyps]
    by (auto simp: stream_inv_def)
next
  case (pump y chunk d s')
  have "d = s_conn (y_sess y)"
    using pump.hyps(3) pump_ring_receiver [OF pump.prems(1), of chunk] by simp
  then show ?case
    using pump pump_ring_fields [OF pump.hyps(3)]
    by (auto simp: stream_inv_def pend_of_def live_contig_append trans_le_add1)
next
  case (deliver y c a b)
  then show ?case
    by (auto simp: stream_inv_def pend_of_def)
next
  case (deliver_fail y c a b)
  then show ?case
    by (auto simp: stream_inv_def pend_of_def)
qed

lemma sys_init_inv:
  "session_inv s \<Longrightarrow> s_conn s = None \<Longrightarrow> sys_inv (sys_init s)"
  by (simp add: sys_inv_def sys_init_def owner_inv_def stream_inv_def)

lemma sys_reach_inv:
  "sys_reach s0 y \<Longrightarrow> session_inv s0 \<Longrightarrow> s_conn s0 = None \<Longrightarrow> sys_inv y"
proof (induction rule: sys_reach.induct)
  case init
  then show ?case by (rule sys_init_inv)
next
  case (step y y')
  then show ?case
    using session_inv_step owner_inv_step stream_inv_step unfolding sys_inv_def by blast
qed

section \<open>Properties of every reachable state\<close>

abbreviation reach_new :: "string \<Rightarrow> connect_spec \<Rightarrow> 'm option \<Rightarrow> bool \<Rightarrow> int \<Rightarrow> 'm sys \<Rightarrow> bool" where
  "reach_new sid spec m aq now y \<equiv> sys_reach (new_session sid spec m aq now) y"

lemma reach_new_inv: "reach_new sid spec m aq now y \<Longrightarrow> sys_inv y"
  by (rule sys_reach_inv) (assumption, rule new_session_inv, simp add: new_session_def)

text \<open>A concrete run: one client attaches, output arrives before and after its snapshot.\<close>

definition demo_spec :: connect_spec where
  "demo_spec = \<lparr>cs_hostID = ''h'', cs_name = ''n'', cs_addr = ''a'', cs_user = ''u''\<rparr>"

definition demo_session :: "unit session" where
  "demo_session = new_session ''s'' demo_spec None True 0"

definition demo_attached :: "unit session" where
  "demo_attached = demo_session\<lparr>s_epoch := 1, s_conn := Some 7, s_state := StateRunning, s_touched := 1\<rparr>"

definition demo_pumped :: "unit session" where
  "demo_pumped = demo_attached\<lparr>s_total := 2, s_out := ring_write [1, 2] (newRing outputRingCapacity)\<rparr>"

definition demo_y0 :: "unit sys" where "demo_y0 = sys_init demo_session"
definition demo_y1 :: "unit sys" where
  "demo_y1 = demo_y0\<lparr>y_sess := demo_attached, y_phase := (\<lambda>_. Fresh)(7 := Owning 1),
                     y_base := (\<lambda>_. 0)(7 := 0)\<rparr>"
definition demo_y2 :: "unit sys" where
  "demo_y2 = demo_y1\<lparr>y_sess := demo_pumped, y_pending := Some (7, 0, 2)\<rparr>"
definition demo_y3 :: "unit sys" where
  "demo_y3 = demo_y2\<lparr>y_sent := (\<lambda>_. [])(7 := [Live 0 2]), y_pending := None\<rparr>"
definition demo_y4 :: "unit sys" where
  "demo_y4 = demo_y3\<lparr>y_sess := demo_pumped\<lparr>s_replaySeq := 2\<rparr>, y_phase := (\<lambda>_. Fresh)(7 := Snapped 1 2)\<rparr>"
definition demo_y5 :: "unit sys" where
  "demo_y5 = demo_y4\<lparr>y_phase := (\<lambda>_. Fresh)(7 := Relaying 1 2),
                     y_sent := (\<lambda>_. [])(7 := [Live 0 2, Replayed 0 2])\<rparr>"

lemmas demo_defs = demo_y0_def demo_y1_def demo_y2_def demo_y3_def demo_y4_def demo_y5_def
  demo_session_def demo_attached_def demo_pumped_def sys_init_def new_session_def newRing_def

lemma demo_y1: "sys_reach demo_session demo_y1"
proof (rule sys_reach.step [OF sys_reach.init])
  have "attach_begin 1 7 (y_sess demo_y0) = Inr (1, None, demo_attached)"
    by (simp add: attach_begin_def demo_defs)
  from sys_step.attach [of demo_y0 7, OF _ this] show "sys_step (sys_init demo_session) demo_y1"
    by (simp add: demo_defs)
qed

lemma demo_y2: "sys_reach demo_session demo_y2"
proof (rule sys_reach.step [OF demo_y1])
  have "pump_ring [1, 2] (y_sess demo_y1) = (Some 7, demo_pumped)"
    by (simp add: pump_ring_def demo_defs)
  from sys_step.pump [OF _ _ this] show "sys_step demo_y1 demo_y2"
    by (simp add: demo_defs)
qed

lemma demo_y3: "sys_reach demo_session demo_y3"
proof (rule sys_reach.step [OF demo_y2])
  show "sys_step demo_y2 demo_y3"
    using sys_step.deliver [of demo_y2 7 0 2] by (simp add: demo_defs)
qed

lemma demo_y4: "sys_reach demo_session demo_y4"
proof (rule sys_reach.step [OF demo_y3])
  have "take_snapshot (y_sess demo_y3) = (ring_bytes (s_out demo_pumped), demo_pumped\<lparr>s_replaySeq := 2\<rparr>)"
    by (simp add: take_snapshot_def demo_defs)
  from sys_step.snapshot [of demo_y3 7 1, OF _ this] show "sys_step demo_y3 demo_y4"
    by (simp add: demo_defs)
qed

lemma demo_y5: "sys_reach demo_session demo_y5"
proof (rule sys_reach.step [OF demo_y4])
  show "sys_step demo_y4 demo_y5"
    using sys_step.replay [of demo_y4 7 1 2 0] by (simp add: demo_defs)
qed

text \<open>
  Property C3.  In every reachable state the session is running exactly when some attach owns
  it: its connection is the one of the attach that holds the current epoch, every other attach in
  progress holds an older epoch, and an idle or destroyed session has no connection.
\<close>

theorem session_single_owner:
  assumes "reach_new sid spec m aq now y"
  shows "(s_state (y_sess y) = StateRunning \<longleftrightarrow> s_conn (y_sess y) \<noteq> None)
     \<and> (\<forall>c. s_conn (y_sess y) = Some c \<longleftrightarrow> phase_epoch (y_phase y c) = Some (s_epoch (y_sess y)))
     \<and> (\<forall>c e. phase_epoch (y_phase y c) = Some e \<longrightarrow> e \<le> s_epoch (y_sess y))"
proof -
  have o: "owner_inv y" and s: "session_inv (y_sess y)"
    using reach_new_inv [OF assms] by (simp_all add: sys_inv_def)
  have "s_conn (y_sess y) = Some c \<longleftrightarrow> phase_epoch (y_phase y c) = Some (s_epoch (y_sess y))" for c
    using o by (cases "phase_epoch (y_phase y c)") (auto simp: owner_inv_def)
  then show ?thesis using o s by (auto simp: session_inv_def owner_inv_def)
qed

theorem session_single_owner_witness:
  "(s_state (y_sess demo_y5) = StateRunning \<longleftrightarrow> s_conn (y_sess demo_y5) \<noteq> None)
   \<and> (\<forall>c. s_conn (y_sess demo_y5) = Some c
        \<longleftrightarrow> phase_epoch (y_phase demo_y5 c) = Some (s_epoch (y_sess demo_y5)))"
  using session_single_owner [of "''s''" demo_spec None True 0 demo_y5] demo_y5
  by (simp add: demo_session_def)

text \<open>
  Property C4.  A client that was taken over cannot disturb its successor: when its attach ends,
  whatever its bridge returned, it reports the preemption and leaves the whole session as it was
  (the time of the last touch apart).
\<close>

theorem preempted_attach_harmless:
  assumes "reach_new sid spec m aq now y"
    and "s_conn (y_sess y) = Some c" and "phase_epoch (y_phase y d) = Some e" and "d \<noteq> c"
  shows "attach_end t e d err (y_sess y) = (Some ErrSessionPreempted, (y_sess y)\<lparr>s_touched := t\<rparr>)"
proof -
  have "owner_inv y" and s: "session_inv (y_sess y)"
    using reach_new_inv [OF assms(1)] by (simp_all add: sys_inv_def)
  then have "e \<noteq> s_epoch (y_sess y)"
    using owner_conn [of y d e] assms by auto
  moreover have "s_state (y_sess y) = StateRunning"
    using s assms(2) by (simp add: session_inv_def)
  ultimately show ?thesis by (simp add: attach_end_def)
qed

definition demo_taken :: "unit session" where
  "demo_taken = demo_pumped\<lparr>s_replaySeq := 2, s_epoch := 2, s_conn := Some 9, s_touched := 4\<rparr>"

definition demo_y6 :: "unit sys" where
  "demo_y6 = demo_y5\<lparr>y_sess := demo_taken, y_phase := (\<lambda>_. Fresh)(7 := Relaying 1 2, 9 := Owning 2),
                     y_base := (\<lambda>_. 0)(7 := 0, 9 := 2)\<rparr>"

lemma demo_y6: "sys_reach demo_session demo_y6"
proof (rule sys_reach.step [OF demo_y5])
  have "attach_begin 4 9 (y_sess demo_y5) = Inr (2, Some 7, demo_taken)"
    by (simp add: attach_begin_def demo_defs demo_taken_def)
  from sys_step.attach [of demo_y5 9, OF _ this] show "sys_step demo_y5 demo_y6"
    by (simp add: demo_defs demo_y6_def demo_taken_def)
qed

theorem preempted_attach_harmless_witness:
  "attach_end 5 1 7 None demo_taken = (Some ErrSessionPreempted, demo_taken\<lparr>s_touched := 5\<rparr>)"
  using preempted_attach_harmless [of "''s''" demo_spec None True 0 demo_y6 9 7 1 5 None] demo_y6
  by (simp add: demo_session_def demo_y6_def demo_taken_def)

definition live_count :: "nat \<Rightarrow> segment list \<Rightarrow> nat" where
  "live_count p xs =
     length (filter (\<lambda>sg. case sg of Live a b \<Rightarrow> a \<le> p \<and> p < b | Replayed a b \<Rightarrow> False) xs)"

lemma live_contig_count:
  "live_contig a xs = Some b \<Longrightarrow> a \<le> b \<and> live_count p xs = (if a \<le> p \<and> p < b then 1 else 0)"
  by (induction a xs rule: live_contig.induct) (auto simp: live_count_def split: if_splits)

text \<open>
  Property C2.  Nothing is lost and nothing is sent twice on the live path: for the attached
  client, every byte of the output stream since it became the connection lies in exactly one live
  segment, already written to it or chosen for it by the pump, as long as no write to it failed.
\<close>

theorem live_output_exactly_once:
  assumes "reach_new sid spec m aq now y"
    and "s_conn (y_sess y) = Some c" and "c \<notin> y_broken y"
    and "y_base y c \<le> p" and "p < s_total (y_sess y)"
  shows "live_count p (y_sent y c @ pend_of y c) = 1"
proof -
  have "stream_inv y" using reach_new_inv [OF assms(1)] by (simp add: sys_inv_def)
  from live_contig_count [OF stream_inv_conn [OF this assms(3) assms(2)], of p]
  show ?thesis using assms by simp
qed

theorem live_output_exactly_once_witness:
  "live_count 1 (y_sent demo_y5 7 @ pend_of demo_y5 7) = 1"
  using live_output_exactly_once [of "''s''" demo_spec None True 0 demo_y5 7 1] demo_y5
  by (simp add: demo_session_def demo_defs)

text \<open>
  Property C5.  The replay boundary has no effect on the pump: in every reachable state the test
  against \<open>replaySeq\<close> succeeds and the chunk goes to the current connection, although that
  connection may not have taken its snapshot yet, or may be about to replay the same bytes.
\<close>

theorem pump_never_skips_replayed:
  assumes "reach_new sid spec m aq now y"
  shows "fst (pump_ring chunk (y_sess y)) = s_conn (y_sess y)"
  using reach_new_inv [OF assms] pump_ring_receiver by (auto simp: sys_inv_def)

theorem pump_never_skips_replayed_witness:
  "fst (pump_ring [3] (y_sess demo_y4)) = Some 7"
  using pump_never_skips_replayed [of "''s''" demo_spec None True 0 demo_y4 "[3]"] demo_y4
  by (simp add: demo_session_def demo_defs)

text \<open>
  Consequently a client can get the same output twice: there is a run of one
  attach and one chunk in which the chunk is delivered live (the connection is already the
  session's, the snapshot is not taken yet) and then replayed from the snapshot.
\<close>

lemma attach_window_duplicates:
  "\<exists>y. sys_reach demo_session y \<and> y_sent y 7 = [Live 0 2, Replayed 0 2]
       \<and> s_total (y_sess y) = 2 \<and> y_phase y 7 = Relaying 1 2"
  by (intro exI [of _ demo_y5] conjI demo_y5) (simp_all add: demo_defs)

end
