(* ===== verification/Files.thy ===== *)
theory Files
  imports Utils
begin

text \<open>
  Files rewritten atomically.  Four components persist their state the same way (create the
  directory, write \<open>path.tmp\<close>, rename it over \<open>path\<close>).  \<open>save_atomic\<close> is that code, with the
  sequence of disk states it goes through, so that a crash is a prefix of the sequence; the locale
  \<open>atomic_persist\<close> states what the callers rely on and derives what a reader finds after any
  number of saves, failures and a crash.  The operating system's answers are a parameter.
\<close>

type_synonym disk = "string \<Rightarrow> string option"

text \<open>
  What the system answers during one save: whether the directory exists or could be created, the
  contents the temporary file passes through while it is written (a crash or an error leaves one
  of them), and whether the write and the rename succeed.
\<close>

record os_env =
  oe_mkdir :: bool
  oe_partial :: "string list"
  oe_write :: bool
  oe_rename :: bool

datatype file_error = MkdirFailed | WriteFailed | RenameFailed | ReadFailed' | ParseFailed | MarshalFailed

definition tmp_path :: "string \<Rightarrow> string" where
  "tmp_path path = path @ ''.tmp''"

definition save_atomic ::
  "os_env \<Rightarrow> string \<Rightarrow> string \<Rightarrow> disk \<Rightarrow> file_error option \<times> disk list" where
  "save_atomic e path data d =
     (if \<not> oe_mkdir e then (Some MkdirFailed, [d])
      else
        let mids = map (\<lambda>p. d(tmp_path path \<mapsto> p)) (oe_partial e)
        in if \<not> oe_write e then (Some WriteFailed, d # mids)
           else
             let d1 = d(tmp_path path \<mapsto> data)
             in if \<not> oe_rename e then (Some RenameFailed, d # mids @ [d1])
                else (None, d # mids @ [d1, (d1(tmp_path path := None))(path \<mapsto> data)]))"

definition os_ok :: os_env where
  "os_ok = \<lparr>oe_mkdir = True, oe_partial = [], oe_write = True, oe_rename = True\<rparr>"

lemma tmp_path_neq [simp]: "tmp_path path \<noteq> path" "path \<noteq> tmp_path path"
  by (simp_all add: tmp_path_def)

section \<open>The contract\<close>

text \<open>
  \<open>save e s d\<close> persists the state \<open>s\<close> on the disk \<open>d\<close> and returns its error and the disk states
  it went through, the first of them \<open>d\<close>.
\<close>

text \<open>A run of saves: the disk states of all of them, in order.\<close>

fun save_trace ::
  "(os_env \<Rightarrow> 's \<Rightarrow> disk \<Rightarrow> file_error option \<times> disk list) \<Rightarrow> (os_env \<times> 's) list \<Rightarrow> disk \<Rightarrow> disk list"
where
  "save_trace save [] d = [d]"
| "save_trace save ((e, s) # ss) d = snd (save e s d) @ save_trace save ss (last (snd (save e s d)))"

locale atomic_persist =
  fixes save :: "os_env \<Rightarrow> 's \<Rightarrow> disk \<Rightarrow> file_error option \<times> disk list"
    and target :: "'s \<Rightarrow> string"
    and render :: "'s \<Rightarrow> string"
    and persistent :: "'s \<Rightarrow> bool"
  assumes trace_start: "\<exists>ds. snd (save e s d) = d # ds"
    and trace_atomic: "d' \<in> set (snd (save e s d)) \<Longrightarrow>
          d' (target s) = d (target s) \<or> d' (target s) = Some (render s)"
    and save_ok: "persistent s \<Longrightarrow> fst (save e s d) = None \<Longrightarrow>
          last (snd (save e s d)) (target s) = Some (render s)"
    and save_err: "fst (save e s d) \<noteq> None \<Longrightarrow> last (snd (save e s d)) (target s) = d (target s)"
    and trace_frame: "d' \<in> set (snd (save e s d)) \<Longrightarrow> q \<noteq> target s \<Longrightarrow> q \<noteq> tmp_path (target s) \<Longrightarrow>
          d' q = d q"
begin

lemma save_last: "last (snd (save e s d)) \<in> set (snd (save e s d))"
  using trace_start [of e s d] by (metis last_in_set list.distinct(1))

text \<open>Wherever the run stops, the file holds its first content or one complete state.\<close>

lemma save_trace_content:
  assumes "d' \<in> set (save_trace save ss d)" and "list_all (\<lambda>(e, s). target s = f) ss"
  shows "d' f = d f \<or> (\<exists>(e, s) \<in> set ss. d' f = Some (render s))"
  using assms
proof (induction ss arbitrary: d)
  case Nil
  then show ?case by simp
next
  case (Cons es ss)
  obtain e s where es: "es = (e, s)" by fastforce
  with Cons.prems have f: "target s = f" and fs: "list_all (\<lambda>(e, s). target s = f) ss" by auto
  from Cons.prems es consider "d' \<in> set (snd (save e s d))"
    | "d' \<in> set (save_trace save ss (last (snd (save e s d))))" by auto
  then show ?case
  proof cases
    case 1
    with trace_atomic [OF 1] f es show ?thesis by auto
  next
    case 2
    from Cons.IH [OF 2 fs] trace_atomic [OF save_last [of e s d]] f es show ?thesis by auto
  qed
qed

lemma save_trace_frame:
  assumes "d' \<in> set (save_trace save ss d)" and "list_all (\<lambda>(e, s). target s = f) ss"
    and "q \<noteq> f" and "q \<noteq> tmp_path f"
  shows "d' q = d q"
  using assms
proof (induction ss arbitrary: d)
  case Nil
  then show ?case by simp
next
  case (Cons es ss)
  obtain e s where es: "es = (e, s)" by fastforce
  with Cons.prems have f: "target s = f" and fs: "list_all (\<lambda>(e, s). target s = f) ss" by auto
  from Cons.prems es consider "d' \<in> set (snd (save e s d))"
    | "d' \<in> set (save_trace save ss (last (snd (save e s d))))" by auto
  then show ?case
  proof cases
    case 1
    with trace_frame [OF 1, of q] f Cons.prems show ?thesis by simp
  next
    case 2
    from Cons.IH [OF 2 fs Cons.prems(3,4)] trace_frame [OF save_last [of e s d], of q] f Cons.prems
    show ?thesis by simp
  qed
qed

end

lemma save_atomic_start: "\<exists>ds. snd (save_atomic e path data d) = d # ds"
  by (simp add: save_atomic_def Let_def)

lemma save_atomic_atomic:
  "d' \<in> set (snd (save_atomic e path data d)) \<Longrightarrow> d' path = d path \<or> d' path = Some data"
  by (auto simp: save_atomic_def Let_def split: if_splits)

lemma save_atomic_ok:
  "fst (save_atomic e path data d) = None \<Longrightarrow> last (snd (save_atomic e path data d)) path = Some data"
  by (auto simp: save_atomic_def Let_def split: if_splits)

lemma save_atomic_err:
  "fst (save_atomic e path data d) \<noteq> None \<Longrightarrow> last (snd (save_atomic e path data d)) path = d path"
  by (auto simp: save_atomic_def Let_def last_map split: if_splits)

lemma save_atomic_frame:
  "d' \<in> set (snd (save_atomic e path data d)) \<Longrightarrow> q \<noteq> path \<Longrightarrow> q \<noteq> tmp_path path \<Longrightarrow> d' q = d q"
  by (auto simp: save_atomic_def Let_def split: if_splits)

lemma save_atomic_last: "last (snd (save_atomic e path data d)) \<in> set (snd (save_atomic e path data d))"
  by (metis last_in_set list.distinct(1) save_atomic_start)

lemmas save_atomic_laws =
  save_atomic_start save_atomic_atomic save_atomic_ok save_atomic_err save_atomic_frame

text \<open>A save with an empty path does nothing (a store kept in memory only).\<close>

definition save_at :: "os_env \<Rightarrow> string \<Rightarrow> string \<Rightarrow> disk \<Rightarrow> file_error option \<times> disk list" where
  "save_at e path data d = (if path = '''' then (None, [d]) else save_atomic e path data d)"

lemma save_at_laws:
  "\<exists>ds. snd (save_at e path data d) = d # ds"
  "d' \<in> set (snd (save_at e path data d)) \<Longrightarrow> d' path = d path \<or> d' path = Some data"
  "path \<noteq> '''' \<Longrightarrow> fst (save_at e path data d) = None \<Longrightarrow>
     last (snd (save_at e path data d)) path = Some data"
  "fst (save_at e path data d) \<noteq> None \<Longrightarrow> last (snd (save_at e path data d)) path = d path"
  "d' \<in> set (snd (save_at e path data d)) \<Longrightarrow> q \<noteq> path \<Longrightarrow> q \<noteq> tmp_path path \<Longrightarrow> d' q = d q"
  using save_atomic_start save_atomic_atomic save_atomic_ok save_atomic_err save_atomic_frame
  by (simp_all add: save_at_def split: if_splits)

end
