(* ===== verification/Store.thy ===== *)
theory Store
  imports Session Files
begin

text \<open>
  \<open>internal/session/store.go\<close>: the record of every session, in memory (\<open>MemoryStore\<close>) or in a
  JSON file rewritten on every change (\<open>FileStore\<close>), with the migration of the old file format.
  What the session manager relies on is the locale \<open>session_store\<close>, interpreted on both stores;
  what a reader of the file finds is \<open>atomic_persist\<close>, interpreted on \<open>persist\<close>.
\<close>

section \<open>Records\<close>

record metadata =
  md_id :: string
  md_spec :: connect_spec
  md_title :: string
  md_state :: string
  md_created :: int
  md_runCount :: int

type_synonym items = "(string \<times> metadata) list"

definition zero_spec :: connect_spec where
  "zero_spec = \<lparr>cs_hostID = '''', cs_name = '''', cs_addr = '''', cs_user = ''''\<rparr>"

definition zero_metadata :: metadata where
  "zero_metadata = \<lparr>md_id = '''', md_spec = zero_spec, md_title = '''', md_state = '''',
                    md_created = 0, md_runCount = 0\<rparr>"

section \<open>The memory store\<close>

record memory_store =
  ms_items :: items

definition newMemoryStore :: memory_store where
  "newMemoryStore = \<lparr>ms_items = []\<rparr>"

definition mem_record :: "metadata \<Rightarrow> memory_store \<Rightarrow> file_error option \<times> memory_store" where
  "mem_record m s = (None, s\<lparr>ms_items := map_put (md_id m) m (ms_items s)\<rparr>)"

definition mem_forget :: "string \<Rightarrow> memory_store \<Rightarrow> file_error option \<times> memory_store" where
  "mem_forget i s = (None, s\<lparr>ms_items := map_delete i (ms_items s)\<rparr>)"

definition mem_get :: "memory_store \<Rightarrow> string \<Rightarrow> metadata option" where
  "mem_get s i = map_of (ms_items s) i"

definition mem_all :: "memory_store \<Rightarrow> metadata list" where
  "mem_all s = map snd (ms_items s)"

section \<open>The file store\<close>

text \<open>The JSON shapes: what \<open>json.Marshal\<close> writes for a payload and how it is read back.\<close>

definition omit_empty :: "string \<Rightarrow> string \<Rightarrow> (string \<times> json) list" where
  "omit_empty k v = (if v = '''' then [] else [(k, JStr v)])"

definition spec_json :: "connect_spec \<Rightarrow> json" where
  "spec_json s = JObj ([(''host_id'', JStr (cs_hostID s)), (''name'', JStr (cs_name s))]
                       @ omit_empty ''addr'' (cs_addr s) @ omit_empty ''user'' (cs_user s))"

definition metadata_json :: "metadata \<Rightarrow> json" where
  "metadata_json m =
     JObj ([(''id'', JStr (md_id m)), (''spec'', spec_json (md_spec m))]
           @ omit_empty ''title'' (md_title m)
           @ [(''state'', JStr (md_state m)), (''created_at'', JNum (md_created m)),
              (''run_count'', JNum (md_runCount m))])"

definition store_json :: "items \<Rightarrow> json" where
  "store_json its = JObj [(''sessions'', JObj (map (\<lambda>(k, m). (k, metadata_json m)) its))]"

definition spec_fields :: "(string \<times> connect_spec field_decoder) list" where
  "spec_fields = [(''host_id'', f_str cs_hostID_update), (''name'', f_str cs_name_update),
                  (''addr'', f_str cs_addr_update), (''user'', f_str cs_user_update)]"

definition metadata_fields :: "(string \<times> metadata field_decoder) list" where
  "metadata_fields =
     [(''id'', f_str md_id_update), (''spec'', f_struct spec_fields md_spec md_spec_update),
      (''title'', f_str md_title_update), (''state'', f_str md_state_update),
      (''created_at'', f_int md_created_update), (''run_count'', f_int md_runCount_update)]"

record file_store_payload =
  fp_sessions :: items

definition decode_store :: "json \<Rightarrow> items option" where
  "decode_store j =
     map_option fp_sessions
       (decode_struct
          [(''sessions'', f_map (decode_struct metadata_fields) zero_metadata fp_sessions fp_sessions_update)]
          j \<lparr>fp_sessions = []\<rparr>)"

record legacy_metadata =
  lm_id :: string
  lm_command :: string
  lm_args :: "string list"
  lm_title :: string
  lm_state :: string
  lm_created :: int
  lm_runCount :: int

definition zero_legacy :: legacy_metadata where
  "zero_legacy = \<lparr>lm_id = '''', lm_command = '''', lm_args = [], lm_title = '''', lm_state = '''',
                  lm_created = 0, lm_runCount = 0\<rparr>"

definition legacy_fields :: "(string \<times> legacy_metadata field_decoder) list" where
  "legacy_fields =
     [(''id'', f_str lm_id_update), (''command'', f_str lm_command_update),
      (''args'', f_strs lm_args_update), (''title'', f_str lm_title_update),
      (''state'', f_str lm_state_update), (''created_at'', f_int lm_created_update),
      (''run_count'', f_int lm_runCount_update)]"

record legacy_payload =
  lp_sessions :: "legacy_metadata list"

definition decode_legacy :: "json \<Rightarrow> legacy_metadata list option" where
  "decode_legacy j =
     map_option lp_sessions
       (decode_struct
          [(''sessions'', f_list (decode_struct legacy_fields) zero_legacy lp_sessions_update)]
          j \<lparr>lp_sessions = []\<rparr>)"

definition migrate_legacy :: "legacy_metadata \<Rightarrow> metadata" where
  "migrate_legacy l =
     \<lparr>md_id = lm_id l, md_spec = zero_spec\<lparr>cs_name := lm_command l\<rparr>, md_title = lm_title l,
      md_state = lm_state l, md_created = lm_created l, md_runCount = lm_runCount l\<rparr>"

record file_store =
  fst_path :: string
  fst_items :: items

type_synonym marshal = "json \<Rightarrow> string"

definition fst_render :: "marshal \<Rightarrow> file_store \<Rightarrow> string" where
  "fst_render marshal s = marshal (store_json (fst_items s))"

definition fst_persist ::
  "marshal \<Rightarrow> os_env \<Rightarrow> file_store \<Rightarrow> disk \<Rightarrow> file_error option \<times> disk list" where
  "fst_persist marshal e s d = save_atomic e (fst_path s) (fst_render marshal s) d"

text \<open>A store together with the disk it writes to.\<close>

type_synonym stored = "file_store \<times> disk"

definition fst_commit ::
  "marshal \<Rightarrow> os_env \<Rightarrow> file_store \<Rightarrow> disk \<Rightarrow> file_error option \<times> stored" where
  "fst_commit marshal e s d = (case fst_persist marshal e s d of (r, ds) \<Rightarrow> (r, (s, last ds)))"

definition fst_record ::
  "marshal \<Rightarrow> os_env \<Rightarrow> metadata \<Rightarrow> stored \<Rightarrow> file_error option \<times> stored" where
  "fst_record marshal e m st =
     (case st of (s, d) \<Rightarrow>
        fst_commit marshal e (s\<lparr>fst_items := map_put (md_id m) m (fst_items s)\<rparr>) d)"

definition fst_forget ::
  "marshal \<Rightarrow> os_env \<Rightarrow> string \<Rightarrow> stored \<Rightarrow> file_error option \<times> stored" where
  "fst_forget marshal e i st =
     (case st of (s, d) \<Rightarrow> fst_commit marshal e (s\<lparr>fst_items := map_delete i (fst_items s)\<rparr>) d)"

definition fst_get :: "stored \<Rightarrow> string \<Rightarrow> metadata option" where
  "fst_get st i = map_of (fst_items (fst st)) i"

definition fst_all :: "stored \<Rightarrow> metadata list" where
  "fst_all st = map snd (fst_items (fst st))"

text \<open>
  \<open>NewFileStore\<close>.  \<open>readable\<close> says whether an existing file can be read.  The map format is tried
  first, then the array format, which is rewritten at once.
\<close>

definition newFileStore ::
  "json_parser \<Rightarrow> marshal \<Rightarrow> os_env \<Rightarrow> bool \<Rightarrow> string \<Rightarrow> disk \<Rightarrow> file_error + stored" where
  "newFileStore unmarshal marshal e readable path d =
     (case d path of
        None \<Rightarrow> Inr (\<lparr>fst_path = path, fst_items = []\<rparr>, d)
      | Some data \<Rightarrow>
          if \<not> readable then Inl ReadFailed'
          else (case unmarshal data of
                  None \<Rightarrow> Inl ParseFailed
                | Some j \<Rightarrow>
                    (case decode_store j of
                       Some its \<Rightarrow>
                         Inr (\<lparr>fst_path = path, fst_items = fold (\<lambda>(k, m). map_put k m) its []\<rparr>, d)
                     | None \<Rightarrow>
                         (case decode_legacy j of
                            None \<Rightarrow> Inl ParseFailed
                          | Some ls \<Rightarrow>
                              (let its = fold (\<lambda>l. map_put (lm_id l) (migrate_legacy l)) ls []
                               in case fst_commit marshal e \<lparr>fst_path = path, fst_items = its\<rparr> d of
                                    (Some err, _) \<Rightarrow> Inl err
                                  | (None, st) \<Rightarrow> Inr st)))))"

section \<open>What the manager relies on\<close>

record 's store_ops =
  so_record :: "metadata \<Rightarrow> 's \<Rightarrow> file_error option \<times> 's"
  so_forget :: "string \<Rightarrow> 's \<Rightarrow> file_error option \<times> 's"
  so_get :: "'s \<Rightarrow> string \<Rightarrow> metadata option"
  so_all :: "'s \<Rightarrow> metadata list"

definition memory_ops :: "memory_store store_ops" where
  "memory_ops = \<lparr>so_record = mem_record, so_forget = mem_forget, so_get = mem_get, so_all = mem_all\<rparr>"

definition file_ops :: "marshal \<Rightarrow> os_env \<Rightarrow> stored store_ops" where
  "file_ops marshal e = \<lparr>so_record = fst_record marshal e, so_forget = fst_forget marshal e,
                        so_get = fst_get, so_all = fst_all\<rparr>"

text \<open>A change of the store, a record or an id to forget, and its effect on a map.\<close>

fun store_change :: "'s store_ops \<Rightarrow> metadata + string \<Rightarrow> 's \<Rightarrow> 's" where
  "store_change ops (Inl m) s = snd (so_record ops m s)"
| "store_change ops (Inr i) s = snd (so_forget ops i s)"

fun abs_change :: "metadata + string \<Rightarrow> (string \<Rightarrow> metadata option) \<Rightarrow> string \<Rightarrow> metadata option" where
  "abs_change (Inl m) f = f(md_id m \<mapsto> m)"
| "abs_change (Inr i) f = f(i := None)"

text \<open>
  A store is a map from ids to records: \<open>Record\<close> and \<open>Forget\<close> update it whatever error they
  report, and \<open>All\<close> lists its values.  \<open>ok\<close> is the store's invariant.
\<close>

locale session_store =
  fixes ops :: "'s store_ops" and ok :: "'s \<Rightarrow> bool"
  assumes ok_record: "ok s \<Longrightarrow> ok (snd (so_record ops m s))"
    and ok_forget: "ok s \<Longrightarrow> ok (snd (so_forget ops i s))"
    and get_record: "ok s \<Longrightarrow> so_get ops (snd (so_record ops m s)) = (so_get ops s)(md_id m \<mapsto> m)"
    and get_forget: "ok s \<Longrightarrow> so_get ops (snd (so_forget ops i s)) = (so_get ops s)(i := None)"
    and set_all: "ok s \<Longrightarrow> set (so_all ops s) = ran (so_get ops s)"
begin

lemma ok_change: "ok s \<Longrightarrow> ok (store_change ops c s)"
  by (cases c) (simp_all add: ok_record ok_forget)

lemma get_change: "ok s \<Longrightarrow> so_get ops (store_change ops c s) = abs_change c (so_get ops s)"
  by (cases c) (simp_all add: get_record get_forget)

lemma history_refines:
  "ok s \<Longrightarrow> ok (fold (store_change ops) cs s)
      \<and> so_get ops (fold (store_change ops) cs s) = fold abs_change cs (so_get ops s)"
proof (induction cs arbitrary: s)
  case Nil
  then show ?case by simp
next
  case (Cons c cs)
  from Cons.IH [OF ok_change [OF Cons.prems]] show ?case
    by (simp add: get_change Cons.prems)
qed

end

definition mem_ok :: "memory_store \<Rightarrow> bool" where
  "mem_ok s \<longleftrightarrow> distinct_keys (ms_items s)"

definition fst_ok :: "stored \<Rightarrow> bool" where
  "fst_ok st \<longleftrightarrow> distinct_keys (fst_items (fst st))"

lemma get_eqs: "mem_get s = map_of (ms_items s)" "fst_get st = map_of (fst_items (fst st))"
  by (simp_all add: mem_get_def fst_get_def fun_eq_iff)

lemma values_ran: "distinct_keys m \<Longrightarrow> snd ` set m = ran (map_of m)"
  using set_values [of m] by simp

interpretation mem: session_store memory_ops mem_ok
  by unfold_locales
     (simp_all add: memory_ops_def mem_record_def mem_forget_def mem_all_def mem_ok_def
        values_ran get_eqs)

lemma fst_commit_store [simp]: "fst (snd (fst_commit marshal e s d)) = s"
  by (simp add: fst_commit_def split: prod.split)

interpretation fil: session_store "file_ops marshal e" fst_ok for marshal e
  by unfold_locales
     (simp_all add: file_ops_def fst_record_def fst_forget_def fst_all_def fst_ok_def
        values_ran get_eqs case_prod_beta)

interpretation fst_persist: atomic_persist "fst_persist marshal" fst_path "fst_render marshal" "\<lambda>_. True"
  for marshal
  by unfold_locales
     (use save_atomic_laws in \<open>simp_all add: fst_persist_def\<close>)

section \<open>Reading the file back\<close>

definition metadata_ok :: "metadata \<Rightarrow> bool" where
  "metadata_ok m \<longleftrightarrow> in_int64 (md_created m) \<and> in_int64 (md_runCount m)"

lemma decode_spec: "decode_struct spec_fields (spec_json s) zero_spec = Some s"
  by (cases s) (auto simp: spec_json_def spec_fields_def omit_empty_def json_decoders zero_spec_def)

lemma decode_metadata:
  "metadata_ok m \<Longrightarrow> decode_struct metadata_fields (metadata_json m) zero_metadata = Some m"
  using decode_spec [of "md_spec m"]
  by (cases m)
     (auto simp: metadata_json_def metadata_fields_def omit_empty_def metadata_ok_def
        decode_struct_def [where ?'r = metadata] find_field_def f_int_def f_str_def f_struct_def
        zero_metadata_def)

lemma decode_store_json:
  assumes "distinct_keys its" and "list_all (\<lambda>(k, m). metadata_ok m) its"
  shows "decode_store (store_json its) = Some its"
proof -
  have "decode_map_members (decode_struct metadata_fields) zero_metadata
          (map (\<lambda>(k, v). (k, metadata_json v)) its) [] = Some ([] @ its)"
    using assms by (intro decode_map_members_all) (auto simp: list_all_iff decode_metadata)
  then show ?thesis
    by (simp add: decode_store_def store_json_def decode_struct_def [where ?'r = file_store_payload]
        find_field_def f_map_def)
qed

lemma fold_put_fresh:
  "distinct_keys (acc @ its) \<Longrightarrow> fold (\<lambda>(k, m). map_put k m) its acc = acc @ its"
proof (induction its arbitrary: acc)
  case Nil
  then show ?case by simp
next
  case (Cons kv its)
  obtain k v where kv: "kv = (k, v)" by fastforce
  with Cons.prems have "map_put k v acc = acc @ [(k, v)]"
    by (intro update_fresh) auto
  then show ?case using Cons.IH [of "acc @ [(k, v)]"] Cons.prems kv by simp
qed

text \<open>The items of a store can be read back from its file: the parser inverts the printer on them.\<close>

definition items_readable :: "json_parser \<Rightarrow> marshal \<Rightarrow> items \<Rightarrow> bool" where
  "items_readable unmarshal marshal its \<longleftrightarrow>
     distinct_keys its \<and> list_all (\<lambda>(k, m). metadata_ok m) its
     \<and> unmarshal (marshal (store_json its)) = Some (store_json its)"

lemma newFileStore_reads:
  assumes "items_readable unmarshal marshal (fst_items s)"
    and "d (fst_path s) = Some (fst_render marshal s)"
  shows "newFileStore unmarshal marshal e True (fst_path s) d = Inr (s, d)"
  using assms decode_store_json [of "fst_items s"] fold_put_fresh [of "[]" "fst_items s"]
  by (simp add: newFileStore_def fst_render_def items_readable_def)

section \<open>Properties\<close>

text \<open>
  Property C9.  The file store is a correct implementation of the store: whatever records and
  removals are applied to it, and whichever of its disk writes fail in between, what it answers is
  what the memory store answers after the same changes.
\<close>

theorem file_store_refines_memory:
  "fst_get (fold (\<lambda>(e, c). store_change (file_ops marshal e) c) ecs
              (\<lparr>fst_path = path, fst_items = []\<rparr>, d))
   = mem_get (fold (store_change memory_ops) (map snd ecs) newMemoryStore)"
proof -
  have "fst_ok st \<and> mem_ok s \<and> fst_get st = mem_get s \<Longrightarrow>
     fst_get (fold (\<lambda>(e, c). store_change (file_ops marshal e) c) ecs st)
     = mem_get (fold (store_change memory_ops) (map snd ecs) s)" for st s
  proof (induction ecs arbitrary: st s)
    case Nil
    then show ?case by simp
  next
    case (Cons ec ecs)
    obtain e c where ec: "ec = (e, c)" by fastforce
    have "fst_get (store_change (file_ops marshal e) c st) = mem_get (store_change memory_ops c s)"
      using Cons.prems fil.get_change [of st marshal e c] mem.get_change [of s c]
      by (simp add: file_ops_def memory_ops_def)
    with Cons.prems fil.ok_change [of st marshal e c] mem.ok_change [of s c] show ?case
      by (simp add: ec Cons.IH)
  qed
  then show ?thesis
    by (simp add: fst_ok_def mem_ok_def fst_get_def mem_get_def newMemoryStore_def fun_eq_iff)
qed

text \<open>
  Property C10.  A crash never corrupts the session file: at every disk state of any run of
  saves, successful or failing, the file is untouched or a restart reads from it exactly the
  records of one of the states that were being saved.
\<close>

theorem file_store_crash_safe:
  assumes "d' \<in> set (save_trace (fst_persist marshal) ss d)"
    and "list_all (\<lambda>(e, s). fst_path s = f) ss"
    and "list_all (\<lambda>(e, s). items_readable unmarshal marshal (fst_items s)) ss"
  shows "d' f = d f
         \<or> list_ex (\<lambda>(e, s). newFileStore unmarshal marshal e' True f d' = Inr (s, d')) ss"
proof (cases "d' f = d f")
  case False
  with fst_persist.save_trace_content [OF assms(1,2)] obtain e s
    where s: "(e, s) \<in> set ss" "d' f = Some (fst_render marshal s)" by auto
  with assms(2,3) have "fst_path s = f" "items_readable unmarshal marshal (fst_items s)"
    by (auto simp: list_all_iff)
  with s newFileStore_reads [of unmarshal marshal s d' e'] show ?thesis
    by (auto simp: list_ex_iff)
qed simp

definition demo_meta :: metadata where
  "demo_meta = zero_metadata\<lparr>md_id := ''abc'', md_title := ''t''\<rparr>"

definition demo_store :: file_store where
  "demo_store = \<lparr>fst_path = ''f'', fst_items = [(''abc'', demo_meta)]\<rparr>"

definition demo_marshal :: marshal where
  "demo_marshal j = (if j = store_json (fst_items demo_store) then ''1'' else ''2'')"

definition demo_unmarshal :: json_parser where
  "demo_unmarshal t = (if t = ''1'' then Some (store_json (fst_items demo_store)) else None)"

lemma demo_readable: "items_readable demo_unmarshal demo_marshal (fst_items demo_store)"
  by (simp add: items_readable_def demo_store_def demo_marshal_def demo_unmarshal_def demo_meta_def
      metadata_ok_def zero_metadata_def in_int64_def min_int64_def max_int64_def)

definition demo_disk :: disk where
  "demo_disk = ((\<lambda>_. None)(tmp_path ''f'' := None))(''f'' \<mapsto> ''1'')"

theorem file_store_crash_safe_witness:
  "demo_disk ''f'' = None
   \<or> list_ex (\<lambda>(e, s). newFileStore demo_unmarshal demo_marshal os_ok True ''f'' demo_disk = Inr (s, demo_disk))
       [(os_ok, demo_store)]"
  using file_store_crash_safe
    [of demo_disk demo_marshal "[(os_ok, demo_store)]" "\<lambda>_. None" "''f''" demo_unmarshal os_ok]
    demo_readable
  by (simp add: fst_persist_def save_atomic_def os_ok_def demo_store_def fst_render_def
      demo_marshal_def demo_disk_def)

text \<open>
  What \<open>Record\<close> reported as written survives a restart: loading the file again
  gives exactly the store's records, the new one included.
\<close>

lemma file_store_record_durable:
  assumes "fst_record marshal e m (s, d) = (None, (s', d'))"
    and "items_readable unmarshal marshal (fst_items s')"
  shows "newFileStore unmarshal marshal e' True (fst_path s) d' = Inr (s', d')
         \<and> fst_get (s', d') (md_id m) = Some m"
proof -
  have s': "s' = s\<lparr>fst_items := map_put (md_id m) m (fst_items s)\<rparr>"
    and p: "fst (fst_persist marshal e s' d) = None" "d' = last (snd (fst_persist marshal e s' d))"
    using assms(1) by (auto simp: fst_record_def fst_commit_def split: prod.splits)
  from fst_persist.save_ok [OF _ p(1)] p(2) have "d' (fst_path s') = Some (fst_render marshal s')"
    by simp
  from newFileStore_reads [where s = s' and d = d' and e = e', OF assms(2) this] show ?thesis
    by (simp add: s' fst_get_def)
qed

end
