(* ===== verification/Manager.thy ===== *)
theory Manager
  imports Store
begin

text \<open>
  \<open>internal/session/manager.go\<close>: the registry of the live sessions.  A manager holds the sessions
  by id, the store of their records and its limits; its store is used through \<open>store_ops\<close>, and the
  lemmas hold for every store that meets the locale \<open>session_store\<close>.  The terminal factory and the
  mirror factory are parameters, as are the clock and the random id.
\<close>

section \<open>State\<close>

text \<open>
  A registered session with its terminal: whether the terminal's process has exited is the
  terminal's own report, and \<open>en_log\<close> is the list of the calls made on it.
\<close>

record ('m, 't) entry =
  en_sess :: "'m session"
  en_term :: 't
  en_exited :: bool
  en_log :: term_log

record ('m, 't, 's) manager =
  mg_sessions :: "(string \<times> ('m, 't) entry) list"
  mg_store :: 's
  mg_maxSession :: int
  mg_idleTimeout :: int
  mg_baseOpts :: "term_option list"
  mg_answerQueries :: bool

datatype mgr_error = MgrNotFound | TooManySessions | NoHost | TerminalFailed | MgrSession sess_error | MgrStore file_error

type_synonym 't factory = "connect_spec \<Rightarrow> term_option list \<Rightarrow> 't option"

definition parseSignal :: "int \<Rightarrow> int \<Rightarrow> int" where
  "parseSignal v fallback = (if v > 0 then v else fallback)"

definition withTerminalOptions :: "term_options \<Rightarrow> term_option list" where
  "withTerminalOptions opts =
     [withCloseSignal (parseSignal (to_closeSignal opts) defaultCloseSignal),
      withCloseTimeout (to_closeTimeout opts * 1000000000),
      withTerm (to_term opts)]"

definition newManager ::
  "'s \<Rightarrow> int \<Rightarrow> int \<Rightarrow> term_option list \<Rightarrow> bool \<Rightarrow> ('m, 't, 's) manager" where
  "newManager store maxS idle base aq =
     \<lparr>mg_sessions = [], mg_store = store, mg_maxSession = maxS, mg_idleTimeout = idle,
      mg_baseOpts = base, mg_answerQueries = aq\<rparr>"

section \<open>Create\<close>

text \<open>\<open>Unix()\<close> of a time in nanoseconds.\<close>

definition unix_seconds :: "int \<Rightarrow> int" where
  "unix_seconds t = t div 1000000000"

text \<open>
  The body after the checks: build the terminal, register the session and write its record
  (whose error is ignored).
\<close>

definition create_session ::
  "'s store_ops \<Rightarrow> 't factory \<Rightarrow> ('t \<Rightarrow> 'm option) \<Rightarrow> int \<Rightarrow> string \<Rightarrow> connect_spec \<Rightarrow> metadata option
     \<Rightarrow> term_option list \<Rightarrow> ('m, 't, 's) manager
     \<Rightarrow> (mgr_error + (string \<times> bool)) \<times> ('m, 't, 's) manager" where
  "create_session ops factory mirrorF now sid spec record termOpts m =
     (case factory spec (mg_baseOpts m @ termOpts) of
        None \<Rightarrow> (Inl TerminalFailed, m)
      | Some t \<Rightarrow>
          (let s = new_session sid spec (mirrorF t) (mg_answerQueries m) now;
               meta0 = zero_metadata\<lparr>md_id := sid, md_spec := spec, md_state := state_string (s_state s)\<rparr>;
               meta = (case record of
                         Some r \<Rightarrow> meta0\<lparr>md_created := md_created r, md_title := md_title r,
                                         md_runCount := md_runCount r + 1\<rparr>
                       | None \<Rightarrow> meta0\<lparr>md_created := unix_seconds (s_created s)\<rparr>)
           in (Inr (sid, True),
               m\<lparr>mg_sessions := map_put sid \<lparr>en_sess = s, en_term = t, en_exited = False, en_log = []\<rparr>
                                  (mg_sessions m),
                 mg_store := snd (so_record ops meta (mg_store m))\<rparr>)))"

definition createWithID ::
  "'s store_ops \<Rightarrow> 't factory \<Rightarrow> ('t \<Rightarrow> 'm option) \<Rightarrow> string \<Rightarrow> int \<Rightarrow> string \<Rightarrow> connect_spec
     \<Rightarrow> term_option list \<Rightarrow> ('m, 't, 's) manager
     \<Rightarrow> (mgr_error + (string \<times> bool)) \<times> ('m, 't, 's) manager" where
  "createWithID ops factory mirrorF fresh now sid spec termOpts m =
     (let existing = (if sid = '''' then None else map_of (mg_sessions m) sid)
      in if (case existing of None \<Rightarrow> False | Some en \<Rightarrow> \<not> en_exited en) then (Inr (sid, False), m)
         else if mg_maxSession m > 0 \<and> int (length (mg_sessions m)) \<ge> mg_maxSession m
         then (Inl TooManySessions, m)
         else
           let record = (if sid = '''' then None else so_get ops (mg_store m) sid);
               spec' = (case record of None \<Rightarrow> spec | Some r \<Rightarrow> md_spec r);
               sid' = (if sid = '''' then fresh else sid)
           in if record = None \<and> cs_hostID spec' = '''' then (Inl NoHost, m)
              else create_session ops factory mirrorF now sid' spec' record termOpts m)"

definition mgr_create ::
  "'s store_ops \<Rightarrow> 't factory \<Rightarrow> ('t \<Rightarrow> 'm option) \<Rightarrow> string \<Rightarrow> int \<Rightarrow> connect_spec
     \<Rightarrow> term_option list \<Rightarrow> ('m, 't, 's) manager
     \<Rightarrow> (mgr_error + string) \<times> ('m, 't, 's) manager" where
  "mgr_create ops factory mirrorF fresh now spec termOpts m =
     (case createWithID ops factory mirrorF fresh now '''' spec termOpts m of
        (Inl e, m') \<Rightarrow> (Inl e, m') | (Inr (sid, _), m') \<Rightarrow> (Inr sid, m'))"

section \<open>Lookups\<close>

definition entry_alive :: "('m, 't) entry \<Rightarrow> bool" where
  "entry_alive en \<longleftrightarrow> s_state (en_sess en) \<noteq> StateDestroyed \<and> \<not> en_exited en"

definition mgr_status :: "string list \<Rightarrow> ('m, 't, 's) manager \<Rightarrow> string list" where
  "mgr_status ids m =
     filter (\<lambda>i. case map_of (mg_sessions m) i of None \<Rightarrow> False | Some en \<Rightarrow> entry_alive en) ids"

definition mgr_get :: "string \<Rightarrow> ('m, 't, 's) manager \<Rightarrow> mgr_error + ('m, 't) entry" where
  "mgr_get i m = (case map_of (mg_sessions m) i of None \<Rightarrow> Inl MgrNotFound | Some en \<Rightarrow> Inr en)"

definition mgr_list :: "('m, 't, 's) manager \<Rightarrow> ('m, 't) entry list" where
  "mgr_list m = map snd (mg_sessions m)"

definition mgr_count :: "('m, 't, 's) manager \<Rightarrow> nat" where
  "mgr_count m = length (mg_sessions m)"

section \<open>Destroy, titles, history and expiry\<close>

text \<open>
  \<open>Destroy\<close> holds the lock only to look the session up and to remove it.  Its parts: the session
  found (by reference) is destroyed in place, and the id is removed from the registry.
\<close>

definition entry_destroy ::
  "term_oracle \<Rightarrow> ('m, 't) entry \<Rightarrow> sess_error option \<times> ('m, 't) entry" where
  "entry_destroy tok en =
     (case session_destroy tok (en_sess en) (en_log en) of
        (r, s, l) \<Rightarrow> (r, en\<lparr>en_sess := s, en_log := l\<rparr>))"

definition mgr_remove :: "string \<Rightarrow> ('m, 't, 's) manager \<Rightarrow> ('m, 't, 's) manager" where
  "mgr_remove i m = m\<lparr>mg_sessions := map_delete i (mg_sessions m)\<rparr>"

definition mgr_destroy ::
  "term_oracle \<Rightarrow> string \<Rightarrow> ('m, 't, 's) manager \<Rightarrow> mgr_error option \<times> ('m, 't, 's) manager" where
  "mgr_destroy tok i m =
     (case map_of (mg_sessions m) i of
        None \<Rightarrow> (Some MgrNotFound, m)
      | Some en \<Rightarrow>
          (case entry_destroy tok en of
             (r, en') \<Rightarrow>
               (let m1 = m\<lparr>mg_sessions := map_put i en' (mg_sessions m)\<rparr>
                in case r of Some e \<Rightarrow> (Some (MgrSession e), m1)
                   | None \<Rightarrow> (None, mgr_remove i m1))))"

definition mgr_history :: "'s store_ops \<Rightarrow> ('m, 't, 's) manager \<Rightarrow> metadata list" where
  "mgr_history ops m =
     filter (\<lambda>meta. map_of (mg_sessions m) (md_id meta) = None) (so_all ops (mg_store m))"

definition mgr_updateTitle ::
  "'s store_ops \<Rightarrow> string \<Rightarrow> string \<Rightarrow> ('m, 't, 's) manager
     \<Rightarrow> mgr_error option \<times> ('m, 't, 's) manager" where
  "mgr_updateTitle ops i title m =
     (let m1 = (case map_of (mg_sessions m) i of
                  None \<Rightarrow> m
                | Some en \<Rightarrow>
                    m\<lparr>mg_sessions :=
                        map_put i (en\<lparr>en_sess := (en_sess en)\<lparr>s_title := title\<rparr>\<rparr>) (mg_sessions m)\<rparr>)
      in case find (\<lambda>meta. md_id meta = i) (so_all ops (mg_store m1)) of
           None \<Rightarrow> (Some MgrNotFound, m1)
         | Some meta \<Rightarrow>
             (case so_record ops (meta\<lparr>md_title := title\<rparr>) (mg_store m1) of
                (r, st) \<Rightarrow> (map_option MgrStore r, m1\<lparr>mg_store := st\<rparr>)))"

definition entry_timed_out :: "int \<Rightarrow> int \<Rightarrow> ('m, 't) entry \<Rightarrow> bool" where
  "entry_timed_out idle now en \<longleftrightarrow>
     idle > 0 \<and> s_state (en_sess en) = StateIdle \<and> now - s_touched (en_sess en) \<ge> idle"

text \<open>\<open>DestroyExpired\<close>: the entries it destroys (closing their terminals), and the registry left.\<close>

definition destroyExpired ::
  "term_oracle \<Rightarrow> int \<Rightarrow> ('m, 't, 's) manager \<Rightarrow> ('m, 't) entry list \<times> ('m, 't, 's) manager" where
  "destroyExpired tok now m =
     (let idle = mg_idleTimeout m;
          dead = (\<lambda>en. \<not> entry_alive en);
          timed = (\<lambda>en. entry_alive en \<and> entry_timed_out idle now en)
      in (map (\<lambda>(_, en). snd (entry_destroy tok en)) (filter (\<lambda>(_, en). timed en) (mg_sessions m)),
          m\<lparr>mg_sessions := filter (\<lambda>(_, en). \<not> dead en \<and> \<not> timed en) (mg_sessions m)\<rparr>))"

section \<open>The invariant\<close>

definition mgr_inv :: "'s store_ops \<Rightarrow> ('s \<Rightarrow> bool) \<Rightarrow> ('m, 't, 's) manager \<Rightarrow> bool" where
  "mgr_inv ops ok m \<longleftrightarrow>
     ok (mg_store m) \<and> distinct_keys (mg_sessions m)
     \<and> (\<forall>i en. map_of (mg_sessions m) i = Some en \<longrightarrow>
          s_id (en_sess en) = i \<and> so_get ops (mg_store m) i \<noteq> None)
     \<and> (\<forall>i r. so_get ops (mg_store m) i = Some r \<longrightarrow> md_id r = i)
     \<and> (mg_maxSession m > 0 \<longrightarrow> int (length (mg_sessions m)) \<le> mg_maxSession m)"

lemma length_map_put: "length (map_put k v m) = (if k \<in> fst ` set m then length m else Suc (length m))"
  by (induction m) auto

lemma length_map_put_le: "length (map_put k v m) \<le> Suc (length m)"
  by (simp add: length_map_put)

lemma length_map_put_same: "map_of m k \<noteq> None \<Longrightarrow> length (map_put k v m) = length m"
  by (auto simp: length_map_put map_of_eq_None_iff)

lemma length_map_delete_le: "length (map_delete k m) \<le> length m"
  by (rule length_delete_le)

lemma entry_destroy_id [simp]: "s_id (en_sess (snd (entry_destroy tok en))) = s_id (en_sess en)"
  by (auto simp: entry_destroy_def session_destroy_def destroy_begin_def term_do_def
      split: option.splits prod.splits if_splits)

lemma map_of_filter_snd:
  "distinct_keys m \<Longrightarrow> map_of (filter (\<lambda>(k, v). P v) m) i
     = (case map_of m i of None \<Rightarrow> None | Some v \<Rightarrow> if P v then Some v else None)"
proof (induction m)
  case (Cons kv m)
  obtain k v where kv: "kv = (k, v)" by fastforce
  with Cons show ?case
    by (auto split: option.splits simp: map_of_eq_None_iff dest: map_of_SomeD)
qed simp

lemma distinct_keys_filter: "distinct_keys m \<Longrightarrow> distinct_keys (filter P m)"
  by (induction m) (auto simp: image_iff)

context session_store
begin

lemma create_session_inv:
  assumes inv: "mgr_inv ops ok m" and c: "create_session ops factory mirrorF now sid spec record termOpts m = (r, m')"
    and full: "mg_maxSession m > 0 \<Longrightarrow> int (length (mg_sessions m)) < mg_maxSession m"
  shows "mgr_inv ops ok m'"
proof (cases "factory spec (mg_baseOpts m @ termOpts)")
  case None
  with c inv show ?thesis by (simp add: create_session_def)
next
  case (Some t)
  obtain meta en where m': "m' = m\<lparr>mg_sessions := map_put sid en (mg_sessions m),
      mg_store := snd (so_record ops meta (mg_store m))\<rparr>" and "md_id meta = sid"
    and "s_id (en_sess en) = sid"
    using c Some
    by (auto simp: create_session_def Let_def new_session_def zero_metadata_def split: option.splits)
  moreover have "mg_maxSession m > 0 \<longrightarrow> int (length (map_put sid en (mg_sessions m))) \<le> mg_maxSession m"
    using full length_map_put_le [of sid en "mg_sessions m"] by linarith
  ultimately show ?thesis
    using inv by (auto simp: mgr_inv_def get_record ok_record)
qed

lemma createWithID_inv:
  assumes "mgr_inv ops ok m" and "createWithID ops factory mirrorF fresh now sid spec termOpts m = (r, m')"
  shows "mgr_inv ops ok m'"
  using assms create_session_inv [OF assms(1)]
  by (auto simp: createWithID_def Let_def split: if_splits)

lemma remove_inv:
  assumes "mgr_inv ops ok m" shows "mgr_inv ops ok (mgr_remove i m)"
  using assms length_map_delete_le [of i "mg_sessions m"]
  by (auto simp: mgr_inv_def mgr_remove_def)

lemma put_inv:
  assumes "mgr_inv ops ok m" and "map_of (mg_sessions m) i = Some en" and "s_id (en_sess en') = i"
  shows "mgr_inv ops ok (m\<lparr>mg_sessions := map_put i en' (mg_sessions m)\<rparr>)"
  using assms length_map_put_same [of "mg_sessions m" i en'] by (auto simp: mgr_inv_def)

lemma destroy_inv:
  assumes "mgr_inv ops ok m" and "mgr_destroy tok i m = (r, m')"
  shows "mgr_inv ops ok m'"
proof (cases "map_of (mg_sessions m) i")
  case None
  with assms show ?thesis by (simp add: mgr_destroy_def)
next
  case (Some en)
  obtain r0 en' where d: "entry_destroy tok en = (r0, en')" by fastforce
  with entry_destroy_id [of tok en] Some assms(1) have "s_id (en_sess en') = i"
    by (simp add: mgr_inv_def)
  from put_inv [OF assms(1) Some this] have
    p: "mgr_inv ops ok (m\<lparr>mg_sessions := map_put i en' (mg_sessions m)\<rparr>)" .
  from assms(2) Some d p remove_inv [OF p, of i] show ?thesis
    by (auto simp: mgr_destroy_def Let_def split: option.splits)
qed

lemma updateTitle_inv:
  assumes inv: "mgr_inv ops ok m" and u: "mgr_updateTitle ops i title m = (r, m')"
  shows "mgr_inv ops ok m'"
proof -
  define m1 where "m1 = (case map_of (mg_sessions m) i of None \<Rightarrow> m
     | Some en \<Rightarrow> m\<lparr>mg_sessions :=
         map_put i (en\<lparr>en_sess := (en_sess en)\<lparr>s_title := title\<rparr>\<rparr>) (mg_sessions m)\<rparr>)"
  have inv1: "mgr_inv ops ok m1"
  proof (cases "map_of (mg_sessions m) i")
    case None
    with inv show ?thesis by (simp add: m1_def)
  next
    case (Some en)
    with inv have "s_id (en_sess (en\<lparr>en_sess := (en_sess en)\<lparr>s_title := title\<rparr>\<rparr>)) = i"
      by (simp add: mgr_inv_def)
    from put_inv [OF inv Some this] Some show ?thesis by (simp add: m1_def)
  qed
  show ?thesis
  proof (cases "find (\<lambda>meta. md_id meta = i) (so_all ops (mg_store m1))")
    case None
    with u inv1 show ?thesis by (simp add: mgr_updateTitle_def m1_def [symmetric])
  next
    case (Some meta)
    then have "md_id meta = i" by (auto simp: find_Some_iff)
    then show ?thesis
      using u inv1 Some get_record [of "mg_store m1" "meta\<lparr>md_title := title\<rparr>"]
        ok_record [of "mg_store m1" "meta\<lparr>md_title := title\<rparr>"]
      by (auto simp: mgr_updateTitle_def m1_def [symmetric] mgr_inv_def split: prod.splits if_splits)
  qed
qed

lemma expired_inv:
  fixes m :: "('m, 't, 's) manager"
  assumes "mgr_inv ops ok m" and "destroyExpired tok now m = (ds, m')"
  shows "mgr_inv ops ok m'"
proof -
  define P where "P en \<longleftrightarrow> entry_alive en \<and> \<not> (entry_alive en \<and> entry_timed_out (mg_idleTimeout m) now en)"
    for en :: "('m, 't) entry"
  have m': "m' = m\<lparr>mg_sessions := filter (\<lambda>(_, en). P en) (mg_sessions m)\<rparr>"
    using assms(2) by (auto simp: destroyExpired_def Let_def P_def)
  have "int (length (mg_sessions m')) \<le> int (length (mg_sessions m))"
    by (simp add: m')
  moreover have "mg_maxSession m > 0 \<longrightarrow> int (length (mg_sessions m)) \<le> mg_maxSession m"
    using assms(1) by (simp add: mgr_inv_def)
  ultimately have "mg_maxSession m > 0 \<longrightarrow> int (length (mg_sessions m')) \<le> mg_maxSession m"
    by linarith
  moreover have "map_of (mg_sessions m') i = Some en \<Longrightarrow> map_of (mg_sessions m) i = Some en" for i en
    using assms(1) unfolding m' mgr_inv_def
    by (auto simp: map_of_filter_snd split: option.splits if_splits)
  ultimately show ?thesis
    using assms(1) unfolding mgr_inv_def by (auto simp: m' distinct_keys_filter)
qed

end

section \<open>Runs of the manager\<close>

text \<open>
  The operations of a manager and what its sessions do by themselves: a terminal exits, or a
  session changes state and connection (attach, detach) without changing its id.
\<close>

inductive mgr_step ::
  "'s store_ops \<Rightarrow> 't factory \<Rightarrow> ('t \<Rightarrow> 'm option) \<Rightarrow> ('m, 't, 's) manager \<Rightarrow> ('m, 't, 's) manager \<Rightarrow> bool"
  for ops factory mirrorF where
  create: "createWithID ops factory mirrorF fresh now sid spec termOpts m = (r, m')
     \<Longrightarrow> mgr_step ops factory mirrorF m m'"
| destroy: "mgr_destroy tok i m = (r, m') \<Longrightarrow> mgr_step ops factory mirrorF m m'"
| title: "mgr_updateTitle ops i t m = (r, m') \<Longrightarrow> mgr_step ops factory mirrorF m m'"
| expire: "destroyExpired tok now m = (ds, m') \<Longrightarrow> mgr_step ops factory mirrorF m m'"
| entry: "\<lbrakk>map_of (mg_sessions m) i = Some en; s_id (en_sess en') = s_id (en_sess en)\<rbrakk>
     \<Longrightarrow> mgr_step ops factory mirrorF m (m\<lparr>mg_sessions := map_put i en' (mg_sessions m)\<rparr>)"

inductive_cases mgr_stepE: "mgr_step ops factory mirrorF m m'"

inductive mgr_reach ::
  "'s store_ops \<Rightarrow> 't factory \<Rightarrow> ('t \<Rightarrow> 'm option) \<Rightarrow> ('m, 't, 's) manager \<Rightarrow> ('m, 't, 's) manager \<Rightarrow> bool"
  for ops factory mirrorF m0 where
  start: "mgr_reach ops factory mirrorF m0 m0"
| step: "mgr_reach ops factory mirrorF m0 m \<Longrightarrow> mgr_step ops factory mirrorF m m'
     \<Longrightarrow> mgr_reach ops factory mirrorF m0 m'"

context session_store
begin

lemma step_inv:
  assumes "mgr_step ops factory mirrorF m m'" and "mgr_inv ops ok m"
  shows "mgr_inv ops ok m'"
  using assms
proof cases
  case (entry i en en')
  then have "s_id (en_sess en') = i" using assms(2) by (simp add: mgr_inv_def)
  with entry assms(2) show ?thesis by (simp add: put_inv)
next
  case create
  show ?thesis by (rule createWithID_inv [OF assms(2) create])
next
  case destroy
  show ?thesis by (rule destroy_inv [OF assms(2) destroy])
next
  case title
  show ?thesis by (rule updateTitle_inv [OF assms(2) title])
next
  case expire
  show ?thesis by (rule expired_inv [OF assms(2) expire])
qed

lemma reach_inv:
  "mgr_reach ops factory mirrorF m0 m \<Longrightarrow> mgr_inv ops ok m0 \<Longrightarrow> mgr_inv ops ok m"
  by (induction rule: mgr_reach.induct) (auto intro: step_inv)

lemma history_ids:
  assumes "mgr_inv ops ok m"
  shows "md_id ` set (mgr_history ops m) = dom (so_get ops (mg_store m)) - dom (map_of (mg_sessions m))"
proof -
  have a: "set (so_all ops (mg_store m)) = ran (so_get ops (mg_store m))"
    using assms by (intro set_all) (simp add: mgr_inv_def)
  have k: "so_get ops (mg_store m) i = Some r \<Longrightarrow> md_id r = i" for i r
    using assms by (simp add: mgr_inv_def)
  have "i \<in> md_id ` set (mgr_history ops m) \<longleftrightarrow>
      (\<exists>r. so_get ops (mg_store m) i = Some r) \<and> map_of (mg_sessions m) i = None" for i
    unfolding mgr_history_def set_filter a ran_def image_iff mem_Collect_eq Bex_def
    using k by metis
  then show ?thesis by (intro set_eqI) (simp add: dom_def)
qed

end

lemma fil_new_inv: "mgr_inv (file_ops marshal e) fst_ok (newManager (\<lparr>fst_path = p, fst_items = []\<rparr>, d) n idle base aq)"
  by (simp add: mgr_inv_def newManager_def fst_ok_def file_ops_def fst_get_def)

section \<open>Properties\<close>

text \<open>
  Property C11.  Whatever the manager is asked to do and whatever its sessions do by themselves,
  over a file store whose writes may fail: the number of registered sessions never exceeds the
  limit, every session is registered under its own id, every registered session has a record, and
  the history is exactly the records without a registered session.
\<close>

theorem manager_invariant:
  assumes "mgr_reach (file_ops marshal e) factory mirrorF
             (newManager (\<lparr>fst_path = p, fst_items = []\<rparr>, d) n idle base aq) m"
  shows "(mg_maxSession m > 0 \<longrightarrow> int (mgr_count m) \<le> mg_maxSession m)
     \<and> (\<forall>i en. mgr_get i m = Inr en \<longrightarrow> s_id (en_sess en) = i \<and> fst_get (mg_store m) i \<noteq> None)
     \<and> md_id ` set (mgr_history (file_ops marshal e) m)
         = dom (fst_get (mg_store m)) - dom (map_of (mg_sessions m))"
proof -
  have inv: "mgr_inv (file_ops marshal e) fst_ok m"
    by (rule fil.reach_inv [OF assms fil_new_inv])
  have g: "so_get (file_ops marshal e) = fst_get" by (simp add: file_ops_def)
  show ?thesis
    using inv fil.history_ids [OF inv]
    unfolding g mgr_inv_def mgr_get_def mgr_count_def
    by (auto split: option.splits)
qed

definition demo_host_spec :: connect_spec where
  "demo_host_spec = zero_spec\<lparr>cs_hostID := ''h1''\<rparr>"

definition demo_factory :: "unit factory" where
  "demo_factory spec opts = Some ()"

definition demo_mirror :: "unit \<Rightarrow> unit option" where
  "demo_mirror t = None"

definition demo_mgr0 :: "(unit, unit, memory_store) manager" where
  "demo_mgr0 = newManager newMemoryStore 0 0 [] True"

definition demo_mgr1 :: "(unit, unit, memory_store) manager" where
  "demo_mgr1 = snd (createWithID memory_ops demo_factory demo_mirror ''r'' 7 ''a'' demo_host_spec [] demo_mgr0)"

theorem manager_invariant_witness:
  "md_id ` set (mgr_history (file_ops demo_marshal os_ok)
      (snd (createWithID (file_ops demo_marshal os_ok) demo_factory demo_mirror ''r'' 7 ''a'' demo_host_spec []
         (newManager (\<lparr>fst_path = ''f'', fst_items = []\<rparr>, \<lambda>_. None) 1 0 [] True)))) = {}"
proof -
  let ?ops = "file_ops demo_marshal os_ok"
  let ?init = "newManager (\<lparr>fst_path = ''f'', fst_items = []\<rparr>, \<lambda>_. None) 1 0 [] True"
  let ?m = "snd (createWithID ?ops demo_factory demo_mirror ''r'' 7 ''a'' demo_host_spec [] ?init)"
  have "mgr_reach ?ops demo_factory demo_mirror ?init ?m"
    by (rule mgr_reach.step, rule mgr_reach.start, rule mgr_step.create, rule prod.collapse [symmetric])
  from manager_invariant [OF this] show ?thesis
    by (auto simp: createWithID_def create_session_def newManager_def demo_factory_def file_ops_def
        fst_get_def fst_record_def demo_host_spec_def zero_metadata_def Let_def)
qed

definition create_result_ok ::
  "'s store_ops \<Rightarrow> string \<Rightarrow> connect_spec \<Rightarrow> int \<Rightarrow> bool \<Rightarrow> ('m, 't, 's) manager
     \<Rightarrow> ('m, 't, 's) manager \<Rightarrow> bool" where
  "create_result_ok ops sid spec now created m m' \<longleftrightarrow>
     (if \<not> created then m' = m
      else
        (case (map_of (mg_sessions m') sid, so_get ops (mg_store m') sid) of
           (Some en, Some r) \<Rightarrow>
             entry_alive en \<and> s_state (en_sess en) = StateIdle \<and> s_spec (en_sess en) = md_spec r
             \<and> (case so_get ops (mg_store m) sid of
                  Some r0 \<Rightarrow> md_spec r = md_spec r0 \<and> md_title r = md_title r0
                             \<and> md_created r = md_created r0 \<and> md_runCount r = md_runCount r0 + 1
                | None \<Rightarrow> md_spec r = spec \<and> cs_hostID spec \<noteq> '''' \<and> md_created r = unix_seconds now
                          \<and> md_runCount r = 0)
         | _ \<Rightarrow> False))"



text \<open>
  \<open>Destroy\<close> does not hold the lock while it closes the terminal, and removes by id
  afterwards: when the session exits in between and the same id is created again, the new session
  is alive and the first \<open>Destroy\<close> takes it out of the registry.
\<close>

lemma destroy_removes_successor:
  assumes "map_of (mg_sessions m) i = Some en" and "entry_destroy tok en = (None, en1)"
    and "m1 = m\<lparr>mg_sessions := map_put i (en1\<lparr>en_exited := True\<rparr>) (mg_sessions m)\<rparr>"
    and "createWithID ops factory mirrorF fresh now i spec opts m1 = (Inr (i, True), m2)"
    and "i \<noteq> ''''"
  shows "\<exists>en2. map_of (mg_sessions m2) i = Some en2 \<and> entry_alive en2
               \<and> mgr_get i (mgr_remove i m2) = Inl MgrNotFound"
  using assms
  by (auto simp: createWithID_def create_session_def Let_def entry_alive_def new_session_def
      mgr_get_def mgr_remove_def split: if_splits option.splits)

text \<open>
  The sweep removes exactly the sessions that are destroyed, whose process exited,
  or that stayed unattached for the idle timeout, and keeps the others and every record.
\<close>

lemma expiry_exact:
  assumes "distinct_keys (mg_sessions m)" and "destroyExpired tok now m = (ds, m')"
  shows "mg_store m' = mg_store m
     \<and> map_of (mg_sessions m') i =
         (case map_of (mg_sessions m) i of
            Some en \<Rightarrow>
              if s_state (en_sess en) = StateDestroyed \<or> en_exited en
                 \<or> (mg_idleTimeout m > 0 \<and> s_state (en_sess en) = StateIdle
                    \<and> now - s_touched (en_sess en) \<ge> mg_idleTimeout m)
              then None else Some en
          | None \<Rightarrow> None)"
proof -
  let ?P = "\<lambda>en. \<not> \<not> entry_alive en \<and> \<not> (entry_alive en \<and> entry_timed_out (mg_idleTimeout m) now en)"
  have "m' = m\<lparr>mg_sessions := filter (\<lambda>(_, en). ?P en) (mg_sessions m)\<rparr>"
    using assms(2) by (auto simp: destroyExpired_def Let_def)
  with map_of_filter_snd [OF assms(1), of ?P i] show ?thesis
    by (auto simp: entry_alive_def entry_timed_out_def split: option.splits)
qed

end
