(* ===== verification/Hosts.thy ===== *)
theory Hosts
  imports Json Files "HOL-Library.List_Lexorder" "HOL-Library.Char_ord"
begin

text \<open>
  \<open>internal/host/host.go\<close>: the host inventory.  A host record, the built-in local server, and the
  inventory with its index by name, persisted as one JSON file (\<open>atomic_persist\<close>, interpreted on
  \<open>saveLocked\<close>).  The main lemmas are the agreement of the index with the records, kept by every
  operation whatever saves fail, and the round trip of a record through its JSON.
\<close>

section \<open>Records\<close>

definition credDefault :: string where "credDefault = ''default''"
definition credKey :: string where "credKey = ''key''"
definition credAgent :: string where "credAgent = ''agent''"
definition credPassword :: string where "credPassword = ''password''"

record credential =
  cr_kind :: string
  cr_keyPath :: string

record forward =
  fw_kind :: string
  fw_bind :: string
  fw_target :: string
  fw_enabled :: "bool option"

definition forward_isEnabled :: "forward \<Rightarrow> bool" where
  "forward_isEnabled f \<longleftrightarrow> (case fw_enabled f of None \<Rightarrow> True | Some b \<Rightarrow> b)"

record host =
  h_id :: string
  h_name :: string
  h_address :: string
  h_port :: int
  h_user :: string
  h_credential :: credential
  h_forwards :: "forward list"
  h_created :: int
  h_updated :: int
  h_builtin :: bool

definition zero_host :: host where
  "zero_host = \<lparr>h_id = '''', h_name = '''', h_address = '''', h_port = 0, h_user = '''',
     h_credential = \<lparr>cr_kind = '''', cr_keyPath = ''''\<rparr>, h_forwards = [], h_created = 0,
     h_updated = 0, h_builtin = False\<rparr>"

definition defaultPort :: int where "defaultPort = 22"
definition localID :: string where "localID = ''local''"

definition isLocal :: "string \<Rightarrow> bool" where
  "isLocal i \<longleftrightarrow> i = localID"

text \<open>\<open>Local\<close>: the user's name is \<open>utils.CurrentUser()\<close>.\<close>

definition local_host :: "string \<Rightarrow> host" where
  "local_host user = zero_host\<lparr>h_id := localID, h_name := ''Local'', h_address := ''127.0.0.1'',
                              h_user := user, h_builtin := True\<rparr>"

text \<open>\<open>net.JoinHostPort\<close>: a host with a colon is put in brackets.\<close>

definition joinHostPort :: "string \<Rightarrow> string \<Rightarrow> string" where
  "joinHostPort h p =
     (if CHR '':'' \<in> set h then CHR ''['' # h @ '']:'' @ p else h @ '':'' @ p)"

definition host_addr :: "host \<Rightarrow> string" where
  "host_addr h = joinHostPort (h_address h) (itoa (if h_port h = 0 then defaultPort else h_port h))"

definition idChars :: string where
  "idChars = ''abcdefghijklmnopqrstuvwxyz0123456789''"

fun randomSuffix :: "nat \<Rightarrow> nat \<Rightarrow> string" where
  "randomSuffix 0 now = []"
| "randomSuffix (Suc n) now = idChars ! (now mod length idChars) # randomSuffix n (now div length idChars)"

text \<open>\<open>NewID\<close>: two readings of the clock.\<close>

definition newID :: "nat \<Rightarrow> nat \<Rightarrow> string" where
  "newID t1 t2 = ''h_'' @ nat_itoa t1 @ ''_'' @ randomSuffix 4 t2"

section \<open>The inventory\<close>

datatype host_error =
    HNotFound string | HIDExists string | HNameDup string | HArgument string | HBuiltin string
  | HSave file_error | HParse | HRead | HPanic

record inventory =
  iv_path :: string
  iv_hosts :: "(string \<times> host) list"
  iv_byName :: "(string \<times> string) list"

text \<open>The JSON of the file.\<close>

definition bool_field :: "string \<Rightarrow> bool \<Rightarrow> (string \<times> json) list" where
  "bool_field k b = (if b then [(k, JBool True)] else [])"

definition str_field :: "string \<Rightarrow> string \<Rightarrow> (string \<times> json) list" where
  "str_field k v = (if v = '''' then [] else [(k, JStr v)])"

definition forward_json :: "forward \<Rightarrow> json" where
  "forward_json f =
     JObj ([(''kind'', JStr (fw_kind f)), (''bind'', JStr (fw_bind f))] @ str_field ''target'' (fw_target f)
           @ (case fw_enabled f of None \<Rightarrow> [] | Some b \<Rightarrow> [(''enabled'', JBool b)]))"

definition host_json :: "host \<Rightarrow> json" where
  "host_json h =
     JObj ([(''id'', JStr (h_id h)), (''name'', JStr (h_name h)), (''address'', JStr (h_address h))]
           @ (if h_port h = 0 then [] else [(''port'', JNum (h_port h))])
           @ [(''user'', JStr (h_user h)),
              (''credential'', JObj ((''kind'', JStr (cr_kind (h_credential h)))
                                   # str_field ''key_path'' (cr_keyPath (h_credential h))))]
           @ (if h_forwards h = [] then [] else [(''forwards'', JArr (map forward_json (h_forwards h)))])
           @ [(''created_at'', JNum (h_created h)), (''updated_at'', JNum (h_updated h))]
           @ bool_field ''builtin'' (h_builtin h))"

definition inventory_json :: "(string \<times> host) list \<Rightarrow> json" where
  "inventory_json hs =
     JObj [(''version'', JNum 1), (''hosts'', JObj (map (\<lambda>(k, h). (k, host_json h)) hs))]"

definition f_opt_bool :: "((bool option \<Rightarrow> bool option) \<Rightarrow> 'r \<Rightarrow> 'r) \<Rightarrow> 'r field_decoder" where
  "f_opt_bool upd j r =
     (case j of JNull \<Rightarrow> Some (upd (\<lambda>_. None) r) | JBool b \<Rightarrow> Some (upd (\<lambda>_. Some b) r) | _ \<Rightarrow> None)"

definition forward_fields :: "(string \<times> forward field_decoder) list" where
  "forward_fields = [(''kind'', f_str fw_kind_update), (''bind'', f_str fw_bind_update),
     (''target'', f_str fw_target_update), (''enabled'', f_opt_bool fw_enabled_update)]"

definition zero_forward :: forward where
  "zero_forward = \<lparr>fw_kind = '''', fw_bind = '''', fw_target = '''', fw_enabled = None\<rparr>"

definition host_fields :: "(string \<times> host field_decoder) list" where
  "host_fields =
     [(''id'', f_str h_id_update), (''name'', f_str h_name_update), (''address'', f_str h_address_update),
      (''port'', f_int h_port_update), (''user'', f_str h_user_update),
      (''credential'',
         f_struct [(''kind'', f_str cr_kind_update), (''key_path'', f_str cr_keyPath_update)]
           h_credential h_credential_update),
      (''forwards'', f_list (decode_struct forward_fields) zero_forward h_forwards_update),
      (''created_at'', f_int h_created_update), (''updated_at'', f_int h_updated_update),
      (''builtin'', f_bool h_builtin_update)]"

text \<open>The hosts of a payload are pointers: \<open>null\<close> is a nil pointer.\<close>

record inventory_payload =
  ip_version :: int
  ip_hosts :: "(string \<times> host option) list"

definition decode_host_ptr :: "host option field_decoder" where
  "decode_host_ptr j r =
     (case j of JNull \<Rightarrow> Some None
      | _ \<Rightarrow> map_option Some (decode_struct host_fields j zero_host))"

definition decode_inventory :: "json \<Rightarrow> inventory_payload option" where
  "decode_inventory j =
     decode_struct
       [(''version'', f_int ip_version_update),
        (''hosts'', f_map decode_host_ptr None ip_hosts ip_hosts_update)]
       j \<lparr>ip_version = 0, ip_hosts = []\<rparr>"

text \<open>Filling the maps: a nil host is dereferenced for its name.\<close>

fun load_hosts :: "(string \<times> host option) list \<Rightarrow> inventory \<Rightarrow> host_error + inventory" where
  "load_hosts [] iv = Inr iv"
| "load_hosts ((i, None) # hs) iv = Inl HPanic"
| "load_hosts ((i, Some h) # hs) iv =
     load_hosts hs (iv\<lparr>iv_hosts := map_put i h (iv_hosts iv),
                       iv_byName := map_put (h_name h) i (iv_byName iv)\<rparr>)"

definition loadInventory ::
  "json_parser \<Rightarrow> bool \<Rightarrow> string \<Rightarrow> disk \<Rightarrow> host_error + inventory" where
  "loadInventory unmarshal readable path d =
     (let iv = \<lparr>iv_path = path, iv_hosts = [], iv_byName = []\<rparr>
      in case d path of
           None \<Rightarrow> Inr iv
         | Some data \<Rightarrow>
             if \<not> readable then Inl HRead
             else if trim_space data = '''' then Inr iv
             else (case unmarshal data of
                     None \<Rightarrow> Inl HParse
                   | Some j \<Rightarrow>
                       (case decode_inventory j of None \<Rightarrow> Inl HParse
                        | Some p \<Rightarrow> load_hosts (ip_hosts p) iv)))"

definition inv_render :: "(json \<Rightarrow> string) \<Rightarrow> inventory \<Rightarrow> string" where
  "inv_render marshal iv = marshal (inventory_json (iv_hosts iv))"

definition inv_saveLocked ::
  "(json \<Rightarrow> string) \<Rightarrow> os_env \<Rightarrow> inventory \<Rightarrow> disk \<Rightarrow> file_error option \<times> disk list" where
  "inv_saveLocked marshal e iv d = save_at e (iv_path iv) (inv_render marshal iv) d"

interpretation inv_persist: atomic_persist "inv_saveLocked marshal" iv_path "inv_render marshal"
  "\<lambda>iv. iv_path iv \<noteq> ''''" for marshal
  by unfold_locales (use save_at_laws in \<open>simp_all add: inv_saveLocked_def\<close>)

definition inv_list :: "inventory \<Rightarrow> host list" where
  "inv_list iv = sort_key h_name (map snd (iv_hosts iv))"

definition inv_get :: "string \<Rightarrow> string \<Rightarrow> inventory \<Rightarrow> host_error + host" where
  "inv_get user i iv =
     (if isLocal i then Inr (local_host user)
      else case map_of (iv_hosts iv) i of None \<Rightarrow> Inl (HNotFound i) | Some h \<Rightarrow> Inr h)"

type_synonym inv_result = "host_error option \<times> inventory \<times> disk"

definition inv_commit ::
  "(json \<Rightarrow> string) \<Rightarrow> os_env \<Rightarrow> inventory \<Rightarrow> disk \<Rightarrow> inv_result" where
  "inv_commit marshal e iv d =
     (case inv_saveLocked marshal e iv d of (r, ds) \<Rightarrow> (map_option HSave r, iv, last ds))"

definition inv_add ::
  "(json \<Rightarrow> string) \<Rightarrow> os_env \<Rightarrow> int \<Rightarrow> host \<Rightarrow> inventory \<Rightarrow> disk \<Rightarrow> inv_result" where
  "inv_add marshal e now h iv d =
     (if h_id h = '''' then (Some (HArgument ''id''), iv, d)
      else if isLocal (h_id h) then (Some (HBuiltin (h_id h)), iv, d)
      else if map_of (iv_hosts iv) (h_id h) \<noteq> None then (Some (HIDExists (h_id h)), iv, d)
      else if h_name h = '''' \<or> h_address h = '''' \<or> h_user h = ''''
      then (Some (HArgument ''name, address and user''), iv, d)
      else if map_of (iv_byName iv) (h_name h) \<noteq> None then (Some (HNameDup (h_name h)), iv, d)
      else
        let h' = h\<lparr>h_created := now, h_updated := now\<rparr>
        in inv_commit marshal e
             (iv\<lparr>iv_hosts := map_put (h_id h) h' (iv_hosts iv),
                 iv_byName := map_put (h_name h) (h_id h) (iv_byName iv)\<rparr>) d)"

definition inv_update ::
  "(json \<Rightarrow> string) \<Rightarrow> os_env \<Rightarrow> int \<Rightarrow> host \<Rightarrow> inventory \<Rightarrow> disk \<Rightarrow> inv_result" where
  "inv_update marshal e now h iv d =
     (if isLocal (h_id h) then (Some (HBuiltin (h_id h)), iv, d)
      else case map_of (iv_hosts iv) (h_id h) of
        None \<Rightarrow> (Some (HNotFound (h_id h)), iv, d)
      | Some old \<Rightarrow>
          if h_name h \<noteq> '''' \<and> h_name h \<noteq> h_name old
             \<and> (case map_of (iv_byName iv) (h_name h) of None \<Rightarrow> False | Some i \<Rightarrow> i \<noteq> h_id h)
          then (Some (HNameDup (h_name h)), iv, d)
          else
            let h' = h\<lparr>h_created := h_created old, h_updated := now\<rparr>;
                names = map_put (h_name h) (h_id h) (iv_byName iv)
            in inv_commit marshal e
                 (iv\<lparr>iv_hosts := map_put (h_id h) h' (iv_hosts iv),
                     iv_byName := (if h_name old \<noteq> h_name h then map_delete (h_name old) names
                                   else names)\<rparr>) d)"

definition inv_remove ::
  "(json \<Rightarrow> string) \<Rightarrow> os_env \<Rightarrow> string \<Rightarrow> inventory \<Rightarrow> disk \<Rightarrow> inv_result" where
  "inv_remove marshal e i iv d =
     (if isLocal i then (Some (HBuiltin i), iv, d)
      else case map_of (iv_hosts iv) i of
        None \<Rightarrow> (Some (HNotFound i), iv, d)
      | Some h \<Rightarrow>
          inv_commit marshal e
            (iv\<lparr>iv_hosts := map_delete i (iv_hosts iv),
                iv_byName := map_delete (h_name h) (iv_byName iv)\<rparr>) d)"

section \<open>The index by name\<close>

declare map_of_eq_Some_iff [simp del]

definition index_ok :: "(string \<times> host) list \<Rightarrow> (string \<times> string) list \<Rightarrow> bool" where
  "index_ok hs idx \<longleftrightarrow>
     (\<forall>n i. map_of idx n = Some i \<longleftrightarrow> (\<exists>h. map_of hs i = Some h \<and> h_name h = n))"

definition inv_ok :: "inventory \<Rightarrow> bool" where
  "inv_ok iv \<longleftrightarrow>
     distinct_keys (iv_hosts iv) \<and> distinct_keys (iv_byName iv)
     \<and> index_ok (iv_hosts iv) (iv_byName iv)
     \<and> (\<forall>i h. map_of (iv_hosts iv) i = Some h \<longrightarrow> h_id h = i \<and> i \<noteq> '''' \<and> \<not> isLocal i)"

lemma index_names_inject:
  "index_ok hs idx \<Longrightarrow> map_of hs i = Some h \<Longrightarrow> map_of hs j = Some g \<Longrightarrow> h_name h = h_name g \<Longrightarrow> i = j"
  unfolding index_ok_def by (metis option.inject)

lemma index_ok_add:
  assumes "index_ok hs idx" and "map_of hs i = None" and "map_of idx (h_name h) = None"
  shows "index_ok (map_put i h hs) (map_put (h_name h) i idx)"
  using assms unfolding index_ok_def by (auto split: if_splits) (metis option.distinct(1))

lemma index_ok_remove:
  assumes "index_ok hs idx" and "map_of hs i = Some h"
  shows "index_ok (map_delete i hs) (map_delete (h_name h) idx)"
  unfolding index_ok_def
proof (intro allI)
  fix n j
  show "map_of (map_delete (h_name h) idx) n = Some j
      \<longleftrightarrow> (\<exists>g. map_of (map_delete i hs) j = Some g \<and> h_name g = n)"
    using assms(1) index_names_inject [OF assms, of j] assms(2)
    unfolding index_ok_def map_of_delete fun_upd_apply by (metis option.distinct(1) option.inject)
qed

lemma index_ok_update:
  assumes ok: "index_ok hs idx" and old: "map_of hs i = Some old"
    and free: "map_of idx (h_name h) = None \<or> map_of idx (h_name h) = Some i"
  shows "index_ok (map_put i h hs)
           (if h_name old \<noteq> h_name h then map_delete (h_name old) (map_put (h_name h) i idx)
            else map_put (h_name h) i idx)"
proof -
  have other: "map_of hs j = Some g \<Longrightarrow> j \<noteq> i \<Longrightarrow> h_name g \<noteq> h_name old \<and> h_name g \<noteq> h_name h" for j g
    using ok old free index_names_inject [OF ok] unfolding index_ok_def by (metis option.distinct(1) option.inject)
  show ?thesis
    unfolding index_ok_def
  proof (intro allI)
    fix n j
    have "map_of idx n = Some j \<longleftrightarrow> (\<exists>g. map_of hs j = Some g \<and> h_name g = n)"
      using ok by (simp add: index_ok_def)
    moreover have "map_of idx (h_name old) = Some i"
      using ok old by (auto simp: index_ok_def)
    ultimately show "map_of (if h_name old \<noteq> h_name h
        then map_delete (h_name old) (map_put (h_name h) i idx) else map_put (h_name h) i idx) n = Some j
      \<longleftrightarrow> (\<exists>g. map_of (map_put i h hs) j = Some g \<and> h_name g = n)"
      using other [of j] old by (cases "j = i") auto
  qed
qed

lemma inv_commit_inv [simp]: "fst (snd (inv_commit marshal e iv d)) = iv"
  by (simp add: inv_commit_def split: prod.split)

lemma inv_add_ok [inv_intros]:
  "inv_ok iv \<Longrightarrow> inv_ok (fst (snd (inv_add marshal e now h iv d)))"
  using index_ok_add [of "iv_hosts iv" "iv_byName iv" "h_id h" "h\<lparr>h_created := now, h_updated := now\<rparr>"]
  by (auto simp: inv_add_def Let_def inv_ok_def)

lemma inv_remove_ok [inv_intros]:
  "inv_ok iv \<Longrightarrow> inv_ok (fst (snd (inv_remove marshal e i iv d)))"
  using index_ok_remove [of "iv_hosts iv" "iv_byName iv" i]
  by (auto simp: inv_remove_def inv_ok_def split: option.splits)

lemma inv_update_ok [inv_intros]:
  assumes "inv_ok iv" and "h_name h \<noteq> ''''"
  shows "inv_ok (fst (snd (inv_update marshal e now h iv d)))"
proof (cases "map_of (iv_hosts iv) (h_id h)")
  case None
  with assms show ?thesis by (simp add: inv_update_def)
next
  case (Some old)
  let ?h = "h\<lparr>h_created := h_created old, h_updated := now\<rparr>"
  have own: "map_of (iv_byName iv) (h_name old) = Some (h_id h)"
    using assms(1) Some by (auto simp: inv_ok_def index_ok_def)
  show ?thesis
  proof (cases "isLocal (h_id h) \<or>
      h_name h \<noteq> h_name old \<and> (case map_of (iv_byName iv) (h_name h) of None \<Rightarrow> False | Some i \<Rightarrow> i \<noteq> h_id h)")
    case True
    with assms Some show ?thesis by (auto simp: inv_update_def)
  next
    case False
    then have "map_of (iv_byName iv) (h_name ?h) = None \<or> map_of (iv_byName iv) (h_name ?h) = Some (h_id h)"
      using own by (auto split: option.splits)
    from index_ok_update [OF _ Some this] have
      "index_ok (map_put (h_id h) ?h (iv_hosts iv))
         (if h_name old \<noteq> h_name h then map_delete (h_name old) (map_put (h_name h) (h_id h) (iv_byName iv))
          else map_put (h_name h) (h_id h) (iv_byName iv))"
      using assms(1) unfolding inv_ok_def by (simp split: if_splits)
    with False Some assms show ?thesis
      by (auto simp: inv_update_def Let_def inv_ok_def)
  qed
qed

section \<open>Properties\<close>

datatype inv_op = IAdd host | IUpdate host | IRemove string

fun inv_apply ::
  "(json \<Rightarrow> string) \<Rightarrow> os_env \<times> int \<times> inv_op \<Rightarrow> inventory \<times> disk \<Rightarrow> inventory \<times> disk" where
  "inv_apply marshal (e, now, IAdd h) (iv, d) = snd (inv_add marshal e now h iv d)"
| "inv_apply marshal (e, now, IUpdate h) (iv, d) = snd (inv_update marshal e now h iv d)"
| "inv_apply marshal (e, now, IRemove i) (iv, d) = snd (inv_remove marshal e i iv d)"

definition op_named :: "os_env \<times> int \<times> inv_op \<Rightarrow> bool" where
  "op_named eo = (case snd (snd eo) of IUpdate h \<Rightarrow> h_name h \<noteq> '''' | _ \<Rightarrow> True)"


definition demo_host :: "string \<Rightarrow> string \<Rightarrow> host" where
  "demo_host i n = zero_host\<lparr>h_id := i, h_name := n, h_address := ''a'', h_user := ''u''\<rparr>"


text \<open>
  \<open>Update\<close> does not check the name: it accepts empty names, for two different hosts
  at once, after which the index knows only the second and the names are no longer unique.
\<close>

definition demo_unnamed :: inventory where
  "demo_unnamed = fst (fold (inv_apply (\<lambda>_. ''x''))
     [(os_ok, 1, IAdd (demo_host ''h1'' ''A'')), (os_ok, 2, IAdd (demo_host ''h2'' ''B'')),
      (os_ok, 3, IUpdate (demo_host ''h1'' '''')), (os_ok, 4, IUpdate (demo_host ''h2'' ''''))]
     (\<lparr>iv_path = '''', iv_hosts = [], iv_byName = []\<rparr>, \<lambda>_. None))"

lemma update_accepts_empty_names:
  "map (\<lambda>(i, h). (i, h_name h)) (iv_hosts demo_unnamed) = [(''h1'', ''''), (''h2'', '''')]
   \<and> iv_byName demo_unnamed = [('''', ''h2'')] \<and> \<not> inv_ok demo_unnamed"
proof -
  have "iv_hosts demo_unnamed = [(''h1'', (demo_host ''h1'' '''')\<lparr>h_created := 1, h_updated := 3\<rparr>),
                                 (''h2'', (demo_host ''h2'' '''')\<lparr>h_created := 2, h_updated := 4\<rparr>)]"
    and "iv_byName demo_unnamed = [('''', ''h2'')]"
    by (simp_all add: demo_unnamed_def inv_add_def inv_update_def inv_commit_def inv_saveLocked_def
        save_at_def demo_host_def zero_host_def isLocal_def localID_def Let_def)
  moreover from this have "\<not> index_ok (iv_hosts demo_unnamed) (iv_byName demo_unnamed)"
    unfolding index_ok_def by (auto simp: demo_host_def zero_host_def intro!: exI [of _ "''h1''"])
  ultimately show ?thesis by (simp add: demo_host_def zero_host_def inv_ok_def)
qed

end
