(* ===== verification/Base64.thy ===== *)
theory Base64
  imports Prelude
begin

text \<open>
  \<open>encoding/base64\<close>, the standard alphabet with padding, as the source uses it: \<open>EncodeToString\<close>
  (fingerprints, the key blobs of the trust store) and \<open>DecodeString\<close> (the input of the keys
  API), which skips line breaks and rejects everything else outside the alphabet.
\<close>

definition b64_alphabet :: string where
  "b64_alphabet = ''ABCDEFGHIJKLMNOPQRSTUVWXYZabcdefghijklmnopqrstuvwxyz0123456789+/''"

definition b64_char :: "nat \<Rightarrow> char" where
  "b64_char n = b64_alphabet ! n"

fun index_of :: "'a \<Rightarrow> 'a list \<Rightarrow> nat option" where
  "index_of x [] = None"
| "index_of x (y # ys) = (if x = y then Some 0 else map_option Suc (index_of x ys))"

definition b64_val :: "char \<Rightarrow> nat option" where
  "b64_val c = index_of c b64_alphabet"

text \<open>A byte as a number below 256.\<close>

fun b64_enc :: "nat list \<Rightarrow> string" where
  "b64_enc [] = []"
| "b64_enc [a] = [b64_char (a div 4), b64_char (a mod 4 * 16), CHR ''='', CHR ''='']"
| "b64_enc [a, b] =
     [b64_char (a div 4), b64_char (a mod 4 * 16 + b div 16), b64_char (b mod 16 * 4), CHR ''='']"
| "b64_enc (a # b # c # bs) =
     b64_char (a div 4) # b64_char (a mod 4 * 16 + b div 16) # b64_char (b mod 16 * 4 + c div 64)
       # b64_char (c mod 64) # b64_enc bs"

definition base64_encode :: "bytes \<Rightarrow> string" where
  "base64_encode bs = b64_enc (map unat bs)"

text \<open>
  Decoding of the text without its line breaks: groups of four characters, padding only in the
  last one.
\<close>

fun b64_dec :: "string \<Rightarrow> nat list option" where
  "b64_dec [] = Some []"
| "b64_dec [a, b, c, d] =
     (case (b64_val a, b64_val b) of
        (Some x, Some y) \<Rightarrow>
          if c = CHR ''='' then (if d = CHR ''='' then Some [x * 4 + y div 16] else None)
          else (case b64_val c of
                  None \<Rightarrow> None
                | Some z \<Rightarrow>
                    if d = CHR ''='' then Some [x * 4 + y div 16, y mod 16 * 16 + z div 4]
                    else (case b64_val d of
                            None \<Rightarrow> None
                          | Some w \<Rightarrow> Some [x * 4 + y div 16, y mod 16 * 16 + z div 4, z mod 4 * 64 + w]))
      | _ \<Rightarrow> None)"
| "b64_dec (a # b # c # d # e # s) =
     (case (b64_val a, b64_val b, b64_val c, b64_val d) of
        (Some x, Some y, Some z, Some w) \<Rightarrow>
          map_option (\<lambda>bs. (x * 4 + y div 16) # (y mod 16 * 16 + z div 4) # (z mod 4 * 64 + w) # bs)
            (b64_dec (e # s))
      | _ \<Rightarrow> None)"
| "b64_dec _ = None"

definition is_line_break :: "char \<Rightarrow> bool" where
  "is_line_break c \<longleftrightarrow> c = CHR 0x0A \<or> c = CHR 0x0D"

definition base64_decode :: "string \<Rightarrow> bytes option" where
  "base64_decode s = map_option (map word_of_nat) (b64_dec (filter (\<lambda>c. \<not> is_line_break c) s))"

lemma b64_alphabet_length [simp]: "length b64_alphabet = 64"
  by (simp add: b64_alphabet_def)

lemma b64_alphabet_distinct: "distinct b64_alphabet"
  by (simp add: b64_alphabet_def)

lemma index_of_nth: "distinct xs \<Longrightarrow> n < length xs \<Longrightarrow> index_of (xs ! n) xs = Some n"
  by (induction xs arbitrary: n) (auto simp: nth_Cons' in_set_conv_nth)

lemma b64_val_char [simp]: "n < 64 \<Longrightarrow> b64_val (b64_char n) = Some n"
  unfolding b64_val_def b64_char_def by (simp add: index_of_nth b64_alphabet_distinct)

lemma b64_char_in: "n < 64 \<Longrightarrow> b64_char n \<in> set b64_alphabet"
  by (simp add: b64_char_def)

lemma b64_alphabet_plain: "list_all (\<lambda>c. c \<noteq> CHR ''='' \<and> \<not> is_line_break c) b64_alphabet"
  by (simp add: b64_alphabet_def is_line_break_def)

lemma b64_char_plain [simp]:
  "n < 64 \<Longrightarrow> b64_char n \<noteq> CHR ''=''" "n < 64 \<Longrightarrow> \<not> is_line_break (b64_char n)"
  using b64_alphabet_plain b64_char_in [of n] by (auto simp: list_all_iff)

lemma b64_enc_plain: "list_all (\<lambda>a. a < 256) ns \<Longrightarrow> list_all (\<lambda>c. \<not> is_line_break c) (b64_enc ns)"
  by (induction ns rule: b64_enc.induct) (auto simp: is_line_break_def [of "CHR ''=''"])

lemma b64_enc_Cons: "b64_enc (a # ns) \<noteq> []"
  by (cases "(a # ns)" rule: b64_enc.cases) auto

lemma b64_dec_step:
  "s \<noteq> [] \<Longrightarrow> b64_dec (a # b # c # d # s) =
     (case (b64_val a, b64_val b, b64_val c, b64_val d) of
        (Some x, Some y, Some z, Some w) \<Rightarrow>
          map_option (\<lambda>bs. (x * 4 + y div 16) # (y mod 16 * 16 + z div 4) # (z mod 4 * 64 + w) # bs)
            (b64_dec s)
      | _ \<Rightarrow> None)"
  by (cases s) (simp_all split: option.split)

lemma pack_div_mod: "y < n \<Longrightarrow> (x * n + y) div n = x" "y < n \<Longrightarrow> (x * n + y) mod n = (y::nat)"
  by simp_all

lemma b64_groups:
  fixes a b c :: nat
  assumes "a < 256" and "b < 256" and "c < 256"
  shows "a div 4 * 4 + (a mod 4 * 16 + b div 16) div 16 = a"
    and "(a mod 4 * 16 + b div 16) mod 16 * 16 + (b mod 16 * 4 + c div 64) div 4 = b"
    and "(b mod 16 * 4 + c div 64) mod 4 * 64 + c mod 64 = c"
    and "a div 4 < 64" and "a mod 4 * 16 + b div 16 < 64" and "b mod 16 * 4 + c div 64 < 64"
    and "c mod 64 < 64"
proof -
  have q: "b div 16 < 16" "c div 64 < 4" "a div 4 < 64"
    using assms by (simp_all add: less_mult_imp_div_less)
  have r: "a mod 4 < 4" "b mod 16 < 16" "c mod 64 < 64" by simp_all
  show "a div 4 * 4 + (a mod 4 * 16 + b div 16) div 16 = a"
    by (simp only: pack_div_mod(1) [OF q(1)] div_mult_mod_eq)
  show "(a mod 4 * 16 + b div 16) mod 16 * 16 + (b mod 16 * 4 + c div 64) div 4 = b"
    by (simp only: pack_div_mod(2) [OF q(1)] pack_div_mod(1) [OF q(2)] div_mult_mod_eq)
  show "(b mod 16 * 4 + c div 64) mod 4 * 64 + c mod 64 = c"
    by (simp only: pack_div_mod(2) [OF q(2)] div_mult_mod_eq)
  show "a div 4 < 64" "c mod 64 < 64" by (fact q(3), fact r(3))
  show "a mod 4 * 16 + b div 16 < 64" "b mod 16 * 4 + c div 64 < 64"
    using q r by linarith+
qed

lemma b64_dec_enc: "list_all (\<lambda>a. a < 256) ns \<Longrightarrow> b64_dec (b64_enc ns) = Some ns"
proof (induction ns rule: b64_enc.induct)
  case (4 a b c bs)
  have g: "a < 256" "b < 256" "c < 256" using 4 by simp_all
  show ?case
  proof (cases bs)
    case Nil
    with b64_groups [OF g] show ?thesis by simp
  next
    case (Cons x xs)
    then have "b64_enc bs \<noteq> []" using b64_enc_Cons by simp
    with b64_groups [OF g] 4 show ?thesis by (simp add: b64_dec_step)
  qed
next
  case (2 a)
  then show ?case using b64_groups [of a 0 0] by simp
next
  case (3 a b)
  then show ?case using b64_groups [of a b 0] by simp
qed simp

lemma base64_decode_encode: "base64_decode (base64_encode bs) = Some bs"
proof -
  have lt: "list_all (\<lambda>a. a < 256) (map unat bs)"
    using unsigned_less [where ?'a = nat and ?'b = 8] by (auto simp: list_all_iff)
  then have "filter (\<lambda>c. \<not> is_line_break c) (b64_enc (map unat bs)) = b64_enc (map unat bs)"
    using b64_enc_plain [OF lt] by (simp only: list_all_iff filter_id_conv)
  with b64_dec_enc [OF lt] show ?thesis
    by (simp add: base64_decode_def base64_encode_def comp_def)
qed

end
