(* ===== verification/Trust.thy ===== *)
theory Trust
  imports Hosts Base64
begin

text \<open>
  \<open>internal/sshx\<close>: whom to trust and how to authenticate.  The trust-on-first-use store of host
  keys (\<open>knownhosts.go\<close>), the secret store over a keyring that may fail (\<open>secrets.go\<close>), and the
  assembly of the authentication methods of a host (\<open>auth.go\<close>, \<open>agent.go\<close>, \<open>dialer.go\<close>).  The
  hash, the keyring, the agent, the key parser, the network and the files are parameters.
\<close>

section \<open>Known hosts\<close>

record host_pin =
  hp_keyType :: string
  hp_keyBlob :: bytes
  hp_firstSeen :: int

record public_key =
  pk_type :: string
  pk_blob :: bytes

datatype trust_error =
    HostKeyMismatch string string string string string
  | PinFailed string file_error
  | NilMapPanic
  | TrustRead
  | TrustParse

text \<open>The pins are a Go map; \<open>None\<close> is the nil map, on which a store panics.\<close>

record known_hosts =
  kh_path :: string
  kh_pins :: "(string \<times> host_pin) list option"

definition kh_map :: "known_hosts \<Rightarrow> (string \<times> host_pin) list" where
  "kh_map k = (case kh_pins k of None \<Rightarrow> [] | Some m \<Rightarrow> m)"

definition pin_json :: "host_pin \<Rightarrow> json" where
  "pin_json p = JObj [(''key_type'', JStr (hp_keyType p)),
                      (''key_blob'', JStr (base64_encode (hp_keyBlob p))),
                      (''first_seen'', JNum (hp_firstSeen p))]"

definition pins_json :: "(string \<times> host_pin) list \<Rightarrow> json" where
  "pins_json m = JObj (map (\<lambda>(k, p). (k, pin_json p)) m)"

text \<open>A \<open>[]byte\<close> field is base64 text; \<open>null\<close> is the nil slice.\<close>

definition f_blob :: "((bytes \<Rightarrow> bytes) \<Rightarrow> 'r \<Rightarrow> 'r) \<Rightarrow> 'r field_decoder" where
  "f_blob upd j r =
     (case j of JNull \<Rightarrow> Some (upd (\<lambda>_. []) r)
      | JStr s \<Rightarrow> map_option (\<lambda>b. upd (\<lambda>_. b) r) (base64_decode s)
      | _ \<Rightarrow> None)"

definition pin_fields :: "(string \<times> host_pin field_decoder) list" where
  "pin_fields = [(''key_type'', f_str hp_keyType_update), (''key_blob'', f_blob hp_keyBlob_update),
                 (''first_seen'', f_int hp_firstSeen_update)]"

definition zero_pin :: host_pin where
  "zero_pin = \<lparr>hp_keyType = '''', hp_keyBlob = [], hp_firstSeen = 0\<rparr>"

definition loadKnownHosts ::
  "json_parser \<Rightarrow> bool \<Rightarrow> string \<Rightarrow> disk \<Rightarrow> trust_error + known_hosts" where
  "loadKnownHosts unmarshal readable path d =
     (case d path of
        None \<Rightarrow> Inr \<lparr>kh_path = path, kh_pins = Some []\<rparr>
      | Some data \<Rightarrow>
          if \<not> readable then Inl TrustRead
          else if trim_space data = '''' then Inr \<lparr>kh_path = path, kh_pins = Some []\<rparr>
          else (case unmarshal data of
                  None \<Rightarrow> Inl TrustParse
                | Some JNull \<Rightarrow> Inr \<lparr>kh_path = path, kh_pins = None\<rparr>
                | Some (JObj ms) \<Rightarrow>
                    (case decode_map_members (decode_struct pin_fields) zero_pin ms [] of
                       None \<Rightarrow> Inl TrustParse
                     | Some m \<Rightarrow> Inr \<lparr>kh_path = path, kh_pins = Some m\<rparr>)
                | Some _ \<Rightarrow> Inl TrustParse))"

definition kh_get :: "string \<Rightarrow> known_hosts \<Rightarrow> host_pin option" where
  "kh_get addr k = map_of (kh_map k) addr"

definition kh_pinned :: "string \<Rightarrow> known_hosts \<Rightarrow> bool" where
  "kh_pinned addr k \<longleftrightarrow> kh_get addr k \<noteq> None"

definition kh_pins_copy :: "known_hosts \<Rightarrow> (string \<times> host_pin) list" where
  "kh_pins_copy k = fold (\<lambda>(a, p). map_put a p) (kh_map k) []"

definition kh_render :: "(json \<Rightarrow> string) \<Rightarrow> known_hosts \<Rightarrow> string" where
  "kh_render marshal k =
     marshal (case kh_pins k of None \<Rightarrow> JNull | Some m \<Rightarrow> pins_json m)"

definition kh_saveLocked ::
  "(json \<Rightarrow> string) \<Rightarrow> os_env \<Rightarrow> known_hosts \<Rightarrow> disk \<Rightarrow> file_error option \<times> disk list" where
  "kh_saveLocked marshal e k d = save_at e (kh_path k) (kh_render marshal k) d"

interpretation kh_persist: atomic_persist "kh_saveLocked marshal" kh_path "kh_render marshal"
  "\<lambda>k. kh_path k \<noteq> ''''" for marshal
  by unfold_locales (use save_at_laws in \<open>simp_all add: kh_saveLocked_def\<close>)

definition kh_commit ::
  "(json \<Rightarrow> string) \<Rightarrow> os_env \<Rightarrow> known_hosts \<Rightarrow> disk \<Rightarrow> file_error option \<times> known_hosts \<times> disk" where
  "kh_commit marshal e k d = (case kh_saveLocked marshal e k d of (r, ds) \<Rightarrow> (r, k, last ds))"

text \<open>\<open>delete\<close> on a nil map does nothing.\<close>

definition kh_forget ::
  "(json \<Rightarrow> string) \<Rightarrow> os_env \<Rightarrow> string \<Rightarrow> known_hosts \<Rightarrow> disk
     \<Rightarrow> file_error option \<times> known_hosts \<times> disk" where
  "kh_forget marshal e addr k d =
     kh_commit marshal e (k\<lparr>kh_pins := map_option (map_delete addr) (kh_pins k)\<rparr>) d"

definition kh_pin ::
  "(json \<Rightarrow> string) \<Rightarrow> os_env \<Rightarrow> int \<Rightarrow> string \<Rightarrow> public_key \<Rightarrow> known_hosts \<Rightarrow> disk
     \<Rightarrow> trust_error option \<times> known_hosts \<times> disk" where
  "kh_pin marshal e now addr key k d =
     (case kh_pins k of
        None \<Rightarrow> (Some NilMapPanic, k, d)
      | Some m \<Rightarrow>
          (case kh_commit marshal e
                  (k\<lparr>kh_pins := Some (map_put addr
                      \<lparr>hp_keyType = pk_type key, hp_keyBlob = pk_blob key, hp_firstSeen = now\<rparr> m)\<rparr>) d of
             (r, k', d') \<Rightarrow> (map_option (PinFailed addr) r, k', d')))"

definition fingerprint :: "(bytes \<Rightarrow> bytes) \<Rightarrow> string \<Rightarrow> bytes \<Rightarrow> string" where
  "fingerprint sha256 keyType blob = keyType @ '' SHA256:'' @ base64_encode (sha256 blob)"

text \<open>The decision of the callback on the pin it found, when it found one.\<close>

definition check_pin ::
  "(bytes \<Rightarrow> bytes) \<Rightarrow> string \<Rightarrow> host_pin \<Rightarrow> public_key \<Rightarrow> trust_error option" where
  "check_pin sha256 addr pin key =
     (if hp_keyType pin = pk_type key \<and> hp_keyBlob pin = pk_blob key then None
      else Some (HostKeyMismatch addr (hp_keyType pin) (fingerprint sha256 (hp_keyType pin) (hp_keyBlob pin))
                   (pk_type key) (fingerprint sha256 (pk_type key) (pk_blob key))))"

definition kh_callback ::
  "(bytes \<Rightarrow> bytes) \<Rightarrow> (json \<Rightarrow> string) \<Rightarrow> os_env \<Rightarrow> int \<Rightarrow> string \<Rightarrow> public_key \<Rightarrow> known_hosts \<Rightarrow> disk
     \<Rightarrow> trust_error option \<times> known_hosts \<times> disk" where
  "kh_callback sha256 marshal e now addr key k d =
     (case kh_get addr k of
        None \<Rightarrow> kh_pin marshal e now addr key k d
      | Some pin \<Rightarrow> (check_pin sha256 addr pin key, k, d))"

section \<open>Secrets\<close>

text \<open>
  The keyring, if one could be opened, and the fallback in memory.  Whether the keyring answers an
  operation or fails is a parameter of the operation.
\<close>

record secrets =
  sc_kr :: "(string \<times> string) list option"
  sc_mem :: "(string \<times> string) list"

definition newSecrets :: "(string \<times> string) list option \<Rightarrow> secrets" where
  "newSecrets kr = \<lparr>sc_kr = kr, sc_mem = []\<rparr>"

definition secrets_available :: "secrets \<Rightarrow> bool" where
  "secrets_available s \<longleftrightarrow> sc_kr s \<noteq> None"

definition secrets_get :: "bool \<Rightarrow> string \<Rightarrow> secrets \<Rightarrow> string option" where
  "secrets_get kr_ok key s =
     (case sc_kr s of
        None \<Rightarrow> map_of (sc_mem s) key
      | Some kr \<Rightarrow>
          if kr_ok then (case map_of kr key of Some v \<Rightarrow> Some v | None \<Rightarrow> map_of (sc_mem s) key)
          else map_of (sc_mem s) key)"

definition secrets_set :: "bool \<Rightarrow> string \<Rightarrow> string \<Rightarrow> secrets \<Rightarrow> secrets" where
  "secrets_set kr_ok key v s =
     (case sc_kr s of
        Some kr \<Rightarrow> if kr_ok then s\<lparr>sc_kr := Some (map_put key v kr)\<rparr>
                   else s\<lparr>sc_mem := map_put key v (sc_mem s)\<rparr>
      | None \<Rightarrow> s\<lparr>sc_mem := map_put key v (sc_mem s)\<rparr>)"

definition secrets_delete :: "bool \<Rightarrow> string \<Rightarrow> secrets \<Rightarrow> secrets" where
  "secrets_delete kr_ok key s =
     (let s1 = s\<lparr>sc_mem := map_delete key (sc_mem s)\<rparr>
      in case sc_kr s1 of
           Some kr \<Rightarrow> if kr_ok then s1\<lparr>sc_kr := Some (map_delete key kr)\<rparr> else s1
         | None \<Rightarrow> s1)"

definition passwordKey :: "string \<Rightarrow> string \<Rightarrow> string" where
  "passwordKey addr user = ''password:'' @ user @ ''@'' @ addr"

definition passphraseKey :: "string \<Rightarrow> string" where
  "passphraseKey keyPath = ''passphrase:'' @ keyPath"

definition getPassword :: "bool \<Rightarrow> string \<Rightarrow> string \<Rightarrow> secrets \<Rightarrow> string option" where
  "getPassword kr_ok addr user s = secrets_get kr_ok (passwordKey addr user) s"

definition setPassword :: "bool \<Rightarrow> string \<Rightarrow> string \<Rightarrow> string \<Rightarrow> secrets \<Rightarrow> secrets" where
  "setPassword kr_ok addr user pw s = secrets_set kr_ok (passwordKey addr user) pw s"

definition deletePassword :: "bool \<Rightarrow> string \<Rightarrow> string \<Rightarrow> secrets \<Rightarrow> secrets" where
  "deletePassword kr_ok addr user s = secrets_delete kr_ok (passwordKey addr user) s"

definition getPassphrase :: "bool \<Rightarrow> string \<Rightarrow> secrets \<Rightarrow> string option" where
  "getPassphrase kr_ok keyPath s = secrets_get kr_ok (passphraseKey keyPath) s"

definition setPassphrase :: "bool \<Rightarrow> string \<Rightarrow> string \<Rightarrow> secrets \<Rightarrow> secrets" where
  "setPassphrase kr_ok keyPath pp s = secrets_set kr_ok (passphraseKey keyPath) pp s"

definition deletePassphrase :: "bool \<Rightarrow> string \<Rightarrow> secrets \<Rightarrow> secrets" where
  "deletePassphrase kr_ok keyPath s = secrets_delete kr_ok (passphraseKey keyPath) s"

section \<open>Authentication methods\<close>

record provided_secrets =
  pv_password :: "string option"
  pv_passphrase :: "string option"

datatype 'k auth_method = AuthAgent | AuthKey 'k | AuthPassword string

datatype auth_error =
    NoAgent | AgentFailed | NoKeyPath | NoPassword | KeyRead | KeyNoPassphrase | KeyUnlock | NoAuthMethod

text \<open>
  The world the resolution sees: the home directory, the files, the answer of the keyring, the
  agent (an error, none, or one), and the parser of private keys without and with a passphrase.
\<close>

record 'k auth_env =
  ae_home :: string
  ae_files :: disk
  ae_krOk :: bool
  ae_agent :: "auth_error + bool"
  ae_parse :: "string \<Rightarrow> 'k option"
  ae_parseWith :: "string \<Rightarrow> string \<Rightarrow> 'k option"

text \<open>\<open>agentSocketPath\<close> and \<open>AgentAuth\<close>: the socket of the environment, and dialing it.\<close>

definition agentSocketPath :: "bool \<Rightarrow> string \<Rightarrow> auth_error + string" where
  "agentSocketPath windows sock =
     (if windows then Inr [CHR 0x5C, CHR 0x5C, CHR ''.'', CHR 0x5C, CHR ''p'', CHR ''i'', CHR ''p'', CHR ''e'',
                           CHR 0x5C, CHR ''o'', CHR ''p'', CHR ''e'', CHR ''n'', CHR ''s'', CHR ''s'', CHR ''h'',
                           CHR ''-'', CHR ''s'', CHR ''s'', CHR ''h'', CHR ''-'', CHR ''a'', CHR ''g'', CHR ''e'',
                           CHR ''n'', CHR ''t'']
      else if sock = '''' then Inl NoAgent else Inr sock)"

definition agentAuth :: "bool \<Rightarrow> string \<Rightarrow> (string \<Rightarrow> bool) \<Rightarrow> auth_error + bool" where
  "agentAuth windows sock dial =
     (case agentSocketPath windows sock of
        Inl e \<Rightarrow> Inl e
      | Inr p \<Rightarrow> if p = '''' then Inr False else if dial p then Inr True else Inl AgentFailed)"

definition resolvePassword ::
  "'k auth_env \<Rightarrow> host \<Rightarrow> secrets \<Rightarrow> provided_secrets option \<Rightarrow> auth_error + string" where
  "resolvePassword env h s prov =
     (case Option.bind prov pv_password of
        Some pw \<Rightarrow> if pw \<noteq> '''' then Inr pw
                   else (case getPassword (ae_krOk env) (host_addr h) (h_user h) s of
                           Some p \<Rightarrow> if p = '''' then Inl NoPassword else Inr p | None \<Rightarrow> Inl NoPassword)
      | None \<Rightarrow> (case getPassword (ae_krOk env) (host_addr h) (h_user h) s of
                   Some p \<Rightarrow> if p = '''' then Inl NoPassword else Inr p | None \<Rightarrow> Inl NoPassword))"

definition resolvePassphrase ::
  "'k auth_env \<Rightarrow> string \<Rightarrow> secrets \<Rightarrow> provided_secrets option \<Rightarrow> auth_error + string" where
  "resolvePassphrase env path s prov =
     (case Option.bind prov pv_passphrase of
        Some pp \<Rightarrow> if pp \<noteq> '''' then Inr pp
                   else (case getPassphrase (ae_krOk env) path s of
                           Some p \<Rightarrow> if p = '''' then Inl KeyNoPassphrase else Inr p
                         | None \<Rightarrow> Inl KeyNoPassphrase)
      | None \<Rightarrow> (case getPassphrase (ae_krOk env) path s of
                   Some p \<Rightarrow> if p = '''' then Inl KeyNoPassphrase else Inr p
                 | None \<Rightarrow> Inl KeyNoPassphrase))"

definition keyAuth ::
  "'k auth_env \<Rightarrow> string \<Rightarrow> secrets \<Rightarrow> provided_secrets option \<Rightarrow> auth_error + 'k auth_method" where
  "keyAuth env keyPath s prov =
     (let path = expand_path (ae_home env) keyPath
      in case ae_files env path of
           None \<Rightarrow> Inl KeyRead
         | Some data \<Rightarrow>
             (case ae_parse env data of
                Some k \<Rightarrow> Inr (AuthKey k)
              | None \<Rightarrow>
                  (case resolvePassphrase env path s prov of
                     Inl e \<Rightarrow> Inl e
                   | Inr pp \<Rightarrow> (case ae_parseWith env data pp of
                                  None \<Rightarrow> Inl KeyUnlock | Some k \<Rightarrow> Inr (AuthKey k)))))"

text \<open>The default keys are tried in order, and the first that works is the only one used.\<close>

fun first_key ::
  "'k auth_env \<Rightarrow> secrets \<Rightarrow> provided_secrets option \<Rightarrow> string list \<Rightarrow> 'k auth_method list" where
  "first_key env s prov [] = []"
| "first_key env s prov (p # ps) =
     (case keyAuth env p s prov of Inr a \<Rightarrow> [a] | Inl _ \<Rightarrow> first_key env s prov ps)"

definition default_keys :: "string list" where
  "default_keys = [''~/.ssh/id_ed25519'', ''~/.ssh/id_ecdsa'', ''~/.ssh/id_rsa'']"

definition buildAuthMethods ::
  "'k auth_env \<Rightarrow> host \<Rightarrow> secrets \<Rightarrow> provided_secrets option \<Rightarrow> auth_error + 'k auth_method list" where
  "buildAuthMethods env h s prov =
     (let kind = cr_kind (h_credential h); keyPath = cr_keyPath (h_credential h)
      in if kind = credAgent then
           (case ae_agent env of
              Inl e \<Rightarrow> Inl e | Inr False \<Rightarrow> Inl NoAgent | Inr True \<Rightarrow> Inr [AuthAgent])
         else if kind = credPassword then
           (case resolvePassword env h s prov of Inl e \<Rightarrow> Inl e | Inr pw \<Rightarrow> Inr [AuthPassword pw])
         else if kind = credKey then
           (if keyPath = '''' then Inl NoKeyPath
            else (case keyAuth env keyPath s prov of Inl e \<Rightarrow> Inl e | Inr a \<Rightarrow> Inr [a]))
         else Inr ((case ae_agent env of Inr True \<Rightarrow> [AuthAgent] | _ \<Rightarrow> [])
                   @ first_key env s prov default_keys
                   @ (case resolvePassword env h s prov of
                        Inr pw \<Rightarrow> if pw \<noteq> '''' then [AuthPassword pw] else []
                      | Inl _ \<Rightarrow> [])))"

text \<open>A hop: where and how to connect.  Its host-key callback is \<open>kh_callback\<close> at its address.\<close>

record 'k dial_hop =
  dh_addr :: string
  dh_user :: string
  dh_auth :: "'k auth_method list"
  dh_timeout :: int

definition buildHop ::
  "'k auth_env \<Rightarrow> host \<Rightarrow> secrets \<Rightarrow> provided_secrets option \<Rightarrow> int \<Rightarrow> auth_error + 'k dial_hop" where
  "buildHop env h s prov timeout =
     (case buildAuthMethods env h s prov of
        Inl e \<Rightarrow> Inl e
      | Inr auths \<Rightarrow>
          if auths = [] then Inl NoAuthMethod
          else Inr \<lparr>dh_addr = host_addr h, dh_user = h_user h, dh_auth = auths, dh_timeout = timeout\<rparr>)"

datatype dial_error = NilHop | DialTCP | Handshake

text \<open>\<open>Dial\<close>: the TCP connection within the timeout, then the SSH handshake on it.\<close>

definition dialDirect ::
  "(string \<Rightarrow> int \<Rightarrow> 'c option) \<Rightarrow> ('c \<Rightarrow> 'k dial_hop \<Rightarrow> 'cl option) \<Rightarrow> 'k dial_hop \<Rightarrow> dial_error + 'cl"
where
  "dialDirect tcp handshake hop =
     (let timeout = (if dh_timeout hop \<le> 0 then 10 * 1000000000 else dh_timeout hop)
      in case tcp (dh_addr hop) timeout of
           None \<Rightarrow> Inl DialTCP
         | Some c \<Rightarrow> (case handshake c hop of None \<Rightarrow> Inl Handshake | Some cl \<Rightarrow> Inr cl))"

definition ssh_dial ::
  "(string \<Rightarrow> int \<Rightarrow> 'c option) \<Rightarrow> ('c \<Rightarrow> 'k dial_hop \<Rightarrow> 'cl option) \<Rightarrow> 'k dial_hop option
     \<Rightarrow> dial_error + 'cl" where
  "ssh_dial tcp handshake hop =
     (case hop of None \<Rightarrow> Inl NilHop | Some h \<Rightarrow> dialDirect tcp handshake h)"

section \<open>Trust on first use\<close>

record attempt =
  at_env :: os_env
  at_now :: int
  at_addr :: string
  at_key :: public_key

text \<open>A run of connection attempts, one after the other, with the verdict of each.\<close>

fun tofu_run ::
  "(bytes \<Rightarrow> bytes) \<Rightarrow> (json \<Rightarrow> string) \<Rightarrow> attempt list \<Rightarrow> known_hosts \<Rightarrow> disk
     \<Rightarrow> (string \<times> public_key \<times> bool) list" where
  "tofu_run sha marshal [] k d = []"
| "tofu_run sha marshal (a # as) k d =
     (case kh_callback sha marshal (at_env a) (at_now a) (at_addr a) (at_key a) k d of
        (r, k', d') \<Rightarrow> (at_addr a, at_key a, r = None) # tofu_run sha marshal as k' d')"

definition pin_key :: "host_pin \<Rightarrow> public_key" where
  "pin_key p = \<lparr>pk_type = hp_keyType p, pk_blob = hp_keyBlob p\<rparr>"

lemma kh_commit_eq: "kh_commit marshal e k d = (r, k', d') \<Longrightarrow> k' = k"
  by (auto simp: kh_commit_def split: prod.splits)

lemma check_pin_None: "check_pin sha addr pin key = None \<longleftrightarrow> pin_key pin = key"
  by (cases key) (auto simp: check_pin_def pin_key_def)

text \<open>After an attempt its address is pinned, to the key it was pinned to before if it was.\<close>

lemma kh_callback_pins:
  assumes "kh_callback sha marshal e now addr key k d = (r, k', d')" and "kh_pins k \<noteq> None"
  shows "kh_pins k' \<noteq> None"
    and "\<exists>p. kh_get addr k' = Some p \<and> (r = None \<longrightarrow> pin_key p = key)
             \<and> (case kh_get addr k of Some q \<Rightarrow> p = q | None \<Rightarrow> pin_key p = key)"
    and "a \<noteq> addr \<Longrightarrow> kh_get a k' = kh_get a k"
proof (atomize (full), cases "kh_get addr k")
  case None
  with assms obtain m where m: "kh_pins k = Some m" by auto
  from None m assms(1) have "k' = k\<lparr>kh_pins := Some (map_put addr
      \<lparr>hp_keyType = pk_type key, hp_keyBlob = pk_blob key, hp_firstSeen = now\<rparr> m)\<rparr>"
    by (auto simp: kh_callback_def kh_pin_def dest: kh_commit_eq split: prod.splits)
  with m None show "kh_pins k' \<noteq> None \<and>
    (\<exists>p. kh_get addr k' = Some p \<and> (r = None \<longrightarrow> pin_key p = key)
         \<and> (case kh_get addr k of None \<Rightarrow> pin_key p = key | Some q \<Rightarrow> p = q)) \<and>
    (a \<noteq> addr \<longrightarrow> kh_get a k' = kh_get a k)"
    by (simp add: kh_get_def kh_map_def pin_key_def)
next
  case (Some p)
  with assms show "kh_pins k' \<noteq> None \<and>
    (\<exists>p. kh_get addr k' = Some p \<and> (r = None \<longrightarrow> pin_key p = key)
         \<and> (case kh_get addr k of None \<Rightarrow> pin_key p = key | Some q \<Rightarrow> p = q)) \<and>
    (a \<noteq> addr \<longrightarrow> kh_get a k' = kh_get a k)"
    by (auto simp: kh_callback_def check_pin_None)
qed

lemma tofu_run_pinned:
  assumes "kh_pins k \<noteq> None" and "kh_get addr k = Some p"
    and "(addr, key, True) \<in> set (tofu_run sha marshal as k d)"
  shows "key = pin_key p"
  using assms
proof (induction as arbitrary: k d)
  case Nil
  then show ?case by simp
next
  case (Cons a as)
  obtain r k' d' where c: "kh_callback sha marshal (at_env a) (at_now a) (at_addr a) (at_key a) k d = (r, k', d')"
    by (metis surj_pair)
  note kp = kh_callback_pins [OF c Cons.prems(1)]
  have p': "kh_get addr k' = Some p"
    using kp(2) kp(3) [of addr] Cons.prems(2) by (cases "addr = at_addr a") auto
  from Cons.prems(3) c consider "addr = at_addr a" "key = at_key a" "r = None"
    | "(addr, key, True) \<in> set (tofu_run sha marshal as k' d')" by auto
  then show ?case
  proof cases
    case 1
    with kp(2) p' show ?thesis by auto
  next
    case 2
    with Cons.IH [OF kp(1) p'] show ?thesis by simp
  qed
qed


definition demo_key :: "byte \<Rightarrow> public_key" where
  "demo_key b = \<lparr>pk_type = ''ssh-ed25519'', pk_blob = [b]\<rparr>"

definition demo_attempt :: "byte \<Rightarrow> attempt" where
  "demo_attempt b = \<lparr>at_env = os_ok, at_now = 1, at_addr = ''h:22'', at_key = demo_key b\<rparr>"

definition demo_kh :: known_hosts where
  "demo_kh = \<lparr>kh_path = '''', kh_pins = Some []\<rparr>"


text \<open>
  The callback looks the pin up and stores it in two separate critical sections:
  two first connections to one address that both look before either stores are both accepted, with
  different keys, and the last one stays pinned.
\<close>

lemma tofu_concurrent_first_use:
  assumes "kh_get addr k = None" and "kh_pins k \<noteq> None" and "kh_path k = ''''"
    and "kh_pin marshal e t1 addr key1 k d = (r1, k1, d1)"
    and "kh_pin marshal e t2 addr key2 k1 d1 = (r2, k2, d2)"
  shows "r1 = None \<and> r2 = None
     \<and> kh_get addr k2 = Some \<lparr>hp_keyType = pk_type key2, hp_keyBlob = pk_blob key2, hp_firstSeen = t2\<rparr>"
  using assms
  by (auto simp: kh_pin_def kh_commit_def kh_saveLocked_def save_at_def kh_get_def kh_map_def)

lemma tofu_concurrent_first_use_witness:
  "\<exists>k1 d1 k2 d2. kh_pin (\<lambda>_. ''x'') os_ok 1 ''h:22'' (demo_key 1) demo_kh (\<lambda>_. None) = (None, k1, d1)
     \<and> kh_pin (\<lambda>_. ''x'') os_ok 2 ''h:22'' (demo_key 2) k1 d1 = (None, k2, d2)
     \<and> map_option pin_key (kh_get ''h:22'' k2) = Some (demo_key 2)"
proof -
  obtain r1 k1 d1 where 1: "kh_pin (\<lambda>_. ''x'') os_ok 1 ''h:22'' (demo_key 1) demo_kh (\<lambda>_. None) = (r1, k1, d1)"
    by (metis surj_pair)
  obtain r2 k2 d2 where 2: "kh_pin (\<lambda>_. ''x'') os_ok 2 ''h:22'' (demo_key 2) k1 d1 = (r2, k2, d2)"
    by (metis surj_pair)
  have "kh_get ''h:22'' demo_kh = None" "kh_pins demo_kh \<noteq> None" "kh_path demo_kh = ''''"
    by (simp_all add: demo_kh_def kh_get_def kh_map_def)
  from tofu_concurrent_first_use [OF this 1 2] 1 2 show ?thesis by (auto simp: pin_key_def demo_key_def)
qed

section \<open>Secrets\<close>

text \<open>
  As long as the keyring keeps answering, or keeps failing, the secret store is a
  map: a saved secret is found, a deleted one is not, and other keys are not affected.
\<close>

lemma secrets_map_laws:
  "secrets_get b k' (secrets_set b k v s) = (if k' = k then Some v else secrets_get b k' s)
   \<and> secrets_get b k' (secrets_delete b k s) = (if k' = k then None else secrets_get b k' s)"
  by (auto simp: secrets_get_def secrets_set_def secrets_delete_def Let_def split: option.splits)

text \<open>
  When the keyring holds a secret and fails to store its replacement, the new
  value goes to the memory store only, and every later lookup that reaches the keyring still
  answers the old one, although the save reported success.
\<close>

lemma secrets_stale_after_failed_save:
  assumes "sc_kr s = Some kr" and "map_of kr key = Some old"
  shows "secrets_get True key (secrets_set False key new s) = Some old"
  using assms by (simp add: secrets_get_def secrets_set_def)

lemma secrets_stale_after_failed_save_witness:
  "secrets_get True ''k'' (secrets_set False ''k'' ''new'' (newSecrets (Some [(''k'', ''old'')]))) = Some ''old''"
  by (rule secrets_stale_after_failed_save [of _ "[(''k'', ''old'')]"]) (simp_all add: newSecrets_def)

lemma passwordKey_inject:
  "CHR ''@'' \<notin> set u \<Longrightarrow> CHR ''@'' \<notin> set v \<Longrightarrow> passwordKey a u = passwordKey b v \<longleftrightarrow> a = b \<and> u = v"
proof (induction u arbitrary: v)
  case Nil
  then show ?case by (cases v) (auto simp: passwordKey_def)
next
  case (Cons c u)
  then show ?case by (cases v) (auto simp: passwordKey_def)
qed

section \<open>Authentication\<close>

text \<open>
  A passphrase saved for a key given by a path below the home directory is never
  found: it is saved under the path as written and looked up under the expanded one, so without a
  passphrase for this very connection the encrypted key cannot be used.
\<close>

lemma home_key_passphrase_lost:
  assumes "keyPath = ''~/'' @ rest" and "hd (ae_home env) = CHR ''/''" and "ae_home env \<noteq> ''''"
    and "ae_files env (expand_path (ae_home env) keyPath) = Some data" and "ae_parse env data = None"
    and "secrets_get (ae_krOk env) (passphraseKey (expand_path (ae_home env) keyPath)) s = None"
  shows "keyAuth env keyPath (setPassphrase (ae_krOk env) keyPath pp s) None = Inl KeyNoPassphrase"
proof -
  obtain h where h: "ae_home env = CHR ''/'' # h" using assms(2,3) by (cases "ae_home env") auto
  have x: "expand_path (ae_home env) keyPath = CHR ''/'' # h @ CHR ''/'' # rest"
    using assms(1) h by (simp add: expand_path_def)
  have "passphraseKey (expand_path (ae_home env) keyPath) \<noteq> passphraseKey keyPath"
    unfolding x passphraseKey_def using assms(1) by simp
  with secrets_map_laws have
    "getPassphrase (ae_krOk env) (expand_path (ae_home env) keyPath) (setPassphrase (ae_krOk env) keyPath pp s) = None"
    using assms(6) by (simp add: getPassphrase_def setPassphrase_def)
  with assms(4,5) show ?thesis
    by (simp add: keyAuth_def Let_def resolvePassphrase_def)
qed

definition demo_auth_env :: "unit auth_env" where
  "demo_auth_env = \<lparr>ae_home = ''/r'', ae_files = (\<lambda>_. None)(''/r/k'' \<mapsto> ''enc''), ae_krOk = True,
     ae_agent = Inr False, ae_parse = (\<lambda>_. None), ae_parseWith = (\<lambda>_ _. Some ())\<rparr>"

lemma home_key_passphrase_lost_witness:
  "keyAuth demo_auth_env ''~/k'' (setPassphrase True ''~/k'' ''pp'' (newSecrets (Some []))) None
     = Inl KeyNoPassphrase"
  using home_key_passphrase_lost [of "''~/k''" "''k''" demo_auth_env "''enc''" "newSecrets (Some [])" "''pp''"]
  by (simp add: demo_auth_env_def expand_path_def secrets_get_def newSecrets_def)

text \<open>The kinds of authentication methods, and the methods a credential allows.\<close>

fun is_key :: "'k auth_method \<Rightarrow> bool" where
  "is_key (AuthKey k) = True" | "is_key _ = False"

fun is_password :: "'k auth_method \<Rightarrow> bool" where
  "is_password (AuthPassword p) = True" | "is_password _ = False"

definition methods_allowed :: "string \<Rightarrow> 'k auth_method list \<Rightarrow> bool" where
  "methods_allowed kind ms \<longleftrightarrow>
     ms \<noteq> []
     \<and> (if kind = credAgent then ms = [AuthAgent]
        else if kind = credPassword then length ms = 1 \<and> list_all is_password ms
        else if kind = credKey then length ms = 1 \<and> list_all is_key ms
        else (\<exists>as ks ps. ms = as @ ks @ ps \<and> (as = [] \<or> as = [AuthAgent])
                \<and> length ks \<le> 1 \<and> list_all is_key ks \<and> length ps \<le> 1 \<and> list_all is_password ps))"

lemma keyAuth_key: "keyAuth env p s prov = Inr a \<Longrightarrow> is_key a"
  by (auto simp: keyAuth_def Let_def split: option.splits sum.splits)

lemma first_key_one: "length (first_key env s prov ps) \<le> 1 \<and> list_all is_key (first_key env s prov ps)"
  by (induction ps) (auto split: sum.splits dest: keyAuth_key)

text \<open>
  A resolved hop offers at least one method, addresses the host's own
  \<open>host:port\<close> and user, and offers only what the host's credential allows: a password host
  nothing but a password, a key host nothing but its key, an agent host nothing but the agent; the
  default kind offers the agent first, then at most one key, then at most one password.
\<close>

lemma hop_methods_allowed:
  assumes "buildHop env h s prov timeout = Inr hop"
  shows "methods_allowed (cr_kind (h_credential h)) (dh_auth hop)
         \<and> dh_addr hop = host_addr h \<and> dh_user hop = h_user h"
proof -
  from assms obtain auths where a: "buildAuthMethods env h s prov = Inr auths" "auths \<noteq> []"
    and hop: "dh_auth hop = auths" "dh_addr hop = host_addr h" "dh_user hop = h_user h"
    by (auto simp: buildHop_def split: sum.splits if_splits)
  let ?agent = "case ae_agent env of Inr True \<Rightarrow> [AuthAgent] | _ \<Rightarrow> []"
  let ?pw = "case resolvePassword env h s prov of
      Inr pw \<Rightarrow> if pw \<noteq> '''' then [AuthPassword pw] else [] | Inl _ \<Rightarrow> []"
  have "methods_allowed (cr_kind (h_credential h)) auths"
  proof (cases "cr_kind (h_credential h) \<in> {credAgent, credPassword, credKey}")
    case True
    with a show ?thesis
      by (auto simp: buildAuthMethods_def Let_def methods_allowed_def credAgent_def credPassword_def
          credKey_def split: sum.splits if_splits bool.splits dest: keyAuth_key)
  next
    case False
    then have "auths = ?agent @ first_key env s prov default_keys @ ?pw"
      using a(1) by (simp add: buildAuthMethods_def Let_def)
    moreover have "?agent = [] \<or> ?agent = [AuthAgent]" by (auto split: sum.splits bool.splits)
    moreover have "length ?pw \<le> 1 \<and> list_all is_password ?pw" by (auto split: sum.splits)
    ultimately show ?thesis
      using False a(2) first_key_one [of env s prov default_keys]
      unfolding methods_allowed_def by auto
  qed
  with hop show ?thesis by simp
qed

end
