(* ===== verification/Forwards.thy ===== *)
theory Forwards
  imports Trust
begin

text \<open>
  \<open>internal/api/forward_handler.go\<close>: port forwards on an SSH connection.  The registry of the
  forwards of each session, the launch of one forward on a connection, the requests that add and
  delete forwards, and the SOCKS5 server of dynamic forwards as a function of the bytes it reads.
  The network is a parameter.
\<close>

section \<open>Forwards and their registry\<close>

datatype forward_kind = ForwardLocal | ForwardRemote | ForwardDynamic | UnknownKind string

definition kind_of :: "string \<Rightarrow> forward_kind" where
  "kind_of s =
     (if s = ''local'' then ForwardLocal else if s = ''remote'' then ForwardRemote
      else if s = ''dynamic'' then ForwardDynamic else UnknownKind s)"

record forward_entry =
  fe_id :: string
  fe_kind :: forward_kind
  fe_bind :: string
  fe_target :: string

record forward_registry =
  fr_bySession :: "(string \<times> (string \<times> forward_entry) list) list"
  fr_byEntryID :: "(string \<times> string) list"

definition newForwardRegistry :: forward_registry where
  "newForwardRegistry = \<lparr>fr_bySession = [], fr_byEntryID = []\<rparr>"

text \<open>The entries of a session; a missing map reads as an empty one.\<close>

definition fr_entries :: "string \<Rightarrow> forward_registry \<Rightarrow> (string \<times> forward_entry) list" where
  "fr_entries sid f = (case map_of (fr_bySession f) sid of None \<Rightarrow> [] | Some m \<Rightarrow> m)"

definition fr_add :: "string \<Rightarrow> forward_entry \<Rightarrow> forward_registry \<Rightarrow> forward_registry" where
  "fr_add sid en f =
     f\<lparr>fr_bySession := map_put sid (map_put (fe_id en) en (fr_entries sid f)) (fr_bySession f),
       fr_byEntryID := map_put (fe_id en) sid (fr_byEntryID f)\<rparr>"

definition fr_list :: "string \<Rightarrow> forward_registry \<Rightarrow> forward_entry list" where
  "fr_list sid f = map snd (fr_entries sid f)"

definition fr_get :: "string \<Rightarrow> string \<Rightarrow> forward_registry \<Rightarrow> forward_entry option" where
  "fr_get sid eid f = map_of (fr_entries sid f) eid"

definition fr_remove :: "string \<Rightarrow> string \<Rightarrow> forward_registry \<Rightarrow> bool \<times> forward_registry" where
  "fr_remove sid eid f =
     (case fr_get sid eid f of
        None \<Rightarrow> (False, f)
      | Some _ \<Rightarrow>
          (True, f\<lparr>fr_bySession := map_put sid (map_delete eid (fr_entries sid f)) (fr_bySession f),
                   fr_byEntryID := map_delete eid (fr_byEntryID f)\<rparr>))"

section \<open>Launching\<close>

definition fillAddr :: "string \<Rightarrow> string" where
  "fillAddr spec = (if str_contains '':'' spec then spec else ''127.0.0.1:'' @ spec)"

datatype forward_error = ListenFailed string | UnknownForwardKind string | SessionNotFound | NoSSHConnection

text \<open>
  \<open>launchOnClient\<close>: the listener is opened on this machine for local and dynamic forwards and
  through the connection for remote ones; \<open>listen\<close> says whether that succeeds.  The random id is a
  parameter.
\<close>

definition launchOnClient ::
  "(bool \<Rightarrow> string \<Rightarrow> bool) \<Rightarrow> string \<Rightarrow> forward_kind \<Rightarrow> string \<Rightarrow> string
     \<Rightarrow> forward_error + forward_entry" where
  "launchOnClient listen rid kind bind target =
     (let b = fillAddr bind;
          en = \<lparr>fe_id = rid, fe_kind = kind, fe_bind = b, fe_target = target\<rparr>
      in case kind of
           ForwardLocal \<Rightarrow> if listen True b then Inr en else Inl (ListenFailed b)
         | ForwardRemote \<Rightarrow> if listen False b then Inr en else Inl (ListenFailed b)
         | ForwardDynamic \<Rightarrow> if listen True b then Inr en else Inl (ListenFailed b)
         | UnknownKind s \<Rightarrow> Inl (UnknownForwardKind s))"

text \<open>
  \<open>startForward\<close>: \<open>client\<close> is the session's SSH connection, when the session exists and has one.
\<close>

definition startForward ::
  "(string \<Rightarrow> forward_error + 'c) \<Rightarrow> ('c \<Rightarrow> bool \<Rightarrow> string \<Rightarrow> bool) \<Rightarrow> string \<Rightarrow> string
     \<Rightarrow> forward_kind \<Rightarrow> string \<Rightarrow> string \<Rightarrow> forward_registry
     \<Rightarrow> (forward_error + forward_entry) \<times> forward_registry" where
  "startForward client listen rid sid kind bind target f =
     (case client sid of
        Inl e \<Rightarrow> (Inl e, f)
      | Inr c \<Rightarrow>
          (case launchOnClient (listen c) rid kind bind target of
             Inl e \<Rightarrow> (Inl e, f)
           | Inr en \<Rightarrow> (Inr en, fr_add sid en f)))"

text \<open>An HTTP answer: the status, and the error text or the value of its JSON body.\<close>

datatype 'a http = HErr nat string | HOk nat 'a

record add_forward_req =
  af_kind :: string
  af_bind :: string
  af_target :: string

definition decode_add_forward :: "json \<Rightarrow> add_forward_req option" where
  "decode_add_forward j =
     decode_struct [(''kind'', f_str af_kind_update), (''bind'', f_str af_bind_update),
                    (''target'', f_str af_target_update)]
       j \<lparr>af_kind = '''', af_bind = '''', af_target = ''''\<rparr>"

text \<open>The body is \<open>None\<close> when it is not JSON.\<close>

definition handleAddForward ::
  "(string \<Rightarrow> forward_error + 'c) \<Rightarrow> ('c \<Rightarrow> bool \<Rightarrow> string \<Rightarrow> bool) \<Rightarrow> string \<Rightarrow> string
     \<Rightarrow> json option \<Rightarrow> forward_registry \<Rightarrow> forward_entry http \<times> forward_registry" where
  "handleAddForward client listen rid sid body f =
     (case Option.bind body decode_add_forward of
        None \<Rightarrow> (HErr 400 ''kind and bind are required'', f)
      | Some req \<Rightarrow>
          if af_bind req = '''' then (HErr 400 ''kind and bind are required'', f)
          else
            let kind = kind_of (af_kind req);
                start = (case startForward client listen rid sid kind (af_bind req) (af_target req) f of
                           (Inl e, f') \<Rightarrow> (HErr 400 ''start failed'', f')
                         | (Inr en, f') \<Rightarrow> (HOk 201 en, f'))
            in case kind of
                 UnknownKind s \<Rightarrow> (HErr 400 ''kind must be local, remote or dynamic'', f)
               | ForwardDynamic \<Rightarrow> start
               | _ \<Rightarrow> if af_target req = '''' then (HErr 400 ''target is required for local/remote forwards'', f)
                      else start)"

definition handleListForwards :: "string \<Rightarrow> forward_registry \<Rightarrow> forward_entry list http" where
  "handleListForwards sid f = HOk 200 (fr_list sid f)"

text \<open>
  \<open>handleDeleteForward\<close> looks the entry up, cancels it and removes it, in three separate steps.
  The answer carries the entry whose \<open>cancel\<close> was called.
\<close>

definition handleDeleteForward ::
  "string \<Rightarrow> string \<Rightarrow> forward_registry \<Rightarrow> forward_entry http \<times> forward_registry" where
  "handleDeleteForward sid eid f =
     (case fr_get sid eid f of
        None \<Rightarrow> (HErr 404 ''forward not found'', f)
      | Some en \<Rightarrow> (HOk 204 en, snd (fr_remove sid eid f)))"

section \<open>SOCKS5\<close>

text \<open>\<open>io.ReadFull\<close> of \<open>n\<close> bytes into a zeroed buffer: the buffer, whether it was filled, the rest.\<close>

definition read_full :: "nat \<Rightarrow> bytes \<Rightarrow> bytes \<times> bool \<times> bytes" where
  "read_full n s = (take n s @ replicate (n - length s) 0, n \<le> length s, drop n s)"

definition ipv4_string :: "bytes \<Rightarrow> string" where
  "ipv4_string bs = str_join ''.'' (map (\<lambda>b. nat_itoa (unat b)) bs)"

fun ip_groups :: "bytes \<Rightarrow> nat list" where
  "ip_groups (a # b # bs) = (unat a * 256 + unat b) # ip_groups bs"
| "ip_groups _ = []"

text \<open>The first longest run of at least two zero groups: its start and length.\<close>

fun zero_run :: "nat list \<Rightarrow> nat" where
  "zero_run (x # xs) = (if x = 0 then Suc (zero_run xs) else 0)"
| "zero_run [] = 0"

fun best_run :: "nat \<Rightarrow> nat list \<Rightarrow> nat \<times> nat \<Rightarrow> nat \<times> nat" where
  "best_run i [] best = best"
| "best_run i (x # xs) best =
     (let n = zero_run (x # xs)
      in best_run (Suc i) xs (if n \<ge> 2 \<and> n > snd best then (i, n) else best))"

definition ipv6_string :: "bytes \<Rightarrow> string" where
  "ipv6_string bs =
     (if take 12 bs = replicate 10 0 @ [0xff, 0xff] then ipv4_string (drop 12 bs)
      else
        let gs = ip_groups bs; (st, n) = best_run 0 gs (0, 0);
            hex = (\<lambda>xs. str_join '':'' (map hex_string xs))
        in if n = 0 then hex gs else hex (take st gs) @ ''::'' @ hex (drop (st + n) gs))"

text \<open>
  What a SOCKS5 connection came to: the bytes written to the client, the target dialed if any, and
  whether the connection was handed to \<open>pipe\<close>.
\<close>

record socks_result =
  sr_written :: "bytes list"
  sr_dialed :: "string option"
  sr_piped :: bool

definition socks_end :: "bytes list \<Rightarrow> string option \<Rightarrow> bool \<Rightarrow> socks_result" where
  "socks_end w t p = \<lparr>sr_written = w, sr_dialed = t, sr_piped = p\<rparr>"

text \<open>The address after the request head: \<open>None\<close> for an unknown type.\<close>

definition socks_host :: "byte \<Rightarrow> bytes \<Rightarrow> (string \<times> bytes) option" where
  "socks_host atyp s =
     (if atyp = 1 then (case read_full 4 s of (b, _, s') \<Rightarrow> Some (ipv4_string b, s'))
      else if atyp = 3 then
        (case read_full 1 s of (l, _, s1) \<Rightarrow>
           (case read_full (unat (l ! 0)) s1 of (b, _, s2) \<Rightarrow> Some (string_of_bytes b, s2)))
      else if atyp = 4 then (case read_full 16 s of (b, _, s') \<Rightarrow> Some (ipv6_string b, s'))
      else None)"

definition socks5 ::
  "(bytes \<Rightarrow> bool) \<Rightarrow> (string \<Rightarrow> bool) \<Rightarrow> bytes \<Rightarrow> socks_result" where
  "socks5 write_ok dial input =
     (case read_full 2 input of (head, ok, s1) \<Rightarrow>
        if \<not> ok \<or> head ! 0 \<noteq> 5 then socks_end [] None False
        else (case read_full (unat (head ! 1)) s1 of (_, ok2, s2) \<Rightarrow>
          if \<not> ok2 then socks_end [] None False
          else if \<not> write_ok [5, 0] then socks_end [] None False
          else (case read_full 4 s2 of (rh, ok3, s3) \<Rightarrow>
            if \<not> ok3 \<or> rh ! 0 \<noteq> 5 \<or> rh ! 1 \<noteq> 1 then socks_end [[5, 0]] None False
            else (case socks_host (rh ! 3) s3 of
                    None \<Rightarrow> socks_end [[5, 0]] None False
                  | Some (h, s4) \<Rightarrow>
                      (case read_full 2 s4 of (pb, _, _) \<Rightarrow>
                         let target = joinHostPort h (nat_itoa (unat (pb ! 0) * 256 + unat (pb ! 1)))
                         in if \<not> dial target then socks_end [[5, 0]] (Some target) False
                            else if \<not> write_ok [5, 0, 0, 1, 0, 0, 0, 0, 0, 0]
                            then socks_end [[5, 0]] (Some target) False
                            else socks_end [[5, 0], [5, 0, 0, 1, 0, 0, 0, 0, 0, 0]] (Some target) True)))))"

text \<open>
  \<open>pipe\<close> copies both directions and half-closes each side when its source ends; it returns when
  both copies have ended.  Its observable result: what each side received.
\<close>

definition forward_pipe :: "bytes list \<Rightarrow> bytes list \<Rightarrow> bytes \<times> bytes" where
  "forward_pipe from_a from_b = (concat from_b, concat from_a)"

section \<open>The registry's index\<close>

definition registry_ok :: "forward_registry \<Rightarrow> bool" where
  "registry_ok f \<longleftrightarrow>
     (\<forall>eid sid. map_of (fr_byEntryID f) eid = Some sid \<longleftrightarrow> fr_get sid eid f \<noteq> None)
     \<and> (\<forall>sid eid en. fr_get sid eid f = Some en \<longrightarrow> fe_id en = eid)"

lemma fr_get_add:
  "fr_get sid eid (fr_add s en f) = (if sid = s \<and> eid = fe_id en then Some en else fr_get sid eid f)"
  by (auto simp: fr_get_def fr_add_def fr_entries_def)

lemma fr_get_remove:
  "fr_get sid eid (snd (fr_remove s e f)) = (if sid = s \<and> eid = e then None else fr_get sid eid f)"
  by (auto simp: fr_get_def fr_remove_def fr_entries_def split: option.splits)

lemma registry_ok_add:
  assumes "registry_ok f" and "map_of (fr_byEntryID f) (fe_id en) = None"
  shows "registry_ok (fr_add s en f)"
  unfolding registry_ok_def
proof (intro conjI allI impI)
  fix eid sid
  have "fr_get sid (fe_id en) f = None"
    using assms unfolding registry_ok_def by (metis option.distinct(1))
  moreover have "map_of (fr_byEntryID f) eid = Some sid \<longleftrightarrow> fr_get sid eid f \<noteq> None"
    using assms(1) by (simp add: registry_ok_def)
  ultimately show "map_of (fr_byEntryID (fr_add s en f)) eid = Some sid \<longleftrightarrow> fr_get sid eid (fr_add s en f) \<noteq> None"
    by (auto simp: fr_get_add) (auto simp: fr_add_def split: if_splits)
next
  fix sid eid en'
  assume "fr_get sid eid (fr_add s en f) = Some en'"
  with assms(1) show "fe_id en' = eid"
    by (auto simp: fr_get_add registry_ok_def split: if_splits)
qed

lemma registry_ok_remove:
  assumes "registry_ok f"
  shows "registry_ok (snd (fr_remove s e f))"
proof (cases "fr_get s e f")
  case None
  with assms show ?thesis by (simp add: fr_remove_def)
next
  case (Some en)
  show ?thesis
    unfolding registry_ok_def
  proof (intro conjI allI impI)
    fix eid sid
    have "map_of (fr_byEntryID f) e = Some s"
      using assms Some by (auto simp: registry_ok_def)
    moreover have "map_of (fr_byEntryID f) eid = Some sid \<longleftrightarrow> fr_get sid eid f \<noteq> None"
      using assms by (simp add: registry_ok_def)
    moreover have "map_of (fr_byEntryID (snd (fr_remove s e f))) eid
        = (if eid = e then None else map_of (fr_byEntryID f) eid)"
      using Some by (simp add: fr_remove_def)
    ultimately show "map_of (fr_byEntryID (snd (fr_remove s e f))) eid = Some sid
        \<longleftrightarrow> fr_get sid eid (snd (fr_remove s e f)) \<noteq> None"
      by (auto simp: fr_get_remove)
  next
    fix sid eid en'
    assume "fr_get sid eid (snd (fr_remove s e f)) = Some en'"
    with assms show "fe_id en' = eid"
      by (auto simp: fr_get_remove registry_ok_def split: if_splits)
  qed
qed

section \<open>Properties\<close>

lemma read_full_append: "length xs = n \<Longrightarrow> read_full n (xs @ s) = (xs, True, s)"
  by (simp add: read_full_def)

definition socks_request :: "bytes \<Rightarrow> bytes \<Rightarrow> byte \<Rightarrow> byte \<Rightarrow> bytes" where
  "socks_request methods name hi lo =
     [5, word_of_nat (length methods)] @ methods @ [5, 1, 0, 3, word_of_nat (length name)] @ name @ [hi, lo]"

text \<open>
  A well-formed SOCKS5 request is served as asked: for any offered methods, any
  domain name of at most 255 bytes and any port, the proxy answers "no authentication", dials
  exactly that name and port, reports success and hands the connection over, whatever data
  follows the request.
\<close>

lemma socks5_serves_domain:
  assumes "length methods \<le> 255" and "length name \<le> 255"
  shows "socks5 (\<lambda>_. True) (\<lambda>_. True) (socks_request methods name hi lo @ rest) =
     \<lparr>sr_written = [[5, 0], [5, 0, 0, 1, 0, 0, 0, 0, 0, 0]],
      sr_dialed = Some (joinHostPort (string_of_bytes name) (nat_itoa (unat hi * 256 + unat lo))),
      sr_piped = True\<rparr>"
proof -
  have m: "unat (word_of_nat (length methods) :: byte) = length methods"
    and n: "unat (word_of_nat (length name) :: byte) = length name"
    using assms by (simp_all add: unat_of_nat)
  let ?tail = "name @ [hi, lo] @ rest"
  have "read_full 2 (socks_request methods name hi lo @ rest) =
      ([5, word_of_nat (length methods)], True, methods @ [5, 1, 0, 3, word_of_nat (length name)] @ ?tail)"
    by (simp add: socks_request_def read_full_def numeral_eq_Suc)
  moreover have "read_full (length methods) (methods @ [5, 1, 0, 3, word_of_nat (length name)] @ ?tail) =
      (methods, True, [5, 1, 0, 3] @ word_of_nat (length name) # ?tail)"
    by (simp add: read_full_append)
  moreover have "read_full 4 ([5, 1, 0, 3] @ word_of_nat (length name) # ?tail) =
      ([5, 1, 0, 3], True, word_of_nat (length name) # ?tail)"
    by (simp add: read_full_def numeral_eq_Suc)
  moreover have "read_full 1 (word_of_nat (length name) # ?tail) = ([word_of_nat (length name)], True, ?tail)"
    by (simp add: read_full_def)
  moreover have "read_full (length name) ?tail = (name, True, [hi, lo] @ rest)"
    by (simp add: read_full_append)
  moreover have "read_full 2 ([hi, lo] @ rest) = ([hi, lo], True, rest)"
    by (simp add: read_full_def numeral_eq_Suc)
  ultimately show ?thesis
    unfolding socks5_def socks_host_def by (simp add: m n socks_end_def)
qed

text \<open>
  The address of the request is read without looking at errors: a connection that
  ends right after the head of a CONNECT request for an IPv4 address makes the proxy dial
  \<open>0.0.0.0:0\<close> through the SSH connection, instead of being dropped.
\<close>

lemma socks5_truncated_request_dials:
  "sr_dialed (socks5 (\<lambda>_. True) dial [5, 0, 5, 1, 0, 1]) = Some ''0.0.0.0:0''"
proof -
  have z: "nat_itoa 0 = ''0''" by code_simp
  show ?thesis
    by (simp add: socks5_def read_full_def socks_host_def socks_end_def ipv4_string_def z
        joinHostPort_def numeral_eq_Suc Let_def)
qed

end
