(* ===== verification/Forward_Hosts.thy ===== *)
theory Forward_Hosts
  imports Forwards "HOL-Library.Multiset"
begin

text \<open>
  \<open>internal/api/forward_host.go\<close>: the port forwards of a host, on a connection of their own that a
  background loop keeps alive.  The states are objects shared by reference: the manager maps host
  ids to references into a heap of states, and each critical section of the code is a function on
  one state.  What a state did to the outside (forwards launched and cancelled, connections
  closed) is recorded in it, for the statements only.  Dialing, launching and the host records
  are parameters.
\<close>

section \<open>State\<close>

datatype 'd fwd_effect = Launched forward_entry | Cancelled forward_entry | ClosedDial 'd

record 'd fwd_state =
  fs_hostID :: string
  fs_dial :: "'d option"
  fs_lastProv :: "provided_secrets option"
  fs_entries :: "(string \<times> forward_entry) list"
  fs_failed :: "(string \<times> string) list"
  fs_lastErr :: string
  fs_stopped :: bool
  fs_supervising :: bool
  fs_effects :: "'d fwd_effect list"

record 'd fwd_manager =
  fm_heap :: "'d fwd_state list"
  fm_states :: "(string \<times> nat) list"

type_synonym fwd_specs = "string \<Rightarrow> forward list"
type_synonym 'd launcher = "'d \<Rightarrow> forward_kind \<Rightarrow> string \<Rightarrow> string \<Rightarrow> string + forward_entry"
type_synonym 'd dialer = "string \<Rightarrow> provided_secrets option \<Rightarrow> string + 'd"

definition newForwardHostManager :: "'d fwd_manager" where
  "newForwardHostManager = \<lparr>fm_heap = [], fm_states = []\<rparr>"

definition new_fwd_state :: "string \<Rightarrow> 'd fwd_state" where
  "new_fwd_state hid =
     \<lparr>fs_hostID = hid, fs_dial = None, fs_lastProv = None, fs_entries = [], fs_failed = [],
      fs_lastErr = '''', fs_stopped = False, fs_supervising = False, fs_effects = []\<rparr>"

definition forwardKey :: "forward \<Rightarrow> string" where
  "forwardKey f = fw_kind f @ ''|'' @ fw_bind f @ ''|'' @ fw_target f"

definition fm_state :: "string \<Rightarrow> 'd fwd_manager \<Rightarrow> nat \<times> 'd fwd_manager" where
  "fm_state hid m =
     (case map_of (fm_states m) hid of
        Some p \<Rightarrow> (p, m)
      | None \<Rightarrow>
          (let p = length (fm_heap m)
           in (p, \<lparr>fm_heap = fm_heap m @ [new_fwd_state hid], fm_states = map_put hid p (fm_states m)\<rparr>)))"

definition fm_upd :: "nat \<Rightarrow> ('d fwd_state \<Rightarrow> 'd fwd_state) \<Rightarrow> 'd fwd_manager \<Rightarrow> 'd fwd_manager" where
  "fm_upd p f m = m\<lparr>fm_heap := (fm_heap m)[p := f (fm_heap m ! p)]\<rparr>"

definition hasEnabledForwards :: "fwd_specs \<Rightarrow> string \<Rightarrow> bool" where
  "hasEnabledForwards specs hid = list_ex forward_isEnabled (specs hid)"

section \<open>Reconciling with the configuration\<close>

definition wanted_keys :: "forward list \<Rightarrow> string list" where
  "wanted_keys want = map forwardKey (filter forward_isEnabled want)"

definition drop_unwanted :: "string list \<Rightarrow> 'd fwd_state \<Rightarrow> 'd fwd_state" where
  "drop_unwanted keys st =
     (let gone = filter (\<lambda>(k, _). k \<notin> set keys) (fs_entries st)
      in st\<lparr>fs_entries := filter (\<lambda>(k, _). k \<in> set keys) (fs_entries st),
            fs_failed := filter (\<lambda>(k, _). k \<notin> fst ` set gone) (fs_failed st),
            fs_effects := fs_effects st @ map (\<lambda>(_, en). Cancelled en) gone\<rparr>)"

definition launch_one :: "'d launcher \<Rightarrow> 'd \<Rightarrow> forward \<Rightarrow> 'd fwd_state \<Rightarrow> 'd fwd_state" where
  "launch_one launch d f st =
     (if \<not> forward_isEnabled f \<or> map_of (fs_entries st) (forwardKey f) \<noteq> None then st
      else case launch d (kind_of (fw_kind f)) (fw_bind f) (fw_target f) of
             Inl err \<Rightarrow> st\<lparr>fs_failed := map_put (forwardKey f) err (fs_failed st)\<rparr>
           | Inr en \<Rightarrow> st\<lparr>fs_entries := map_put (forwardKey f) en (fs_entries st),
                         fs_failed := map_delete (forwardKey f) (fs_failed st),
                         fs_effects := fs_effects st @ [Launched en]\<rparr>)"

definition reconcileLocked ::
  "fwd_specs \<Rightarrow> 'd launcher \<Rightarrow> 'd \<Rightarrow> 'd fwd_state \<Rightarrow> 'd fwd_state" where
  "reconcileLocked specs launch d st =
     (let want = specs (fs_hostID st)
      in fold (launch_one launch d) want (drop_unwanted (wanted_keys want) st))"

section \<open>The supervisor\<close>

text \<open>\<open>handleLost\<close>: the connection died; its forwards are cancelled and marked failed.\<close>

definition connection_lost :: string where "connection_lost = ''connection lost''"

definition handleLost :: "'d fwd_state \<Rightarrow> 'd fwd_state" where
  "handleLost st =
     st\<lparr>fs_dial := None, fs_lastErr := connection_lost, fs_entries := [],
        fs_failed := fold (\<lambda>(k, _). map_put k connection_lost) (fs_entries st) (fs_failed st),
        fs_effects := fs_effects st @ map (\<lambda>(_, en). Cancelled en) (fs_entries st)\<rparr>"

text \<open>
  What the loop does next: return, sleep for a time (unless stopped) and continue with the given
  backoff, or continue at once.
\<close>

datatype sup_next = SupReturn | SupSleep int int | SupLoop int

definition next_backoff :: "int \<Rightarrow> int \<Rightarrow> int" where
  "next_backoff maxB b = min (b * 2) maxB"

definition default_backoff :: "int \<Rightarrow> int \<Rightarrow> int" where
  "default_backoff v d = (if v \<le> 0 then d else v)"

text \<open>
  One round without a connection: the state as it is when the dial outcome \<open>r\<close> is there.
\<close>

definition sup_dialed ::
  "fwd_specs \<Rightarrow> 'd launcher \<Rightarrow> int \<Rightarrow> int \<Rightarrow> int \<Rightarrow> string + 'd \<Rightarrow> 'd fwd_state
     \<Rightarrow> sup_next \<times> 'd fwd_state" where
  "sup_dialed specs launch base maxB b r st =
     (case r of
        Inl err \<Rightarrow>
          (SupSleep b (next_backoff maxB b), if fs_dial st = None then st\<lparr>fs_lastErr := err\<rparr> else st)
      | Inr d \<Rightarrow>
          if fs_dial st = None then
            (if fs_stopped st then (SupReturn, st\<lparr>fs_effects := fs_effects st @ [ClosedDial d]\<rparr>)
             else (SupLoop base, reconcileLocked specs launch d (st\<lparr>fs_dial := Some d, fs_lastErr := ''''\<rparr>)))
          else (SupLoop base, st\<lparr>fs_effects := fs_effects st @ [ClosedDial d]\<rparr>))"

definition sup_lost :: "int \<Rightarrow> int \<Rightarrow> 'd fwd_state \<Rightarrow> sup_next \<times> 'd fwd_state" where
  "sup_lost maxB b st = (SupSleep b (next_backoff maxB b), handleLost st)"

text \<open>
  The loop over what happens to it: each round it stops, dials with an outcome, or waits for the
  connection to die.  The result is the state, and the times it slept, in order.
\<close>

datatype 'd sup_event = EvStop | EvDial "string + 'd" | EvLost

fun fwd_supervise ::
  "fwd_specs \<Rightarrow> 'd launcher \<Rightarrow> int \<Rightarrow> int \<Rightarrow> int \<Rightarrow> 'd sup_event list \<Rightarrow> 'd fwd_state
     \<Rightarrow> int list \<times> 'd fwd_state" where
  "fwd_supervise specs launch base maxB b [] st = ([], st)"
| "fwd_supervise specs launch base maxB b (ev # evs) st =
     (if fs_stopped st then ([], st)
      else
        case (case ev of
                EvStop \<Rightarrow> (SupReturn, st)
              | EvDial r \<Rightarrow> if fs_dial st = None then sup_dialed specs launch base maxB b r st
                           else (SupLoop b, st)
              | EvLost \<Rightarrow> if fs_dial st = None then (SupLoop b, st) else sup_lost maxB b st) of
          (SupReturn, st') \<Rightarrow> ([], st')
        | (SupLoop b', st') \<Rightarrow> fwd_supervise specs launch base maxB b' evs st'
        | (SupSleep w b', st') \<Rightarrow>
            (case fwd_supervise specs launch base maxB b' evs st' of (ws, st'') \<Rightarrow> (w # ws, st'')))"

section \<open>The operations of the manager\<close>

definition set_prov :: "provided_secrets option \<Rightarrow> 'd fwd_state \<Rightarrow> 'd fwd_state" where
  "set_prov prov st = (case prov of None \<Rightarrow> st | Some _ \<Rightarrow> st\<lparr>fs_lastProv := prov\<rparr>)"

text \<open>\<open>resume\<close>: whether a supervisor was started.\<close>

definition fwd_resume ::
  "fwd_specs \<Rightarrow> string \<Rightarrow> provided_secrets option \<Rightarrow> 'd fwd_manager \<Rightarrow> bool \<times> 'd fwd_manager" where
  "fwd_resume specs hid prov m =
     (case fm_state hid m of (p, m1) \<Rightarrow>
        (let m2 = fm_upd p (set_prov prov) m1
         in if fs_supervising (fm_heap m2 ! p) \<or> \<not> hasEnabledForwards specs hid then (False, m2)
            else (True, fm_upd p (\<lambda>st. st\<lparr>fs_supervising := True\<rparr>) m2)))"

fun fwd_resumeAll :: "fwd_specs \<Rightarrow> string list \<Rightarrow> 'd fwd_manager \<Rightarrow> 'd fwd_manager" where
  "fwd_resumeAll specs [] m = m"
| "fwd_resumeAll specs (hid # hs) m =
     fwd_resumeAll specs hs
       (if isLocal hid \<or> \<not> hasEnabledForwards specs hid then m
        else snd (fwd_resume specs hid None m))"

text \<open>The part of \<open>ensure\<close> under the lock of the state; the flag asks for \<open>resume\<close> afterwards.\<close>

definition ensure_locked ::
  "fwd_specs \<Rightarrow> 'd launcher \<Rightarrow> 'd dialer \<Rightarrow> provided_secrets option \<Rightarrow> 'd fwd_state
     \<Rightarrow> bool \<times> 'd fwd_state" where
  "ensure_locked specs launch dial prov st =
     (case fs_dial st of
        Some d \<Rightarrow> (False, reconcileLocked specs launch d st)
      | None \<Rightarrow>
          (case dial (fs_hostID st) prov of
             Inl err \<Rightarrow> (True, st\<lparr>fs_lastErr := err\<rparr>)
           | Inr d \<Rightarrow>
               (True, reconcileLocked specs launch d (st\<lparr>fs_dial := Some d, fs_lastErr := ''''\<rparr>))))"

definition fwd_ensure ::
  "fwd_specs \<Rightarrow> 'd launcher \<Rightarrow> 'd dialer \<Rightarrow> string \<Rightarrow> provided_secrets option \<Rightarrow> 'd fwd_manager
     \<Rightarrow> 'd fwd_manager" where
  "fwd_ensure specs launch dial hid prov m =
     (if \<not> hasEnabledForwards specs hid then m
      else
        case fm_state hid m of (p, m1) \<Rightarrow>
          (let m2 = fm_upd p (set_prov prov) m1
           in case ensure_locked specs launch dial prov (fm_heap m2 ! p) of
                (again, st) \<Rightarrow>
                  (let m3 = fm_upd p (\<lambda>_. st) m2
                   in if again then snd (fwd_resume specs hid prov m3) else m3)))"

text \<open>\<open>release\<close>: the state leaves the manager, then its forwards and its connection are closed.\<close>

definition release_locked :: "'d fwd_state \<Rightarrow> 'd fwd_state" where
  "release_locked st =
     st\<lparr>fs_supervising := False, fs_entries := [], fs_failed := [], fs_dial := None, fs_stopped := True,
        fs_effects := fs_effects st @ map (\<lambda>(_, en). Cancelled en) (fs_entries st)
                      @ (case fs_dial st of None \<Rightarrow> [] | Some d \<Rightarrow> [ClosedDial d])\<rparr>"

definition fwd_release :: "string \<Rightarrow> 'd fwd_manager \<Rightarrow> 'd fwd_manager" where
  "fwd_release hid m =
     (case map_of (fm_states m) hid of
        None \<Rightarrow> m
      | Some p \<Rightarrow> fm_upd p release_locked (m\<lparr>fm_states := map_delete hid (fm_states m)\<rparr>))"

definition fwd_closeAll :: "'d fwd_manager \<Rightarrow> 'd fwd_manager" where
  "fwd_closeAll m = fold fwd_release (map fst (fm_states m)) m"

definition fwd_reconcile ::
  "fwd_specs \<Rightarrow> 'd launcher \<Rightarrow> string \<Rightarrow> 'd fwd_manager \<Rightarrow> 'd fwd_manager" where
  "fwd_reconcile specs launch hid m =
     (case fm_state hid m of (p, m1) \<Rightarrow>
        (case fs_dial (fm_heap m1 ! p) of
           None \<Rightarrow> if hasEnabledForwards specs hid then snd (fwd_resume specs hid None m1) else m1
         | Some d \<Rightarrow>
             (let m2 = fm_upd p (reconcileLocked specs launch d) m1
              in if hasEnabledForwards specs hid then m2 else fwd_release hid m2)))"

record host_forward =
  hf_id :: string
  hf_kind :: forward_kind
  hf_bind :: string
  hf_target :: string
  hf_status :: string
  hf_error :: string

definition forward_view :: "'d fwd_state \<Rightarrow> forward \<Rightarrow> host_forward" where
  "forward_view st f =
     (let v = (\<lambda>i s e. \<lparr>hf_id = i, hf_kind = kind_of (fw_kind f), hf_bind = fw_bind f,
                       hf_target = fw_target f, hf_status = s, hf_error = e\<rparr>)
      in if \<not> forward_isEnabled f then v '''' ''disabled'' ''''
         else if fs_dial st = None then
           (if fs_lastErr st \<noteq> '''' then v '''' ''failed'' (fs_lastErr st) else v '''' ''pending'' '''')
         else case map_of (fs_entries st) (forwardKey f) of
                Some en \<Rightarrow> v (fe_id en) ''running'' ''''
              | None \<Rightarrow> (case map_of (fs_failed st) (forwardKey f) of
                           Some msg \<Rightarrow> v '''' ''failed'' msg
                         | None \<Rightarrow> v '''' ''running'' ''''))"

definition fwd_list :: "fwd_specs \<Rightarrow> string \<Rightarrow> 'd fwd_manager \<Rightarrow> host_forward list \<times> 'd fwd_manager" where
  "fwd_list specs hid m =
     (case fm_state hid m of (p, m1) \<Rightarrow> (map (forward_view (fm_heap m1 ! p)) (specs hid), m1))"

section \<open>Every forward launched is running or was cancelled once\<close>

fun launched_of :: "'d fwd_effect list \<Rightarrow> forward_entry list" where
  "launched_of [] = []"
| "launched_of (Launched en # es) = en # launched_of es"
| "launched_of (_ # es) = launched_of es"

fun cancelled_of :: "'d fwd_effect list \<Rightarrow> forward_entry list" where
  "cancelled_of [] = []"
| "cancelled_of (Cancelled en # es) = en # cancelled_of es"
| "cancelled_of (_ # es) = cancelled_of es"

lemma launched_of_append [simp]: "launched_of (xs @ ys) = launched_of xs @ launched_of ys"
  by (induction xs rule: launched_of.induct) auto

lemma cancelled_of_append [simp]: "cancelled_of (xs @ ys) = cancelled_of xs @ cancelled_of ys"
  by (induction xs rule: cancelled_of.induct) auto

lemma effects_of_cancel [simp]:
  "launched_of (map (\<lambda>(_, en). Cancelled en) kvs) = []"
  "cancelled_of (map (\<lambda>(_, en). Cancelled en) kvs) = map snd kvs"
  by (induction kvs) auto

definition ledger_ok :: "'d fwd_state \<Rightarrow> bool" where
  "ledger_ok st \<longleftrightarrow>
     distinct_keys (fs_entries st)
     \<and> mset (launched_of (fs_effects st)) = mset (cancelled_of (fs_effects st)) + mset (map snd (fs_entries st))"

lemma mset_filter_split:
  "mset (map snd (filter P kvs)) + mset (map snd (filter (\<lambda>kv. \<not> P kv) kvs)) = mset (map snd kvs)"
  by (induction kvs) auto

lemma drop_unwanted_ledger: "ledger_ok st \<Longrightarrow> ledger_ok (drop_unwanted keys st)"
  using mset_filter_split [of "\<lambda>(k, _). k \<in> set keys" "fs_entries st"]
  by (auto simp: ledger_ok_def drop_unwanted_def Let_def case_prod_beta distinct_map_filter add.commute
      intro: distinct_map_filter)

lemma launch_one_ledger: "ledger_ok st \<Longrightarrow> ledger_ok (launch_one launch d f st)"
proof -
  assume ok: "ledger_ok st"
  show ?thesis
  proof (cases "\<not> forward_isEnabled f \<or> map_of (fs_entries st) (forwardKey f) \<noteq> None")
    case True
    with ok show ?thesis by (simp add: launch_one_def)
  next
    case False
    then have "forwardKey f \<notin> fst ` set (fs_entries st)" by (simp add: map_of_eq_None_iff)
    with ok False show ?thesis
      by (auto simp: launch_one_def ledger_ok_def update_fresh split: sum.splits)
  qed
qed

lemma reconcile_ledger: "ledger_ok st \<Longrightarrow> ledger_ok (reconcileLocked specs launch d st)"
proof -
  have "ledger_ok st' \<Longrightarrow> ledger_ok (fold (launch_one launch d) fs st')" for fs st'
    by (induction fs arbitrary: st') (simp_all add: launch_one_ledger)
  then show "ledger_ok st \<Longrightarrow> ledger_ok (reconcileLocked specs launch d st)"
    by (simp add: reconcileLocked_def Let_def drop_unwanted_ledger)
qed

lemma ledger_upd [simp]:
  "ledger_ok (st\<lparr>fs_dial := x\<rparr>) = ledger_ok st"
  "ledger_ok (st\<lparr>fs_lastErr := y\<rparr>) = ledger_ok st"
  "ledger_ok (st\<lparr>fs_lastProv := z\<rparr>) = ledger_ok st"
  by (simp_all add: ledger_ok_def)

lemma lost_ledger: "ledger_ok st \<Longrightarrow> ledger_ok (handleLost st)"
  by (simp add: ledger_ok_def handleLost_def)

lemma release_ledger: "ledger_ok st \<Longrightarrow> ledger_ok (release_locked st)"
  by (auto simp: ledger_ok_def release_locked_def split: option.split)

lemma sup_dialed_ledger: "ledger_ok st \<Longrightarrow> ledger_ok (snd (sup_dialed specs launch base maxB b r st))"
  by (auto simp: sup_dialed_def ledger_ok_def [where st = "st\<lparr>fs_effects := _\<rparr>"] reconcile_ledger
      split: sum.split) (simp_all add: ledger_ok_def)

lemma ensure_ledger: "ledger_ok st \<Longrightarrow> ledger_ok (snd (ensure_locked specs launch dial prov st))"
  by (auto simp: ensure_locked_def reconcile_ledger split: option.split sum.split)

text \<open>The critical sections a state goes through, in any order and any number.\<close>

datatype 'd state_op =
    OpReconcile "fwd_specs" "'d launcher" 'd
  | OpDialed "fwd_specs" "'d launcher" int int int "string + 'd"
  | OpLost
  | OpEnsure "fwd_specs" "'d launcher" "'d dialer" "provided_secrets option"
  | OpRelease

fun state_apply :: "'d state_op \<Rightarrow> 'd fwd_state \<Rightarrow> 'd fwd_state" where
  "state_apply (OpReconcile specs launch d) st = reconcileLocked specs launch d st"
| "state_apply (OpDialed specs launch base maxB b r) st = snd (sup_dialed specs launch base maxB b r st)"
| "state_apply OpLost st = handleLost st"
| "state_apply (OpEnsure specs launch dial prov) st =
     snd (ensure_locked specs launch dial prov (set_prov prov st))"
| "state_apply OpRelease st = release_locked st"

lemma state_apply_ledger: "ledger_ok st \<Longrightarrow> ledger_ok (state_apply op st)"
  by (cases op)
     (auto simp: reconcile_ledger sup_dialed_ledger lost_ledger ensure_ledger release_ledger set_prov_def
        split: option.split)

text \<open>
  Property C15.  No forward leaks: over any sequence of reconciliations, dials, lost connections,
  ensures and releases of a host, in any order, the forwards launched are exactly the ones
  cancelled, each once, plus the ones still running; and a release leaves none running.
\<close>

theorem forwards_never_leak:
  "mset (launched_of (fs_effects (fold state_apply ops (new_fwd_state hid))))
     = mset (cancelled_of (fs_effects (fold state_apply ops (new_fwd_state hid))))
       + mset (map snd (fs_entries (fold state_apply ops (new_fwd_state hid))))
   \<and> fs_entries (release_locked (fold state_apply ops (new_fwd_state hid))) = []"
proof -
  have "ledger_ok st \<Longrightarrow> ledger_ok (fold state_apply ops st)" for st
    by (induction ops arbitrary: st) (simp_all add: state_apply_ledger)
  from this [of "new_fwd_state hid"] show ?thesis
    by (simp add: ledger_ok_def [of "new_fwd_state hid"] new_fwd_state_def)
       (simp add: ledger_ok_def release_locked_def)
qed

section \<open>Reconciling is correct\<close>

lemma launch_one_keeps:
  "map_of (fs_entries st) k = Some en \<Longrightarrow> map_of (fs_entries (launch_one launch d f st)) k = Some en"
  by (auto simp: launch_one_def split: sum.split)

lemma launch_one_done:
  "forward_isEnabled f \<Longrightarrow>
     map_of (fs_entries (launch_one launch d f st)) (forwardKey f) \<noteq> None
     \<or> map_of (fs_failed (launch_one launch d f st)) (forwardKey f) \<noteq> None"
  by (auto simp: launch_one_def split: sum.split)

lemma launch_one_failed_keeps:
  "map_of (fs_failed st) k \<noteq> None \<Longrightarrow>
     map_of (fs_entries (launch_one launch d f st)) k \<noteq> None
     \<or> map_of (fs_failed (launch_one launch d f st)) k \<noteq> None"
  by (auto simp: launch_one_def split: sum.split)

lemma launch_one_new:
  "map_of (fs_entries (launch_one launch d f st)) k \<noteq> None \<Longrightarrow>
     map_of (fs_entries st) k \<noteq> None \<or> (forward_isEnabled f \<and> k = forwardKey f)"
  by (auto simp: launch_one_def split: sum.splits if_splits)

lemma launch_all_keeps:
  "map_of (fs_entries st) k = Some en \<Longrightarrow> map_of (fs_entries (fold (launch_one launch d) fs st)) k = Some en"
  by (induction fs arbitrary: st) (simp_all add: launch_one_keeps)

lemma launch_all_settled:
  "map_of (fs_entries st) k \<noteq> None \<or> map_of (fs_failed st) k \<noteq> None \<Longrightarrow>
     map_of (fs_entries (fold (launch_one launch d) fs st)) k \<noteq> None
     \<or> map_of (fs_failed (fold (launch_one launch d) fs st)) k \<noteq> None"
proof (induction fs arbitrary: st)
  case Nil
  then show ?case by simp
next
  case (Cons f fs)
  from Cons.prems have "map_of (fs_entries (launch_one launch d f st)) k \<noteq> None
      \<or> map_of (fs_failed (launch_one launch d f st)) k \<noteq> None"
    using launch_one_keeps launch_one_failed_keeps by (metis not_None_eq)
  from Cons.IH [OF this] show ?case by simp
qed

lemma launch_all_done:
  "f \<in> set fs \<Longrightarrow> forward_isEnabled f \<Longrightarrow>
     map_of (fs_entries (fold (launch_one launch d) fs st)) (forwardKey f) \<noteq> None
     \<or> map_of (fs_failed (fold (launch_one launch d) fs st)) (forwardKey f) \<noteq> None"
proof (induction fs arbitrary: st)
  case Nil
  then show ?case by simp
next
  case (Cons g fs)
  show ?case
  proof (cases "f = g")
    case True
    with launch_all_settled [OF launch_one_done [OF Cons.prems(2)]] show ?thesis by simp
  next
    case False
    with Cons show ?thesis by simp
  qed
qed

lemma launch_all_new:
  "map_of (fs_entries (fold (launch_one launch d) fs st)) k \<noteq> None \<Longrightarrow>
     map_of (fs_entries st) k \<noteq> None \<or> k \<in> set (wanted_keys fs)"
proof (induction fs arbitrary: st)
  case Nil
  then show ?case by simp
next
  case (Cons f fs)
  then have "map_of (fs_entries (launch_one launch d f st)) k \<noteq> None \<or> k \<in> set (wanted_keys fs)"
    by simp
  with launch_one_new [of launch d f st k] show ?case by (auto simp: wanted_keys_def)
qed

lemma drop_unwanted_entries:
  "distinct_keys (fs_entries st) \<Longrightarrow>
     map_of (fs_entries (drop_unwanted keys st)) k
       = (if k \<in> set keys then map_of (fs_entries st) k else None)"
proof -
  have "map_of (filter (\<lambda>(k, _). k \<in> set keys) es) k = (if k \<in> set keys then map_of es k else None)"
    for es :: "(string \<times> forward_entry) list"
    by (induction es) auto
  then show ?thesis by (simp add: drop_unwanted_def Let_def)
qed

text \<open>
  Property C16.  After a reconciliation the running forwards are the configured and enabled ones:
  nothing runs that is not wanted, a wanted forward that was running is left alone, and every
  other wanted forward either runs now or is reported as failed.
\<close>

theorem reconcile_matches_config:
  assumes "distinct_keys (fs_entries st)"
  shows "case reconcileLocked specs launch d st of st' \<Rightarrow>
     (\<forall>k. map_of (fs_entries st') k \<noteq> None \<longrightarrow> k \<in> set (wanted_keys (specs (fs_hostID st))))
     \<and> (\<forall>k en. k \<in> set (wanted_keys (specs (fs_hostID st))) \<and> map_of (fs_entries st) k = Some en
           \<longrightarrow> map_of (fs_entries st') k = Some en)
     \<and> (\<forall>k. k \<in> set (wanted_keys (specs (fs_hostID st))) \<longrightarrow>
           map_of (fs_entries st') k \<noteq> None \<or> map_of (fs_failed st') k \<noteq> None)"
proof -
  let ?want = "specs (fs_hostID st)"
  let ?st0 = "drop_unwanted (wanted_keys ?want) st"
  let ?st1 = "fold (launch_one launch d) ?want ?st0"
  have eq: "reconcileLocked specs launch d st = ?st1"
    by (simp add: reconcileLocked_def Let_def)
  have d: "map_of (fs_entries ?st0) k = (if k \<in> set (wanted_keys ?want) then map_of (fs_entries st) k else None)" for k
    by (rule drop_unwanted_entries [OF assms])
  have 1: "k \<in> set (wanted_keys ?want)" if "map_of (fs_entries ?st1) k \<noteq> None" for k
    using launch_all_new [OF that] by (auto simp: d split: if_splits)
  have 2: "map_of (fs_entries ?st1) k = Some en"
    if "k \<in> set (wanted_keys ?want)" "map_of (fs_entries st) k = Some en" for k en
    using that by (intro launch_all_keeps) (simp add: d)
  have 3: "map_of (fs_entries ?st1) k \<noteq> None \<or> map_of (fs_failed ?st1) k \<noteq> None"
    if "k \<in> set (wanted_keys ?want)" for k
  proof -
    from that obtain f where "f \<in> set ?want" "forward_isEnabled f" "k = forwardKey f"
      by (auto simp: wanted_keys_def)
    with launch_all_done [of f ?want launch d ?st0] show ?thesis by simp
  qed
  show ?thesis unfolding eq using 1 2 3 by blast
qed

definition demo_forward :: "string \<Rightarrow> forward" where
  "demo_forward b = \<lparr>fw_kind = ''local'', fw_bind = b, fw_target = ''t:1'', fw_enabled = None\<rparr>"

theorem reconcile_matches_config_witness:
  "map_of (fs_entries (reconcileLocked (\<lambda>_. [demo_forward ''1'']) (\<lambda>_ _ _ _. Inl ''busy'') ()
      (new_fwd_state ''h''))) ''local|2|t:1'' = None"
proof -
  have "distinct_keys (fs_entries (new_fwd_state ''h'' :: unit fwd_state))" by (simp add: new_fwd_state_def)
  from reconcile_matches_config [OF this, of "\<lambda>_. [demo_forward ''1'']" "\<lambda>_ _ _ _. Inl ''busy''" "()"]
  show ?thesis by (auto simp: wanted_keys_def demo_forward_def forward_isEnabled_def forwardKey_def)
qed

section \<open>Backoff\<close>

lemma min_mult_pow:
  "0 < base \<Longrightarrow> base \<le> maxB \<Longrightarrow> min (min (base * 2 ^ i) maxB * 2) maxB = min (base * 2 ^ Suc i) (maxB::int)"
  by (auto simp: min_def)

lemma supervise_failing_aux:
  assumes "0 < base" and "base \<le> maxB" and "fs_dial st = None" and "\<not> fs_stopped st"
  shows "fst (fwd_supervise specs launch base maxB (min (base * 2 ^ i) maxB) (map (\<lambda>e. EvDial (Inl e)) errs) st)
     = map (\<lambda>j. min (base * 2 ^ (i + j)) maxB) [0..<length errs]"
  using assms(3,4)
proof (induction errs arbitrary: st i)
  case Nil
  then show ?case by simp
next
  case (Cons e errs)
  have "map (\<lambda>j. min (base * 2 ^ (i + j)) maxB) [0..<length (e # errs)]
      = min (base * 2 ^ i) maxB # map (\<lambda>j. min (base * 2 ^ (Suc i + j)) maxB) [0..<length errs]"
    by (simp add: upt_conv_Cons map_Suc_upt [symmetric] del: upt_Suc)
  with Cons.IH [of "st\<lparr>fs_lastErr := e\<rparr>" "Suc i"] Cons.prems min_mult_pow [OF assms(1,2), of i]
  show ?case by (auto simp: sup_dialed_def next_backoff_def case_prod_beta)
qed

text \<open>
  Reconnection backs off exponentially up to a limit: while dialing keeps failing,
  the supervisor sleeps \<open>base\<close>, \<open>2 base\<close>, \<open>4 base\<close>, ... between the attempts, never longer than the
  maximum, and never gives up.
\<close>

lemma supervise_backoff:
  assumes "0 < base" and "base \<le> maxB"
  shows "fst (fwd_supervise specs launch base maxB base (map (\<lambda>e. EvDial (Inl e)) errs) (new_fwd_state hid))
     = map (\<lambda>j. min (base * 2 ^ j) maxB) [0..<length errs]"
  using supervise_failing_aux [OF assms, of "new_fwd_state hid" specs launch 0 errs] assms
  by (simp add: new_fwd_state_def min_def)

lemma supervise_backoff_witness:
  "fst (fwd_supervise (\<lambda>_. []) (\<lambda>_ _ _ _. Inl ''x'') 1 5 1 (map (\<lambda>e. EvDial (Inl e)) [''a'', ''b'', ''c'', ''d''])
      (new_fwd_state ''h'' :: unit fwd_state)) = [1, 2, 4, 5]"
  by (subst supervise_backoff) (simp_all add: upt_rec numeral_eq_Suc)

section \<open>What the supervisor and the release miss\<close>

text \<open>
  Disabling all forwards of a host does not stop its supervisor while there is no
  connection: \<open>reconcile\<close> returns without releasing, and the next successful dial installs a
  connection that no forward uses.
\<close>

lemma reconcile_keeps_idle_supervisor:
  assumes "\<not> hasEnabledForwards specs hid" and "map_of (fm_states m) hid = Some p"
    and "fs_dial (fm_heap m ! p) = None" and "fs_hostID (fm_heap m ! p) = hid"
    and "\<not> fs_stopped (fm_heap m ! p)" and "fs_entries (fm_heap m ! p) = []"
  shows "fwd_reconcile specs launch hid m = m
     \<and> (case sup_dialed specs launch base maxB b (Inr d) (fm_heap m ! p) of
          (nxt, st) \<Rightarrow> nxt = SupLoop base \<and> fs_dial st = Some d \<and> fs_entries st = [] \<and> \<not> fs_stopped st)"
proof -
  have e: "filter forward_isEnabled (specs hid) = []"
    using assms(1) by (auto simp: hasEnabledForwards_def list_ex_iff filter_empty_conv)
  have "fold (launch_one launch d) fs st = st" if "filter forward_isEnabled fs = []" for fs st
    using that by (induction fs) (auto simp: launch_one_def split: if_splits)
  from this [OF e] assms show ?thesis
    by (simp add: fwd_reconcile_def fm_state_def sup_dialed_def reconcileLocked_def Let_def
        drop_unwanted_def)
qed

definition demo_fwd_mgr :: "unit fwd_manager" where
  "demo_fwd_mgr = snd (fwd_resume (\<lambda>_. [demo_forward ''1'']) ''h'' None newForwardHostManager)"

lemma reconcile_keeps_idle_supervisor_witness:
  "fwd_reconcile (\<lambda>_. []) (\<lambda>_ _ _ _. Inl ''x'') ''h'' demo_fwd_mgr = demo_fwd_mgr
   \<and> fs_supervising (fm_heap demo_fwd_mgr ! 0)"
proof -
  have m: "demo_fwd_mgr = \<lparr>fm_heap = [(new_fwd_state ''h'')\<lparr>fs_supervising := True\<rparr>], fm_states = [(''h'', 0)]\<rparr>"
    by (simp add: demo_fwd_mgr_def fwd_resume_def fm_state_def newForwardHostManager_def fm_upd_def
        set_prov_def hasEnabledForwards_def demo_forward_def forward_isEnabled_def new_fwd_state_def)
  show ?thesis
    using reconcile_keeps_idle_supervisor [of "\<lambda>_. []" "''h''" demo_fwd_mgr 0 "\<lambda>_ _ _ _. Inl ''x''"]
    by (simp add: m hasEnabledForwards_def new_fwd_state_def)
qed

text \<open>
  An \<open>ensure\<close> that got hold of the state before a release installs its connection afterwards: unlike
  the supervisor it does not look at the stop mark, and the state is no longer in the manager.
\<close>

lemma ensure_after_release:
  "dial (fs_hostID st) prov = Inr d \<Longrightarrow>
     fs_dial (snd (ensure_locked specs launch dial prov (release_locked st))) = Some d"
proof -
  have "fs_dial (fold (launch_one launch d) fs st') = fs_dial st'" for fs and st' :: "'a fwd_state"
    by (induction fs arbitrary: st') (auto simp: launch_one_def split: sum.split)
  then show "dial (fs_hostID st) prov = Inr d \<Longrightarrow> ?thesis"
    by (simp add: ensure_locked_def release_locked_def reconcileLocked_def drop_unwanted_def Let_def)
qed

end
