(* ===== verification/Ws_Router.thy ===== *)
theory Ws_Router
  imports Session
begin

text \<open>
  \<open>internal/api/ws_handler.go\<close>: one WebSocket carrying any number of sessions.  The router maps
  session ids to virtual connections, which are objects shared by reference (indices into a list
  here): the read loop queues the session's frames in them, the session's bridge reads them and
  writes through them.  What was written to the socket is the list of frames sent; whether a write
  succeeds is an oracle, and which sessions exist is a parameter.
\<close>

section \<open>State\<close>

record vconn =
  vc_sid :: string
  vc_queue :: "bytes list"
  vc_closed :: bool

record router =
  rt_chans :: "(string \<times> nat) list"
  rt_conns :: "vconn list"
  rt_out :: conn_log

definition newWSRouter :: router where
  "newWSRouter = \<lparr>rt_chans = [], rt_conns = [], rt_out = []\<rparr>"

definition newVirtualConn :: "string \<Rightarrow> vconn" where
  "newVirtualConn sid = \<lparr>vc_sid = sid, vc_queue = [], vc_closed = False\<rparr>"

definition vc_upd :: "nat \<Rightarrow> (vconn \<Rightarrow> vconn) \<Rightarrow> router \<Rightarrow> router" where
  "vc_upd c f rt = rt\<lparr>rt_conns := (rt_conns rt)[c := f (rt_conns rt ! c)]\<rparr>"

section \<open>Writing\<close>

definition rt_writeRaw :: "conn_oracle \<Rightarrow> bytes \<Rightarrow> router \<Rightarrow> bool \<times> router" where
  "rt_writeRaw cok f rt = (case conn_write cok f (rt_out rt) of (ok, out) \<Rightarrow> (ok, rt\<lparr>rt_out := out\<rparr>))"

definition rt_writeRouted :: "conn_oracle \<Rightarrow> string \<Rightarrow> byte \<Rightarrow> bytes \<Rightarrow> router \<Rightarrow> bool \<times> router" where
  "rt_writeRouted cok sid t payload rt =
     (case encodeRouted sid t payload of Inl _ \<Rightarrow> (False, rt) | Inr f \<Rightarrow> rt_writeRaw cok f rt)"

definition rt_writeRoutedSession :: "conn_oracle \<Rightarrow> string \<Rightarrow> bytes \<Rightarrow> router \<Rightarrow> bool \<times> router" where
  "rt_writeRoutedSession cok sid b rt =
     (case encodeRoutedSession sid b of Inl _ \<Rightarrow> (False, rt) | Inr f \<Rightarrow> rt_writeRaw cok f rt)"

section \<open>Virtual connections\<close>

definition vc_deliver :: "bytes \<Rightarrow> vconn \<Rightarrow> vconn" where
  "vc_deliver f c = (if vc_closed c then c else c\<lparr>vc_queue := vc_queue c @ [f]\<rparr>)"

text \<open>\<open>ReadMessage\<close>: it blocks on an empty open queue; a closed one is drained first.\<close>

datatype read_result = RBlocked | REof | RFrame bytes

definition vc_readMessage :: "vconn \<Rightarrow> read_result \<times> vconn" where
  "vc_readMessage c =
     (case vc_queue c of
        [] \<Rightarrow> ((if vc_closed c then REof else RBlocked), c)
      | f # fs \<Rightarrow> (RFrame f, c\<lparr>vc_queue := fs\<rparr>))"

text \<open>\<open>Read\<close> into a buffer of \<open>n\<close> bytes: what does not fit is lost.\<close>

definition vc_read :: "nat \<Rightarrow> vconn \<Rightarrow> read_result \<times> vconn" where
  "vc_read n c =
     (case vc_readMessage c of (RFrame f, c') \<Rightarrow> (RFrame (take n f), c') | (r, c') \<Rightarrow> (r, c'))"

definition vc_write :: "conn_oracle \<Rightarrow> nat \<Rightarrow> bytes \<Rightarrow> router \<Rightarrow> bool \<times> router" where
  "vc_write cok c p rt =
     (if p = [] then (True, rt) else rt_writeRoutedSession cok (vc_sid (rt_conns rt ! c)) p rt)"

definition rt_remove :: "string \<Rightarrow> nat \<Rightarrow> router \<Rightarrow> router" where
  "rt_remove sid c rt =
     (if map_of (rt_chans rt) sid = Some c then rt\<lparr>rt_chans := map_delete sid (rt_chans rt)\<rparr> else rt)"

definition vc_closeLocal :: "nat \<Rightarrow> router \<Rightarrow> router" where
  "vc_closeLocal c rt =
     rt_remove (vc_sid (rt_conns rt ! c)) c (vc_upd c (\<lambda>v. v\<lparr>vc_closed := True\<rparr>) rt)"

text \<open>\<open>Close\<close>, called when the session evicts the connection; \<open>destroyed\<close> is the session's state.\<close>

definition vc_close :: "conn_oracle \<Rightarrow> bool \<Rightarrow> nat \<Rightarrow> router \<Rightarrow> router" where
  "vc_close cok destroyed c rt =
     (let status = (if destroyed then EventDestroyed else EventPreempted);
          rt1 = vc_closeLocal c rt
      in snd (rt_writeRouted cok (vc_sid (rt_conns rt ! c)) SessionEvent [status] rt1))"

section \<open>The read loop\<close>

definition rt_channel :: "string \<Rightarrow> router \<Rightarrow> nat option" where
  "rt_channel sid rt = (if sid = '''' then None else map_of (rt_chans rt) sid)"

definition rt_detach :: "string \<Rightarrow> router \<Rightarrow> router" where
  "rt_detach sid rt =
     (case map_of (rt_chans rt) sid of
        None \<Rightarrow> rt
      | Some c \<Rightarrow> vc_closeLocal c (rt\<lparr>rt_chans := map_delete sid (rt_chans rt)\<rparr>))"

definition session_not_found :: bytes where
  "session_not_found = bytes_of ''session not found''"

text \<open>
  One frame.  The second component is the virtual connection whose attach goroutine was started.
\<close>

definition rt_dispatch ::
  "conn_oracle \<Rightarrow> (string \<Rightarrow> bool) \<Rightarrow> routed_frame \<Rightarrow> router \<Rightarrow> router \<times> nat option" where
  "rt_dispatch cok exists f rt =
     (if isConnLevel f then
        ((if rf_type f = Ping then snd (rt_writeRaw cok (encodeRoutedConn Pong []) rt) else rt), None)
      else
        let sid = rf_session f
        in if rf_type f = Attach then
             (if map_of (rt_chans rt) sid \<noteq> None then (snd (rt_writeRouted cok sid AttachOK [] rt), None)
              else if \<not> exists sid then (snd (rt_writeRouted cok sid AttachFail session_not_found rt), None)
              else (rt\<lparr>rt_conns := rt_conns rt @ [newVirtualConn sid],
                      rt_chans := map_put sid (length (rt_conns rt)) (rt_chans rt)\<rparr>,
                    Some (length (rt_conns rt))))
           else if rf_type f = Detach then (rt_detach sid rt, None)
           else ((case rt_channel sid rt of
                    None \<Rightarrow> rt
                  | Some c \<Rightarrow> vc_upd c (vc_deliver (rf_type f # rf_payload f)) rt), None))"

text \<open>The start of the attach goroutine, and what it does when the session's attach returned.\<close>

definition rt_attach_start :: "conn_oracle \<Rightarrow> nat \<Rightarrow> router \<Rightarrow> bool \<times> router" where
  "rt_attach_start cok c rt =
     (let sid = vc_sid (rt_conns rt ! c)
      in case rt_writeRouted cok sid AttachOK [] rt of
           (ok, rt1) \<Rightarrow> if ok then (True, rt1) else (False, rt_remove sid c rt1))"

definition rt_attach_end :: "nat \<Rightarrow> router \<Rightarrow> router" where
  "rt_attach_end c rt = vc_closeLocal c (rt_remove (vc_sid (rt_conns rt ! c)) c rt)"

definition rt_closeAll :: "router \<Rightarrow> router" where
  "rt_closeAll rt = fold vc_closeLocal (map snd (rt_chans rt)) (rt\<lparr>rt_chans := []\<rparr>)"

text \<open>
  What the socket yields: a message, binary or not, or an error, which ends the loop and closes
  every channel.
\<close>

datatype ws_event = WsMsg bool bytes | WsErr

fun rt_serve ::
  "conn_oracle \<Rightarrow> (string \<Rightarrow> bool) \<Rightarrow> ws_event list \<Rightarrow> router \<Rightarrow> router" where
  "rt_serve cok exists [] rt = rt"
| "rt_serve cok exists (WsErr # evs) rt = rt_closeAll rt"
| "rt_serve cok exists (WsMsg binary msg # evs) rt =
     (if \<not> binary then rt_serve cok exists evs rt
      else case decodeRouted msg of
             Inl _ \<Rightarrow> rt_serve cok exists evs rt
           | Inr f \<Rightarrow> rt_serve cok exists evs (fst (rt_dispatch cok exists f rt)))"

section \<open>The legacy connection and the options of an attach\<close>

text \<open>\<open>wsConn\<close>: the messages still to come, and the rest of a message read as a stream.\<close>

record ws_conn =
  wc_in :: "ws_event list"
  wc_pending :: bytes

fun next_binary :: "ws_event list \<Rightarrow> (bytes \<times> ws_event list) option" where
  "next_binary [] = None"
| "next_binary (WsErr # evs) = None"
| "next_binary (WsMsg b m # evs) = (if b then Some (m, evs) else next_binary evs)"

definition wsConn_readMessage :: "ws_conn \<Rightarrow> (bytes \<times> ws_conn) option" where
  "wsConn_readMessage c =
     map_option (\<lambda>(m, evs). (m, c\<lparr>wc_in := evs\<rparr>)) (next_binary (wc_in c))"

lemma next_binary_shorter: "next_binary evs = Some (m, evs') \<Longrightarrow> length evs' < length evs"
  by (induction evs rule: next_binary.induct) (auto split: if_splits)

function wsConn_fill :: "ws_conn \<Rightarrow> ws_conn option" where
  "wsConn_fill c =
     (if wc_pending c \<noteq> [] then Some c
      else case next_binary (wc_in c) of
             None \<Rightarrow> None
           | Some (m, evs) \<Rightarrow> wsConn_fill (c\<lparr>wc_in := evs, wc_pending := m\<rparr>))"
  by pat_completeness auto
termination
  by (relation "measure (\<lambda>c. length (wc_in c))") (auto dest: next_binary_shorter)

declare wsConn_fill.simps [simp del]

definition wsConn_read :: "nat \<Rightarrow> ws_conn \<Rightarrow> (bytes \<times> ws_conn) option" where
  "wsConn_read n c =
     (case wsConn_fill c of
        None \<Rightarrow> None
      | Some c' \<Rightarrow> Some (take n (wc_pending c'), c'\<lparr>wc_pending := drop n (wc_pending c')\<rparr>))"

definition signalByName :: "string \<Rightarrow> int option" where
  "signalByName name =
     map_of [(''SIGHUP'', 1), (''SIGINT'', 2), (''SIGQUIT'', 3), (''SIGKILL'', 9), (''SIGTERM'', 15)] name"

definition reconnectSeconds :: "bool \<Rightarrow> int \<Rightarrow> int" where
  "reconnectSeconds enabled t = (if enabled then t else 0)"

text \<open>\<open>preferencesJSON\<close>: \<open>marshal\<close> may fail.\<close>

definition preferencesJSON :: "('p \<Rightarrow> bytes option) \<Rightarrow> 'p option \<Rightarrow> bytes" where
  "preferencesJSON marshal prefs =
     (case prefs of None \<Rightarrow> [] | Some p \<Rightarrow> (case marshal p of None \<Rightarrow> [] | Some b \<Rightarrow> b))"

definition close_reason :: "sess_error option \<Rightarrow> string" where
  "close_reason err =
     (case err of
        None \<Rightarrow> ''finished''
      | Some ErrClientClosed \<Rightarrow> ''client''
      | Some ErrSessionPreempted \<Rightarrow> ''preempted''
      | Some ErrTerminalClosed \<Rightarrow> ''terminal''
      | Some _ \<Rightarrow> ''error'')"

section \<open>The invariant\<close>

text \<open>A registered channel exists, belongs to the session it is registered for, and is open.\<close>

definition router_inv :: "router \<Rightarrow> bool" where
  "router_inv rt \<longleftrightarrow>
     (\<forall>sid c. map_of (rt_chans rt) sid = Some c \<longrightarrow>
        c < length (rt_conns rt) \<and> vc_sid (rt_conns rt ! c) = sid \<and> \<not> vc_closed (rt_conns rt ! c))"

lemma router_invD:
  "router_inv rt \<Longrightarrow> map_of (rt_chans rt) sid = Some c \<Longrightarrow>
     c < length (rt_conns rt) \<and> vc_sid (rt_conns rt ! c) = sid \<and> \<not> vc_closed (rt_conns rt ! c)"
  by (simp add: router_inv_def)

lemma new_router_inv: "router_inv newWSRouter"
  by (simp add: router_inv_def newWSRouter_def)

lemma write_frame [simp]:
  "rt_chans (snd (rt_writeRaw cok f rt)) = rt_chans rt" "rt_conns (snd (rt_writeRaw cok f rt)) = rt_conns rt"
  "rt_chans (snd (rt_writeRouted cok sid t p rt)) = rt_chans rt"
  "rt_conns (snd (rt_writeRouted cok sid t p rt)) = rt_conns rt"
  "rt_chans (snd (rt_writeRoutedSession cok sid b rt)) = rt_chans rt"
  "rt_conns (snd (rt_writeRoutedSession cok sid b rt)) = rt_conns rt"
  "rt_chans (snd (vc_write cok c b rt)) = rt_chans rt" "rt_conns (snd (vc_write cok c b rt)) = rt_conns rt"
  by (simp_all add: rt_writeRaw_def rt_writeRouted_def rt_writeRoutedSession_def vc_write_def
      split: prod.split sum.split)

lemma write_inv [simp]:
  "router_inv (snd (rt_writeRaw cok f rt)) = router_inv rt"
  "router_inv (snd (rt_writeRouted cok sid t p rt)) = router_inv rt"
  "router_inv (snd (vc_write cok c b rt)) = router_inv rt"
  by (simp_all add: router_inv_def)

lemma vc_upd_sel [simp]:
  "rt_chans (vc_upd c f rt) = rt_chans rt"
  "rt_conns (vc_upd c f rt) = (rt_conns rt)[c := f (rt_conns rt ! c)]"
  "rt_out (vc_upd c f rt) = rt_out rt"
  by (simp_all add: vc_upd_def)

lemma rt_remove_inv: "router_inv rt \<Longrightarrow> router_inv (rt_remove sid c rt)"
  by (auto simp: router_inv_def rt_remove_def split: if_splits)

lemma closeLocal_conns:
  "rt_conns (vc_closeLocal c rt) = (rt_conns rt)[c := (rt_conns rt ! c)\<lparr>vc_closed := True\<rparr>]"
  by (simp add: vc_closeLocal_def rt_remove_def)

lemma closeLocal_chans:
  "rt_chans (vc_closeLocal c rt) =
     (if map_of (rt_chans rt) (vc_sid (rt_conns rt ! c)) = Some c
      then map_delete (vc_sid (rt_conns rt ! c)) (rt_chans rt) else rt_chans rt)"
  by (simp add: vc_closeLocal_def rt_remove_def)

lemma closeLocal_inv:
  assumes "router_inv rt" shows "router_inv (vc_closeLocal c rt)"
  unfolding router_inv_def
proof (intro allI impI)
  fix sid d
  assume a: "map_of (rt_chans (vc_closeLocal c rt)) sid = Some d"
  then have m: "map_of (rt_chans rt) sid = Some d"
    by (auto simp: closeLocal_chans split: if_splits)
  note i = router_invD [OF assms m]
  have "d \<noteq> c"
  proof
    assume "d = c"
    with i m a show False by (auto simp: closeLocal_chans split: if_splits)
  qed
  with i show "d < length (rt_conns (vc_closeLocal c rt)) \<and> vc_sid (rt_conns (vc_closeLocal c rt) ! d) = sid
      \<and> \<not> vc_closed (rt_conns (vc_closeLocal c rt) ! d)"
    by (simp add: closeLocal_conns)
qed

lemma delete_inv: "router_inv rt \<Longrightarrow> router_inv (rt\<lparr>rt_chans := map_delete sid (rt_chans rt)\<rparr>)"
  by (auto simp: router_inv_def split: if_splits)

lemma detach_inv: "router_inv rt \<Longrightarrow> router_inv (rt_detach sid rt)"
  by (auto simp: rt_detach_def closeLocal_inv delete_inv split: option.split)

lemma deliver_fields [simp]:
  "vc_sid (vc_deliver f v) = vc_sid v" "vc_closed (vc_deliver f v) = vc_closed v"
  by (simp_all add: vc_deliver_def)

lemma upd_inv:
  assumes "router_inv rt" and "\<And>v. vc_sid (f v) = vc_sid v" and "\<And>v. vc_closed (f v) = vc_closed v"
  shows "router_inv (vc_upd c f rt)"
  unfolding router_inv_def
proof (intro allI impI)
  fix sid d
  assume "map_of (rt_chans (vc_upd c f rt)) sid = Some d"
  then have "map_of (rt_chans rt) sid = Some d" by simp
  from router_invD [OF assms(1) this] assms(2,3)
  show "d < length (rt_conns (vc_upd c f rt)) \<and> vc_sid (rt_conns (vc_upd c f rt) ! d) = sid
      \<and> \<not> vc_closed (rt_conns (vc_upd c f rt) ! d)"
    by (cases "d = c") simp_all
qed

lemma dispatch_inv: "router_inv rt \<Longrightarrow> router_inv (fst (rt_dispatch cok exists f rt))"
proof -
  assume inv: "router_inv rt"
  have "router_inv (rt\<lparr>rt_conns := rt_conns rt @ [newVirtualConn sid],
                       rt_chans := map_put sid (length (rt_conns rt)) (rt_chans rt)\<rparr>)" for sid
    using inv by (auto simp: router_inv_def newVirtualConn_def nth_append intro: less_SucI)
  then show ?thesis
    using inv by (auto simp: rt_dispatch_def Let_def detach_inv upd_inv split: option.split)
qed

lemma closeAll_inv: "router_inv (rt_closeAll rt)"
proof -
  have "router_inv r \<Longrightarrow> router_inv (fold vc_closeLocal cs r)" for cs r
    by (induction cs arbitrary: r) (simp_all add: closeLocal_inv)
  then show ?thesis by (simp add: rt_closeAll_def router_inv_def [of "rt\<lparr>rt_chans := []\<rparr>"])
qed

lemma serve_inv: "router_inv rt \<Longrightarrow> router_inv (rt_serve cok exists evs rt)"
  by (induction cok exists evs rt rule: rt_serve.induct)
     (auto simp: closeAll_inv dispatch_inv split: sum.split)

text \<open>The read loop, the attach goroutines, the bridges and the sessions act in any order.\<close>

inductive rt_step :: "router \<Rightarrow> router \<Rightarrow> bool" where
  frame: "rt_step rt (fst (rt_dispatch cok exists f rt))"
| socket_gone: "rt_step rt (rt_closeAll rt)"
| attach_start: "rt_step rt (snd (rt_attach_start cok c rt))"
| attach_end: "rt_step rt (rt_attach_end c rt)"
| bridge_read: "rt_step rt (vc_upd c (\<lambda>v. snd (vc_readMessage v)) rt)"
| bridge_write: "rt_step rt (snd (vc_write cok c p rt))"
| evicted: "rt_step rt (vc_close cok destroyed c rt)"

inductive rt_reach :: "router \<Rightarrow> bool" where
  init: "rt_reach newWSRouter"
| step: "rt_reach rt \<Longrightarrow> rt_step rt rt' \<Longrightarrow> rt_reach rt'"

lemma step_router_inv: "rt_step rt rt' \<Longrightarrow> router_inv rt \<Longrightarrow> router_inv rt'"
proof (induction rule: rt_step.induct)
  case (attach_start rt cok c)
  then have "router_inv (snd (rt_writeRouted cok (vc_sid (rt_conns rt ! c)) AttachOK [] rt))"
    by simp
  then show ?case
    by (simp add: rt_attach_start_def Let_def rt_remove_inv case_prod_beta)
next
  case (bridge_read rt c)
  then show ?case
    by (intro upd_inv) (auto simp: vc_readMessage_def split: list.split)
next
  case (bridge_write rt cok c p)
  then show ?case by simp
next
  case (evicted rt cok destroyed c)
  then show ?case
    by (simp add: vc_close_def Let_def closeLocal_inv)
qed (simp_all add: dispatch_inv closeAll_inv rt_attach_end_def closeLocal_inv rt_remove_inv)

lemma reach_router_inv: "rt_reach rt \<Longrightarrow> router_inv rt"
  by (induction rule: rt_reach.induct) (auto intro: new_router_inv step_router_inv)

section \<open>Properties\<close>

text \<open>The frames an input holds for a session's channel, in order.\<close>

fun frames_for :: "string \<Rightarrow> ws_event list \<Rightarrow> bytes list" where
  "frames_for sid [] = []"
| "frames_for sid (WsErr # evs) = []"
| "frames_for sid (WsMsg binary msg # evs) =
     (case decodeRouted msg of
        Inr f \<Rightarrow> if binary \<and> rf_session f = sid \<and> rf_type f \<noteq> Attach \<and> rf_type f \<noteq> Detach
                then (rf_type f # rf_payload f) # frames_for sid evs else frames_for sid evs
      | Inl _ \<Rightarrow> frames_for sid evs)"

fun keeps_channel :: "string \<Rightarrow> ws_event list \<Rightarrow> bool" where
  "keeps_channel sid [] = True"
| "keeps_channel sid (WsErr # evs) = False"
| "keeps_channel sid (WsMsg binary msg # evs) =
     ((case decodeRouted msg of
         Inr f \<Rightarrow> \<not> (binary \<and> rf_session f = sid \<and> rf_type f = Detach) | Inl _ \<Rightarrow> True)
      \<and> keeps_channel sid evs)"

lemma dispatch_channel:
  assumes "router_inv rt" and c: "map_of (rt_chans rt) sid = Some c" and "sid \<noteq> ''''"
    and "\<not> (rf_session f = sid \<and> rf_type f = Detach)"
  shows "map_of (rt_chans (fst (rt_dispatch cok exists f rt))) sid = Some c
    \<and> vc_queue (rt_conns (fst (rt_dispatch cok exists f rt)) ! c) =
        vc_queue (rt_conns rt ! c)
        @ (if rf_session f = sid \<and> rf_type f \<noteq> Attach \<and> rf_type f \<noteq> Detach
           then [rf_type f # rf_payload f] else [])"
proof -
  note i = router_invD [OF assms(1) c]
  have other: "rf_session f \<noteq> sid \<Longrightarrow> map_of (rt_chans rt) (rf_session f) = Some d \<Longrightarrow> d \<noteq> c" for d
    using i router_invD [OF assms(1), of "rf_session f" d] by auto
  show ?thesis
  proof (cases "isConnLevel f")
    case True
    with assms(3) show ?thesis by (auto simp: rt_dispatch_def isConnLevel_def c)
  next
    case False
    then have ne: "rf_session f \<noteq> ''''" by (simp add: isConnLevel_def)
    consider "rf_type f = Attach" | "rf_type f = Detach" | "rf_type f \<noteq> Attach" "rf_type f \<noteq> Detach"
      by blast
    then show ?thesis
    proof cases
      case 1
      with False c i show ?thesis
        by (auto simp: rt_dispatch_def Let_def nth_append)
    next
      case 2
      then have "rf_session f \<noteq> sid" using assms(4) by simp
      with 2 False c other [OF this] show ?thesis
        by (auto simp: rt_dispatch_def Let_def rt_detach_def closeLocal_chans closeLocal_conns
            msg_types split: option.split)
    next
      case 3
      with False ne c i other show ?thesis
        by (auto simp: rt_dispatch_def Let_def rt_channel_def vc_deliver_def nth_list_update
            split: option.split)
    qed
  qed
qed

text \<open>
  Property C17.  Sessions on one socket do not disturb each other: whatever arrives on the
  connection, malformed frames, text messages, frames of other sessions and repeated attaches
  included, the channel of an attached session receives exactly its own frames, complete and in
  order, until the client detaches it or the socket fails.
\<close>

theorem channel_receives_own_frames:
  assumes "rt_reach rt" and "map_of (rt_chans rt) sid = Some c" and "sid \<noteq> ''''"
    and "keeps_channel sid evs"
  shows "map_of (rt_chans (rt_serve cok exists evs rt)) sid = Some c
    \<and> vc_queue (rt_conns (rt_serve cok exists evs rt) ! c) = vc_queue (rt_conns rt ! c) @ frames_for sid evs"
proof -
  have "router_inv rt" by (rule reach_router_inv [OF assms(1)])
  then show ?thesis
    using assms(2,4)
  proof (induction evs arbitrary: rt)
    case Nil
    then show ?case by simp
  next
    case (Cons ev evs)
    show ?case
    proof (cases ev)
      case WsErr
      with Cons.prems show ?thesis by simp
    next
      case (WsMsg binary msg)
      show ?thesis
      proof (cases "binary \<and> is_ok (decodeRouted msg)")
        case False
        with Cons WsMsg show ?thesis by (auto split: sum.split)
      next
        case True
        then obtain f where f: "decodeRouted msg = Inr f" and b: "binary" by auto
        with Cons.prems WsMsg have "\<not> (rf_session f = sid \<and> rf_type f = Detach)" by simp
        note d = dispatch_channel [OF Cons.prems(1,2) assms(3) this, of cok exists]
        from Cons.IH [OF dispatch_inv [OF Cons.prems(1)] conjunct1 [OF d]] Cons.prems WsMsg f b d
        show ?thesis by simp
      qed
    qed
  qed
qed

definition demo_sid :: string where "demo_sid = ''0123456789abcdef''"

definition demo_attached_router :: router where
  "demo_attached_router =
     fst (rt_dispatch (\<lambda>_ _. True) (\<lambda>_. True)
            \<lparr>rf_session = demo_sid, rf_type = Attach, rf_payload = []\<rparr> newWSRouter)"

lemma demo_attached_router_eq:
  "demo_attached_router = \<lparr>rt_chans = [(demo_sid, 0)], rt_conns = [newVirtualConn demo_sid], rt_out = []\<rparr>"
  by (simp add: demo_attached_router_def rt_dispatch_def isConnLevel_def newWSRouter_def demo_sid_def Let_def)

theorem channel_receives_own_frames_witness:
  "vc_queue (rt_conns (rt_serve (\<lambda>_ _. True) (\<lambda>_. True)
      [WsMsg True [1, 2], WsMsg True (routed_layout demo_sid Input [7])] demo_attached_router) ! 0)
   = [[Input, 7]]"
proof -
  have r: "rt_reach demo_attached_router"
    unfolding demo_attached_router_def by (rule rt_reach.step [OF rt_reach.init rt_step.frame])
  have s: "length demo_sid = 16" by (simp add: demo_sid_def)
  have n: "demo_sid \<noteq> connLevelID" by (simp add: demo_sid_def connLevelID_def numeral_eq_Suc)
  have d: "decodeRouted (routed_layout demo_sid Input [7]) = Inr \<lparr>rf_session = demo_sid, rf_type = Input, rf_payload = [7]\<rparr>"
    using decodeRouted_layout [OF s, of "[7]" Input] n by simp
  have b: "decodeRouted [1, 2] = Inl (ShortFrame 2)"
    by (simp add: decodeRouted_def routed_consts)
  have "demo_sid \<noteq> ''''" by (simp add: demo_sid_def)
  moreover have "Input \<noteq> Attach" "Input \<noteq> Detach" by (simp_all add: msg_types)
  ultimately show ?thesis
    using channel_receives_own_frames [OF r, of demo_sid 0
      "[WsMsg True [1, 2], WsMsg True (routed_layout demo_sid Input [7])]" "\<lambda>_ _. True" "\<lambda>_. True"]
    by (simp add: d b demo_attached_router_eq newVirtualConn_def)
qed

text \<open>
  A client that detaches a session and attaches it again on the same socket is
  told that it was taken over: the session evicts the old channel by calling its \<open>Close\<close>, which
  sends the preemption event although the channel was already closed by the client, and the event
  names the session whose new channel is open.
\<close>

lemma reattach_reports_preemption:
  assumes "rt_reach rt" and "map_of (rt_chans rt) sid = Some c2" and "c1 \<noteq> c2"
    and "vc_sid (rt_conns rt ! c1) = sid" and "length sid = 16"
    and "\<And>l f. cok l f"
  shows "map_of (rt_chans (vc_close cok False c1 rt)) sid = Some c2
    \<and> \<not> vc_closed (rt_conns (vc_close cok False c1 rt) ! c2)
    \<and> rt_out (vc_close cok False c1 rt) = rt_out rt @ [routed_layout sid SessionEvent [EventPreempted]]"
proof -
  note i = router_invD [OF reach_router_inv [OF assms(1)] assms(2)]
  have "rt_out (vc_closeLocal c1 rt) = rt_out rt"
    by (simp add: vc_closeLocal_def rt_remove_def)
  with i assms show ?thesis
    by (simp add: vc_close_def Let_def closeLocal_chans closeLocal_conns rt_writeRouted_def
        encodeRouted_def routed_consts rt_writeRaw_def conn_write_def)
qed

definition demo_frame :: "byte \<Rightarrow> routed_frame" where
  "demo_frame t = \<lparr>rf_session = demo_sid, rf_type = t, rf_payload = []\<rparr>"

definition demo_rejoined_router :: router where
  "demo_rejoined_router =
     fst (rt_dispatch (\<lambda>_ _. True) (\<lambda>_. True) (demo_frame Attach)
       (fst (rt_dispatch (\<lambda>_ _. True) (\<lambda>_. True) (demo_frame Detach) demo_attached_router)))"

end
