(* ===== verification/Api.thy ===== *)
theory Api
  imports Manager Forward_Hosts
begin

text \<open>
  The request handlers of \<open>internal/api\<close> that do not concern a running session: access tokens
  (\<open>auth.go\<close>), the page title (\<open>title_store.go\<close>, \<open>title_handler.go\<close>), the trust store and the
  secrets (\<open>misc_handler.go\<close>), and the host inventory (\<open>host_handler.go\<close>).  A handler is a function
  of the decoded request and the state it works on; the answer is an \<open>http\<close> value.  The text of
  an error answer that repeats an error is abbreviated.
\<close>

section \<open>Access tokens\<close>

text \<open>The parts of a request the token can be in: two headers and a query parameter.\<close>

record token_request =
  tr_authorization :: string
  tr_xToken :: string
  tr_query :: string

definition tokenFromRequest :: "token_request \<Rightarrow> string" where
  "tokenFromRequest r =
     (let auth = tr_authorization r
      in if length auth > 7 \<and> take 7 auth = ''Bearer '' then drop 7 auth
         else if tr_xToken r \<noteq> '''' then tr_xToken r else tr_query r)"

text \<open>\<open>requireToken\<close>: whether the wrapped handler runs; otherwise the answer is 401.\<close>

definition requireToken :: "string \<Rightarrow> token_request \<Rightarrow> bool" where
  "requireToken token r =
     (let presented = tokenFromRequest r
      in \<not> (length presented \<noteq> length token \<or> presented \<noteq> token))"

definition hex_encode :: "bytes \<Rightarrow> string" where
  "hex_encode bs = concat (map (\<lambda>b. [hex_digit (unat b div 16), hex_digit (unat b mod 16)]) bs)"

text \<open>\<open>generateToken\<close> from 24 random bytes; \<open>None\<close> when the random source failed.\<close>

definition generateToken :: "bytes option \<Rightarrow> string option" where
  "generateToken rnd = map_option hex_encode rnd"

datatype token_error = RandomFailed | TokenMkdir | TokenWrite

text \<open>\<open>ResolveToken\<close>: the configured token, else the one in the file, else a new one, saved.\<close>

definition resolveToken ::
  "string \<Rightarrow> os_env \<Rightarrow> bytes option \<Rightarrow> string \<Rightarrow> string \<Rightarrow> disk \<Rightarrow> (token_error + string) \<times> disk"
where
  "resolveToken home e rnd optToken optFile d =
     (if optToken \<noteq> '''' then (Inr optToken, d)
      else
        let tokenFile = (if has_prefix ''~/'' optFile then home @ drop 1 optFile else optFile);
            stored = (if tokenFile = '''' then None else d tokenFile)
        in case stored of
             Some data \<Rightarrow> if length data > 0 then (Inr data, d) else
               (case generateToken rnd of
                  None \<Rightarrow> (Inl RandomFailed, d)
                | Some t \<Rightarrow> if \<not> oe_mkdir e then (Inl TokenMkdir, d)
                           else if \<not> oe_write e then (Inl TokenWrite, d)
                           else (Inr t, d(tokenFile \<mapsto> t)))
           | None \<Rightarrow>
               (case generateToken rnd of
                  None \<Rightarrow> (Inl RandomFailed, d)
                | Some t \<Rightarrow> if tokenFile = '''' then (Inr t, d)
                           else if \<not> oe_mkdir e then (Inl TokenMkdir, d)
                           else if \<not> oe_write e then (Inl TokenWrite, d)
                           else (Inr t, d(tokenFile \<mapsto> t))))"

section \<open>The page title\<close>

record title_store =
  ts_path :: string
  ts_title :: string

record title_payload =
  tp_title :: string

definition title_fields :: "(string \<times> title_payload field_decoder) list" where
  "title_fields = [(''title'', f_str tp_title_update)]"

definition decode_title :: "json \<Rightarrow> string option" where
  "decode_title j = map_option tp_title (decode_struct title_fields j \<lparr>tp_title = ''''\<rparr>)"

text \<open>\<open>NewTitleStore\<close>: every failure gives the empty title.\<close>

definition newTitleStore :: "json_parser \<Rightarrow> string \<Rightarrow> string \<Rightarrow> disk \<Rightarrow> title_store" where
  "newTitleStore unmarshal home path d =
     \<lparr>ts_path = path,
      ts_title =
        (if path = '''' then ''''
         else case Option.bind (Option.bind (d (expand_path home path)) unmarshal) decode_title of
                None \<Rightarrow> '''' | Some t \<Rightarrow> t)\<rparr>"

definition ts_get :: "title_store \<Rightarrow> string" where
  "ts_get ts = ts_title ts"

definition ts_render :: "(json \<Rightarrow> string) \<Rightarrow> title_store \<Rightarrow> string" where
  "ts_render marshal ts = marshal (JObj [(''title'', JStr (ts_title ts))])"

definition ts_persist ::
  "(json \<Rightarrow> string) \<Rightarrow> string \<Rightarrow> os_env \<Rightarrow> title_store \<Rightarrow> disk \<Rightarrow> file_error option \<times> disk list" where
  "ts_persist marshal home e ts d =
     (if ts_path ts = '''' then (None, [d])
      else save_atomic e (expand_path home (ts_path ts)) (ts_render marshal ts) d)"

definition ts_set ::
  "(json \<Rightarrow> string) \<Rightarrow> string \<Rightarrow> os_env \<Rightarrow> string \<Rightarrow> title_store \<Rightarrow> disk
     \<Rightarrow> file_error option \<times> title_store \<times> disk" where
  "ts_set marshal home e title ts d =
     (let ts' = ts\<lparr>ts_title := title\<rparr>
      in case ts_persist marshal home e ts' d of (r, ds) \<Rightarrow> (r, ts', last ds))"

interpretation ts_persist: atomic_persist "ts_persist marshal home" "\<lambda>ts. expand_path home (ts_path ts)"
  "ts_render marshal" "\<lambda>ts. ts_path ts \<noteq> ''''" for marshal home
  by unfold_locales (use save_atomic_laws in \<open>simp_all add: ts_persist_def split: if_splits\<close>)

definition maxPageTitleLen :: nat where "maxPageTitleLen = 200"

definition handleGetTitle :: "title_store \<Rightarrow> string http" where
  "handleGetTitle ts = HOk 200 (ts_get ts)"

definition handlePutTitle ::
  "(json \<Rightarrow> string) \<Rightarrow> string \<Rightarrow> os_env \<Rightarrow> json option \<Rightarrow> title_store \<Rightarrow> disk
     \<Rightarrow> string http \<times> title_store \<times> disk" where
  "handlePutTitle marshal home e body ts d =
     (case Option.bind body decode_title of
        None \<Rightarrow> (HErr 400 ''invalid request body'', ts, d)
      | Some t \<Rightarrow>
          (let t1 = trim_space t;
               title = (if length t1 > maxPageTitleLen then take maxPageTitleLen t1 else t1)
           in case ts_set marshal home e title ts d of
                (Some _, ts', d') \<Rightarrow> (HErr 500 ''failed to persist page title'', ts', d')
              | (None, ts', d') \<Rightarrow> (HOk 200 title, ts', d')))"

section \<open>Known hosts and secrets\<close>

record pin_view =
  pw_addr :: string
  pw_keyType :: string
  pw_fingerprint :: string
  pw_firstSeen :: int

definition handleListKnownHosts :: "(bytes \<Rightarrow> bytes) \<Rightarrow> known_hosts \<Rightarrow> pin_view list http" where
  "handleListKnownHosts sha256 k =
     HOk 200 (map (\<lambda>(a, p). \<lparr>pw_addr = a, pw_keyType = hp_keyType p,
                            pw_fingerprint = fingerprint sha256 (hp_keyType p) (hp_keyBlob p),
                            pw_firstSeen = hp_firstSeen p\<rparr>) (kh_pins_copy k))"

definition handleForgetKnownHost ::
  "(json \<Rightarrow> string) \<Rightarrow> os_env \<Rightarrow> string \<Rightarrow> known_hosts \<Rightarrow> disk \<Rightarrow> unit http \<times> known_hosts \<times> disk" where
  "handleForgetKnownHost marshal e addr k d =
     (case kh_forget marshal e addr k d of
        (Some _, k', d') \<Rightarrow> (HErr 500 ''failed to forget host key'', k', d')
      | (None, k', d') \<Rightarrow> (HOk 204 (), k', d'))"

record secret_request =
  sq_kind :: string
  sq_addr :: string
  sq_user :: string
  sq_keyPath :: string
  sq_secret :: string

definition decode_secret_request :: "json \<Rightarrow> secret_request option" where
  "decode_secret_request j =
     decode_struct
       [(''kind'', f_str sq_kind_update), (''addr'', f_str sq_addr_update), (''user'', f_str sq_user_update),
        (''key_path'', f_str sq_keyPath_update), (''secret'', f_str sq_secret_update)]
       j \<lparr>sq_kind = '''', sq_addr = '''', sq_user = '''', sq_keyPath = '''', sq_secret = ''''\<rparr>"

text \<open>The secret store's operations never report an error, so their error answers do not occur.\<close>

definition handleSetSecret :: "bool \<Rightarrow> json option \<Rightarrow> secrets \<Rightarrow> bool http \<times> secrets" where
  "handleSetSecret kr_ok body s =
     (case Option.bind body decode_secret_request of
        None \<Rightarrow> (HErr 400 ''invalid request body'', s)
      | Some req \<Rightarrow>
          if sq_kind req = ''password'' then
            (if sq_addr req = '''' \<or> sq_user req = ''''
             then (HErr 400 ''addr and user are required for a password'', s)
             else (HOk 200 True, setPassword kr_ok (sq_addr req) (sq_user req) (sq_secret req) s))
          else if sq_kind req = ''passphrase'' then
            (if sq_keyPath req = '''' then (HErr 400 ''key_path is required for a passphrase'', s)
             else (HOk 200 True, setPassphrase kr_ok (sq_keyPath req) (sq_secret req) s))
          else (HErr 400 ''kind must be password or passphrase'', s))"

definition handleDeleteSecret :: "bool \<Rightarrow> (string \<Rightarrow> string) \<Rightarrow> secrets \<Rightarrow> unit http \<times> secrets" where
  "handleDeleteSecret kr_ok q s =
     (if q ''kind'' = ''password'' then (HOk 204 (), deletePassword kr_ok (q ''addr'') (q ''user'') s)
      else if q ''kind'' = ''passphrase'' then (HOk 204 (), deletePassphrase kr_ok (q ''key_path'') s)
      else (HErr 400 ''kind must be password or passphrase'', s))"

section \<open>Hosts\<close>

definition handleListHosts :: "string \<Rightarrow> inventory \<Rightarrow> host list http" where
  "handleListHosts user iv = HOk 200 (local_host user # inv_list iv)"

record host_request =
  hq_host :: host
  hq_password :: "string option"
  hq_savePassword :: bool

text \<open>The fields of the embedded host are decoded into it.\<close>

definition lift_field :: "host field_decoder \<Rightarrow> host_request field_decoder" where
  "lift_field d j r = map_option (\<lambda>h. r\<lparr>hq_host := h\<rparr>) (d j (hq_host r))"

definition decode_host_request :: "json \<Rightarrow> host_request option" where
  "decode_host_request j =
     decode_struct
       (map (\<lambda>(n, d). (n, lift_field d)) host_fields
        @ [(''password'', f_opt_str hq_password_update), (''save_password'', f_bool hq_savePassword_update)])
       j \<lparr>hq_host = zero_host, hq_password = None, hq_savePassword = False\<rparr>"

definition saveHostPassword :: "bool \<Rightarrow> host_request \<Rightarrow> host \<Rightarrow> secrets \<Rightarrow> secrets" where
  "saveHostPassword kr_ok req h s =
     (case hq_password req of
        None \<Rightarrow> s
      | Some pw \<Rightarrow> if pw = '''' \<or> \<not> hq_savePassword req then s
                  else setPassword kr_ok (host_addr h) (h_user h) pw s)"

text \<open>
  The state the host handlers work on: the inventory and its file, the secrets, and the forward
  manager.  The host records the forward manager sees are the inventory's.
\<close>

record 'd host_state =
  hs_inv :: inventory
  hs_disk :: disk
  hs_secrets :: secrets
  hs_fwd :: "'d fwd_manager"

definition inv_specs :: "string \<Rightarrow> inventory \<Rightarrow> fwd_specs" where
  "inv_specs user iv hid = (case inv_get user hid iv of Inl _ \<Rightarrow> [] | Inr h \<Rightarrow> h_forwards h)"

definition handleCreateHost ::
  "(json \<Rightarrow> string) \<Rightarrow> os_env \<Rightarrow> bool \<Rightarrow> string \<Rightarrow> int \<Rightarrow> string \<Rightarrow> json option \<Rightarrow> 'd host_state
     \<Rightarrow> host http \<times> 'd host_state" where
  "handleCreateHost marshal e kr_ok user now fresh body st =
     (case Option.bind body decode_host_request of
        None \<Rightarrow> (HErr 400 ''invalid request body'', st)
      | Some req \<Rightarrow>
          (let h = (if h_id (hq_host req) = '''' then (hq_host req)\<lparr>h_id := fresh\<rparr> else hq_host req)
           in case inv_add marshal e now h (hs_inv st) (hs_disk st) of
                (Some _, iv, d) \<Rightarrow> (HErr 400 ''rejected'', st\<lparr>hs_inv := iv, hs_disk := d\<rparr>)
              | (None, iv, d) \<Rightarrow>
                  (let st1 = st\<lparr>hs_inv := iv, hs_disk := d,
                              hs_secrets := saveHostPassword kr_ok req h (hs_secrets st)\<rparr>;
                       st2 = (if h_forwards h \<noteq> [] \<and> \<not> isLocal (h_id h)
                              then st1\<lparr>hs_fwd := snd (fwd_resume (inv_specs user iv) (h_id h) None (hs_fwd st1))\<rparr>
                              else st1)
                   in (HOk 201 (h\<lparr>h_created := now, h_updated := now\<rparr>), st2))))"

definition handleGetHost :: "string \<Rightarrow> string \<Rightarrow> inventory \<Rightarrow> host http" where
  "handleGetHost user i iv =
     (case inv_get user i iv of Inl _ \<Rightarrow> HErr 404 ''host not found'' | Inr h \<Rightarrow> HOk 200 h)"

definition handleUpdateHost ::
  "(json \<Rightarrow> string) \<Rightarrow> os_env \<Rightarrow> bool \<Rightarrow> string \<Rightarrow> int \<Rightarrow> 'd launcher \<Rightarrow> string \<Rightarrow> json option \<Rightarrow> 'd host_state
     \<Rightarrow> host http \<times> 'd host_state" where
  "handleUpdateHost marshal e kr_ok user now launch i body st =
     (case Option.bind body decode_host_request of
        None \<Rightarrow> (HErr 400 ''invalid request body'', st)
      | Some req \<Rightarrow>
          (let h = (hq_host req)\<lparr>h_id := i\<rparr>;
               created = (case map_of (iv_hosts (hs_inv st)) i of None \<Rightarrow> 0 | Some old \<Rightarrow> h_created old)
           in case inv_update marshal e now h (hs_inv st) (hs_disk st) of
                (Some _, iv, d) \<Rightarrow> (HErr 400 ''rejected'', st\<lparr>hs_inv := iv, hs_disk := d\<rparr>)
              | (None, iv, d) \<Rightarrow>
                  (HOk 200 (h\<lparr>h_created := created, h_updated := now\<rparr>),
                   st\<lparr>hs_inv := iv, hs_disk := d,
                      hs_fwd := fwd_reconcile (inv_specs user iv) launch i (hs_fwd st),
                      hs_secrets := saveHostPassword kr_ok req h (hs_secrets st)\<rparr>)))"

definition handleDeleteHost ::
  "(json \<Rightarrow> string) \<Rightarrow> os_env \<Rightarrow> string \<Rightarrow> 'd host_state \<Rightarrow> unit http \<times> 'd host_state" where
  "handleDeleteHost marshal e i st =
     (case inv_remove marshal e i (hs_inv st) (hs_disk st) of
        (Some _, iv, d) \<Rightarrow> (HErr 400 ''rejected'', st\<lparr>hs_inv := iv, hs_disk := d\<rparr>)
      | (None, iv, d) \<Rightarrow>
          (HOk 204 (), st\<lparr>hs_inv := iv, hs_disk := d, hs_fwd := fwd_release i (hs_fwd st)\<rparr>))"

definition handleListHostForwards ::
  "string \<Rightarrow> string \<Rightarrow> 'd host_state \<Rightarrow> host_forward list http \<times> 'd host_state" where
  "handleListHostForwards user i st =
     (case fwd_list (inv_specs user (hs_inv st)) i (hs_fwd st) of
        (vs, m) \<Rightarrow> (HOk 200 vs, st\<lparr>hs_fwd := m\<rparr>))"

section \<open>Properties\<close>

lemma hex_encode_length: "length (hex_encode bs) = 2 * length bs"
  by (induction bs) (simp_all add: hex_encode_def)

lemma resolveToken_nonempty:
  assumes "resolveToken home e (Some rnd) t f d = (Inr tok, d')" and "rnd \<noteq> []"
  shows "tok \<noteq> ''''"
proof -
  have "hex_encode rnd \<noteq> ''''"
    using hex_encode_length [of rnd] assms(2) by auto
  with assms show ?thesis
    by (auto simp: resolveToken_def generateToken_def Let_def split: if_splits option.splits)
qed

text \<open>
  Access needs the token: however the server's token was resolved (configured, read
  from its file, or generated), it is not empty, so a request is let through exactly when it
  presents that very token, and a request that presents none is rejected.
\<close>

lemma access_needs_token:
  assumes "resolveToken home e (Some rnd) optToken optFile d = (Inr token, d')" and "length rnd = 24"
  shows "(requireToken token r \<longleftrightarrow> tokenFromRequest r = token)
     \<and> \<not> requireToken token \<lparr>tr_authorization = '''', tr_xToken = '''', tr_query = ''''\<rparr>"
proof -
  have "rnd \<noteq> []" using assms(2) by auto
  have "token \<noteq> ''''" by (rule resolveToken_nonempty [OF assms(1) \<open>rnd \<noteq> []\<close>])
  then show ?thesis
    by (auto simp: requireToken_def Let_def tokenFromRequest_def)
qed

lemma title_bounded:
  "handlePutTitle marshal home e body ts d = (HOk c t, ts', d') \<Longrightarrow>
     length t \<le> 200 \<and> ts_get ts' = t"
  by (auto simp: handlePutTitle_def ts_set_def Let_def maxPageTitleLen_def ts_get_def
      split: option.splits prod.splits if_splits)

lemma host_handlers_keep_index:
  "inv_ok (hs_inv st) \<Longrightarrow> inv_ok (hs_inv (snd (handleCreateHost marshal e kr_ok user now fresh body st)))"
  "inv_ok (hs_inv st) \<Longrightarrow> inv_ok (hs_inv (snd (handleDeleteHost marshal e i st)))"
proof -
  show "inv_ok (hs_inv st) \<Longrightarrow> inv_ok (hs_inv (snd (handleCreateHost marshal e kr_ok user now fresh body st)))"
    using inv_add_ok [of "hs_inv st" marshal e now _ "hs_disk st"]
    by (auto simp: handleCreateHost_def Let_def split: option.split prod.split)
       (metis fst_conv snd_conv)+
  show "inv_ok (hs_inv st) \<Longrightarrow> inv_ok (hs_inv (snd (handleDeleteHost marshal e i st)))"
    using inv_remove_ok [of "hs_inv st" marshal e i "hs_disk st"]
    by (auto simp: handleDeleteHost_def split: option.split prod.split)
qed

end
