(* ===== verification/Api_Sessions.thy ===== *)
theory Api_Sessions
  imports Api Ws_Router Base64
begin

text \<open>
  The request handlers of \<open>internal/api\<close> that work on the live sessions: \<open>session_handler.go\<close>,
  the input and wait handlers of \<open>agent_handler.go\<close>, and the connection part of \<open>server.go\<close> (the
  terminal factory the session manager calls).  The handlers compose the models of the session
  manager, the host inventory, the secrets and the forwards.
\<close>

section \<open>The server\<close>

text \<open>The body of a request: nothing, not JSON, or a JSON value.\<close>

datatype req_body = EmptyBody | BadBody | JsonBody json

definition body_json :: "req_body \<Rightarrow> json option" where
  "body_json b = (case b of JsonBody j \<Rightarrow> Some j | _ \<Rightarrow> None)"

record ('m, 't, 's, 'd) server =
  sv_mgr :: "('m, 't, 's) manager"
  sv_hosts :: "'d host_state"
  sv_forwards :: forward_registry

text \<open>What the server was built with: the record store, the factories, and the outside world.\<close>

record ('m, 't, 's, 'd) api_env =
  ev_ops :: "'s store_ops"
  ev_factory :: "'d host_state \<Rightarrow> 't factory"
  ev_mirrorF :: "'t \<Rightarrow> 'm option"
  ev_mo :: "'m mirror_ops"
  ev_tok :: "term_oracle"
  ev_krOk :: bool
  ev_user :: string
  ev_launch :: "'d launcher"
  ev_dial :: "'d dialer"
  ev_fmt :: "int \<Rightarrow> string"

section \<open>Connecting\<close>

text \<open>Durations are 64-bit nanoseconds; a product of one and a unit wraps.\<close>

definition wrap64 :: "int \<Rightarrow> int" where
  "wrap64 i = (i + 2 ^ 63) mod 2 ^ 64 - 2 ^ 63"

definition connectTimeout :: "int \<Rightarrow> int" where
  "connectTimeout seconds =
     (let d = wrap64 (seconds * 1000000000) in if d \<le> 0 then 10 * 1000000000 else d)"

datatype connect_error =
    LocalShellFailed | LocalHasNoForwards | HostMissing host_error | AuthFailed auth_error
  | DialFailed dial_error | ShellFailed

text \<open>
  What connecting needs from outside: the credentials' world, the TCP dialer, the SSH handshake
  (which runs the host-key check of \<open>Trust\<close>), and the two terminals.
\<close>

record ('k, 'c, 'cl, 't) dial_env =
  de_auth :: "'k auth_env"
  de_timeout :: int
  de_tcp :: "string \<Rightarrow> int \<Rightarrow> 'c option"
  de_handshake :: "'c \<Rightarrow> 'k dial_hop \<Rightarrow> 'cl option"
  de_localtty :: "term_option list \<Rightarrow> 't option"
  de_sshtty :: "'cl \<Rightarrow> host \<Rightarrow> term_option list \<Rightarrow> 't option"

definition dial_host ::
  "('k, 'c, 'cl, 't) dial_env \<Rightarrow> host \<Rightarrow> secrets \<Rightarrow> provided_secrets option \<Rightarrow> connect_error + 'cl" where
  "dial_host de h s prov =
     (case buildHop (de_auth de) h s prov (connectTimeout (de_timeout de)) of
        Inl e \<Rightarrow> Inl (AuthFailed e)
      | Inr hop \<Rightarrow> (case ssh_dial (de_tcp de) (de_handshake de) (Some hop) of
                     Inl e \<Rightarrow> Inl (DialFailed e) | Inr cl \<Rightarrow> Inr cl))"

definition dialHostForward ::
  "('k, 'c, 'cl, 't) dial_env \<Rightarrow> string \<Rightarrow> inventory \<Rightarrow> secrets \<Rightarrow> string \<Rightarrow> provided_secrets option
     \<Rightarrow> connect_error + 'cl" where
  "dialHostForward de user iv s hid prov =
     (if isLocal hid then Inl LocalHasNoForwards
      else case inv_get user hid iv of
             Inl e \<Rightarrow> Inl (HostMissing e)
           | Inr h \<Rightarrow> dial_host de h s prov)"

definition credentials_provided :: "dial_credentials option \<Rightarrow> provided_secrets" where
  "credentials_provided c =
     (case c of
        None \<Rightarrow> \<lparr>pv_password = None, pv_passphrase = None\<rparr>
      | Some dc \<Rightarrow> \<lparr>pv_password = (if dc_password dc \<noteq> '''' then Some (dc_password dc) else None),
                   pv_passphrase = (if dc_passphrase dc \<noteq> '''' then Some (dc_passphrase dc) else None)\<rparr>)"

definition dialFactory ::
  "('k, 'c, 'cl, 't) dial_env \<Rightarrow> string \<Rightarrow> inventory \<Rightarrow> secrets \<Rightarrow> connect_spec \<Rightarrow> term_option list
     \<Rightarrow> connect_error + 't" where
  "dialFactory de user iv s spec opts =
     (if isLocal (cs_hostID spec)
      then (case de_localtty de opts of None \<Rightarrow> Inl LocalShellFailed | Some t \<Rightarrow> Inr t)
      else case inv_get user (cs_hostID spec) iv of
             Inl e \<Rightarrow> Inl (HostMissing e)
           | Inr h \<Rightarrow>
               (case dial_host de h s (Some (credentials_provided (to_dialCredentials (apply_options opts)))) of
                  Inl e \<Rightarrow> Inl e
                | Inr cl \<Rightarrow> (case de_sshtty de cl h opts of None \<Rightarrow> Inl ShellFailed | Some t \<Rightarrow> Inr t)))"

text \<open>The factory the manager sees; it only tells success from failure.\<close>

definition server_factory ::
  "('k, 'c, 'cl, 't) dial_env \<Rightarrow> string \<Rightarrow> 'd host_state \<Rightarrow> 't factory" where
  "server_factory de user hs spec opts =
     (case dialFactory de user (hs_inv hs) (hs_secrets hs) spec opts of Inl _ \<Rightarrow> None | Inr t \<Rightarrow> Some t)"

section \<open>Creating a session\<close>

record create_request =
  rq_id :: string
  rq_hostID :: string
  rq_password :: "string option"
  rq_passphrase :: "string option"
  rq_savePassword :: bool
  rq_savePassphrase :: bool

definition zero_create :: create_request where
  "zero_create = \<lparr>rq_id = '''', rq_hostID = '''', rq_password = None, rq_passphrase = None,
                  rq_savePassword = False, rq_savePassphrase = False\<rparr>"

definition create_fields :: "(string \<times> create_request field_decoder) list" where
  "create_fields =
     [(''id'', f_str rq_id_update), (''host_id'', f_str rq_hostID_update),
      (''password'', f_opt_str rq_password_update), (''passphrase'', f_opt_str rq_passphrase_update),
      (''save_password'', f_bool rq_savePassword_update), (''save_passphrase'', f_bool rq_savePassphrase_update)]"

definition decode_create :: "req_body \<Rightarrow> create_request option" where
  "decode_create b =
     (case b of EmptyBody \<Rightarrow> Some zero_create | BadBody \<Rightarrow> None
      | JsonBody j \<Rightarrow> decode_struct create_fields j zero_create)"

definition deref :: "string option \<Rightarrow> string" where
  "deref s = (case s of None \<Rightarrow> '''' | Some v \<Rightarrow> v)"

definition nonempty_opt :: "string option \<Rightarrow> string option" where
  "nonempty_opt s = (if deref s = '''' then None else s)"

definition forwardProvidedSecrets :: "create_request \<Rightarrow> provided_secrets" where
  "forwardProvidedSecrets req =
     \<lparr>pv_password = nonempty_opt (rq_password req), pv_passphrase = nonempty_opt (rq_passphrase req)\<rparr>"

text \<open>The specification of the requested host; without a host it is empty.\<close>

definition requested_spec :: "string \<Rightarrow> string \<Rightarrow> inventory \<Rightarrow> connect_spec option" where
  "requested_spec user hid iv =
     (if hid = '''' then Some zero_spec
      else case inv_get user hid iv of
             Inl _ \<Rightarrow> None
           | Inr h \<Rightarrow> Some \<lparr>cs_hostID = hid, cs_name = h_name h, cs_addr = host_addr h, cs_user = h_user h\<rparr>)"

definition create_options :: "create_request \<Rightarrow> term_option list" where
  "create_options req =
     (if rq_password req \<noteq> None \<or> rq_passphrase req \<noteq> None
      then [withDialCredentials (Some \<lparr>dc_password = deref (rq_password req),
                                       dc_passphrase = deref (rq_passphrase req)\<rparr>)]
      else [])"

definition savePasswordFor :: "bool \<Rightarrow> string \<Rightarrow> string \<Rightarrow> string \<Rightarrow> 'd host_state \<Rightarrow> 'd host_state" where
  "savePasswordFor kr_ok user hid pw hs =
     (case inv_get user hid (hs_inv hs) of
        Inl _ \<Rightarrow> hs
      | Inr h \<Rightarrow> hs\<lparr>hs_secrets := setPassword kr_ok (host_addr h) (h_user h) pw (hs_secrets hs)\<rparr>)"

definition savePassphraseFor :: "bool \<Rightarrow> string \<Rightarrow> string \<Rightarrow> string \<Rightarrow> 'd host_state \<Rightarrow> 'd host_state" where
  "savePassphraseFor kr_ok user hid pp hs =
     (case inv_get user hid (hs_inv hs) of
        Inl _ \<Rightarrow> hs
      | Inr h \<Rightarrow>
          if cr_kind (h_credential h) = ''key''
          then hs\<lparr>hs_secrets := setPassphrase kr_ok (cr_keyPath (h_credential h)) pp (hs_secrets hs)\<rparr> else hs)"

text \<open>What happens after the session exists: the host's forwards are ensured and secrets saved.\<close>

definition after_create :: "('m, 't, 's, 'd) api_env \<Rightarrow> create_request \<Rightarrow> 'd host_state \<Rightarrow> 'd host_state" where
  "after_create env req hs =
     (let hid = rq_hostID req;
          h1 = (if hid \<noteq> '''' \<and> \<not> isLocal hid
                then hs\<lparr>hs_fwd := fwd_ensure (inv_specs (ev_user env) (hs_inv hs)) (ev_launch env) (ev_dial env)
                                    hid (Some (forwardProvidedSecrets req)) (hs_fwd hs)\<rparr>
                else hs);
          h2 = (if \<not> isLocal hid \<and> rq_savePassword req \<and> deref (rq_password req) \<noteq> ''''
                then savePasswordFor (ev_krOk env) (ev_user env) hid (deref (rq_password req)) h1 else h1)
      in if \<not> isLocal hid \<and> rq_savePassphrase req \<and> deref (rq_passphrase req) \<noteq> ''''
         then savePassphraseFor (ev_krOk env) (ev_user env) hid (deref (rq_passphrase req)) h2 else h2)"

definition describe :: "('m, 't, 's, 'd) api_env \<Rightarrow> ('m, 't) entry \<Rightarrow> state_description" where
  "describe env en = stateDescription (ev_fmt env) (en_exited en) (en_sess en)"

text \<open>The created session is in the registry; the \<open>None\<close> branch below cannot occur.\<close>

definition handleCreateSession ::
  "('m, 't, 's, 'd) api_env \<Rightarrow> string \<Rightarrow> int \<Rightarrow> req_body \<Rightarrow> ('m, 't, 's, 'd) server
     \<Rightarrow> state_description http \<times> ('m, 't, 's, 'd) server" where
  "handleCreateSession env fresh now body st =
     (case decode_create body of
        None \<Rightarrow> (HErr 400 ''invalid request body'', st)
      | Some req \<Rightarrow>
          if rq_id req \<noteq> '''' \<and> \<not> isValidSessionID (rq_id req)
          then (HErr 400 ''invalid session id: must be 16 base36 characters'', st)
          else
            (case requested_spec (ev_user env) (rq_hostID req) (hs_inv (sv_hosts st)) of
               None \<Rightarrow> (HErr 400 ''unknown host_id'', st)
             | Some spec \<Rightarrow>
                 (case createWithID (ev_ops env) (ev_factory env (sv_hosts st)) (ev_mirrorF env) fresh now
                         (rq_id req) spec (create_options req) (sv_mgr st) of
                    (Inl e, m) \<Rightarrow>
                      ((if e = TooManySessions then HErr 503 ''too many sessions''
                        else if e = NoHost then HErr 400 ''no host given''
                        else HErr 500 ''create failed''), st\<lparr>sv_mgr := m\<rparr>)
                  | (Inr (sid, created), m) \<Rightarrow>
                      (let st' = st\<lparr>sv_mgr := m, sv_hosts := after_create env req (sv_hosts st)\<rparr>
                       in ((case map_of (mg_sessions m) sid of
                              Some en \<Rightarrow> HOk (if created then 201 else 200) (describe env en)
                            | None \<Rightarrow> HErr 500 ''''), st')))))"

section \<open>Looking sessions up\<close>

definition decode_ids :: "req_body \<Rightarrow> string list option" where
  "decode_ids b = Option.bind (body_json b) (\<lambda>j. decode_struct [(''ids'', f_strs (\<lambda>f. f))] j [])"

definition handleSessionStatus ::
  "('m, 't, 's, 'd) api_env \<Rightarrow> req_body \<Rightarrow> ('m, 't, 's, 'd) server
     \<Rightarrow> (string \<times> state_description) list http" where
  "handleSessionStatus env body st =
     (case decode_ids body of
        None \<Rightarrow> HErr 400 ''invalid request body''
      | Some ids \<Rightarrow>
          HOk 200 (fold (\<lambda>i acc. case map_of (mg_sessions (sv_mgr st)) i of
                                   None \<Rightarrow> acc
                                 | Some en \<Rightarrow> map_put (s_id (en_sess en)) (describe env en) acc)
                     (mgr_status ids (sv_mgr st)) []))"

text \<open>The order of the session list: the creation text, then the id.\<close>

datatype list_key = ListKey (lk_created: string) (lk_id: string)

instantiation list_key :: linorder
begin

definition less_eq_list_key :: "list_key \<Rightarrow> list_key \<Rightarrow> bool" where
  "less_eq_list_key a b \<longleftrightarrow>
     lk_created a < lk_created b \<or> lk_created a = lk_created b \<and> lk_id a \<le> lk_id b"

definition less_list_key :: "list_key \<Rightarrow> list_key \<Rightarrow> bool" where
  "less_list_key a b \<longleftrightarrow>
     (if lk_created a \<noteq> lk_created b then lk_created a < lk_created b else lk_id a < lk_id b)"

instance
  by standard
     (auto simp: less_eq_list_key_def less_list_key_def list_key.expand split: if_splits)

end

definition handleListSessions ::
  "('m, 't, 's, 'd) api_env \<Rightarrow> ('m, 't, 's, 'd) server \<Rightarrow> state_description list http" where
  "handleListSessions env st =
     HOk 200 (sort_key (\<lambda>d. ListKey (sd_createdAt d) (sd_id d)) (map (describe env) (mgr_list (sv_mgr st))))"

definition handleGetSession ::
  "('m, 't, 's, 'd) api_env \<Rightarrow> string \<Rightarrow> ('m, 't, 's, 'd) server \<Rightarrow> state_description http" where
  "handleGetSession env i st =
     (case mgr_get i (sv_mgr st) of
        Inl _ \<Rightarrow> HErr 404 ''session not found'' | Inr en \<Rightarrow> HOk 200 (describe env en))"

section \<open>Changing sessions\<close>

definition decode_string_field :: "string \<Rightarrow> req_body \<Rightarrow> string option" where
  "decode_string_field name b = Option.bind (body_json b) (\<lambda>j. decode_struct [(name, f_str (\<lambda>f. f))] j '''')"

definition handleUpdateTitle ::
  "('m, 't, 's, 'd) api_env \<Rightarrow> string \<Rightarrow> req_body \<Rightarrow> ('m, 't, 's, 'd) server
     \<Rightarrow> string http \<times> ('m, 't, 's, 'd) server" where
  "handleUpdateTitle env i body st =
     (case decode_string_field ''title'' body of
        None \<Rightarrow> (HErr 400 ''invalid request body'', st)
      | Some title \<Rightarrow>
          (case mgr_updateTitle (ev_ops env) i title (sv_mgr st) of
             (Some _, m) \<Rightarrow> (HErr 404 ''session not found'', st\<lparr>sv_mgr := m\<rparr>)
           | (None, m) \<Rightarrow> (HOk 200 title, st\<lparr>sv_mgr := m\<rparr>)))"

text \<open>\<open>handleDeleteSession\<close>; the answer carries the forwards whose \<open>cancel\<close> it called.\<close>

definition handleDeleteSession ::
  "('m, 't, 's, 'd) api_env \<Rightarrow> string \<Rightarrow> ('m, 't, 's, 'd) server
     \<Rightarrow> forward_entry list http \<times> ('m, 't, 's, 'd) server" where
  "handleDeleteSession env i st =
     (case mgr_destroy (ev_tok env) i (sv_mgr st) of
        (Some _, m) \<Rightarrow> (HErr 404 ''session not found'', st\<lparr>sv_mgr := m\<rparr>)
      | (None, m) \<Rightarrow>
          (let es = fr_list i (sv_forwards st)
           in (HOk 204 es,
               st\<lparr>sv_mgr := m,
                  sv_forwards := fold (\<lambda>en f. snd (fr_remove i (fe_id en) f)) es (sv_forwards st)\<rparr>)))"

text \<open>An operation on a session changes it in place.\<close>

definition put_entry ::
  "string \<Rightarrow> ('m, 't) entry \<Rightarrow> ('m, 't, 's, 'd) server \<Rightarrow> ('m, 't, 's, 'd) server" where
  "put_entry i en st = st\<lparr>sv_mgr := (sv_mgr st)\<lparr>mg_sessions := map_put i en (mg_sessions (sv_mgr st))\<rparr>\<rparr>"

record size_request =
  sz_width :: int
  sz_height :: int

definition decode_size :: "req_body \<Rightarrow> size_request option" where
  "decode_size b =
     Option.bind (body_json b)
       (\<lambda>j. decode_struct [(''width'', f_int sz_width_update), (''height'', f_int sz_height_update)]
              j \<lparr>sz_width = 0, sz_height = 0\<rparr>)"

definition handleResizeSession ::
  "('m, 't, 's, 'd) api_env \<Rightarrow> string \<Rightarrow> req_body \<Rightarrow> ('m, 't, 's, 'd) server
     \<Rightarrow> state_description http \<times> ('m, 't, 's, 'd) server" where
  "handleResizeSession env i body st =
     (case decode_size body of
        None \<Rightarrow> (HErr 400 ''invalid request body'', st)
      | Some req \<Rightarrow>
          if sz_width req \<le> 0 \<or> sz_height req \<le> 0
          then (HErr 400 ''width and height must be positive'', st)
          else
            (case mgr_get i (sv_mgr st) of
               Inl _ \<Rightarrow> (HErr 404 ''session not found'', st)
             | Inr en \<Rightarrow>
                 (case session_resize (ev_tok env) (ev_mo env) (sz_width req) (sz_height req)
                         (en_sess en) (en_log en) of
                    (r, s, l) \<Rightarrow>
                      (let en' = en\<lparr>en_sess := s, en_log := l\<rparr>
                       in ((if r \<noteq> None then HErr 409 ''session is not resizable''
                            else HOk 200 (describe env en')), put_entry i en' st)))))"

definition handleSignalSession ::
  "('m, 't, 's, 'd) api_env \<Rightarrow> string \<Rightarrow> req_body \<Rightarrow> ('m, 't, 's, 'd) server
     \<Rightarrow> state_description http \<times> ('m, 't, 's, 'd) server" where
  "handleSignalSession env i body st =
     (case decode_string_field ''signal'' body of
        None \<Rightarrow> (HErr 400 ''invalid request body'', st)
      | Some name \<Rightarrow>
          (case signalByName name of
             None \<Rightarrow> (HErr 400 (''unknown signal: '' @ name), st)
           | Some sig \<Rightarrow>
               (case mgr_get i (sv_mgr st) of
                  Inl _ \<Rightarrow> (HErr 404 ''session not found'', st)
                | Inr en \<Rightarrow>
                    (case session_signal (ev_tok env) sig (en_sess en) (en_log en) of
                       (r, l) \<Rightarrow>
                         (let en' = en\<lparr>en_log := l\<rparr>
                          in ((if r \<noteq> None then HErr 409 ''failed to send signal''
                               else HOk 200 (describe env en')), put_entry i en' st))))))"

section \<open>Driving a session\<close>

record keys_request =
  kq_input :: string
  kq_encoding :: string

definition decode_keys :: "req_body \<Rightarrow> keys_request option" where
  "decode_keys b =
     Option.bind (body_json b)
       (\<lambda>j. decode_struct [(''input'', f_str kq_input_update), (''encoding'', f_str kq_encoding_update)]
              j \<lparr>kq_input = '''', kq_encoding = ''''\<rparr>)"

text \<open>The bytes a request asks to type: an error text, or the bytes.\<close>

definition keys_payload :: "keys_request \<Rightarrow> string + bytes" where
  "keys_payload req =
     (if kq_encoding req = '''' \<or> kq_encoding req = ''text'' then Inr (bytes_of (kq_input req))
      else if kq_encoding req = ''base64'' then
        (case base64_decode (kq_input req) of None \<Rightarrow> Inl ''invalid base64 input'' | Some p \<Rightarrow> Inr p)
      else Inl (''unknown encoding: '' @ kq_encoding req))"

definition handleKeys ::
  "('m, 't, 's, 'd) api_env \<Rightarrow> bool \<Rightarrow> string \<Rightarrow> req_body \<Rightarrow> ('m, 't, 's, 'd) server
     \<Rightarrow> nat http \<times> ('m, 't, 's, 'd) server" where
  "handleKeys env permitWrite i body st =
     (if \<not> permitWrite then (HErr 403 ''write is disabled (--permit-write=false)'', st)
      else case decode_keys body of
        None \<Rightarrow> (HErr 400 ''invalid request body'', st)
      | Some req \<Rightarrow>
          if kq_input req = '''' then (HOk 200 0, st)
          else (case keys_payload req of
             Inl e \<Rightarrow> (HErr 400 e, st)
           | Inr payload \<Rightarrow>
               (case mgr_get i (sv_mgr st) of
                  Inl _ \<Rightarrow> (HErr 404 ''session not found'', st)
                | Inr en \<Rightarrow>
                    (case session_input (ev_tok env) payload (en_sess en) (en_log en) of
                       (r, l) \<Rightarrow>
                         ((case r of
                             None \<Rightarrow> HOk 200 (length payload)
                           | Some ErrSessionDestroyed \<Rightarrow> HErr 409 ''session is destroyed''
                           | Some _ \<Rightarrow> HErr 500 ''failed to write input''),
                          put_entry i (en\<lparr>en_log := l\<rparr>) st)))))"

text \<open>
  \<open>handleWaitSession\<close>: the wait itself is \<open>session_wait\<close> over the rounds the loop sees; \<open>compile\<close> is
  the regular expression library.  The answer carries the screen text and the flags; no answer is
  written when the client is gone, and \<open>WaitPending\<close> is a loop that needs more rounds.
\<close>

record wait_request =
  wq_regex :: string
  wq_timeoutMS :: int
  wq_quietMS :: int

definition decode_wait :: "req_body \<Rightarrow> wait_request option" where
  "decode_wait b =
     Option.bind (body_json b)
       (\<lambda>j. decode_struct [(''regex'', f_str wq_regex_update), (''timeout_ms'', f_int wq_timeoutMS_update),
                           (''quiet_ms'', f_int wq_quietMS_update)]
              j \<lparr>wq_regex = '''', wq_timeoutMS = 0, wq_quietMS = 0\<rparr>)"

datatype wait_reply = WaitReply "(string \<times> wait_result) http" | WaitNoReply | WaitPending

definition wait_timeout :: "int \<Rightarrow> int" where
  "wait_timeout ms =
     (let t = wrap64 (ms * 1000000);
          t1 = (if t \<le> 0 then 30 * 1000000000 else t)
      in if t1 > 300 * 1000000000 then 300 * 1000000000 else t1)"

definition handleWaitSession ::
  "(string \<Rightarrow> (string \<Rightarrow> bool) option) \<Rightarrow> int \<Rightarrow> wait_obs list \<Rightarrow> string \<Rightarrow> req_body
     \<Rightarrow> ('m, 't, 's, 'd) server \<Rightarrow> wait_reply" where
  "handleWaitSession compile now obs i body st =
     (case decode_wait body of
        None \<Rightarrow> WaitReply (HErr 400 ''invalid request body'')
      | Some req \<Rightarrow>
          if wq_regex req = '''' \<and> wq_quietMS req \<le> 0
          then WaitReply (HErr 400 ''regex or quiet_ms required'')
          else if wq_regex req \<noteq> '''' \<and> compile (wq_regex req) = None
          then WaitReply (HErr 400 ''invalid regex'')
          else
            let re = (if wq_regex req = '''' then None else compile (wq_regex req));
                timeout = wait_timeout (wq_timeoutMS req);
                quiet = wrap64 (wq_quietMS req * 1000000)
            in case mgr_get i (sv_mgr st) of
                 Inl _ \<Rightarrow> WaitReply (HErr 404 ''session not found'')
               | Inr _ \<Rightarrow>
                   (case session_wait re (now + timeout) timeout quiet obs of
                      None \<Rightarrow> WaitPending
                    | Some (Inr r) \<Rightarrow> WaitReply (HOk 200 r)
                    | Some (Inl ErrMirrorDisabled) \<Rightarrow> WaitReply (HErr 503 ''screen mirror disabled'')
                    | Some (Inl CtxCanceled) \<Rightarrow> WaitNoReply
                    | Some (Inl _) \<Rightarrow> WaitReply (HErr 500 ''wait failed'')))"

section \<open>Lemmas\<close>

lemma createWithID_result:
  assumes "createWithID ops fac mf fresh now sid spec opts m = (Inr (sid', created), m')"
  shows "(\<not> created \<longrightarrow> m' = m \<and> sid' = sid \<and> (\<exists>en. map_of (mg_sessions m) sid = Some en \<and> \<not> en_exited en))
     \<and> (created \<longrightarrow> sid' = (if sid = '''' then fresh else sid)
          \<and> (\<exists>t sp r. fac sp (mg_baseOpts m @ opts) = Some t
               \<and> r = (if sid = '''' then None else so_get ops (mg_store m) sid)
               \<and> sp = (case r of None \<Rightarrow> spec | Some q \<Rightarrow> md_spec q)
               \<and> map_of (mg_sessions m') sid' = Some \<lparr>en_sess = new_session sid' sp (mf t) (mg_answerQueries m) now,
                                                    en_term = t, en_exited = False, en_log = []\<rparr>))"
proof (cases "\<exists>en. map_of (mg_sessions m) sid = Some en \<and> \<not> en_exited en \<and> sid \<noteq> ''''")
  case True
  with assms show ?thesis by (auto simp: createWithID_def)
next
  case False
  define r where "r = (if sid = '''' then None else so_get ops (mg_store m) sid)"
  define sp where "sp = (case r of None \<Rightarrow> spec | Some q \<Rightarrow> md_spec q)"
  define i where "i = (if sid = '''' then fresh else sid)"
  have "create_session ops fac mf now i sp r opts m = (Inr (sid', created), m')"
    using assms False by (simp add: createWithID_def Let_def r_def sp_def i_def split: if_splits option.splits)
  then have "sid' = i \<and> created" and "\<exists>t. fac sp (mg_baseOpts m @ opts) = Some t
     \<and> map_of (mg_sessions m') sid' = Some \<lparr>en_sess = new_session i sp (mf t) (mg_answerQueries m) now,
                                             en_term = t, en_exited = False, en_log = []\<rparr>"
    by (simp_all add: create_session_def Let_def split: option.splits) auto
  then show ?thesis unfolding r_def sp_def i_def by blast
qed

lemma wait_timeout_bounds: "0 < wait_timeout ms \<and> wait_timeout ms \<le> 300 * 1000000000"
  by (simp add: wait_timeout_def Let_def)

lemma fold_remove_get:
  "fr_get s e (fold (\<lambda>en f. snd (fr_remove i (fe_id en) f)) es f)
     = (if s = i \<and> e \<in> fe_id ` set es then None else fr_get s e f)"
  by (induction es arbitrary: f) (auto simp: fr_get_remove)

lemma fold_remove_ok:
  "registry_ok f \<Longrightarrow> registry_ok (fold (\<lambda>en f. snd (fr_remove i (fe_id en) f)) es f)"
  by (induction es arbitrary: f) (auto simp: registry_ok_remove)

lemma fr_get_list: "registry_ok f \<Longrightarrow> fr_get i e f = Some en \<Longrightarrow> en \<in> set (fr_list i f) \<and> fe_id en = e"
  by (auto simp: registry_ok_def fr_list_def fr_get_def rev_image_eqI dest!: map_of_SomeD)

lemma createWithID_error: "createWithID ops fac mf fresh now sid spec opts m = (Inl e, m') \<Longrightarrow> m' = m"
  by (auto simp: createWithID_def create_session_def Let_def split: if_splits option.splits)

lemma after_create_inv [simp]: "hs_inv (after_create env req hs) = hs_inv hs"
  by (simp add: after_create_def Let_def savePasswordFor_def savePassphraseFor_def split: sum.split)

section \<open>Properties\<close>


text \<open>
  A request that resurrects a recorded session connects to the recorded host, but
  the password it carries is saved for the host the request names: a request with the id of a
  session of host A and the host id of B stores, for B, the password the connection to A was
  opened with.
\<close>

lemma resurrect_saves_for_requested_host:
  assumes "decode_create body = Some req" and "isValidSessionID (rq_id req)"
    and "map_of (mg_sessions (sv_mgr st)) (rq_id req) = None" and "mg_maxSession (sv_mgr st) = 0"
    and "so_get (ev_ops env) (mg_store (sv_mgr st)) (rq_id req) = Some r"
    and "rq_hostID req \<noteq> ''''" and "\<not> isLocal (rq_hostID req)"
    and "inv_get (ev_user env) (rq_hostID req) (hs_inv (sv_hosts st)) = Inr h"
    and "rq_savePassword req" and "rq_password req = Some pw" and "pw \<noteq> ''''" and "\<not> rq_savePassphrase req"
    and "ev_factory env (sv_hosts st) (md_spec r)
           (mg_baseOpts (sv_mgr st)
             @ [withDialCredentials (Some \<lparr>dc_password = pw, dc_passphrase = deref (rq_passphrase req)\<rparr>)]) = Some t"
  shows "\<exists>d st'. handleCreateSession env fresh now body st = (HOk 201 d, st')
     \<and> sd_spec d = md_spec r
     \<and> getPassword (ev_krOk env) (host_addr h) (h_user h) (hs_secrets (sv_hosts st')) = Some pw"
proof -
  have "rq_id req \<noteq> ''''" using assms(2) by (auto simp: isValidSessionID_def)
  then show ?thesis
    using assms secrets_map_laws [of "ev_krOk env" "passwordKey (host_addr h) (h_user h)" "passwordKey (host_addr h) (h_user h)"]
    by (simp add: handleCreateSession_def requested_spec_def createWithID_def create_session_def Let_def
        create_options_def deref_def after_create_def savePasswordFor_def getPassword_def setPassword_def
        describe_def stateDescription_def new_session_def)
qed

text \<open>
  Typing into a session.  Without the write permission the request changes nothing.
  Otherwise at most one write reaches the terminal of the session named, with exactly the bytes
  the request encodes; a positive count in the answer is their number and means the write was
  made and succeeded.
\<close>

lemma keys_typed_once:
  assumes "handleKeys env p i body st = (res, st')"
  shows "(st' = st
     \<or> p \<and> (\<exists>req payload en. decode_keys body = Some req \<and> keys_payload req = Inr payload
            \<and> map_of (mg_sessions (sv_mgr st)) i = Some en
            \<and> st' = put_entry i (en\<lparr>en_log := en_log en
                 @ (if s_state (en_sess en) = StateDestroyed then [] else [TWrite payload])\<rparr>) st))
     \<and> (res = HOk 200 n \<and> n > 0 \<longrightarrow>
        (\<exists>req payload en. decode_keys body = Some req \<and> keys_payload req = Inr payload \<and> n = length payload
          \<and> p \<and> map_of (mg_sessions (sv_mgr st)) i = Some en \<and> ev_tok env (en_log en) (TWrite payload)
          \<and> st' = put_entry i (en\<lparr>en_log := en_log en @ [TWrite payload]\<rparr>) st))"
  using assms
  by (auto simp: handleKeys_def mgr_get_def session_input_def term_do_def
      split: if_splits option.splits sum.splits prod.splits sess_error.splits)

text \<open>
  Deleting a session takes its forwards with it: the answer 204 means the session
  is gone from the registry, every forward it had was cancelled and forgotten, and the forwards
  of the other sessions are untouched.
\<close>

lemma delete_closes_forwards:
  assumes "registry_ok (sv_forwards st)" and "handleDeleteSession env i st = (HOk 204 es, st')"
  shows "mgr_get i (sv_mgr st') = Inl MgrNotFound \<and> registry_ok (sv_forwards st')
     \<and> fr_list i (sv_forwards st') = []
     \<and> es = fr_list i (sv_forwards st)
     \<and> (j \<noteq> i \<longrightarrow> fr_get j e (sv_forwards st') = fr_get j e (sv_forwards st))"
proof -
  obtain m where d: "mgr_destroy (ev_tok env) i (sv_mgr st) = (None, m)"
    and es: "es = fr_list i (sv_forwards st)"
    and st': "st' = st\<lparr>sv_mgr := m,
        sv_forwards := fold (\<lambda>en f. snd (fr_remove i (fe_id en) f)) es (sv_forwards st)\<rparr>"
    using assms(2) by (auto simp: handleDeleteSession_def Let_def split: prod.splits option.splits)
  have "map_of (mg_sessions m) i = None"
    using d by (auto simp: mgr_destroy_def mgr_remove_def Let_def split: option.splits prod.splits)
  moreover have "fr_get i x (sv_forwards st') = None" for x
    using fr_get_list [OF assms(1), of i x] by (cases "fr_get i x (sv_forwards st)")
      (auto simp: st' es fold_remove_get)
  then have "map_of (fr_entries i (sv_forwards st')) = (\<lambda>_. None)" by (simp add: fr_get_def fun_eq_iff)
  then have "fr_list i (sv_forwards st') = []" by (simp add: fr_list_def)
  ultimately show ?thesis
    using es assms(1) by (auto simp: st' mgr_get_def fold_remove_get fold_remove_ok)
qed

section \<open>Concrete requests\<close>

definition demo_env :: "(unit, unit, memory_store, unit) api_env" where
  "demo_env = \<lparr>ev_ops = memory_ops, ev_factory = (\<lambda>_. demo_factory), ev_mirrorF = demo_mirror,
     ev_mo = \<lparr>mo_write = (\<lambda>_ m. m), mo_resize = (\<lambda>_ _ m. m), mo_drain = (\<lambda>m. ([], m)), mo_text = (\<lambda>_. '''')\<rparr>,
     ev_tok = (\<lambda>_ _. True), ev_krOk = True, ev_user = ''u'',
     ev_launch = (\<lambda>_ _ _ _. Inl ''''), ev_dial = (\<lambda>_ _. Inl ''''), ev_fmt = (\<lambda>_. '''')\<rparr>"

definition demo_record :: metadata where
  "demo_record = zero_metadata\<lparr>md_id := demo_sid, md_spec := demo_host_spec\<rparr>"

definition demo_server :: "(unit, unit, memory_store, unit) server" where
  "demo_server =
     \<lparr>sv_mgr = newManager \<lparr>ms_items = [(demo_sid, demo_record)]\<rparr> 0 0 [] True,
      sv_hosts = \<lparr>hs_inv = \<lparr>iv_path = '''', iv_hosts = [(''h1'', demo_host ''h1'' ''A''), (''h2'', demo_host ''h2'' ''B'')],
                           iv_byName = [(''A'', ''h1''), (''B'', ''h2'')]\<rparr>,
                  hs_disk = (\<lambda>_. None), hs_secrets = newSecrets (Some []), hs_fwd = newForwardHostManager\<rparr>,
      sv_forwards = newForwardRegistry\<rparr>"

definition demo_create :: json where
  "demo_create = JObj [(''id'', JStr demo_sid), (''host_id'', JStr ''h2''), (''password'', JStr ''pw''),
                       (''save_password'', JBool True)]"

definition demo_running :: "(unit, unit, memory_store, unit) server" where
  "demo_running = demo_server\<lparr>sv_mgr := (sv_mgr demo_server)\<lparr>mg_sessions :=
     [(''s'', \<lparr>en_sess = new_session ''s'' demo_host_spec None True 0, en_term = (), en_exited = False,
              en_log = []\<rparr>)]\<rparr>,
     sv_forwards := fr_add ''s'' \<lparr>fe_id = ''f'', fe_kind = ForwardDynamic, fe_bind = ''b'', fe_target = ''''\<rparr>
                      newForwardRegistry\<rparr>"

lemmas demo_server_defs =
  demo_env_def demo_record_def demo_server_def demo_create_def demo_host_spec_def demo_host_def
  zero_spec_def zero_metadata_def zero_host_def newManager_def demo_factory_def

lemma demo_create_decoded:
  "decode_create (JsonBody demo_create) = Some (zero_create
     \<lparr>rq_id := demo_sid, rq_hostID := ''h2'', rq_password := Some ''pw'', rq_savePassword := True\<rparr>)"
  by code_simp

end
