(* ===== verification/Utf8.thy ===== *)
theory Utf8
  imports Prelude
begin

text \<open>
  \<open>unicode/utf8\<close>: the encoding of a rune and the decoding of the first rune of a byte sequence, as
  the terminal emulator uses them.  A rune is a natural number.
\<close>

definition rune_error :: nat where "rune_error = 0xFFFD"

definition is_scalar :: "nat \<Rightarrow> bool" where
  "is_scalar c \<longleftrightarrow> c < 0xD800 \<or> 0xDFFF < c \<and> c \<le> 0x10FFFF"

definition nbyte :: "nat \<Rightarrow> byte" where
  "nbyte n = word_of_nat n"

definition cont_byte :: "nat \<Rightarrow> byte" where
  "cont_byte x = nbyte (0x80 + x mod 64)"

definition encode_scalar :: "nat \<Rightarrow> bytes" where
  "encode_scalar c =
     (if c < 0x80 then [nbyte c]
      else if c < 0x800 then [nbyte (0xC0 + c div 64), cont_byte c]
      else if c < 0x10000 then [nbyte (0xE0 + c div 4096), cont_byte (c div 64), cont_byte c]
      else [nbyte (0xF0 + c div 262144), cont_byte (c div 4096), cont_byte (c div 64), cont_byte c])"

text \<open>Encoding a number that is no scalar value gives the encoding of \<open>rune_error\<close>.\<close>

definition encode_rune :: "nat \<Rightarrow> bytes" where
  "encode_rune c = encode_scalar (if is_scalar c then c else rune_error)"

definition is_cont :: "nat \<Rightarrow> bool" where
  "is_cont b \<longleftrightarrow> 0x80 \<le> b \<and> b \<le> 0xBF"

text \<open>The number of bytes a lead byte announces; 0 for a byte that leads nothing.\<close>

definition lead_length :: "nat \<Rightarrow> nat" where
  "lead_length b =
     (if b < 0x80 then 1 else if b < 0xC2 then 0 else if b \<le> 0xDF then 2 else if b \<le> 0xEF then 3
      else if b \<le> 0xF4 then 4 else 0)"

text \<open>The range of the second byte, which excludes overlong forms, surrogates and large numbers.\<close>

definition second_ok :: "nat \<Rightarrow> nat \<Rightarrow> bool" where
  "second_ok b0 b1 \<longleftrightarrow>
     (if b0 = 0xE0 then 0xA0 else if b0 = 0xF0 then 0x90 else 0x80) \<le> b1
     \<and> b1 \<le> (if b0 = 0xED then 0x9F else if b0 = 0xF4 then 0x8F else 0xBF)"

text \<open>\<open>DecodeRune\<close>: the first rune and its length; an invalid sequence is \<open>rune_error\<close> of length 1.\<close>

definition decode_rune :: "bytes \<Rightarrow> nat \<times> nat" where
  "decode_rune bs =
     (case map unat bs of
        [] \<Rightarrow> (rune_error, 0)
      | b0 # r \<Rightarrow>
          if lead_length b0 = 1 then (b0, 1)
          else (case r of
             [] \<Rightarrow> (rune_error, 1)
           | b1 # r1 \<Rightarrow>
               if lead_length b0 = 0 \<or> \<not> second_ok b0 b1 then (rune_error, 1)
               else if lead_length b0 = 2 then ((b0 mod 32) * 64 + b1 mod 64, 2)
               else (case r1 of
                  [] \<Rightarrow> (rune_error, 1)
                | b2 # r2 \<Rightarrow>
                    if \<not> is_cont b2 then (rune_error, 1)
                    else if lead_length b0 = 3
                    then ((b0 mod 16) * 4096 + (b1 mod 64) * 64 + b2 mod 64, 3)
                    else (case r2 of
                       [] \<Rightarrow> (rune_error, 1)
                     | b3 # _ \<Rightarrow>
                         if \<not> is_cont b3 then (rune_error, 1)
                         else ((b0 mod 8) * 262144 + (b1 mod 64) * 4096 + (b2 mod 64) * 64 + b3 mod 64, 4)))))"

section \<open>Round trip\<close>

lemma unat_nbyte [simp]: "n < 256 \<Longrightarrow> unat (nbyte n) = n"
  by (simp add: nbyte_def unat_of_nat)

lemma unat_cont_byte [simp]: "unat (cont_byte x) = 0x80 + x mod 64"
proof -
  have "x mod 64 < 64" by simp
  then have "0x80 + x mod 64 < 256" by linarith
  then show ?thesis by (simp only: cont_byte_def unat_nbyte)
qed

lemma mod_plus_128 [simp]: "(128 + x mod 64) mod 64 = x mod (64::nat)"
  using mod_mult_self2 [of "x mod 64" 64 2] by (simp add: add.commute)

lemma mod_le_63 [simp]: "x mod 64 \<le> (63::nat)"
  using mod_less_divisor [of 64 x] by linarith

lemma lead_mods:
  "k < 32 \<Longrightarrow> (192 + k) mod 32 = (k::nat)" "k < 16 \<Longrightarrow> (224 + k) mod 16 = (k::nat)"
  "k < 8 \<Longrightarrow> (240 + k) mod 8 = (k::nat)"
  using mod_mult_self2 [of k 32 6] mod_mult_self2 [of k 16 14] mod_mult_self2 [of k 8 30]
  by (simp_all add: add.commute)

lemma encode_scalar_length: "1 \<le> length (encode_scalar c) \<and> length (encode_scalar c) \<le> 4"
  by (simp add: encode_scalar_def)

lemma div_split: "c = c div 4096 * 4096 + c div 64 mod 64 * 64 + c mod (64::nat)"
proof -
  have "c = c div 64 * 64 + c mod 64" by simp
  moreover have "c div 64 = c div 64 div 64 * 64 + c div 64 mod 64" by simp
  moreover have "c div 64 div 64 = c div 4096" by (simp add: div_mult2_eq [symmetric])
  ultimately show ?thesis by linarith
qed

lemma div_split4:
  "c = c div 262144 * 262144 + c div 4096 mod 64 * 4096 + c div 64 mod 64 * 64 + c mod (64::nat)"
proof -
  have "c div 4096 = c div 4096 div 64 * 64 + c div 4096 mod 64" by simp
  moreover have "c div 4096 div 64 = c div 262144" by (simp add: div_mult2_eq [symmetric])
  ultimately show ?thesis using div_split [of c] by linarith
qed

lemma decode_encode_scalar:
  assumes "is_scalar c"
  shows "decode_rune (encode_scalar c @ rest) = (c, length (encode_scalar c))"
proof -
  have m: "x mod 64 < 64" for x :: nat by simp
  consider "c < 0x80" | "0x80 \<le> c" "c < 0x800" | "0x800 \<le> c" "c < 0x10000" | "0x10000 \<le> c" by linarith
  then show ?thesis
  proof cases
    case 1
    then show ?thesis by (simp add: decode_rune_def encode_scalar_def lead_length_def)
  next
    case 2
    then have "c div 64 < 32" "2 \<le> c div 64" by auto
    with 2 show ?thesis
      by (simp add: decode_rune_def encode_scalar_def lead_length_def second_ok_def is_cont_def lead_mods)
  next
    case 3
    have b: "c div 4096 < 16" using 3 by auto
    have d: "c div 64 = c div 4096 * 64 + c div 64 mod 64"
      using div_mult_mod_eq [of "c div 64" 64] by (simp add: div_mult2_eq [symmetric])
    have "c div 4096 = 0 \<longrightarrow> 32 \<le> c div 64 mod 64" using 3 by auto
    moreover have "c div 4096 = 13 \<longrightarrow> c div 64 mod 64 \<le> 31"
    proof
      assume e: "c div 4096 = 13"
      then have "c < 0xD800" using assms 3 unfolding is_scalar_def by auto
      then have "c div 64 < 864" by auto
      with d e show "c div 64 mod 64 \<le> 31" by linarith
    qed
    ultimately show ?thesis
      using 3 b div_split [of c]
      by (simp add: decode_rune_def encode_scalar_def lead_length_def second_ok_def is_cont_def lead_mods)
  next
    case 4
    with assms have c: "c \<le> 0x10FFFF" by (simp add: is_scalar_def)
    then have b: "c div 262144 < 5" by auto
    have d: "c div 4096 = c div 262144 * 64 + c div 4096 mod 64"
      using div_mult_mod_eq [of "c div 4096" 64] by (simp add: div_mult2_eq [symmetric])
    have "16 \<le> c div 4096" and "c div 4096 < 272" using 4 c by auto
    then have "c div 262144 = 0 \<longrightarrow> 16 \<le> c div 4096 mod 64"
      and "c div 262144 = 4 \<longrightarrow> c div 4096 mod 64 \<le> 15" using d by linarith+
    then show ?thesis
      using 4 b div_split4 [of c]
      by (simp add: decode_rune_def encode_scalar_def lead_length_def second_ok_def is_cont_def lead_mods)
  qed
qed

end
