(* ===== verification/Screen.thy ===== *)
theory Screen
  imports Utf8
begin

text \<open>
  The screen grid of \<open>internal/capture/emulator.go\<close> and its renderings of \<open>render.go\<close>: plain text,
  HTML, the JSON cell list, and the drawing of the bitmap as the list of its drawing operations.
  The font (glyph lookup and metrics) and the codecs are parameters.
\<close>

unbundle bit_operations_syntax

section \<open>Cells and grids\<close>

datatype color_mode = ColorDefault | ColorIndex | ColorRGB

record color =
  co_mode :: color_mode
  co_index :: byte
  co_rgb :: "32 word"

definition defaultColor :: color where
  "defaultColor = \<lparr>co_mode = ColorDefault, co_index = 0, co_rgb = 0\<rparr>"

record cell =
  ce_rune :: nat
  ce_fg :: color
  ce_bg :: color
  ce_bold :: bool
  ce_dim :: bool
  ce_italic :: bool
  ce_underline :: bool
  ce_blink :: bool
  ce_reverse :: bool
  ce_invisible :: bool
  ce_strikethrough :: bool

definition zero_cell :: cell where
  "zero_cell =
     \<lparr>ce_rune = 0, ce_fg = defaultColor, ce_bg = defaultColor, ce_bold = False, ce_dim = False,
      ce_italic = False, ce_underline = False, ce_blink = False, ce_reverse = False,
      ce_invisible = False, ce_strikethrough = False\<rparr>"

definition blankCell :: "color \<Rightarrow> cell" where
  "blankCell bg = zero_cell\<lparr>ce_rune := 32, ce_bg := bg\<rparr>"

record grid =
  gr_rows :: nat
  gr_cols :: nat
  gr_cells :: "cell list list"

definition newGrid :: "nat \<Rightarrow> nat \<Rightarrow> grid" where
  "newGrid rows cols =
     \<lparr>gr_rows = rows, gr_cols = cols,
      gr_cells = replicate rows (replicate cols (blankCell defaultColor))\<rparr>"

definition grid_cell :: "int \<Rightarrow> int \<Rightarrow> grid \<Rightarrow> cell" where
  "grid_cell r c g =
     (if r < 0 \<or> r \<ge> int (gr_rows g) \<or> c < 0 \<or> c \<ge> int (gr_cols g) then blankCell defaultColor
      else gr_cells g ! nat r ! nat c)"

text \<open>\<open>cloneGrid\<close>: each row of a new grid is overwritten by the old row, as far as both reach.\<close>

definition copy_row :: "'a list \<Rightarrow> 'a list \<Rightarrow> 'a list" where
  "copy_row dst src = take (length dst) src @ drop (length src) dst"

definition cloneGrid :: "grid \<Rightarrow> grid" where
  "cloneGrid g =
     (let cp = newGrid (gr_rows g) (gr_cols g)
      in cp\<lparr>gr_cells := map (\<lambda>r. copy_row (gr_cells cp ! r) (gr_cells g ! r)) [0..<gr_rows g]\<rparr>)"

definition grid_ok :: "grid \<Rightarrow> bool" where
  "grid_ok g \<longleftrightarrow> length (gr_cells g) = gr_rows g \<and> list_all (\<lambda>r. length r = gr_cols g) (gr_cells g)"

section \<open>Colors\<close>

text \<open>The palette: 16 colors, a cube of 216, and 24 grays.\<close>

definition ansi_table :: "(byte \<times> byte \<times> byte) list" where
  "ansi_table =
     [(0x00, 0x00, 0x00), (0xcd, 0x00, 0x00), (0x00, 0xcd, 0x00), (0xcd, 0xcd, 0x00),
      (0x00, 0x00, 0xee), (0xcd, 0x00, 0xcd), (0x00, 0xcd, 0xcd), (0xe5, 0xe5, 0xe5),
      (0x7f, 0x7f, 0x7f), (0xff, 0x00, 0x00), (0x00, 0xff, 0x00), (0xff, 0xff, 0x00),
      (0x5c, 0x5c, 0xff), (0xff, 0x00, 0xff), (0x00, 0xff, 0xff), (0xff, 0xff, 0xff)]"

definition cube_vals :: "byte list" where
  "cube_vals = [0, 95, 135, 175, 215, 255]"

definition ansiRGBValues :: "nat \<Rightarrow> byte \<times> byte \<times> byte" where
  "ansiRGBValues idx =
     (if idx < 16 then ansi_table ! idx
      else if idx \<le> 231 then
        let i = idx - 16 in (cube_vals ! (i div 36), cube_vals ! (i mod 36 div 6), cube_vals ! (i mod 6))
      else let g = word_of_nat (8 + 10 * (idx - 232)) in (g, g, g))"

definition hex2 :: "byte \<Rightarrow> string" where
  "hex2 b = [hex_digit (unat b div 16), hex_digit (unat b mod 16)]"

text \<open>The format \<open>%06x\<close>.\<close>

definition hex6 :: "nat \<Rightarrow> string" where
  "hex6 n = replicate (6 - length (hex_string n)) CHR ''0'' @ hex_string n"

definition rgb_hex :: "nat \<Rightarrow> string" where
  "rgb_hex idx = (case ansiRGBValues idx of (r, g, b) \<Rightarrow> CHR ''#'' # hex2 r @ hex2 g @ hex2 b)"

definition cssColor :: "color \<Rightarrow> string" where
  "cssColor c =
     (case co_mode c of
        ColorIndex \<Rightarrow> rgb_hex (unat (co_index c))
      | ColorRGB \<Rightarrow> CHR ''#'' # hex6 (unat (co_rgb c))
      | ColorDefault \<Rightarrow> '''')"

definition ansi16CSS :: "nat \<Rightarrow> string" where "ansi16CSS idx = rgb_hex idx"
definition ansi256CSS :: "nat \<Rightarrow> string" where "ansi256CSS idx = rgb_hex idx"

text \<open>An opaque color of the bitmap.\<close>

type_synonym rgb = "byte \<times> byte \<times> byte"

definition colorFromColor :: "color \<Rightarrow> rgb option" where
  "colorFromColor c =
     (case co_mode c of
        ColorIndex \<Rightarrow> Some (ansiRGBValues (unat (co_index c)))
      | ColorRGB \<Rightarrow> Some (ucast (drop_bit 16 (co_rgb c)), ucast (drop_bit 8 (co_rgb c)), ucast (co_rgb c))
      | ColorDefault \<Rightarrow> None)"

definition cellHasStyle :: "cell \<Rightarrow> bool" where
  "cellHasStyle c \<longleftrightarrow>
     co_mode (ce_fg c) \<noteq> ColorDefault \<or> co_mode (ce_bg c) \<noteq> ColorDefault
     \<or> ce_bold c \<or> ce_dim c \<or> ce_italic c \<or> ce_underline c \<or> ce_blink c
     \<or> ce_reverse c \<or> ce_invisible c \<or> ce_strikethrough c"

definition renderedColors :: "cell \<Rightarrow> color \<times> color \<times> bool" where
  "renderedColors c = (if ce_reverse c then (ce_bg c, ce_fg c, True) else (ce_fg c, ce_bg c, False))"

section \<open>Text\<close>

definition rune_string :: "nat \<Rightarrow> string" where
  "rune_string r = string_of_bytes (encode_rune r)"

definition row_text :: "grid \<Rightarrow> nat \<Rightarrow> string" where
  "row_text g r =
     trim_right (\<lambda>ch. ch = CHR '' '')
       (concat (map (\<lambda>c. let rn = ce_rune (grid_cell (int r) (int c) g) in if rn \<noteq> 0 then rune_string rn else [])
                  [0..<gr_cols g]))"

definition grid_text :: "grid \<Rightarrow> string" where
  "grid_text g =
     (let rows = map (row_text g) [0..<gr_rows g]
      in str_join [CHR 0x0A] (trim_right (\<lambda>l. l = '''') rows))"

section \<open>HTML\<close>

fun html_escape :: "string \<Rightarrow> string" where
  "html_escape [] = []"
| "html_escape (c # cs) =
     (if c = CHR ''&'' then ''&amp;'' else if c = CHR 0x27 then ''&#39;'' else if c = CHR ''<'' then ''&lt;''
      else if c = CHR ''>'' then ''&gt;'' else if c = CHR 0x22 then ''&#34;'' else [c]) @ html_escape cs"

definition style_part :: "bool \<Rightarrow> string \<Rightarrow> string list" where
  "style_part b s = (if b then [s] else [])"

definition cellInlineStyle :: "cell \<Rightarrow> string" where
  "cellInlineStyle c =
     (case renderedColors c of
        (fg, bg, _) \<Rightarrow>
          str_join '';''
            (style_part (cssColor fg \<noteq> '''') (''color:'' @ cssColor fg)
             @ style_part (cssColor bg \<noteq> '''') (''background-color:'' @ cssColor bg)
             @ style_part (ce_bold c) ''font-weight:bold''
             @ style_part (ce_dim c) ''opacity:0.6''
             @ style_part (ce_italic c) ''font-style:italic''
             @ style_part (ce_underline c) ''text-decoration:underline''
             @ style_part (ce_blink c) ''text-decoration:blink''
             @ style_part (ce_invisible c) ''visibility:hidden''
             @ style_part (ce_strikethrough c) ''text-decoration:line-through''))"

definition rowHasContent :: "grid \<Rightarrow> nat \<Rightarrow> bool" where
  "rowHasContent g r =
     list_ex (\<lambda>c. let ce = grid_cell (int r) (int c) g in ce_rune ce \<noteq> 0 \<or> cellHasStyle ce) [0..<gr_cols g]"

definition html_cell :: "cell \<Rightarrow> string" where
  "html_cell c =
     (let ch = (if ce_rune c \<noteq> 0 then rune_string (ce_rune c) else '' '');
          sty = cellInlineStyle c
      in if sty \<noteq> ''''
         then ''<span style='' @ [CHR 0x22] @ sty @ [CHR 0x22] @ ''>'' @ html_escape ch @ ''</span>''
         else html_escape ch)"

text \<open>The rows up to the last one with content.\<close>

definition html_rows :: "grid \<Rightarrow> nat list" where
  "html_rows g = trim_right (\<lambda>r. \<not> rowHasContent g r) [0..<gr_rows g]"

definition grid_html :: "grid \<Rightarrow> string" where
  "grid_html g =
     ''<pre class='' @ [CHR 0x22] @ ''gossh-capture'' @ [CHR 0x22] @ ''>'' @ [CHR 0x0A]
     @ concat (map (\<lambda>r. concat (map (\<lambda>c. html_cell (grid_cell (int r) (int c) g)) [0..<gr_cols g]) @ [CHR 0x0A])
                 (html_rows g))
     @ ''</pre>''"

section \<open>The JSON cell list\<close>

record cell_json =
  cj_r :: nat
  cj_c :: nat
  cj_ch :: string
  cj_fg :: "string option"
  cj_bg :: "string option"
  cj_bold :: bool
  cj_dim :: bool
  cj_italic :: bool
  cj_underline :: bool
  cj_blink :: bool
  cj_reverse :: bool
  cj_invisible :: bool
  cj_strikethrough :: bool

definition nonempty_color :: "string \<Rightarrow> string option" where
  "nonempty_color s = (if s \<noteq> '''' then Some s else None)"

definition cell_to_json :: "nat \<Rightarrow> nat \<Rightarrow> cell \<Rightarrow> cell_json option" where
  "cell_to_json r c ce =
     (if ce_rune ce = 0 then None
      else if ce_rune ce = 32 \<and> \<not> cellHasStyle ce then None
      else
        case renderedColors ce of
          (fg, bg, _) \<Rightarrow>
            Some \<lparr>cj_r = r, cj_c = c, cj_ch = rune_string (ce_rune ce),
                  cj_fg = nonempty_color (cssColor fg), cj_bg = nonempty_color (cssColor bg),
                  cj_bold = ce_bold ce, cj_dim = ce_dim ce, cj_italic = ce_italic ce,
                  cj_underline = ce_underline ce, cj_blink = ce_blink ce, cj_reverse = ce_reverse ce,
                  cj_invisible = ce_invisible ce, cj_strikethrough = ce_strikethrough ce\<rparr>)"

definition cellsJSON :: "grid \<Rightarrow> cell_json list" where
  "cellsJSON g =
     concat (map (\<lambda>r. List.map_filter (\<lambda>c. cell_to_json r c (grid_cell (int r) (int c) g)) [0..<gr_cols g])
               [0..<gr_rows g])"

section \<open>Properties\<close>

lemma trim_right_split: "\<exists>rest. xs = trim_right P xs @ rest \<and> list_all P rest"
proof -
  have "rev xs = takeWhile P (rev xs) @ dropWhile P (rev xs)" by simp
  then have "xs = trim_right P xs @ rev (takeWhile P (rev xs))"
    unfolding trim_right_def by (metis rev_append rev_rev_ident)
  moreover have "list_all P (rev (takeWhile P (rev xs)))"
    by (auto simp: list_all_iff dest: set_takeWhileD)
  ultimately show ?thesis by blast
qed

lemma trim_right_last_not: "trim_right P xs \<noteq> [] \<Longrightarrow> \<not> P (last (trim_right P xs))"
  by (simp add: trim_right_def last_rev hd_dropWhile)

lemma row_text_last: "row_text g r \<noteq> '''' \<Longrightarrow> last (row_text g r) \<noteq> CHR '' ''"
  unfolding row_text_def using trim_right_last_not by fast

text \<open>
  The plain text of a screen: the texts of the first rows, each without trailing
  blanks, joined by line feeds; the last of them is not empty, and every row left out has no text.
\<close>

lemma text_drops_only_blanks:
  "\<exists>k \<le> gr_rows g. grid_text g = str_join [CHR 0x0A] (map (row_text g) [0..<k])
     \<and> (k = 0 \<or> row_text g (k - 1) \<noteq> '''')
     \<and> list_all (\<lambda>r. row_text g r = '''') [k..<gr_rows g]
     \<and> list_all (\<lambda>r. row_text g r = '''' \<or> last (row_text g r) \<noteq> CHR '' '') [0..<gr_rows g]"
proof -
  let ?rows = "map (row_text g) [0..<gr_rows g]"
  let ?t = "trim_right (\<lambda>l. l = '''') ?rows"
  obtain rest where rest: "?rows = ?t @ rest" "list_all (\<lambda>l. l = '''') rest"
    using trim_right_split [of ?rows "\<lambda>l. l = ''''"] by blast
  define k where "k = length ?t"
  have k: "k \<le> gr_rows g" using arg_cong [OF rest(1), of length] by (simp add: k_def)
  have t: "?t = map (row_text g) [0..<k]"
    using arg_cong [OF rest(1), of "take k"] k by (simp add: k_def take_map)
  have "rest = drop k ?rows" using arg_cong [OF rest(1), of "drop k"] by (simp add: k_def)
  then have r: "rest = map (row_text g) [k..<gr_rows g]" using k by (simp add: drop_map)
  have "k = 0 \<or> row_text g (k - 1) \<noteq> ''''"
  proof (cases k)
    case (Suc j)
    then have "last ?t = row_text g j" unfolding t by simp
    moreover have "?t \<noteq> []" using Suc by (auto simp: k_def)
    ultimately have "row_text g j \<noteq> ''''" using trim_right_last_not [of "\<lambda>l. l = ''''" ?rows] by metis
    with Suc show ?thesis by simp
  qed simp
  moreover have "grid_text g = str_join [CHR 0x0A] (map (row_text g) [0..<k])"
    unfolding grid_text_def Let_def t ..
  ultimately show ?thesis
    using k rest(2) row_text_last [of g] by (intro exI [of _ k]) (auto simp: r list_all_iff)
qed

lemma cloneGrid_eq: "grid_ok g \<Longrightarrow> cloneGrid g = g"
  by (auto simp: cloneGrid_def newGrid_def grid_ok_def copy_row_def Let_def list_all_length
      intro!: grid.equality nth_equalityI)

text \<open>The number of tags opened.\<close>

definition tag_marks :: "string \<Rightarrow> nat" where
  "tag_marks s = length (filter (\<lambda>c. c = CHR ''<'') s)"

lemma tag_marks_append [simp]: "tag_marks (a @ b) = tag_marks a + tag_marks b"
  by (simp add: tag_marks_def)

lemma tag_marks_concat: "tag_marks (concat xs) = sum_list (map tag_marks xs)"
  by (induction xs) (simp_all, simp add: tag_marks_def)

lemma tag_marks_Cons [simp]: "tag_marks (c # s) = (if c = CHR ''<'' then 1 else 0) + tag_marks s"
  "tag_marks '''' = 0"
  by (simp_all add: tag_marks_def)

lemma tag_marks_escape [simp]: "tag_marks (html_escape s) = 0"
  by (induction s) simp_all

lemma hex_digit_not_lt: "d < 16 \<Longrightarrow> hex_digit d \<noteq> CHR ''<''"
proof -
  assume "d < 16"
  moreover have "list_all (\<lambda>d. hex_digit d \<noteq> CHR ''<'') [0..<16]" by code_simp
  ultimately show ?thesis by (auto simp: list_all_iff)
qed

lemma hex_string_marks: "tag_marks (hex_string n) = 0"
proof (induction n rule: hex_string.induct)
  case (1 n)
  then show ?case by (subst hex_string.simps) (auto simp: hex_digit_not_lt)
qed

lemma cssColor_marks [simp]: "tag_marks (cssColor c) = 0"
proof -
  have "unat (b :: byte) div 16 < 16" for b
    using unsigned_less [of b, where 'a = nat] by (simp add: less_mult_imp_div_less)
  then have "tag_marks (hex2 b) = 0" for b by (simp add: hex2_def hex_digit_not_lt)
  moreover have "tag_marks (hex6 n) = 0" for n
    by (simp add: hex6_def hex_string_marks) (simp add: tag_marks_def)
  ultimately show ?thesis by (simp add: cssColor_def rgb_hex_def split: color_mode.splits prod.splits)
qed

lemma str_join_marks: "tag_marks sep = 0 \<Longrightarrow> list_all (\<lambda>x. tag_marks x = 0) xs \<Longrightarrow> tag_marks (str_join sep xs) = 0"
  by (induction sep xs rule: str_join.induct) simp_all

lemma style_part_marks: "tag_marks s = 0 \<Longrightarrow> list_all (\<lambda>x. tag_marks x = 0) (style_part b s)"
  by (simp add: style_part_def)

lemma style_marks [simp]: "tag_marks (cellInlineStyle c) = 0"
proof -
  have "tag_marks '';'' = 0" and c: "tag_marks ''color:'' = 0" "tag_marks ''background-color:'' = 0"
    "tag_marks ''font-weight:bold'' = 0" "tag_marks ''opacity:0.6'' = 0" "tag_marks ''font-style:italic'' = 0"
    "tag_marks ''text-decoration:underline'' = 0" "tag_marks ''text-decoration:blink'' = 0"
    "tag_marks ''visibility:hidden'' = 0" "tag_marks ''text-decoration:line-through'' = 0"
    by code_simp+
  then show ?thesis
    unfolding cellInlineStyle_def
    by (cases "renderedColors c")
       (simp only: prod.case, intro str_join_marks,
        simp_all only: list_all_append style_part_marks c tag_marks_append cssColor_marks add_0 simp_thms)
qed

lemma html_cell_marks: "tag_marks (html_cell c) = (if cellInlineStyle c \<noteq> '''' then 2 else 0)"
  by (simp add: html_cell_def Let_def)

lemma marks_pre: "tag_marks ''<pre class='' = 1" "tag_marks ''gossh-capture'' = 0" "tag_marks ''</pre>'' = 1"
  by code_simp+

text \<open>
  Property C25.  No cell can inject markup into the HTML: whatever characters are on the screen,
  the only tags opened are the \<open>pre\<close> element and one \<open>span\<close> element, with its end tag, for every
  cell of the printed rows that has a style.
\<close>

theorem html_no_injection:
  "tag_marks (grid_html g) = 2 + (\<Sum>r\<leftarrow>html_rows g. \<Sum>c\<leftarrow>[0..<gr_cols g].
     if cellInlineStyle (grid_cell (int r) (int c) g) \<noteq> '''' then 2 else 0)"
proof -
  have "tag_marks [CHR 0x22] = 0" "tag_marks [CHR 0x0A] = 0" "tag_marks ''>'' = 0" by code_simp+
  then show ?thesis
    unfolding grid_html_def
    by (simp only: tag_marks_append tag_marks_concat marks_pre map_map comp_def html_cell_marks) simp
qed

lemma newGrid_size: "gr_rows (newGrid r c) = r" "gr_cols (newGrid r c) = c"
  by (simp_all add: newGrid_def)

lemma grid_cell_new:
  "grid_cell r c (newGrid rows cols) = blankCell defaultColor"
proof (cases "r < 0 \<or> r \<ge> int rows \<or> c < 0 \<or> c \<ge> int cols")
  case False
  then have "nat r < rows" "nat c < cols" by auto
  with False show ?thesis by (simp add: grid_cell_def newGrid_def)
qed (auto simp: grid_cell_def newGrid_def)

lemma trim_right_none: "list_all (\<lambda>x. \<not> P x) xs \<Longrightarrow> trim_right P xs = xs"
  by (cases xs rule: rev_cases) (simp_all add: trim_right_def)

lemma trim_right_all: "list_all P xs \<Longrightarrow> trim_right P xs = []"
  by (simp add: trim_right_def list_all_iff)

text \<open>
  The HTML of an empty screen.  Its comment says that trailing empty lines are
  dropped, but a blank cell carries the rune of a space and counts as content, so the rows of an
  empty screen are all printed, while its plain text is empty.
\<close>

lemma html_keeps_blank_rows:
  "html_rows (newGrid rows (Suc cols)) = [0..<rows] \<and> grid_text (newGrid rows (Suc cols)) = ''''"
proof
  have "rowHasContent (newGrid rows (Suc cols)) r" for r
  proof -
    have "0 \<in> set [0..<gr_cols (newGrid rows (Suc cols))]"
      by (simp add: newGrid_def del: upt_Suc)
    moreover have "ce_rune (blankCell defaultColor) \<noteq> 0" by (simp add: blankCell_def zero_cell_def)
    ultimately show ?thesis by (auto simp: rowHasContent_def grid_cell_new list_ex_iff Let_def simp del: upt_Suc)
  qed
  then have "list_all (\<lambda>r. \<not> \<not> rowHasContent (newGrid rows (Suc cols)) r) [0..<rows]"
    unfolding list_all_iff by blast
  from trim_right_none [OF this] show "html_rows (newGrid rows (Suc cols)) = [0..<rows]"
    unfolding html_rows_def newGrid_size .
  have "(char_of (32 :: nat) :: char) = CHR '' ''" by code_simp
  then have "rune_string 32 = '' ''"
    by (simp add: rune_string_def encode_rune_def encode_scalar_def is_scalar_def string_of_bytes_def char_of_byte_def)
  then have "row_text (newGrid rows (Suc cols)) r = ''''" for r
    unfolding row_text_def
    by (intro trim_right_all) (auto simp: grid_cell_new blankCell_def zero_cell_def list_all_iff Let_def simp del: upt_Suc)
  then have "list_all (\<lambda>l. l = '''') (map (row_text (newGrid rows (Suc cols))) xs)" for xs
    by (simp add: list_all_iff)
  from trim_right_all [OF this] show "grid_text (newGrid rows (Suc cols)) = ''''"
    by (simp add: grid_text_def Let_def)
qed

end
