(* ===== verification/Scanner.thy ===== *)
theory Scanner
  imports Utf8
begin

text \<open>
  The byte scanner of \<open>internal/capture/emulator.go\<close>: a state machine that runs beside the terminal
  emulator and frames its input into printable runes, CSI sequences and OSC, DCS and APC payloads.
  One byte is one step.  The calls the scanner makes on its owner (\<open>onMode\<close>, \<open>onRIS\<close>) are part of
  the result of a step.  The width of a rune (\<open>go-runewidth\<close>) is a parameter.
\<close>

unbundle bit_operations_syntax

section \<open>State\<close>

datatype gfx_evt = GfxNone | GfxRune | GfxOSCPayload | GfxDCSPayload | GfxAPCPayload | GfxCSIReplaced

datatype gfx_state = GsScan | GsEsc | GsCSI | GsUTF8 | GsOSC | GsOSCEnd | GsDCS | GsDCSEnd | GsAPC | GsAPCEnd

datatype gfx_call = OnMode bool "int list" bool | OnRIS

definition gfxBufLimit :: nat where "gfxBufLimit = 16 * 2 ^ 20"
definition repMax :: nat where "repMax = 4096"

text \<open>
  The arrays of the code that are read up to a length are lists of that length: \<open>gs_utf8Buf\<close> holds
  the \<open>utf8Got\<close> bytes collected, \<open>gs_runeBuf\<close> and \<open>gs_lastRune\<close> a whole rune.
\<close>

record scanner =
  gs_state :: gfx_state
  gs_buf :: bytes
  gs_full :: bool
  gs_priv :: bool
  gs_paramStr :: bytes
  gs_csiLen :: nat
  gs_utf8Buf :: bytes
  gs_utf8Need :: nat
  gs_rn :: nat
  gs_w :: nat
  gs_runeBuf :: bytes
  gs_insertMode :: bool
  gs_lastRune :: bytes
  gs_queryHits :: nat
  gs_sawDollar :: bool
  gs_payload :: bytes
  gs_replacement :: bytes

definition new_scanner :: scanner where
  "new_scanner =
     \<lparr>gs_state = GsScan, gs_buf = [], gs_full = False, gs_priv = False, gs_paramStr = [], gs_csiLen = 0,
      gs_utf8Buf = [], gs_utf8Need = 0, gs_rn = 0, gs_w = 0, gs_runeBuf = [], gs_insertMode = False,
      gs_lastRune = [], gs_queryHits = 0, gs_sawDollar = False, gs_payload = [], gs_replacement = []\<rparr>"

type_synonym scan_result = "gfx_evt \<times> gfx_call list \<times> scanner"

section \<open>Payloads\<close>

definition startPayload :: "scanner \<Rightarrow> scanner" where
  "startPayload s = s\<lparr>gs_buf := [], gs_full := False\<rparr>"

definition appendPayload :: "byte \<Rightarrow> scanner \<Rightarrow> scanner" where
  "appendPayload b s =
     (if gs_full s then s
      else if length (gs_buf s) \<ge> gfxBufLimit then s\<lparr>gs_full := True, gs_buf := []\<rparr>
      else s\<lparr>gs_buf := gs_buf s @ [b]\<rparr>)"

definition scanner_reset :: "scanner \<Rightarrow> scanner" where
  "scanner_reset s = new_scanner"

definition bufferingRune :: "scanner \<Rightarrow> bool" where
  "bufferingRune s \<longleftrightarrow> gs_state s = GsUTF8"

definition is_digit_byte :: "byte \<Rightarrow> bool" where
  "is_digit_byte b \<longleftrightarrow> 0x30 \<le> b \<and> b \<le> 0x39"

definition countOSCQuery :: "scanner \<Rightarrow> scanner" where
  "countOSCQuery s =
     (let p = gs_payload s; i = length (takeWhile is_digit_byte p)
      in if length p < 2 \<or> p ! 0 \<noteq> 0x31 \<or> i < 1 \<or> i > 2 \<or> i = length p then s
         else
           let i' = (if p ! i = 0x3b then i + 1 else i)
           in if i' < length p \<and> p ! i' = 0x3f then s\<lparr>gs_queryHits := gs_queryHits s + 1\<rparr> else s)"

text \<open>The end of a payload: it leaves the buffer.\<close>

definition finish_payload :: "scanner \<Rightarrow> scanner" where
  "finish_payload s = s\<lparr>gs_state := GsScan, gs_payload := gs_buf s, gs_buf := [], gs_full := False\<rparr>"

section \<open>CSI parameters\<close>

definition is_param_sep :: "byte \<Rightarrow> bool" where
  "is_param_sep b \<longleftrightarrow> b = 0x3b \<or> b = 0x3a"

fun split_params :: "bytes \<Rightarrow> bytes list" where
  "split_params [] = [[]]"
| "split_params (b # bs) =
     (if is_param_sep b then [] # split_params bs
      else (case split_params bs of [] \<Rightarrow> [[b]] | p # ps \<Rightarrow> (b # p) # ps))"

definition parse_param :: "bytes \<Rightarrow> int" where
  "parse_param seg =
     (if seg = [] then 0 else case atoi (string_of_bytes seg) of None \<Rightarrow> 0 | Some n \<Rightarrow> n)"

definition parseParams :: "bytes \<Rightarrow> int list" where
  "parseParams b = map parse_param (split_params b)"

section \<open>Steps\<close>

definition scan_ground :: "byte \<Rightarrow> scanner \<Rightarrow> scan_result" where
  "scan_ground b s =
     (if b = 0x1b then (GfxNone, [], s\<lparr>gs_state := GsEsc\<rparr>)
      else if b < 0x80 then
        (GfxRune, [], s\<lparr>gs_rn := unat b, gs_w := 1, gs_runeBuf := [b], gs_lastRune := [b]\<rparr>)
      else if 0xc2 \<le> b \<and> b \<le> 0xf4 then
        (GfxNone, [],
         s\<lparr>gs_utf8Buf := [b], gs_utf8Need := (if b \<le> 0xdf then 2 else if b \<le> 0xef then 3 else 4),
           gs_state := GsUTF8\<rparr>)
      else (GfxNone, [], s))"

definition scan_utf8 :: "(nat \<Rightarrow> nat) \<Rightarrow> byte \<Rightarrow> scanner \<Rightarrow> scan_result" where
  "scan_utf8 rw b s =
     (if b AND 0xc0 \<noteq> 0x80 then
        scan_ground b (s\<lparr>gs_utf8Buf := [], gs_utf8Need := 0, gs_state := GsScan\<rparr>)
      else
        let buf = gs_utf8Buf s @ [b]
        in if length buf = gs_utf8Need s then
             let r = fst (decode_rune buf)
             in (GfxRune, [],
                 s\<lparr>gs_utf8Buf := [], gs_utf8Need := 0, gs_state := GsScan, gs_rn := r, gs_w := rw r,
                   gs_runeBuf := buf, gs_lastRune := buf\<rparr>)
           else (GfxNone, [], s\<lparr>gs_utf8Buf := buf\<rparr>))"

definition scan_esc :: "byte \<Rightarrow> scanner \<Rightarrow> scan_result" where
  "scan_esc b s =
     (if b = 0x5b then
        (GfxNone, [], s\<lparr>gs_state := GsCSI, gs_priv := False, gs_paramStr := [], gs_csiLen := 2\<rparr>)
      else if b = 0x5d then (GfxNone, [], startPayload (s\<lparr>gs_state := GsOSC\<rparr>))
      else if b = 0x50 then (GfxNone, [], startPayload (s\<lparr>gs_state := GsDCS\<rparr>))
      else if b = 0x5f then (GfxNone, [], startPayload (s\<lparr>gs_state := GsAPC\<rparr>))
      else if b = 0x63 then (GfxNone, [OnRIS], (scanner_reset s)\<lparr>gs_state := GsScan\<rparr>)
      else (GfxNone, [], s\<lparr>gs_state := GsScan\<rparr>))"

text \<open>The final byte of a CSI sequence.\<close>

definition rep_count :: "int list \<Rightarrow> nat" where
  "rep_count params =
     (let n = (if params \<noteq> [] \<and> params ! 0 > 0 then nat (params ! 0) else 1)
      in if n > repMax then repMax else n)"

definition csi_final :: "byte \<Rightarrow> scanner \<Rightarrow> scan_result" where
  "csi_final b s =
     (let params = parseParams (gs_paramStr s);
          query = (b = 0x6e \<or> b = 0x63 \<or> (b = 0x70 \<and> gs_sawDollar s));
          s1 = s\<lparr>gs_queryHits := gs_queryHits s + (if query then 1 else 0), gs_sawDollar := False,
                 gs_state := GsScan\<rparr>
      in if b = 0x68 \<or> b = 0x6c then
           (GfxNone, [OnMode (gs_priv s) params (b = 0x68)],
            (if \<not> gs_priv s \<and> 4 \<in> set params then s1\<lparr>gs_insertMode := (b = 0x68)\<rparr> else s1))
         else if b = 0x73 \<and> \<not> gs_priv s then (GfxCSIReplaced, [], s1\<lparr>gs_replacement := [0x1b, 0x37]\<rparr>)
         else if b = 0x75 \<and> \<not> gs_priv s then (GfxCSIReplaced, [], s1\<lparr>gs_replacement := [0x1b, 0x38]\<rparr>)
         else if b = 0x62 then
           (GfxCSIReplaced, [],
            (if length (gs_lastRune s) > 0
             then s1\<lparr>gs_replacement := concat (replicate (rep_count params) (gs_lastRune s))\<rparr> else s1))
         else (GfxNone, [], s1))"

definition scan_csi :: "byte \<Rightarrow> scanner \<Rightarrow> scan_result" where
  "scan_csi b s0 =
     (let s = s0\<lparr>gs_csiLen := gs_csiLen s0 + 1\<rparr>
      in if b = 0x3f then (GfxNone, [], s\<lparr>gs_priv := True\<rparr>)
         else if (0x30 \<le> b \<and> b \<le> 0x39) \<or> b = 0x3b \<or> b = 0x3a then
           (GfxNone, [], s\<lparr>gs_paramStr := gs_paramStr s @ [b]\<rparr>)
         else if 0x20 \<le> b \<and> b \<le> 0x3e then
           (GfxNone, [], (if b = 0x24 then s\<lparr>gs_sawDollar := True\<rparr> else s))
         else if 0x40 \<le> b \<and> b \<le> 0x7e then csi_final b s
         else (GfxNone, [], s))"

definition advance :: "(nat \<Rightarrow> nat) \<Rightarrow> byte \<Rightarrow> scanner \<Rightarrow> scan_result" where
  "advance rw b s =
     (case gs_state s of
        GsScan \<Rightarrow> scan_ground b s
      | GsUTF8 \<Rightarrow> scan_utf8 rw b s
      | GsEsc \<Rightarrow> scan_esc b s
      | GsCSI \<Rightarrow> scan_csi b s
      | GsOSC \<Rightarrow> if b = 0x07 then (GfxOSCPayload, [], countOSCQuery (finish_payload s))
                else if b = 0x1b then (GfxNone, [], s\<lparr>gs_state := GsOSCEnd\<rparr>)
                else (GfxNone, [], appendPayload b s)
      | GsOSCEnd \<Rightarrow> if b = 0x5c then (GfxOSCPayload, [], countOSCQuery (finish_payload s))
                   else (GfxNone, [], s\<lparr>gs_state := GsOSC\<rparr>)
      | GsDCS \<Rightarrow> if b = 0x1b then (GfxNone, [], s\<lparr>gs_state := GsDCSEnd\<rparr>)
                else (GfxNone, [], appendPayload b s)
      | GsDCSEnd \<Rightarrow> if b = 0x5c then (GfxDCSPayload, [], finish_payload s)
                   else (GfxNone, [], s\<lparr>gs_state := GsDCS\<rparr>)
      | GsAPC \<Rightarrow> if b = 0x1b then (GfxNone, [], s\<lparr>gs_state := GsAPCEnd\<rparr>)
                else (GfxNone, [], appendPayload b s)
      | GsAPCEnd \<Rightarrow> if b = 0x5c then (GfxAPCPayload, [], finish_payload s)
                   else (GfxNone, [], s\<lparr>gs_state := GsAPC\<rparr>))"

text \<open>A run of the scanner over a byte sequence: the events it reports, each with the scanner then.\<close>

fun scan_run :: "(nat \<Rightarrow> nat) \<Rightarrow> bytes \<Rightarrow> scanner \<Rightarrow> (gfx_evt \<times> scanner) list \<times> scanner" where
  "scan_run rw [] s = ([], s)"
| "scan_run rw (b # bs) s =
     (case advance rw b s of
        (ev, _, s1) \<Rightarrow> (case scan_run rw bs s1 of
                         (evs, s2) \<Rightarrow> (if ev = GfxNone then evs else (ev, s1) # evs, s2)))"

section \<open>Bounds\<close>

text \<open>
  What the scanner holds never grows beyond fixed limits: a payload, a rune, a replacement.  The
  parameter bytes of a CSI sequence are the exception (\<open>gs_paramStr\<close> has no limit).
\<close>

definition scanner_ok :: "scanner \<Rightarrow> bool" where
  "scanner_ok s \<longleftrightarrow>
     length (gs_buf s) \<le> gfxBufLimit \<and> length (gs_payload s) \<le> gfxBufLimit
     \<and> length (gs_runeBuf s) \<le> 4 \<and> length (gs_lastRune s) \<le> 4
     \<and> length (gs_replacement s) \<le> 4 * repMax
     \<and> (gs_state s = GsUTF8 \<longrightarrow> length (gs_utf8Buf s) < gs_utf8Need s \<and> 1 \<le> length (gs_utf8Buf s))
     \<and> gs_utf8Need s \<le> 4"

lemma scanner_ok_new [simp]: "scanner_ok new_scanner"
  by (simp add: scanner_ok_def new_scanner_def)

lemma ok_ground: "scanner_ok s \<Longrightarrow> gs_state s = GsScan \<Longrightarrow> scanner_ok (snd (snd (scan_ground b s)))"
  by (simp add: scan_ground_def scanner_ok_def)

lemma ok_utf8:
  assumes "scanner_ok s" and "gs_state s = GsUTF8"
  shows "scanner_ok (snd (snd (scan_utf8 rw b s)))"
proof (cases "b AND 0xc0 = 0x80")
  case False
  let ?s = "s\<lparr>gs_utf8Buf := [], gs_utf8Need := 0, gs_state := GsScan\<rparr>"
  have "scanner_ok ?s" using assms(1) by (simp add: scanner_ok_def)
  then have "scanner_ok (snd (snd (scan_ground b ?s)))" by (rule ok_ground) simp
  with False show ?thesis by (simp only: scan_utf8_def if_True if_False simp_thms)
next
  case True
  have "length (gs_utf8Buf s) < gs_utf8Need s" "gs_utf8Need s \<le> 4"
    using assms by (simp_all add: scanner_ok_def)
  with True assms show ?thesis by (simp add: scan_utf8_def scanner_ok_def Let_def)
qed

lemma rep_count_le: "rep_count ps \<le> repMax"
  by (simp add: rep_count_def Let_def)

lemma ok_rep:
  assumes "length r \<le> 4"
  shows "length (concat (replicate (rep_count ps) r)) \<le> 4 * repMax"
proof -
  have "rep_count ps * length r \<le> repMax * 4"
    by (rule mult_le_mono [OF rep_count_le assms])
  then show ?thesis by (simp add: length_concat sum_list_replicate mult.commute)
qed

lemma scanner_ok_frame [simp]:
  "scanner_ok (s\<lparr>gs_queryHits := q\<rparr>) = scanner_ok s" "scanner_ok (s\<lparr>gs_sawDollar := d\<rparr>) = scanner_ok s"
  "scanner_ok (s\<lparr>gs_insertMode := i\<rparr>) = scanner_ok s" "scanner_ok (s\<lparr>gs_priv := d\<rparr>) = scanner_ok s"
  "scanner_ok (s\<lparr>gs_paramStr := p\<rparr>) = scanner_ok s" "scanner_ok (s\<lparr>gs_csiLen := n\<rparr>) = scanner_ok s"
  by (simp_all add: scanner_ok_def)

lemma ok_replacement:
  "scanner_ok s \<Longrightarrow> length r \<le> 4 * repMax \<Longrightarrow> scanner_ok (s\<lparr>gs_replacement := r\<rparr>)"
  by (simp add: scanner_ok_def)

lemma ok_state: "scanner_ok s \<Longrightarrow> st \<noteq> GsUTF8 \<Longrightarrow> scanner_ok (s\<lparr>gs_state := st\<rparr>)"
  by (auto simp: scanner_ok_def)

lemma ok_last: "scanner_ok s \<Longrightarrow> length (gs_lastRune s) \<le> 4"
  by (simp add: scanner_ok_def)

lemma ok_final:
  assumes "scanner_ok s"
  shows "scanner_ok (snd (snd (csi_final b s)))"
proof -
  define s1 where "s1 = s\<lparr>gs_queryHits := gs_queryHits s
      + (if b = 0x6e \<or> b = 0x63 \<or> (b = 0x70 \<and> gs_sawDollar s) then 1 else 0), gs_sawDollar := False,
      gs_state := GsScan\<rparr>"
  have 1: "scanner_ok s1" unfolding s1_def by (rule ok_state) (simp_all add: assms)
  have 2: "scanner_ok (s1\<lparr>gs_replacement := [x, y]\<rparr>)" for x y
    by (rule ok_replacement [OF 1]) (simp add: repMax_def)
  have 3: "scanner_ok (s1\<lparr>gs_replacement := concat (replicate (rep_count ps) (gs_lastRune s))\<rparr>)" for ps
    by (rule ok_replacement [OF 1 ok_rep [OF ok_last [OF assms]]])
  show ?thesis
    unfolding csi_final_def Let_def s1_def [symmetric] using 1 2 3 by simp
qed

lemma ok_csi: "scanner_ok s \<Longrightarrow> scanner_ok (snd (snd (scan_csi b s)))"
  using ok_final [of "s\<lparr>gs_csiLen := gs_csiLen s + 1\<rparr>" b] by (simp add: scan_csi_def Let_def)

lemma ok_esc: "scanner_ok s \<Longrightarrow> scanner_ok (snd (snd (scan_esc b s)))"
  by (simp add: scan_esc_def scanner_ok_def startPayload_def scanner_reset_def new_scanner_def)

lemma ok_append: "scanner_ok s \<Longrightarrow> gs_state s \<noteq> GsUTF8 \<Longrightarrow> scanner_ok (appendPayload b s)"
  by (auto simp: appendPayload_def scanner_ok_def)

lemma ok_finish: "scanner_ok s \<Longrightarrow> scanner_ok (finish_payload s)"
  by (auto simp: finish_payload_def scanner_ok_def)

lemma ok_count: "scanner_ok s \<Longrightarrow> scanner_ok (countOSCQuery s)"
  by (auto simp: countOSCQuery_def scanner_ok_def Let_def)

lemma scanner_ok_advance:
  assumes "scanner_ok s"
  shows "scanner_ok (snd (snd (advance rw b s)))"
  by (cases "gs_state s")
     (simp_all add: advance_def assms ok_ground ok_utf8 ok_esc ok_csi ok_append ok_count ok_finish ok_state)

lemma scanner_ok_run:
  "scanner_ok s \<Longrightarrow> scan_run rw bs s = (evs, s') \<Longrightarrow>
    scanner_ok s' \<and> (\<forall>(ev, t) \<in> set evs. scanner_ok t)"
proof (induction bs arbitrary: s evs)
  case (Cons b bs)
  obtain ev cs s1 where a: "advance rw b s = (ev, cs, s1)" by (metis prod_cases3)
  obtain evs' s2 where r: "scan_run rw bs s1 = (evs', s2)" by fastforce
  have "scanner_ok s1" using scanner_ok_advance [OF Cons.prems(1), of rw b] a by simp
  with Cons.IH Cons.prems(2) a r show ?case by (fastforce split: if_splits)
qed simp

section \<open>Recognizing text\<close>

lemma cont_byte_mask: "cont_byte x AND 0xc0 = 0x80"
proof -
  have "list_all (\<lambda>y. nbyte (0x80 + y) AND 0xc0 = (0x80 :: byte)) [0..<64]" by code_simp
  moreover have "x mod 64 \<in> set [0..<64]" by simp
  ultimately show ?thesis unfolding cont_byte_def list_all_iff by blast
qed

lemma scan_run_append:
  "scan_run rw (xs @ ys) s =
     (case scan_run rw xs s of (e1, s1) \<Rightarrow> (case scan_run rw ys s1 of (e2, s2) \<Rightarrow> (e1 @ e2, s2)))"
  by (induction xs arbitrary: s) (auto split: prod.splits)

lemma lead_steps:
  assumes "gs_state s = GsScan" and "0xC2 \<le> n" and "n \<le> 0xF4"
  shows "advance rw (nbyte n) s = (GfxNone, [],
     s\<lparr>gs_utf8Buf := [nbyte n], gs_utf8Need := (if n \<le> 0xDF then 2 else if n \<le> 0xEF then 3 else 4),
       gs_state := GsUTF8\<rparr>)"
proof -
  have u: "unat (nbyte n) = n" using assms(3) by simp
  then have "nbyte n \<noteq> 0x1b" using assms(2) by (auto simp: word_unat_eq_iff)
  with assms u show ?thesis
    by (simp add: advance_def scan_ground_def word_less_nat_alt word_le_nat_alt)
qed

lemma cont_step:
  assumes "gs_state s = GsUTF8"
  shows "advance rw (cont_byte x) s =
     (let buf = gs_utf8Buf s @ [cont_byte x]
      in if length buf = gs_utf8Need s then
           (GfxRune, [],
            s\<lparr>gs_utf8Buf := [], gs_utf8Need := 0, gs_state := GsScan, gs_rn := fst (decode_rune buf),
              gs_w := rw (fst (decode_rune buf)), gs_runeBuf := buf, gs_lastRune := buf\<rparr>)
         else (GfxNone, [], s\<lparr>gs_utf8Buf := buf\<rparr>))"
  using assms by (simp add: advance_def scan_utf8_def cont_byte_mask Let_def)

text \<open>What a rune leaves behind; the width of an ASCII character is 1 without asking.\<close>

definition rune_seen :: "(nat \<Rightarrow> nat) \<Rightarrow> nat \<Rightarrow> scanner \<Rightarrow> bool" where
  "rune_seen rw c s \<longleftrightarrow>
     gs_state s = GsScan \<and> gs_rn s = c \<and> gs_w s = (if c < 0x80 then 1 else rw c)
     \<and> gs_runeBuf s = encode_scalar c \<and> gs_lastRune s = encode_scalar c"

lemma scan_rune:
  assumes "gs_state s = GsScan" and "is_scalar c" and "c \<noteq> 0x1b"
  shows "\<exists>s'. scan_run rw (encode_scalar c) s = ([(GfxRune, s')], s') \<and> rune_seen rw c s'"
proof (cases "c < 0x80")
  case True
  then have u: "unat (nbyte c) = c" by simp
  with assms(3) have "nbyte c \<noteq> 0x1b" by (auto simp: word_unat_eq_iff)
  with True u assms(1) show ?thesis
    by (simp add: encode_scalar_def advance_def scan_ground_def word_less_nat_alt rune_seen_def)
next
  case False
  have dec: "fst (decode_rune (encode_scalar c)) = c"
    using decode_encode_scalar [OF assms(2), of "[]"] by simp
  consider "0x80 \<le> c" "c < 0x800" | "0x800 \<le> c" "c < 0x10000" | "0x10000 \<le> c" using False by linarith
  then show ?thesis
  proof cases
    case 1
    then have e: "encode_scalar c = [nbyte (0xC0 + c div 64), cont_byte c]"
      and "0xC2 \<le> 0xC0 + c div 64" "0xC0 + c div 64 \<le> 0xDF"
      by (auto simp: encode_scalar_def)
    with dec 1 assms(1) show ?thesis
      by (simp add: e lead_steps cont_step rune_seen_def Let_def)
  next
    case 2
    then have e: "encode_scalar c = [nbyte (0xE0 + c div 4096), cont_byte (c div 64), cont_byte c]"
      and "0xE0 + c div 4096 \<le> 0xEF"
      by (auto simp: encode_scalar_def)
    with dec 2 assms(1) show ?thesis
      by (simp add: e lead_steps cont_step rune_seen_def Let_def)
  next
    case 3
    then have e: "encode_scalar c
        = [nbyte (0xF0 + c div 262144), cont_byte (c div 4096), cont_byte (c div 64), cont_byte c]"
      and "0xF0 + c div 262144 \<le> 0xF4"
      using assms(2) by (auto simp: encode_scalar_def is_scalar_def)
    with dec 3 assms(1) show ?thesis
      by (simp add: e lead_steps cont_step rune_seen_def Let_def)
  qed
qed

text \<open>
  The scanner sees the text it is fed: from the ground state, the UTF-8 encoding of
  any sequence of scalar values without an escape gives one rune event for each, in order, with
  its code point, its bytes and its width, and nothing else.
\<close>

lemma scanner_reads_text:
  assumes "gs_state s = GsScan" and "\<forall>c \<in> set cs. is_scalar c \<and> c \<noteq> 0x1b"
  shows "\<exists>evs s'. scan_run rw (concat (map encode_scalar cs)) s = (evs, s') \<and> gs_state s' = GsScan
     \<and> list_all2 (\<lambda>c (ev, t). ev = GfxRune \<and> rune_seen rw c t) cs evs"
  using assms
proof (induction cs arbitrary: s)
  case (Cons c cs)
  obtain s1 where s1: "scan_run rw (encode_scalar c) s = ([(GfxRune, s1)], s1)" "rune_seen rw c s1"
    using scan_rune [of s c] Cons.prems by auto
  then have "gs_state s1 = GsScan" by (simp add: rune_seen_def)
  with Cons obtain evs s' where "scan_run rw (concat (map encode_scalar cs)) s1 = (evs, s')" "gs_state s' = GsScan"
    "list_all2 (\<lambda>c (ev, t). ev = GfxRune \<and> rune_seen rw c t) cs evs"
    by (metis list.set_intros(2))
  with s1 show ?case by (simp add: scan_run_append)
qed simp

lemma scanner_reads_text_witness:
  "\<exists>evs s'. scan_run (\<lambda>_. 2) (concat (map encode_scalar [0x41, 0xE9, 0x4E2D, 0x1F600])) new_scanner = (evs, s')
     \<and> gs_state s' = GsScan
     \<and> list_all2 (\<lambda>c (ev, t). ev = GfxRune \<and> rune_seen (\<lambda>_. 2) c t) [0x41, 0xE9, 0x4E2D, 0x1F600] evs"
  by (rule scanner_reads_text) (simp_all add: new_scanner_def is_scalar_def)

section \<open>Framing of payloads\<close>

text \<open>The introducer of a payload sequence, the state it leads to, and the event at its end.\<close>

definition framing :: "byte \<Rightarrow> gfx_state \<Rightarrow> gfx_state \<Rightarrow> gfx_evt \<Rightarrow> bool" where
  "framing intro st st_end ev \<longleftrightarrow>
     (intro, st, st_end, ev) \<in> {(0x5d, GsOSC, GsOSCEnd, GfxOSCPayload), (0x50, GsDCS, GsDCSEnd, GfxDCSPayload),
                              (0x5f, GsAPC, GsAPCEnd, GfxAPCPayload)}"

lemma framing_cases:
  assumes "framing intro st st_end ev"
  obtains "intro = 0x5d" "st = GsOSC" "st_end = GsOSCEnd" "ev = GfxOSCPayload"
    | "intro = 0x50" "st = GsDCS" "st_end = GsDCSEnd" "ev = GfxDCSPayload"
    | "intro = 0x5f" "st = GsAPC" "st_end = GsAPCEnd" "ev = GfxAPCPayload"
  using assms by (auto simp: framing_def)

lemma framing_step:
  assumes "framing intro st st_end ev" and "gs_state s = st" and "b \<noteq> 0x1b" and "b \<noteq> 0x07"
  shows "advance rw b s = (GfxNone, [], appendPayload b s)"
  using assms by (auto simp: advance_def elim!: framing_cases)

lemma appendPayload_frame [simp]:
  "gs_state (appendPayload b s) = gs_state s"
  by (simp add: appendPayload_def)

lemma payload_collects:
  assumes f: "framing intro st st_end ev" and "gs_state s = st" and "\<not> gs_full s"
    and "0x1b \<notin> set p" and "0x07 \<notin> set p" and "length (gs_buf s) + length p \<le> gfxBufLimit"
  shows "scan_run rw p s = ([], s\<lparr>gs_buf := gs_buf s @ p\<rparr>)"
  using assms(2-)
proof (induction p arbitrary: s)
  case (Cons b p)
  then have "advance rw b s = (GfxNone, [], s\<lparr>gs_buf := gs_buf s @ [b]\<rparr>)"
    using framing_step [OF f] by (auto simp: appendPayload_def)
  with Cons show ?case by simp
qed simp

lemma countOSCQuery_frame [simp]:
  "gs_payload (countOSCQuery s) = gs_payload s" "gs_state (countOSCQuery s) = gs_state s"
  by (simp_all add: countOSCQuery_def Let_def)

text \<open>
  Framing: from the ground state, an OSC, DCS or APC sequence whose payload has no
  escape and no bell and fits the limit is reported once, with its payload and at its terminator,
  and leaves the scanner in the ground state.
\<close>

lemma payload_framed:
  assumes f: "framing intro st st_end ev" and "gs_state s = GsScan"
    and "0x1b \<notin> set p" and "0x07 \<notin> set p" and "length p \<le> gfxBufLimit"
  shows "\<exists>s'. scan_run rw ([0x1b, intro] @ p @ [0x1b, 0x5c]) s = ([(ev, s')], s')
     \<and> gs_payload s' = p \<and> gs_state s' = GsScan"
proof -
  define s0 where "s0 = s\<lparr>gs_state := st, gs_buf := [], gs_full := False\<rparr>"
  have 1: "scan_run rw [0x1b, intro] s = ([], s0)"
    using f assms(2) by (elim framing_cases)
      (simp_all add: advance_def scan_ground_def scan_esc_def startPayload_def s0_def)
  have 2: "scan_run rw p s0 = ([], s0\<lparr>gs_buf := p\<rparr>)"
    using payload_collects [OF f, of s0 p] assms(3-) by (simp add: s0_def)
  have 3: "\<exists>s'. scan_run rw [0x1b, 0x5c] (s0\<lparr>gs_buf := p\<rparr>) = ([(ev, s')], s') \<and> gs_payload s' = p \<and> gs_state s' = GsScan"
    using f by (elim framing_cases) (simp_all add: advance_def s0_def finish_payload_def)
  from 1 2 3 show ?thesis unfolding scan_run_append by auto
qed

section \<open>CSI parameters\<close>

definition param_bytes :: "int \<Rightarrow> bytes" where
  "param_bytes n = bytes_of (itoa n)"

fun join_params :: "bytes list \<Rightarrow> bytes" where
  "join_params [] = []"
| "join_params [p] = p"
| "join_params (p # q # ps) = p @ [0x3b] @ join_params (q # ps)"

lemma split_params_not_Nil: "split_params bs \<noteq> []"
  by (induction bs) (auto split: list.splits)

lemma split_params_plain: "list_all (\<lambda>b. \<not> is_param_sep b) p \<Longrightarrow> split_params p = [p]"
  by (induction p) auto

lemma split_params_sep:
  "list_all (\<lambda>b. \<not> is_param_sep b) p \<Longrightarrow> split_params (p @ 0x3b # r) = p # split_params r"
  by (induction p) (auto simp: is_param_sep_def)

lemma split_join_params:
  "ps \<noteq> [] \<Longrightarrow> \<forall>p \<in> set ps. list_all (\<lambda>b. \<not> is_param_sep b) p \<Longrightarrow> split_params (join_params ps) = ps"
  by (induction ps rule: join_params.induct) (auto simp: split_params_plain split_params_sep)

lemma digit_byte: "is_digit c \<Longrightarrow> 0x30 \<le> byte_of_char c \<and> byte_of_char c \<le> 0x39"
  by (auto simp: is_digit_def word_le_nat_alt unat_byte_of_char)

lemma digit_byte_not_sep: "is_digit c \<Longrightarrow> \<not> is_param_sep (byte_of_char c)"
  using digit_byte [of c] by (auto simp: is_param_sep_def word_le_nat_alt)

lemma param_bytes_digits: "0 \<le> n \<Longrightarrow> list_all (\<lambda>b. 0x30 \<le> b \<and> b \<le> 0x39) (param_bytes n)"
  using nat_itoa_digits [of "nat n"]
  by (auto simp: param_bytes_def itoa_def bytes_of_def list_all_iff digit_byte)

lemma param_bytes_plain: "0 \<le> n \<Longrightarrow> list_all (\<lambda>b. \<not> is_param_sep b) (param_bytes n)"
  using nat_itoa_digits [of "nat n"]
  by (auto simp: param_bytes_def itoa_def bytes_of_def list_all_iff digit_byte_not_sep)

lemma parse_param_bytes: "0 \<le> n \<Longrightarrow> in_int64 n \<Longrightarrow> parse_param (param_bytes n) = n"
proof -
  assume n: "0 \<le> n" "in_int64 n"
  then have "param_bytes n \<noteq> []" by (simp add: param_bytes_def itoa_def bytes_of_def)
  moreover have "atoi (string_of_bytes (param_bytes n)) = Some n"
    using n by (simp add: param_bytes_def atoi_itoa)
  ultimately show ?thesis by (simp add: parse_param_def)
qed

lemma parseParams_join:
  assumes "ns \<noteq> []" and "\<forall>n \<in> set ns. 0 \<le> n \<and> in_int64 n"
  shows "parseParams (join_params (map param_bytes ns)) = ns"
proof -
  have "split_params (join_params (map param_bytes ns)) = map param_bytes ns"
    using assms by (intro split_join_params) (auto simp: param_bytes_plain)
  moreover have "map (parse_param \<circ> param_bytes) ns = ns"
    using assms(2) by (intro map_idI) (simp add: parse_param_bytes)
  ultimately show ?thesis by (simp add: parseParams_def)
qed

lemma csi_params_collected:
  assumes "gs_state s = GsCSI" and "list_all (\<lambda>b. (0x30 \<le> b \<and> b \<le> 0x39) \<or> b = 0x3b \<or> b = 0x3a) bs"
  shows "scan_run rw bs s = ([], s\<lparr>gs_csiLen := gs_csiLen s + length bs, gs_paramStr := gs_paramStr s @ bs\<rparr>)"
  using assms
proof (induction bs arbitrary: s)
  case (Cons b bs)
  have "b \<noteq> 0x3f" using Cons.prems(2) by (auto simp: word_le_nat_alt)
  with Cons.prems have "advance rw b s
      = (GfxNone, [], s\<lparr>gs_csiLen := gs_csiLen s + 1, gs_paramStr := gs_paramStr s @ [b]\<rparr>)"
    by (simp add: advance_def scan_csi_def Let_def)
  with Cons show ?case by simp
qed simp

lemma join_params_bytes:
  "\<forall>p \<in> set ps. list_all (\<lambda>b. 0x30 \<le> b \<and> b \<le> (0x39 :: byte)) p \<Longrightarrow>
     list_all (\<lambda>b. (0x30 \<le> b \<and> b \<le> (0x39 :: byte)) \<or> b = 0x3b \<or> b = 0x3a) (join_params ps)"
  by (induction ps rule: join_params.induct) (auto simp: list_all_iff)

text \<open>
  Set-mode sequences are decoded: \<open>ESC [ n;...;m h\<close>, with or without the private
  marker, calls \<open>onMode\<close> once, with exactly these numbers, and turns the scanner's insert mode on
  if the sequence is not private and 4 is among them.
\<close>

lemma mode_sequence_decoded:
  assumes "gs_state s = GsScan" and "ns \<noteq> []" and "\<forall>n \<in> set ns. 0 \<le> n \<and> in_int64 n"
  shows "\<exists>s1 s2. scan_run rw ([0x1b, 0x5b] @ (if p then [0x3f] else []) @ join_params (map param_bytes ns)) s
        = ([], s1)
     \<and> advance rw 0x68 s1 = (GfxNone, [OnMode p ns True], s2) \<and> gs_state s2 = GsScan
     \<and> gs_insertMode s2 = (gs_insertMode s \<or> (\<not> p \<and> 4 \<in> set ns))"
proof -
  let ?ps = "join_params (map param_bytes ns)"
  define s0 where "s0 = s\<lparr>gs_state := GsCSI, gs_priv := p, gs_paramStr := [], gs_csiLen := (if p then 3 else 2)\<rparr>"
  have 1: "scan_run rw ([0x1b, 0x5b] @ (if p then [0x3f] else [])) s = ([], s0)"
    using assms(1) by (simp add: advance_def scan_ground_def scan_esc_def scan_csi_def Let_def s0_def)
  have "list_all (\<lambda>b. (0x30 \<le> b \<and> b \<le> (0x39 :: byte)) \<or> b = 0x3b \<or> b = 0x3a) ?ps"
    using assms(3) by (intro join_params_bytes) (auto simp: param_bytes_digits)
  then have 2: "scan_run rw ?ps s0 = ([], s0\<lparr>gs_csiLen := gs_csiLen s0 + length ?ps, gs_paramStr := ?ps\<rparr>)"
    using csi_params_collected [of s0 ?ps rw] by (simp add: s0_def)
  have 3: "parseParams ?ps = ns" by (rule parseParams_join [OF assms(2,3)])
  show ?thesis
    unfolding append_assoc [symmetric] scan_run_append [of rw _ ?ps] using 1 2 3
    by (simp add: advance_def scan_csi_def csi_final_def Let_def s0_def)
qed

lemma mode_sequence_decoded_witness:
  "\<exists>s1 s2. scan_run (\<lambda>_. 1) ([0x1b, 0x5b] @ (if True then [0x3f] else []) @ join_params (map param_bytes [25, 2004]))
        new_scanner = ([], s1)
     \<and> advance (\<lambda>_. 1) 0x68 s1 = (GfxNone, [OnMode True [25, 2004] True], s2) \<and> gs_state s2 = GsScan
     \<and> gs_insertMode s2 = (gs_insertMode new_scanner \<or> (\<not> True \<and> 4 \<in> set [25, 2004 :: int]))"
  by (rule mode_sequence_decoded) (simp_all add: new_scanner_def in_int64_def min_int64_def max_int64_def)

end
