(* ===== verification/Graphics.thy ===== *)
theory Graphics
  imports Base64 Utils "HOL-Library.Signed_Division"
begin

text \<open>
  The parts of \<open>internal/capture/graphics.go\<close> that do not touch the screen: images and their
  placements, the control header of kitty transmissions, raw pixels, the detection of image
  formats and data URIs.  The image codecs are parameters, gathered in a record.
\<close>

section \<open>Images\<close>

datatype image_protocol = ProtoKitty | ProtoSixel | ProtoITerm2

fun protocol_string :: "image_protocol \<Rightarrow> string" where
  "protocol_string ProtoKitty = ''kitty''"
| "protocol_string ProtoSixel = ''sixel''"
| "protocol_string ProtoITerm2 = ''iterm2''"

text \<open>A decoded picture: its size and its pixels (red, green, blue, alpha), row by row.\<close>

record image =
  im_w :: int
  im_h :: int
  im_px :: "(byte \<times> byte \<times> byte \<times> byte) list"

record image_asset =
  ia_protocol :: image_protocol
  ia_row :: int
  ia_col :: int
  ia_cellCols :: int
  ia_cellRows :: int
  ia_width :: int
  ia_height :: int
  ia_mime :: string
  ia_dataURI :: string
  ia_img :: image

record kitty_pending =
  kp_keys :: "(string \<times> string) list option"
  kp_data :: string

definition no_pending :: kitty_pending where
  "no_pending = \<lparr>kp_keys = None, kp_data = ''''\<rparr>"

text \<open>
  The codecs: \<open>image.Decode\<close>, zlib, the sixel decoder and the PNG encoder; \<open>gx_aspect\<close> is the
  floating point expression for the width in cells of an iTerm2 picture, from the picture's width
  and height and the cell's width and height.
\<close>

record gfx_env =
  gx_decode :: "bytes \<Rightarrow> image option"
  gx_zlib :: "bytes \<Rightarrow> bytes option"
  gx_sixel :: "bytes \<Rightarrow> image option"
  gx_png :: "image \<Rightarrow> bytes option"
  gx_aspect :: "int \<Rightarrow> int \<Rightarrow> int \<Rightarrow> int \<Rightarrow> int"

section \<open>Control headers\<close>

definition parseKittyKeys :: "string \<Rightarrow> (string \<times> string) list" where
  "parseKittyKeys head =
     fold (\<lambda>part keys. case str_cut ''='' part of None \<Rightarrow> keys | Some (k, v) \<Rightarrow> map_put k v keys)
       (str_split CHR '','' head) []"

text \<open>Reading a Go map: a missing key is the empty string.\<close>

definition key :: "(string \<times> string) list \<Rightarrow> string \<Rightarrow> string" where
  "key keys k = (case map_of keys k of None \<Rightarrow> '''' | Some v \<Rightarrow> v)"

fun gfx_atoi_from :: "nat \<Rightarrow> string \<Rightarrow> nat" where
  "gfx_atoi_from n [] = n"
| "gfx_atoi_from n (c # cs) =
     (if \<not> is_digit c then 0
      else let n' = n * 10 + digit_val c in if n' > 2 ^ 30 then 0 else gfx_atoi_from n' cs)"

definition gfx_atoi :: "string \<Rightarrow> int" where
  "gfx_atoi s = int (gfx_atoi_from 0 s)"

definition intDivCeil :: "int \<Rightarrow> int \<Rightarrow> int" where
  "intDivCeil a b = (if b \<le> 0 then 1 else (a + b - 1) sdiv b)"

section \<open>Pixels and formats\<close>

definition raw_pixel :: "bytes \<Rightarrow> bool \<Rightarrow> nat \<Rightarrow> byte \<times> byte \<times> byte \<times> byte" where
  "raw_pixel data alpha i =
     (let off = i * (if alpha then 4 else 3)
      in (data ! off, data ! (off + 1), data ! (off + 2), if alpha then data ! (off + 3) else 0xff))"

definition rawToImage :: "bytes \<Rightarrow> int \<Rightarrow> int \<Rightarrow> bool \<Rightarrow> image option" where
  "rawToImage data w h alpha =
     (let need = w * h * (if alpha then 4 else 3)
      in if w \<le> 0 \<or> h \<le> 0 \<or> int (length data) < need then None
         else Some \<lparr>im_w = w, im_h = h,
                    im_px = concat (map (\<lambda>y. map (\<lambda>x. raw_pixel data alpha (y * nat w + x)) [0..<nat w])
                                       [0..<nat h])\<rparr>)"

definition mimeDetect :: "bytes \<Rightarrow> string" where
  "mimeDetect b =
     (if length b \<ge> 8 \<and> take 8 b = [0x89, 0x50, 0x4e, 0x47, 0x0d, 0x0a, 0x1a, 0x0a] then ''image/png''
      else if length b \<ge> 3 \<and> take 3 b = [0xff, 0xd8, 0xff] then ''image/jpeg''
      else if length b \<ge> 6 \<and> (take 6 b = bytes_of ''GIF87a'' \<or> take 6 b = bytes_of ''GIF89a'') then ''image/gif''
      else if length b \<ge> 12 \<and> take 4 b = bytes_of ''RIFF'' \<and> take 4 (drop 8 b) = bytes_of ''WEBP''
      then ''image/webp''
      else '''')"

definition dataURI :: "string \<Rightarrow> bytes \<Rightarrow> string" where
  "dataURI mime data =
     ''data:'' @ (if mime = '''' then ''application/octet-stream'' else mime) @ '';base64,'' @ base64_encode data"

section \<open>The JSON form\<close>

record image_json =
  ij_id :: nat
  ij_protocol :: string
  ij_row :: int
  ij_col :: int
  ij_cellCols :: int
  ij_cellRows :: int
  ij_width :: int
  ij_height :: int
  ij_mime :: string
  ij_dataURI :: string

definition imagesJSON :: "image_asset list \<Rightarrow> image_json list" where
  "imagesJSON images =
     map (\<lambda>(i, a). \<lparr>ij_id = i, ij_protocol = protocol_string (ia_protocol a), ij_row = ia_row a,
                    ij_col = ia_col a, ij_cellCols = ia_cellCols a, ij_cellRows = ia_cellRows a,
                    ij_width = ia_width a, ij_height = ia_height a, ij_mime = ia_mime a,
                    ij_dataURI = ia_dataURI a\<rparr>)
       (zip [0..<length images] images)"

section \<open>Lemmas\<close>

lemma gfx_atoi_from_le: "n \<le> 2 ^ 30 \<Longrightarrow> gfx_atoi_from n s \<le> 2 ^ 30"
  by (induction s arbitrary: n) (simp_all add: Let_def)

lemma gfx_atoi_bounds: "0 \<le> gfx_atoi s \<and> gfx_atoi s \<le> 2 ^ 30"
  using gfx_atoi_from_le [of 0 s] by (simp add: gfx_atoi_def)

text \<open>The size check of raw pixels does not overflow 64 bits.\<close>

lemma raw_need_in_int64:
  "in_int64 (gfx_atoi s * gfx_atoi v * (if alpha then 4 else 3))"
proof -
  have "gfx_atoi s * gfx_atoi v \<le> 2 ^ 30 * 2 ^ 30"
    by (rule mult_mono) (use gfx_atoi_bounds in auto)
  moreover have "0 \<le> gfx_atoi s * gfx_atoi v" using gfx_atoi_bounds by simp
  ultimately show ?thesis by (auto simp: in_int64_def min_int64_def max_int64_def)
qed

lemma intDivCeil_pos: "0 \<le> a \<Longrightarrow> 0 < b \<Longrightarrow> intDivCeil a b = (a + b - 1) div b"
  by (simp add: intDivCeil_def signed_divide_int_def sgn_if)

text \<open>The smallest number of cells of size \<open>b\<close> that covers \<open>a\<close> pixels.\<close>

lemma intDivCeil_covers: "0 \<le> a \<Longrightarrow> 0 < b \<Longrightarrow> a \<le> intDivCeil a b * b \<and> intDivCeil a b * b < a + b"
proof -
  assume a: "0 \<le> a" "0 < b"
  have "(a + b - 1) div b * b + (a + b - 1) mod b = a + b - 1" by (rule div_mult_mod_eq)
  moreover have "0 \<le> (a + b - 1) mod b" "(a + b - 1) mod b < b" using a by simp_all
  ultimately show ?thesis unfolding intDivCeil_pos [OF a] by linarith
qed



lemma rawToImage_length:
  assumes "rawToImage data w h alpha = Some img"
  shows "length (im_px img) = nat w * nat h" and "im_w img = w" and "im_h img = h"
  using assms
  by (auto simp: rawToImage_def Let_def length_concat comp_def sum_list_triv mult.commute split: if_splits)
end
