(* ===== verification/Emulator.thy ===== *)
theory Emulator
  imports Screen Scanner Graphics
begin

text \<open>
  The screen mirror of \<open>internal/capture\<close>: \<open>Emulator\<close> of \<open>emulator.go\<close>, with the handlers of graphics
  sequences of \<open>graphics.go\<close> and the snapshots of \<open>snapshot.go\<close>.  It feeds a terminal emulator of
  another library (\<open>charmbracelet/x/vt\<close>), which is a parameter: a record of its operations over a
  state of any type.
\<close>

section \<open>The terminal engine\<close>

datatype vt_attr =
    AttrBold | AttrFaint | AttrItalic | AttrBlink | AttrRapidBlink | AttrReverse | AttrConceal | AttrStrikethrough

text \<open>A color of the engine; \<open>VOther\<close> is any other color, by its 16-bit components.\<close>

datatype vt_color = VNone | VBasic byte | VIndexed byte | VRGBA byte byte byte | VOther nat nat nat

record vt_cell =
  uc_content :: bytes
  uc_width :: int
  uc_fg :: vt_color
  uc_bg :: vt_color
  uc_attrs :: "vt_attr list"
  uc_underline :: bool

text \<open>Positions are \<open>(x, y)\<close>: column and row.\<close>

record 'v vt_ops =
  vo_write :: "bytes \<Rightarrow> 'v \<Rightarrow> 'v"
  vo_resize :: "int \<Rightarrow> int \<Rightarrow> 'v \<Rightarrow> 'v"
  vo_width :: "'v \<Rightarrow> int"
  vo_height :: "'v \<Rightarrow> int"
  vo_cursor :: "'v \<Rightarrow> int \<times> int"
  vo_cell :: "'v \<Rightarrow> nat \<Rightarrow> nat \<Rightarrow> vt_cell option"

section \<open>State\<close>

text \<open>The answers are a channel of 64 slots.\<close>

record 'v emulator =
  em_vt :: 'v
  em_cellW :: int
  em_cellH :: int
  em_cursorVisible :: bool
  em_images :: "image_asset list"
  em_kittyPending :: kitty_pending
  em_scanner :: scanner
  em_answersCap :: nat
  em_answers :: "bytes list"

definition answers_slots :: nat where "answers_slots = 64"

definition newEmulator :: "(int \<Rightarrow> int \<Rightarrow> 'v) \<Rightarrow> int \<Rightarrow> int \<Rightarrow> 'v emulator" where
  "newEmulator new_vt cols rows =
     \<lparr>em_vt = new_vt (if cols < 1 then 1 else cols) (if rows < 1 then 1 else rows),
      em_cellW = 9, em_cellH = 18, em_cursorVisible = True, em_images = [], em_kittyPending = no_pending,
      em_scanner = new_scanner, em_answersCap = 64 * 1024, em_answers = []\<rparr>"

section \<open>Answers to queries\<close>

text \<open>One chunk the answer pump read from the engine; a full channel drops it.\<close>

definition emu_answer :: "bytes \<Rightarrow> 'v emulator \<Rightarrow> 'v emulator" where
  "emu_answer b e =
     (let b' = (if length b > em_answersCap e then take (em_answersCap e) b else b)
      in if length (em_answers e) < answers_slots then e\<lparr>em_answers := em_answers e @ [b']\<rparr> else e)"

text \<open>Taking queued chunks until the cap is reached: the output, what is left, and whether it was.\<close>

fun drain_queue :: "nat \<Rightarrow> bytes \<Rightarrow> bytes list \<Rightarrow> bytes \<times> bytes list \<times> bool" where
  "drain_queue cap out [] = (out, [], False)"
| "drain_queue cap out (b # q) =
     (let out' = out @ b
      in if length out' \<ge> cap then (take cap out', q, True) else drain_queue cap out' q)"

text \<open>
  \<open>DrainAnswers\<close>: \<open>arrivals\<close> are the chunks the pump delivers until the timer fires, which is waited
  for only when a query was seen.  When the cap is reached first, the call returns; what comes
  later is queued by \<open>emu_answer\<close>.
\<close>

definition drainAnswers :: "bytes list \<Rightarrow> 'v emulator \<Rightarrow> bytes \<times> 'v emulator" where
  "drainAnswers arrivals e =
     (case drain_queue (em_answersCap e) [] (em_answers e) of
        (out, q, True) \<Rightarrow> (out, e\<lparr>em_answers := q\<rparr>)
      | (out, q, False) \<Rightarrow>
          if gs_queryHits (em_scanner e) > 0 then
            (case drain_queue (em_answersCap e) out arrivals of
               (out', _, _) \<Rightarrow>
                 (out', e\<lparr>em_answers := q, em_scanner := (em_scanner e)\<lparr>gs_queryHits := 0\<rparr>\<rparr>))
          else (out, e\<lparr>em_answers := q\<rparr>))"

definition clearAnswers :: "'v emulator \<Rightarrow> 'v emulator" where
  "clearAnswers e = e\<lparr>em_answers := []\<rparr>"

section \<open>Modes, size and cursor\<close>

definition trackMode :: "bool \<Rightarrow> int list \<Rightarrow> bool \<Rightarrow> 'v emulator \<Rightarrow> 'v emulator" where
  "trackMode priv params on e =
     (if \<not> priv then e else if 25 \<in> set params then e\<lparr>em_cursorVisible := on\<rparr> else e)"

definition onRIS :: "'v emulator \<Rightarrow> 'v emulator" where
  "onRIS e =
     clearAnswers (e\<lparr>em_cursorVisible := True, em_images := [], em_kittyPending := no_pending,
                     em_scanner := scanner_reset (em_scanner e)\<rparr>)"

definition setCellSize :: "int \<Rightarrow> int \<Rightarrow> 'v emulator \<Rightarrow> 'v emulator" where
  "setCellSize w h e = e\<lparr>em_cellW := (if w < 1 then 1 else w), em_cellH := (if h < 1 then 1 else h)\<rparr>"

definition emu_resize :: "'v vt_ops \<Rightarrow> int \<Rightarrow> int \<Rightarrow> 'v emulator \<Rightarrow> 'v emulator" where
  "emu_resize vo cols0 rows0 e =
     (let cols = (if cols0 < 1 then 1 else cols0); rows = (if rows0 < 1 then 1 else rows0)
      in if cols = vo_width vo (em_vt e) \<and> rows = vo_height vo (em_vt e) then e
         else clearAnswers (e\<lparr>em_vt := vo_resize vo cols rows (em_vt e), em_images := [],
                              em_kittyPending := no_pending, em_scanner := scanner_reset (em_scanner e)\<rparr>))"

definition vt_put :: "'v vt_ops \<Rightarrow> bytes \<Rightarrow> 'v emulator \<Rightarrow> 'v emulator" where
  "vt_put vo bs e = e\<lparr>em_vt := vo_write vo bs (em_vt e)\<rparr>"

text \<open>The cursor position sequence, with 1-based coordinates.\<close>

definition cup_bytes :: "int \<Rightarrow> int \<Rightarrow> bytes" where
  "cup_bytes row col = [0x1b, 0x5b] @ bytes_of (itoa (row + 1)) @ [0x3b] @ bytes_of (itoa (col + 1)) @ [0x48]"

definition moveCursorTo :: "'v vt_ops \<Rightarrow> int \<Rightarrow> int \<Rightarrow> 'v emulator \<Rightarrow> 'v emulator" where
  "moveCursorTo vo row col e =
     vt_put vo (cup_bytes (min (max 0 row) (vo_height vo (em_vt e) - 1))
                          (min (max 0 col) (vo_width vo (em_vt e) - 1))) e"

section \<open>Graphics\<close>

definition asset ::
  "image_protocol \<Rightarrow> int \<times> int \<Rightarrow> int \<times> int \<Rightarrow> string \<Rightarrow> bytes \<Rightarrow> image \<Rightarrow> image_asset" where
  "asset proto pos sz mime data img =
     \<lparr>ia_protocol = proto, ia_row = snd pos, ia_col = fst pos, ia_cellCols = fst sz, ia_cellRows = snd sz,
      ia_width = im_w img, ia_height = im_h img, ia_mime = mime, ia_dataURI = dataURI mime data, ia_img = img\<rparr>"

text \<open>The cell rectangle a kitty picture asks for, before it is cut to the screen.\<close>

definition kitty_cells :: "int \<Rightarrow> int \<Rightarrow> image \<Rightarrow> (string \<times> string) list \<Rightarrow> int \<times> int" where
  "kitty_cells cellW cellH img keys =
     (let w = im_w img; h = im_h img; c = gfx_atoi (key keys ''c''); r = gfx_atoi (key keys ''r'')
      in if c \<le> 0 \<and> r \<le> 0 then (max 1 (intDivCeil w cellW), max 1 (intDivCeil h cellH))
         else if c \<le> 0 then (max 1 (intDivCeil (w * r) h), r)
         else if r \<le> 0 then (c, max 1 (intDivCeil (h * c) w))
         else (c, r))"

definition addImage ::
  "'v vt_ops \<Rightarrow> image_protocol \<Rightarrow> image \<Rightarrow> string \<Rightarrow> bytes \<Rightarrow> (string \<times> string) list
     \<Rightarrow> 'v emulator \<Rightarrow> 'v emulator" where
  "addImage vo proto img mime raw keys e =
     (let (x, y) = vo_cursor vo (em_vt e);
          cols = vo_width vo (em_vt e); rows = vo_height vo (em_vt e);
          (cc, cr) = kitty_cells (em_cellW e) (em_cellH e) img keys;
          cellCols = min (cols - x) cc; cellRows = min (rows - y) cr
      in if cellCols \<le> 0 \<or> cellRows \<le> 0 then e
         else
           let e1 = e\<lparr>em_images := em_images e @ [asset proto (x, y) (cellCols, cellRows) mime raw img]\<rparr>;
               (nx, ny) = (if x + cellCols \<ge> cols then (0, min (rows - 1) (y + 1)) else (x + cellCols, y))
           in moveCursorTo vo (min (rows - 1) (ny + max 0 (cellRows - 1))) nx e1)"

definition finishKitty ::
  "gfx_env \<Rightarrow> 'v vt_ops \<Rightarrow> (string \<times> string) list \<Rightarrow> string \<Rightarrow> 'v emulator \<Rightarrow> 'v emulator" where
  "finishKitty gx vo keys payload e =
     (if payload = '''' then e
      else case base64_decode payload of
        None \<Rightarrow> e
      | Some raw0 \<Rightarrow>
          (case (if key keys ''o'' = ''z'' then gx_zlib gx raw0 else Some raw0) of
             None \<Rightarrow> e
           | Some raw \<Rightarrow>
               let f = key keys ''f'';
                   pic = (if f = ''24'' \<or> f = ''32''
                          then map_option (\<lambda>i. (i, ''image/png''))
                                 (rawToImage raw (gfx_atoi (key keys ''s'')) (gfx_atoi (key keys ''v'')) (f = ''32''))
                          else map_option (\<lambda>i. (i, mimeDetect raw)) (gx_decode gx raw))
               in case pic of None \<Rightarrow> e | Some (img, mime) \<Rightarrow> addImage vo ProtoKitty img mime raw keys e))"

definition handleAPC :: "gfx_env \<Rightarrow> 'v vt_ops \<Rightarrow> bytes \<Rightarrow> 'v emulator \<Rightarrow> 'v emulator" where
  "handleAPC gx vo payload e =
     (if payload = [] \<or> payload ! 0 \<noteq> 0x47 then e
      else
        let body = string_of_bytes (drop 1 payload);
            (head, data) = (case str_cut '';'' body of None \<Rightarrow> (body, '''') | Some p \<Rightarrow> p);
            keys = parseKittyKeys head;
            pend = em_kittyPending e
        in if key keys ''a'' \<in> {''q'', ''r'', ''D'', ''c'', ''f'', ''p''} then e
           else if key keys ''m'' = ''1'' then
             e\<lparr>em_kittyPending :=
                 \<lparr>kp_keys = (if kp_data pend = '''' \<and> kp_keys pend = None then Some keys else kp_keys pend),
                  kp_data = kp_data pend @ data\<rparr>\<rparr>
           else if kp_data pend \<noteq> '''' then
             finishKitty gx vo (case kp_keys pend of None \<Rightarrow> [] | Some k \<Rightarrow> k) (kp_data pend @ data)
               (e\<lparr>em_kittyPending := no_pending\<rparr>)
           else (finishKitty gx vo keys data e)\<lparr>em_kittyPending := no_pending\<rparr>)"

definition handleOSC :: "gfx_env \<Rightarrow> 'v vt_ops \<Rightarrow> bytes \<Rightarrow> 'v emulator \<Rightarrow> 'v emulator" where
  "handleOSC gx vo osc e =
     (let s = string_of_bytes osc; pre = ''1337;File=''
      in if \<not> has_prefix pre s then e
         else case str_cut '':'' (drop (length pre) s) of
           None \<Rightarrow> e
         | Some (head, b64) \<Rightarrow>
             if \<not> str_contains ''inline=1'' head then e
             else case base64_decode b64 of
               None \<Rightarrow> e
             | Some data \<Rightarrow>
                 (case gx_decode gx data of
                    None \<Rightarrow> e
                  | Some img \<Rightarrow>
                      let cc = (if im_h img > 0
                                then max 1 (gx_aspect gx (im_w img) (im_h img) (em_cellW e) (em_cellH e)) else 1)
                      in e\<lparr>em_images := em_images e
                             @ [asset ProtoITerm2 (vo_cursor vo (em_vt e)) (cc, 1) (mimeDetect data) data img]\<rparr>))"

definition handleDCS :: "gfx_env \<Rightarrow> 'v vt_ops \<Rightarrow> bytes \<Rightarrow> 'v emulator \<Rightarrow> 'v emulator" where
  "handleDCS gx vo dcs e =
     (if 0x71 \<notin> set dcs then e
      else
        let body = drop 1 (dropWhile (\<lambda>b. b \<noteq> 0x71) dcs);
            feed = [0x1b, 0x50, 0x71] @ body @ [0x1b, 0x5c]
        in case gx_sixel gx feed of
             None \<Rightarrow> e
           | Some img \<Rightarrow>
               (case gx_png gx img of
                  None \<Rightarrow> e
                | Some b \<Rightarrow>
                    let (x, y) = vo_cursor vo (em_vt e);
                        cc = min (vo_width vo (em_vt e) - x) (max 1 (intDivCeil (im_w img) (em_cellW e)));
                        cr = min (vo_height vo (em_vt e) - y) (max 1 (intDivCeil (im_h img) (em_cellH e)))
                    in e\<lparr>em_images := em_images e @ [asset ProtoSixel (x, y) (cc, cr) ''image/png'' b img]\<rparr>))"

section \<open>Writing\<close>

text \<open>The kitty placeholder U+10EEEE is removed from the stream, as \<open>bytes.ReplaceAll\<close> does.\<close>

definition kittyPlaceholderUTF8 :: bytes where
  "kittyPlaceholderUTF8 = [0xF4, 0x8E, 0xBB, 0xAE]"

function remove_all :: "'a list \<Rightarrow> 'a list \<Rightarrow> 'a list" where
  "remove_all pat xs =
     (if pat = [] \<or> xs = [] then xs
      else if take (length pat) xs = pat then remove_all pat (drop (length pat) xs)
      else hd xs # remove_all pat (drop 1 xs))"
  by pat_completeness auto
termination
  by (relation "measure (\<lambda>(pat, xs). length xs)") (auto simp: neq_Nil_conv)

declare remove_all.simps [simp del]

text \<open>
  The loop of \<open>Write\<close> works on the emulator and on the run, the bytes not yet handed to the engine.
\<close>

definition flush :: "'v vt_ops \<Rightarrow> 'v emulator \<times> bytes \<Rightarrow> 'v emulator \<times> bytes" where
  "flush vo er = (case er of (e, run) \<Rightarrow> if run \<noteq> [] then (vt_put vo run e, []) else (e, run))"

definition apply_call :: "gfx_call \<Rightarrow> 'v emulator \<Rightarrow> 'v emulator" where
  "apply_call c e = (case c of OnMode priv params on \<Rightarrow> trackMode priv params on e | OnRIS \<Rightarrow> onRIS e)"

text \<open>One byte through the scanner, with the calls it makes.\<close>

definition emu_advance :: "(nat \<Rightarrow> nat) \<Rightarrow> byte \<Rightarrow> 'v emulator \<Rightarrow> gfx_evt \<times> 'v emulator" where
  "emu_advance rw b e =
     (case advance rw b (em_scanner e) of
        (ev, calls, s) \<Rightarrow> (ev, (fold apply_call calls e)\<lparr>em_scanner := s\<rparr>))"

definition wrap_wide :: "'v vt_ops \<Rightarrow> 'v emulator \<times> bytes \<Rightarrow> 'v emulator \<times> bytes" where
  "wrap_wide vo er =
     (let w = gs_w (em_scanner (fst er))
      in if w > 1 then
           case flush vo er of
             (e, run) \<Rightarrow> if fst (vo_cursor vo (em_vt e)) + int w > vo_width vo (em_vt e)
                         then (vt_put vo [0x0D, 0x0A] e, run) else (e, run)
         else er)"

definition insert_blank :: "'v vt_ops \<Rightarrow> 'v emulator \<times> bytes \<Rightarrow> 'v emulator \<times> bytes" where
  "insert_blank vo er =
     (let sc = em_scanner (fst er)
      in if gs_insertMode sc \<and> gs_w sc > 0 then
           case flush vo er of
             (e, run) \<Rightarrow> (vt_put vo ([0x1b, 0x5b] @ bytes_of (nat_itoa (gs_w sc)) @ [0x40]) e, run)
         else er)"

definition on_rune :: "'v vt_ops \<Rightarrow> 'v emulator \<times> bytes \<Rightarrow> 'v emulator \<times> bytes" where
  "on_rune vo er =
     (case insert_blank vo (wrap_wide vo er) of (e, run) \<Rightarrow> (e, run @ gs_runeBuf (em_scanner e)))"

definition on_replaced :: "'v emulator \<times> bytes \<Rightarrow> 'v emulator \<times> bytes" where
  "on_replaced er =
     (case er of
        (e, run) \<Rightarrow>
          let cut = min (gs_csiLen (em_scanner e) - 1) (length run)
          in (e, take (length run - cut) run @ gs_replacement (em_scanner e)))"

definition on_payload ::
  "'v vt_ops \<Rightarrow> (bytes \<Rightarrow> 'v emulator \<Rightarrow> 'v emulator) \<Rightarrow> byte \<Rightarrow> 'v emulator \<times> bytes \<Rightarrow> 'v emulator \<times> bytes" where
  "on_payload vo handle b er =
     (case flush vo (fst er, snd er @ [b]) of
        (e, run) \<Rightarrow>
          let e1 = handle (gs_payload (em_scanner e)) e
          in (e1\<lparr>em_scanner := (em_scanner e1)\<lparr>gs_payload := []\<rparr>\<rparr>, run))"

definition write_byte ::
  "gfx_env \<Rightarrow> (nat \<Rightarrow> nat) \<Rightarrow> 'v vt_ops \<Rightarrow> byte \<Rightarrow> 'v emulator \<times> bytes \<Rightarrow> 'v emulator \<times> bytes" where
  "write_byte gx rw vo b er =
     (case er of
        (e, run) \<Rightarrow>
          (case emu_advance rw b e of
             (ev, e1) \<Rightarrow>
               (case ev of
                  GfxRune \<Rightarrow> on_rune vo (e1, run)
                | GfxCSIReplaced \<Rightarrow> on_replaced (e1, run)
                | GfxOSCPayload \<Rightarrow> on_payload vo (handleOSC gx vo) b (e1, run)
                | GfxDCSPayload \<Rightarrow> on_payload vo (handleDCS gx vo) b (e1, run)
                | GfxAPCPayload \<Rightarrow> on_payload vo (handleAPC gx vo) b (e1, run)
                | GfxNone \<Rightarrow> (e1, if bufferingRune (em_scanner e1) then run else run @ [b]))))"

definition emu_write ::
  "gfx_env \<Rightarrow> (nat \<Rightarrow> nat) \<Rightarrow> 'v vt_ops \<Rightarrow> bytes \<Rightarrow> 'v emulator \<Rightarrow> nat \<times> 'v emulator" where
  "emu_write gx rw vo p0 e =
     (if p0 = [] then (0, e)
      else
        let p = remove_all kittyPlaceholderUTF8 p0
        in (length p, fst (flush vo (fold (write_byte gx rw vo) p (e, [])))))"

section \<open>The screen and its snapshots\<close>

definition colorFromVT :: "vt_color \<Rightarrow> color" where
  "colorFromVT c =
     (case c of
        VNone \<Rightarrow> defaultColor
      | VBasic i \<Rightarrow> defaultColor\<lparr>co_mode := ColorIndex, co_index := i\<rparr>
      | VIndexed i \<Rightarrow> defaultColor\<lparr>co_mode := ColorIndex, co_index := i\<rparr>
      | VRGBA r g b \<Rightarrow>
          defaultColor\<lparr>co_mode := ColorRGB, co_rgb := (push_bit 16 (ucast r) OR push_bit 8 (ucast g) OR ucast b)\<rparr>
      | VOther r g b \<Rightarrow>
          defaultColor\<lparr>co_mode := ColorRGB,
            co_rgb := (push_bit 16 (word_of_nat (r div 256)) OR push_bit 8 (word_of_nat (g div 256))
                       OR word_of_nat (b div 256))\<rparr>)"

definition vtCellToGrid :: "vt_cell \<Rightarrow> cell" where
  "vtCellToGrid vc =
     (if uc_width vc = 0 then zero_cell
      else
        let at = uc_attrs vc
        in \<lparr>ce_rune = (if uc_content vc = [] then 0 else fst (decode_rune (uc_content vc))),
            ce_fg = colorFromVT (uc_fg vc), ce_bg = colorFromVT (uc_bg vc),
            ce_bold = (AttrBold \<in> set at), ce_dim = (AttrFaint \<in> set at), ce_italic = (AttrItalic \<in> set at),
            ce_underline = uc_underline vc, ce_blink = (AttrBlink \<in> set at \<or> AttrRapidBlink \<in> set at),
            ce_reverse = (AttrReverse \<in> set at), ce_invisible = (AttrConceal \<in> set at),
            ce_strikethrough = (AttrStrikethrough \<in> set at)\<rparr>)"

text \<open>\<open>n\<close> cells of a row from column \<open>x\<close>; a wide character takes two if there is room for them.\<close>

fun screen_row :: "(nat \<Rightarrow> vt_cell option) \<Rightarrow> nat \<Rightarrow> nat \<Rightarrow> cell list" where
  "screen_row at x 0 = []"
| "screen_row at x (Suc 0) =
     [case at x of None \<Rightarrow> blankCell defaultColor | Some vc \<Rightarrow> vtCellToGrid vc]"
| "screen_row at x (Suc (Suc n)) =
     (case at x of
        None \<Rightarrow> blankCell defaultColor # screen_row at (x + 1) (Suc n)
      | Some vc \<Rightarrow>
          if uc_width vc > 1 then vtCellToGrid vc # zero_cell # screen_row at (x + 2) n
          else vtCellToGrid vc # screen_row at (x + 1) (Suc n))"

definition emu_screen :: "'v vt_ops \<Rightarrow> 'v emulator \<Rightarrow> grid" where
  "emu_screen vo e =
     (let cols = nat (vo_width vo (em_vt e)); rows = nat (vo_height vo (em_vt e))
      in \<lparr>gr_rows = rows, gr_cols = cols,
          gr_cells = map (\<lambda>y. screen_row (\<lambda>x. vo_cell vo (em_vt e) x y) 0 cols) [0..<rows]\<rparr>)"

record snapshot =
  sn_cols :: int
  sn_rows :: int
  sn_cursorRow :: int
  sn_cursorCol :: int
  sn_cursorVisible :: bool
  sn_images :: "image_asset list"
  sn_cellW :: int
  sn_cellH :: int
  sn_takenAt :: int
  sn_grid :: grid

definition emu_snapshot :: "'v vt_ops \<Rightarrow> int \<Rightarrow> 'v emulator \<Rightarrow> snapshot" where
  "emu_snapshot vo now e =
     (let (x, y) = vo_cursor vo (em_vt e)
      in \<lparr>sn_cols = vo_width vo (em_vt e), sn_rows = vo_height vo (em_vt e), sn_cursorRow = y, sn_cursorCol = x,
          sn_cursorVisible = em_cursorVisible e, sn_images = em_images e, sn_cellW = em_cellW e,
          sn_cellH = em_cellH e, sn_takenAt = now, sn_grid = cloneGrid (emu_screen vo e)\<rparr>)"

definition snapshot_text :: "snapshot \<Rightarrow> string" where
  "snapshot_text s = grid_text (sn_grid s)"

definition snapshot_cells :: "snapshot \<Rightarrow> cell_json list" where
  "snapshot_cells s = cellsJSON (sn_grid s)"

section \<open>The JSON document of a captured screen\<close>

record document =
  dc_version :: nat
  dc_engine :: string
  dc_command :: string
  dc_args :: "string list"
  dc_cols :: int
  dc_rows :: int
  dc_cellW :: int
  dc_cellH :: int
  dc_exitCode :: "int option"
  dc_timedOut :: bool
  dc_durationMS :: int
  dc_text :: string
  dc_cells :: "cell_json list"
  dc_images :: "image_json list"
  dc_cursorRow :: int
  dc_cursorCol :: int
  dc_cursorVisible :: bool
  dc_capturedAt :: string

text \<open>\<open>capturedAt\<close> is the formatted current time; a duration is in nanoseconds.\<close>

definition newDocument ::
  "'v vt_ops \<Rightarrow> string \<Rightarrow> string \<Rightarrow> string list \<Rightarrow> int option \<Rightarrow> bool \<Rightarrow> int \<Rightarrow> image_asset list
     \<Rightarrow> int \<Rightarrow> int \<Rightarrow> bool \<Rightarrow> 'v emulator \<Rightarrow> document" where
  "newDocument vo capturedAt command args exitCode timedOut duration images cellW cellH withCells e =
     \<lparr>dc_version = 1, dc_engine = ''native'', dc_command = command, dc_args = args,
      dc_cols = vo_width vo (em_vt e), dc_rows = vo_height vo (em_vt e), dc_cellW = cellW, dc_cellH = cellH,
      dc_exitCode = exitCode, dc_timedOut = timedOut, dc_durationMS = duration sdiv 1000000,
      dc_text = grid_text (emu_screen vo e),
      dc_cells = (if withCells then cellsJSON (emu_screen vo e) else []),
      dc_images = imagesJSON images,
      dc_cursorRow = snd (vo_cursor vo (em_vt e)), dc_cursorCol = fst (vo_cursor vo (em_vt e)),
      dc_cursorVisible = em_cursorVisible e, dc_capturedAt = capturedAt\<rparr>"

end
