(* ===== verification/Emulator_Props.thy ===== *)
theory Emulator_Props
  imports Emulator
begin

text \<open>
  What the screen mirror does with its input: plain output reaches the engine unchanged and in one
  piece, wide characters wrap, pictures are placed on the screen, chunked transmissions are put
  together, what is held stays within its limits, and the screen taken is well formed.
\<close>

section \<open>Frames\<close>

text \<open>Two emulators that agree except in the scanner.\<close>

definition same_but_scanner :: "'v emulator \<Rightarrow> 'v emulator \<Rightarrow> bool" where
  "same_but_scanner e e' \<longleftrightarrow> (\<exists>s. e' = e\<lparr>em_scanner := s\<rparr>)"

lemma same_but_scanner_refl [simp]: "same_but_scanner e e"
  unfolding same_but_scanner_def by (rule exI [of _ "em_scanner e"]) simp

lemma same_but_scannerD:
  assumes "same_but_scanner e e'"
  shows "em_vt e' = em_vt e" "em_images e' = em_images e" "em_kittyPending e' = em_kittyPending e"
    "em_answers e' = em_answers e" "em_cursorVisible e' = em_cursorVisible e"
    "em_cellW e' = em_cellW e" "em_cellH e' = em_cellH e" "em_answersCap e' = em_answersCap e"
  using assms by (auto simp: same_but_scanner_def)

section \<open>Plain output\<close>

text \<open>
  Feeding a piece of output that the scanner consumes without calling its owner and without an
  event other than a narrow rune: the piece is appended to the run.
\<close>

lemma write_none:
  assumes "advance rw b (em_scanner e) = (GfxNone, [], s)" and "gs_state s \<noteq> GsUTF8"
  shows "write_byte gx rw vo b (e, run) = (e\<lparr>em_scanner := s\<rparr>, run @ [b])"
  using assms by (simp add: write_byte_def emu_advance_def bufferingRune_def)

lemma write_buffered:
  assumes "advance rw b (em_scanner e) = (GfxNone, [], s)" and "gs_state s = GsUTF8"
  shows "write_byte gx rw vo b (e, run) = (e\<lparr>em_scanner := s\<rparr>, run)"
  using assms by (simp add: write_byte_def emu_advance_def bufferingRune_def)

lemma write_rune:
  assumes "advance rw b (em_scanner e) = (GfxRune, [], s)"
  shows "write_byte gx rw vo b (e, run) = on_rune vo (e\<lparr>em_scanner := s\<rparr>, run)"
  using assms by (simp add: write_byte_def emu_advance_def)

lemma on_rune_narrow:
  assumes "gs_w (em_scanner e) \<le> 1" and "\<not> gs_insertMode (em_scanner e)"
  shows "on_rune vo (e, run) = (e, run @ gs_runeBuf (em_scanner e))"
  using assms by (simp add: on_rune_def wrap_wide_def insert_blank_def Let_def)

lemma scan_ground_insert [simp]:
  "gs_insertMode (snd (snd (scan_ground b s))) = gs_insertMode s"
  by (simp add: scan_ground_def)

text \<open>A rune, byte by byte: nothing reaches the run before the rune is complete.\<close>

lemma write_lead:
  assumes "gs_state (em_scanner e) = GsScan" and "0xC2 \<le> n" and "n \<le> 0xF4"
  shows "write_byte gx rw vo (nbyte n) (e, run) = (e\<lparr>em_scanner := (em_scanner e)
     \<lparr>gs_utf8Buf := [nbyte n], gs_utf8Need := (if n \<le> 0xDF then 2 else if n \<le> 0xEF then 3 else 4),
       gs_state := GsUTF8\<rparr>\<rparr>, run)"
  using lead_steps [OF assms] by (rule write_buffered) simp

lemma write_cont:
  assumes "gs_state (em_scanner e) = GsUTF8"
    and "length (gs_utf8Buf (em_scanner e)) + 1 < gs_utf8Need (em_scanner e)"
  shows "write_byte gx rw vo (cont_byte x) (e, run) = (e\<lparr>em_scanner := (em_scanner e)
     \<lparr>gs_utf8Buf := gs_utf8Buf (em_scanner e) @ [cont_byte x]\<rparr>\<rparr>, run)"
  using cont_step [OF assms(1), of rw x] assms by (intro write_buffered) simp_all

lemma write_last:
  assumes "gs_state (em_scanner e) = GsUTF8"
    and "length (gs_utf8Buf (em_scanner e)) + 1 = gs_utf8Need (em_scanner e)"
  shows "write_byte gx rw vo (cont_byte x) (e, run) =
     (let buf = gs_utf8Buf (em_scanner e) @ [cont_byte x]
      in on_rune vo (e\<lparr>em_scanner := (em_scanner e)
           \<lparr>gs_utf8Buf := [], gs_utf8Need := 0, gs_state := GsScan, gs_rn := fst (decode_rune buf),
             gs_w := rw (fst (decode_rune buf)), gs_runeBuf := buf, gs_lastRune := buf\<rparr>\<rparr>, run))"
  unfolding Let_def
  by (rule write_rune) (use cont_step [OF assms(1), of rw x] assms in \<open>simp add: Let_def\<close>)

lemma write_scalar:
  assumes "gs_state (em_scanner e) = GsScan" and "is_scalar c" and "c \<noteq> 0x1b"
  shows "\<exists>s. fold (write_byte gx rw vo) (encode_scalar c) (e, run) = on_rune vo (e\<lparr>em_scanner := s\<rparr>, run)
     \<and> rune_seen rw c s \<and> gs_insertMode s = gs_insertMode (em_scanner e)"
proof (cases "c < 0x80")
  case True
  then have u: "unat (nbyte c) = c" by simp
  with assms(3) have "nbyte c \<noteq> 0x1b" by (auto simp: word_unat_eq_iff)
  with True u assms(1) have "advance rw (nbyte c) (em_scanner e) = (GfxRune, [], (em_scanner e)
      \<lparr>gs_rn := c, gs_w := 1, gs_runeBuf := [nbyte c], gs_lastRune := [nbyte c]\<rparr>)"
    by (simp add: advance_def scan_ground_def word_less_nat_alt)
  from write_rune [OF this] True assms(1) show ?thesis
    by (simp add: encode_scalar_def rune_seen_def) (rule exI, rule conjI, rule refl, simp)
next
  case False
  have dec: "fst (decode_rune (encode_scalar c)) = c"
    using decode_encode_scalar [OF assms(2), of "[]"] by simp
  consider "0x80 \<le> c" "c < 0x800" | "0x800 \<le> c" "c < 0x10000" | "0x10000 \<le> c" using False by linarith
  then show ?thesis
  proof cases
    case 1
    then have e: "encode_scalar c = [nbyte (0xC0 + c div 64), cont_byte c]"
      and b: "0xC2 \<le> 0xC0 + c div 64" "0xC0 + c div 64 \<le> 0xDF"
      by (auto simp: encode_scalar_def)
    with dec 1 assms(1) show ?thesis
      by (simp add: write_lead write_last Let_def rune_seen_def) (rule exI, rule conjI, rule refl, simp)
  next
    case 2
    then have e: "encode_scalar c = [nbyte (0xE0 + c div 4096), cont_byte (c div 64), cont_byte c]"
      and "0xE0 + c div 4096 \<le> 0xEF"
      by (auto simp: encode_scalar_def)
    with dec 2 assms(1) show ?thesis
      by (simp add: write_lead write_cont write_last Let_def rune_seen_def) (rule exI, rule conjI, rule refl, simp)
  next
    case 3
    then have e: "encode_scalar c
        = [nbyte (0xF0 + c div 262144), cont_byte (c div 4096), cont_byte (c div 64), cont_byte c]"
      and "0xF0 + c div 262144 \<le> 0xF4"
      using assms(2) by (auto simp: encode_scalar_def is_scalar_def)
    with dec 3 assms(1) show ?thesis
      by (simp add: write_lead write_cont write_last Let_def rune_seen_def) (rule exI, rule conjI, rule refl, simp)
  qed
qed

text \<open>Emulators that agree in the engine, the pictures, the pending transmission and the answers.\<close>

definition quiet :: "'v emulator \<Rightarrow> 'v emulator \<Rightarrow> bool" where
  "quiet e e' \<longleftrightarrow> em_vt e' = em_vt e \<and> em_images e' = em_images e \<and> em_kittyPending e' = em_kittyPending e
     \<and> em_answers e' = em_answers e"

lemma quiet_refl [simp]: "quiet e e"
  by (simp add: quiet_def)

lemma quiet_trans: "quiet e e' \<Longrightarrow> quiet e' e'' \<Longrightarrow> quiet e e''"
  by (simp add: quiet_def)

lemma quiet_scanner [simp]: "quiet e (e'\<lparr>em_scanner := s\<rparr>) = quiet e e'"
  by (simp add: quiet_def)

definition ground :: "'v emulator \<Rightarrow> bool" where
  "ground e \<longleftrightarrow> gs_state (em_scanner e) = GsScan \<and> \<not> gs_insertMode (em_scanner e)"

text \<open>Pieces of plain output: a rune, or a CSI sequence (private marker, parameter bytes, final byte).\<close>

datatype piece = Rune nat | Csi bool bytes byte

fun piece_bytes :: "piece \<Rightarrow> bytes" where
  "piece_bytes (Rune c) = encode_scalar c"
| "piece_bytes (Csi p bs f) = [0x1b, 0x5b] @ (if p then [0x3f] else []) @ bs @ [f]"

text \<open>
  Runes at most one cell wide, and CSI sequences other than those the mirror replaces (\<open>s\<close>, \<open>u\<close>,
  \<open>b\<close>) and those that switch the insert mode.
\<close>

fun piece_plain :: "(nat \<Rightarrow> nat) \<Rightarrow> piece \<Rightarrow> bool" where
  "piece_plain rw (Rune c) \<longleftrightarrow> is_scalar c \<and> c \<noteq> 0x1b \<and> (c < 0x80 \<or> rw c \<le> 1)"
| "piece_plain rw (Csi p bs f) \<longleftrightarrow>
     list_all (\<lambda>b. (0x30 \<le> b \<and> b \<le> 0x39) \<or> b = 0x3b \<or> b = 0x3a) bs
     \<and> 0x40 \<le> f \<and> f \<le> 0x7e \<and> f \<noteq> 0x73 \<and> f \<noteq> 0x75 \<and> f \<noteq> 0x62
     \<and> (\<not> p \<and> (f = 0x68 \<or> f = 0x6c) \<longrightarrow> 4 \<notin> set (parseParams bs))"

lemma write_params:
  assumes "gs_state (em_scanner e) = GsCSI"
    and "list_all (\<lambda>b. (0x30 \<le> b \<and> b \<le> 0x39) \<or> b = 0x3b \<or> b = 0x3a) bs"
  shows "fold (write_byte gx rw vo) bs (e, run) = (e\<lparr>em_scanner := (em_scanner e)
     \<lparr>gs_csiLen := gs_csiLen (em_scanner e) + length bs, gs_paramStr := gs_paramStr (em_scanner e) @ bs\<rparr>\<rparr>,
     run @ bs)"
  using assms
proof (induction bs arbitrary: e run)
  case (Cons b bs)
  have "b \<noteq> 0x3f" using Cons.prems(2) by (auto simp: word_le_nat_alt)
  with Cons.prems have "advance rw b (em_scanner e) = (GfxNone, [], (em_scanner e)
      \<lparr>gs_csiLen := gs_csiLen (em_scanner e) + 1, gs_paramStr := gs_paramStr (em_scanner e) @ [b]\<rparr>)"
    by (simp add: advance_def scan_csi_def Let_def)
  from write_none [OF this] Cons show ?case by simp
qed simp

lemma quiet_calls: "quiet e (fold apply_call [OnMode p ps on] e)"
  by (simp add: apply_call_def trackMode_def quiet_def)

lemma csi_final_plain:
  assumes "gs_state s = GsCSI" and "0x40 \<le> f" "f \<le> 0x7e" "f \<noteq> 0x73" "f \<noteq> 0x75" "f \<noteq> 0x62"
    and "\<not> gs_priv s \<and> (f = 0x68 \<or> f = 0x6c) \<longrightarrow> 4 \<notin> set (parseParams (gs_paramStr s))"
  shows "\<exists>s' cs. advance rw f s = (GfxNone, cs, s') \<and> gs_state s' = GsScan
     \<and> gs_insertMode s' = gs_insertMode s \<and> (cs = [] \<or> (\<exists>p ps on. cs = [OnMode p ps on]))"
proof -
  have c: "(f = 0x3f) = False" "((0x30 \<le> f \<and> f \<le> 0x39) \<or> f = 0x3b \<or> f = 0x3a) = False"
    "(0x20 \<le> f \<and> f \<le> 0x3e) = False" "(0x40 \<le> f \<and> f \<le> 0x7e) = True"
    using assms(2,3) by (auto simp: word_le_nat_alt)
  have "scan_csi f s = csi_final f (s\<lparr>gs_csiLen := gs_csiLen s + 1\<rparr>)"
    unfolding scan_csi_def Let_def c if_False if_True ..
  then have "advance rw f s = csi_final f (s\<lparr>gs_csiLen := gs_csiLen s + 1\<rparr>)"
    using assms(1) by (simp add: advance_def)
  with assms(4-) show ?thesis by (auto simp: csi_final_def Let_def)
qed

lemma write_csi:
  assumes "ground e" and "piece_plain rw (Csi p bs f)"
  shows "\<exists>e'. fold (write_byte gx rw vo) (piece_bytes (Csi p bs f)) (e, run) = (e', run @ piece_bytes (Csi p bs f))
     \<and> quiet e e' \<and> ground e'"
proof -
  define s0 where "s0 = (em_scanner e)\<lparr>gs_state := GsCSI, gs_priv := p, gs_paramStr := [],
      gs_csiLen := (if p then 3 else 2)\<rparr>"
  have 1: "fold (write_byte gx rw vo) ([0x1b, 0x5b] @ (if p then [0x3f] else [])) (e, run)
      = (e\<lparr>em_scanner := s0\<rparr>, run @ [0x1b, 0x5b] @ (if p then [0x3f] else []))"
    using assms(1) by (simp add: ground_def s0_def write_byte_def emu_advance_def bufferingRune_def
        advance_def scan_ground_def scan_esc_def scan_csi_def Let_def)
  let ?s = "s0\<lparr>gs_csiLen := gs_csiLen s0 + length bs, gs_paramStr := gs_paramStr s0 @ bs\<rparr>"
  have 2: "fold (write_byte gx rw vo) bs (e\<lparr>em_scanner := s0\<rparr>, r) = (e\<lparr>em_scanner := ?s\<rparr>, r @ bs)" for r
    using write_params [of "e\<lparr>em_scanner := s0\<rparr>" bs gx rw vo r] assms(2) by (simp add: s0_def)
  obtain s' cs where adv: "advance rw f ?s = (GfxNone, cs, s')" "gs_state s' = GsScan"
      "gs_insertMode s' = gs_insertMode s0" "cs = [] \<or> (\<exists>p ps on. cs = [OnMode p ps on])"
    using csi_final_plain [of ?s f rw] assms(2) by (auto simp: s0_def)
  define e' where "e' = (fold apply_call cs (e\<lparr>em_scanner := ?s\<rparr>))\<lparr>em_scanner := s'\<rparr>"
  have 3: "write_byte gx rw vo f (e\<lparr>em_scanner := ?s\<rparr>, r) = (e', r @ [f])" for r
    using adv(1,2) by (simp add: write_byte_def emu_advance_def bufferingRune_def e'_def)
  have "quiet e e'"
    using adv(4) quiet_calls [of "e\<lparr>em_scanner := ?s\<rparr>"] unfolding e'_def
    by (auto simp: quiet_def)
  moreover have "ground e'" using adv(2,3) assms(1) by (simp add: ground_def e'_def s0_def)
  ultimately show ?thesis
    using 1 2 3 by (auto simp del: fold_simps)
qed

lemma write_piece:
  assumes "ground e" and "piece_plain rw x"
  shows "\<exists>e'. fold (write_byte gx rw vo) (piece_bytes x) (e, run) = (e', run @ piece_bytes x)
     \<and> quiet e e' \<and> ground e'"
proof (cases x)
  case (Csi p bs f)
  with assms write_csi show ?thesis by blast
next
  case (Rune c)
  with assms have c: "is_scalar c" "c \<noteq> 0x1b" "c < 0x80 \<or> rw c \<le> 1" and g: "gs_state (em_scanner e) = GsScan"
    by (auto simp: ground_def)
  from write_scalar [OF g c(1,2), of gx rw vo run] obtain s where
    s: "fold (write_byte gx rw vo) (encode_scalar c) (e, run) = on_rune vo (e\<lparr>em_scanner := s\<rparr>, run)"
      "rune_seen rw c s" "gs_insertMode s = gs_insertMode (em_scanner e)" by blast
  have "on_rune vo (e\<lparr>em_scanner := s\<rparr>, run) = (e\<lparr>em_scanner := s\<rparr>, run @ encode_scalar c)"
    using s(2,3) c(3) assms(1) on_rune_narrow [of "e\<lparr>em_scanner := s\<rparr>" vo run]
    by (auto simp: rune_seen_def ground_def)
  with s assms(1) Rune show ?thesis
    by (auto simp: rune_seen_def ground_def)
qed

lemma write_pieces:
  assumes "ground e" and "list_all (piece_plain rw) xs"
  shows "\<exists>e'. fold (write_byte gx rw vo) (concat (map piece_bytes xs)) (e, run)
       = (e', run @ concat (map piece_bytes xs)) \<and> quiet e e' \<and> ground e'"
  using assms
proof (induction xs arbitrary: e run)
  case (Cons x xs)
  obtain e1 where 1: "fold (write_byte gx rw vo) (piece_bytes x) (e, run) = (e1, run @ piece_bytes x)"
    "quiet e e1" "ground e1"
    using write_piece [of e rw x gx vo run] Cons.prems by auto
  obtain e2 where "fold (write_byte gx rw vo) (concat (map piece_bytes xs)) (e1, run @ piece_bytes x)
      = (e2, (run @ piece_bytes x) @ concat (map piece_bytes xs))" "quiet e1 e2" "ground e2"
    using Cons.IH [OF 1(3), of "run @ piece_bytes x"] Cons.prems by auto
  with 1 show ?case by (auto intro: quiet_trans)
qed simp


text \<open>An engine that only records what is written to it, 80 columns wide, for concrete runs.\<close>

definition rec_ops :: "bytes vt_ops" where
  "rec_ops = \<lparr>vo_write = (\<lambda>bs v. v @ bs), vo_resize = (\<lambda>_ _ v. v), vo_width = (\<lambda>_. 80), vo_height = (\<lambda>_. 24),
              vo_cursor = (\<lambda>_. (0, 0)), vo_cell = (\<lambda>_ _ _. None)\<rparr>"

definition no_gfx :: gfx_env where
  "no_gfx = \<lparr>gx_decode = (\<lambda>_. None), gx_zlib = (\<lambda>_. None), gx_sixel = (\<lambda>_. None), gx_png = (\<lambda>_. None),
             gx_aspect = (\<lambda>_ _ _ _. 1)\<rparr>"

definition rec_emulator :: "bytes emulator" where
  "rec_emulator = newEmulator (\<lambda>_ _. []) 80 24"

lemma rec_ground: "ground rec_emulator"
  by (simp add: ground_def rec_emulator_def newEmulator_def new_scanner_def)


section \<open>Wide characters\<close>

text \<open>
  A wide character that does not fit in the rest of the line is preceded by a line
  break; one that fits is passed on as it is.
\<close>

lemma wide_character_wraps:
  assumes "ground e" and "is_scalar c" and "0x80 \<le> c" and "rw c > 1"
    and "remove_all kittyPlaceholderUTF8 p = encode_scalar c"
  shows "em_vt (snd (emu_write gx rw vo p e)) =
     vo_write vo (encode_scalar c)
       (if fst (vo_cursor vo (em_vt e)) + int (rw c) > vo_width vo (em_vt e)
        then vo_write vo [0x0D, 0x0A] (em_vt e) else em_vt e)"
proof -
  have "c \<noteq> 0x1b" using assms(3) by auto
  with assms obtain s where s: "fold (write_byte gx rw vo) (encode_scalar c) (e, []) = on_rune vo (e\<lparr>em_scanner := s\<rparr>, [])"
      "rune_seen rw c s" "gs_insertMode s = gs_insertMode (em_scanner e)"
    using write_scalar [of e c gx rw vo "[]"] by (auto simp: ground_def)
  have ne: "encode_scalar c \<noteq> []" using encode_scalar_length [of c] by auto
  then have "p \<noteq> []" using assms(5) by (auto simp: remove_all.simps)
  then have "snd (emu_write gx rw vo p e) = fst (flush vo (on_rune vo (e\<lparr>em_scanner := s\<rparr>, [])))"
    using s(1) assms(5) by (simp add: emu_write_def Let_def)
  moreover have "gs_w s = rw c" "gs_runeBuf s = encode_scalar c" "\<not> gs_insertMode s"
    using s(2,3) assms(1,3) by (auto simp: rune_seen_def ground_def)
  ultimately show ?thesis
    using assms(4) ne by (simp add: on_rune_def wrap_wide_def insert_blank_def Let_def flush_def vt_put_def)
qed

lemma wide_character_wraps_witness:
  "em_vt (snd (emu_write no_gfx (\<lambda>_. 2) (rec_ops\<lparr>vo_cursor := (\<lambda>_. (79, 0))\<rparr>) [0xE4, 0xB8, 0xAD] rec_emulator))
     = [0x0D, 0x0A, 0xE4, 0xB8, 0xAD]"
proof -
  have e: "encode_scalar 0x4E2D = [0xE4, 0xB8, 0xAD]" by (simp add: encode_scalar_def nbyte_def cont_byte_def)
  have "remove_all kittyPlaceholderUTF8 [0xE4, 0xB8, 0xAD] = encode_scalar 0x4E2D"
    unfolding e by (simp add: remove_all.simps kittyPlaceholderUTF8_def)
  from wide_character_wraps [OF rec_ground _ _ _ this, of "\<lambda>_. 2" no_gfx "rec_ops\<lparr>vo_cursor := (\<lambda>_. (79, 0))\<rparr>"] e
  show ?thesis by (simp add: is_scalar_def rec_ops_def rec_emulator_def newEmulator_def)
qed

section \<open>Replaced sequences\<close>

text \<open>
  Repeating a character (\<open>CSI n b\<close>).  In one write the sequence is replaced by the
  repetitions.  Cut between two writes, its first bytes have already reached the engine, which
  takes the first repetition as the final byte of that sequence.  And when no character has been
  seen yet, the bytes spliced in are those of an earlier replacement: a cursor restored once is
  restored again.
\<close>

lemma repeat_sequence_defects:
  "em_vt (snd (emu_write no_gfx (\<lambda>_. 1) rec_ops [0x61, 0x1b, 0x5b, 0x33, 0x62] rec_emulator)) = [0x61, 0x61, 0x61, 0x61]
   \<and> em_vt (snd (emu_write no_gfx (\<lambda>_. 1) rec_ops [0x62]
         (snd (emu_write no_gfx (\<lambda>_. 1) rec_ops [0x61, 0x1b, 0x5b, 0x33] rec_emulator))))
       = [0x61, 0x1b, 0x5b, 0x33, 0x61, 0x61, 0x61]
   \<and> em_vt (snd (emu_write no_gfx (\<lambda>_. 1) rec_ops [0x1b, 0x5b, 0x75, 0x1b, 0x5b, 0x62] rec_emulator))
       = [0x1b, 0x38, 0x1b, 0x38]"
proof -
  have m: "char_of_byte 0x33 = CHR ''3''" by code_simp
  have r: "rep_count (parseParams [0x33]) = 3"
    by (simp add: parseParams_def parse_param_def is_param_sep_def string_of_bytes_def m atoi_def
        parse_digits_def digits_value_def is_digit_def digit_val_def in_int64_def min_int64_def max_int64_def
        rep_count_def repMax_def)
  note defs = emu_write_def remove_all.simps kittyPlaceholderUTF8_def write_byte_def emu_advance_def advance_def
    scan_ground_def scan_esc_def scan_csi_def csi_final_def bufferingRune_def on_rune_def wrap_wide_def
    insert_blank_def on_replaced_def flush_def vt_put_def rec_ops_def rec_emulator_def newEmulator_def
    new_scanner_def Let_def
  have 1: "em_vt (snd (emu_write no_gfx (\<lambda>_. 1) rec_ops [0x61, 0x1b, 0x5b, 0x33, 0x62] rec_emulator))
      = [0x61, 0x61, 0x61, 0x61]"
    by (simp add: defs r numeral_3_eq_3)
  have 2: "em_vt (snd (emu_write no_gfx (\<lambda>_. 1) rec_ops [0x62]
         (snd (emu_write no_gfx (\<lambda>_. 1) rec_ops [0x61, 0x1b, 0x5b, 0x33] rec_emulator))))
       = [0x61, 0x1b, 0x5b, 0x33, 0x61, 0x61, 0x61]"
    by (simp add: defs r numeral_3_eq_3)
  have 3: "em_vt (snd (emu_write no_gfx (\<lambda>_. 1) rec_ops [0x1b, 0x5b, 0x75, 0x1b, 0x5b, 0x62] rec_emulator))
      = [0x1b, 0x38, 0x1b, 0x38]"
    by (simp add: defs)
  from 1 2 3 show ?thesis by blast
qed

text \<open>
  The kitty keyboard protocol uses \<open>CSI > flags u\<close>; only the marker \<open>?\<close> makes a sequence private, so
  the mirror restores the cursor instead of passing the sequence on.
\<close>

lemma kitty_keyboard_restores_cursor:
  "em_vt (snd (emu_write no_gfx (\<lambda>_. 1) rec_ops [0x61, 0x1b, 0x5b, 0x3e, 0x31, 0x75] rec_emulator)) = [0x61, 0x1b, 0x38]"
  by (simp add: emu_write_def remove_all.simps kittyPlaceholderUTF8_def write_byte_def emu_advance_def advance_def
      scan_ground_def scan_esc_def scan_csi_def csi_final_def bufferingRune_def on_rune_def wrap_wide_def
      insert_blank_def on_replaced_def flush_def vt_put_def rec_ops_def rec_emulator_def newEmulator_def
      new_scanner_def Let_def)

section \<open>Limits\<close>

lemma fold_calls_answers: "length (em_answers (fold apply_call cs e)) \<le> length (em_answers e)"
proof (induction cs arbitrary: e)
  case (Cons c cs)
  have "length (em_answers (apply_call c e)) \<le> length (em_answers e)"
    by (cases c) (simp_all add: apply_call_def trackMode_def onRIS_def clearAnswers_def)
  with Cons.IH [of "apply_call c e"] show ?case by simp
qed simp

text \<open>The limits of the mirror: its scanner's, and those of the channel of answers.\<close>

definition emu_ok :: "'v emulator \<Rightarrow> bool" where
  "emu_ok e \<longleftrightarrow> scanner_ok (em_scanner e) \<and> length (em_answers e) \<le> answers_slots
     \<and> list_all (\<lambda>b. length b \<le> em_answersCap e) (em_answers e)"

lemma apply_call_ok: "emu_ok e \<Longrightarrow> emu_ok (apply_call c e)"
  by (cases c) (auto simp: apply_call_def trackMode_def onRIS_def clearAnswers_def emu_ok_def scanner_reset_def)

lemma fold_calls_ok: "emu_ok e \<Longrightarrow> emu_ok (fold apply_call cs e)"
  by (induction cs arbitrary: e) (simp_all add: apply_call_ok)

lemma emu_ok_scanner: "emu_ok e \<Longrightarrow> scanner_ok s \<Longrightarrow> emu_ok (e\<lparr>em_scanner := s\<rparr>)"
  by (simp add: emu_ok_def)

lemma emu_ok_frame [simp]:
  "emu_ok (e\<lparr>em_vt := v\<rparr>) = emu_ok e" "emu_ok (e\<lparr>em_images := i\<rparr>) = emu_ok e"
  "emu_ok (e\<lparr>em_kittyPending := k\<rparr>) = emu_ok e"
  by (simp_all add: emu_ok_def)

lemma vt_put_ok [simp]: "emu_ok (vt_put vo bs e) = emu_ok e"
  by (simp add: vt_put_def)

lemma clip: "0 \<le> x \<Longrightarrow> \<not> min (n - x) c \<le> 0 \<Longrightarrow> 1 \<le> min (n - x) c \<and> x + min (n - x) c \<le> (n :: int)"
  by (simp add: min_def split: if_splits)

text \<open>What adding a picture does: nothing, or one picture at the cursor, and a cursor movement.\<close>

lemma addImage_cases:
  assumes c: "vo_cursor vo (em_vt e) = (x, y)" and k: "kitty_cells (em_cellW e) (em_cellH e) img keys = (cc, cr)"
  shows "addImage vo p img m raw keys e = e
    \<or> (\<exists>bs. addImage vo p img m raw keys e =
          vt_put vo bs (e\<lparr>em_images := em_images e
            @ [asset p (x, y) (min (vo_width vo (em_vt e) - x) cc, min (vo_height vo (em_vt e) - y) cr) m raw img]\<rparr>)
        \<and> \<not> min (vo_width vo (em_vt e) - x) cc \<le> 0 \<and> \<not> min (vo_height vo (em_vt e) - y) cr \<le> 0)"
proof (cases "min (vo_width vo (em_vt e) - x) cc \<le> 0 \<or> min (vo_height vo (em_vt e) - y) cr \<le> 0")
  case True
  then show ?thesis unfolding addImage_def Let_def c k prod.case by simp
next
  case False
  then show ?thesis
    unfolding addImage_def Let_def c k prod.case moveCursorTo_def
    by (auto simp only: if_False split: prod.split)
qed

lemma addImage_ok [simp]: "emu_ok (addImage vo p img m raw keys e) = emu_ok e"
proof -
  obtain x y where c: "vo_cursor vo (em_vt e) = (x, y)" by fastforce
  obtain cc cr where k: "kitty_cells (em_cellW e) (em_cellH e) img keys = (cc, cr)" by fastforce
  from addImage_cases [OF c k, of p m raw] show ?thesis by auto
qed

lemma finishKitty_ok [simp]: "emu_ok (finishKitty gx vo keys pl e) = emu_ok e"
  by (simp add: finishKitty_def Let_def split: option.split)

lemma handle_ok [simp]:
  "emu_ok (handleAPC gx vo pl e) = emu_ok e" "emu_ok (handleOSC gx vo pl e) = emu_ok e"
  "emu_ok (handleDCS gx vo pl e) = emu_ok e"
  by (simp_all add: handleAPC_def handleOSC_def handleDCS_def Let_def split: option.split prod.split)

lemma flush_ok: "emu_ok (fst (flush vo er)) = emu_ok (fst er)"
  by (cases er) (simp add: flush_def)

lemma payload_cleared_ok: "emu_ok e \<Longrightarrow> emu_ok (e\<lparr>em_scanner := (em_scanner e)\<lparr>gs_payload := []\<rparr>\<rparr>)"
  by (simp add: emu_ok_def scanner_ok_def)

lemma on_payload_ok: "emu_ok (fst er) \<Longrightarrow> (\<And>pl e. emu_ok (h pl e) = emu_ok e) \<Longrightarrow> emu_ok (fst (on_payload vo h b er))"
  using flush_ok [of vo "(fst er, snd er @ [b])"]
  by (auto simp: on_payload_def Let_def payload_cleared_ok split: prod.split)

lemma on_rune_ok: "emu_ok (fst er) \<Longrightarrow> emu_ok (fst (on_rune vo er))"
proof -
  assume a: "emu_ok (fst er)"
  have w: "emu_ok (fst (wrap_wide vo er))"
    using a flush_ok [of vo er] by (auto simp: wrap_wide_def Let_def split: prod.split)
  have "emu_ok (fst (insert_blank vo (wrap_wide vo er)))"
    using w flush_ok [of vo "wrap_wide vo er"] by (auto simp: insert_blank_def Let_def split: prod.split)
  then show ?thesis by (auto simp: on_rune_def split: prod.split)
qed

lemma write_byte_ok:
  assumes "emu_ok (fst er)"
  shows "emu_ok (fst (write_byte gx rw vo b er))"
proof -
  obtain e run where er: "er = (e, run)" by fastforce
  obtain ev e1 where a: "emu_advance rw b e = (ev, e1)" by fastforce
  have "emu_ok e1"
    using a assms scanner_ok_advance [of "em_scanner e" rw b]
    by (auto simp: emu_advance_def er emu_ok_scanner fold_calls_ok emu_ok_def [of e] split: prod.splits
        intro!: emu_ok_scanner fold_calls_ok)
  then show ?thesis
    by (cases ev) (auto simp: write_byte_def er a on_replaced_def Let_def intro!: on_rune_ok on_payload_ok)
qed

lemma drain_queue_bound: "length out \<le> cap \<Longrightarrow> length (fst (drain_queue cap out q)) \<le> cap"
  by (induction cap out q rule: drain_queue.induct) (auto simp: Let_def)

lemma drain_queue_rest: "drain_queue cap out q = (o', q', full) \<Longrightarrow> \<exists>n. q' = drop n q"
proof (induction cap out q rule: drain_queue.induct)
  case (2 cap out b q)
  show ?case
  proof (cases "length (out @ b) \<ge> cap")
    case True
    with "2.prems" have "q' = drop 1 (b # q)" by (simp add: Let_def)
    then show ?thesis by blast
  next
    case False
    with "2.prems" have "drain_queue cap (out @ b) q = (o', q', full)" by (simp add: Let_def)
    then obtain n where "q' = drop n q" using "2.IH" [OF refl] False by auto
    then have "q' = drop (Suc n) (b # q)" by simp
    then show ?thesis by blast
  qed
qed simp

lemma list_all_drop: "list_all P xs \<Longrightarrow> list_all P (drop n xs)"
  by (auto simp: list_all_iff dest: in_set_dropD)

lemma emu_ok_queue:
  "emu_ok e \<Longrightarrow> \<exists>n. q = drop n (em_answers e) \<Longrightarrow> emu_ok (e\<lparr>em_answers := q\<rparr>)"
  by (auto simp: emu_ok_def list_all_drop)

lemma emu_ok_hits: "emu_ok e \<Longrightarrow> emu_ok (e\<lparr>em_scanner := (em_scanner e)\<lparr>gs_queryHits := n\<rparr>\<rparr>)"
  by (simp add: emu_ok_def)

lemma drain_ok:
  assumes "emu_ok e"
  shows "emu_ok (snd (drainAnswers arrivals e))"
proof -
  obtain out q full where d: "drain_queue (em_answersCap e) [] (em_answers e) = (out, q, full)"
    by (metis prod_cases3)
  have "emu_ok (e\<lparr>em_answers := q\<rparr>)"
    by (rule emu_ok_queue [OF assms drain_queue_rest [OF d]])
  with emu_ok_hits [OF this, of 0] show ?thesis
    by (cases full) (auto simp: drainAnswers_def d split: prod.split)
qed

lemma drain_length: "length (fst (drainAnswers arrivals e)) \<le> em_answersCap e"
proof -
  obtain out q full where d: "drain_queue (em_answersCap e) [] (em_answers e) = (out, q, full)"
    by (metis prod_cases3)
  with drain_queue_bound [of "[]" "em_answersCap e" "em_answers e"] have "length out \<le> em_answersCap e" by simp
  with drain_queue_bound [OF this, of arrivals] d show ?thesis
    by (cases full) (auto simp: drainAnswers_def split: prod.splits)
qed

lemma write_fold_ok: "emu_ok (fst er) \<Longrightarrow> emu_ok (fst (fold (write_byte gx rw vo) bs er))"
  by (induction bs arbitrary: er) (simp_all add: write_byte_ok)

lemma write_limits: "emu_ok e \<Longrightarrow> emu_ok (snd (emu_write gx rw vo p e))"
  using write_fold_ok [of "(e, [])" gx rw vo] by (simp add: emu_write_def Let_def flush_ok)

lemma answer_ok: "emu_ok e \<Longrightarrow> emu_ok (emu_answer b e)"
  by (simp add: emu_answer_def emu_ok_def Let_def)

lemma answers_ok: "emu_ok e \<Longrightarrow> emu_ok (fold emu_answer bs e)"
  by (induction bs arbitrary: e) (simp_all add: answer_ok)

lemma resize_ok: "emu_ok e \<Longrightarrow> emu_ok (emu_resize vo c r e)"
  by (simp add: emu_resize_def emu_ok_def clearAnswers_def scanner_reset_def Let_def)

lemma newEmulator_ok: "emu_ok (newEmulator new_vt c r)"
  by (simp add: emu_ok_def newEmulator_def)

section \<open>Transmissions in chunks\<close>

definition apc_payload :: "string \<Rightarrow> string \<Rightarrow> bytes" where
  "apc_payload head data = bytes_of (''G'' @ head @ '';'' @ data)"

definition transmits :: "string \<Rightarrow> bool" where
  "transmits head \<longleftrightarrow> CHR '';'' \<notin> set head
     \<and> key (parseKittyKeys head) ''a'' \<notin> {''q'', ''r'', ''D'', ''c'', ''f'', ''p''}"

definition more_follows :: "string \<Rightarrow> bool" where
  "more_follows head \<longleftrightarrow> key (parseKittyKeys head) ''m'' = ''1''"

lemma str_cut_char: "c \<notin> set a \<Longrightarrow> str_cut [c] (a @ c # b) = Some (a, b)"
  by (induction a) (auto simp: has_prefix_def)

lemma handleAPC_payload:
  assumes "transmits head"
  shows "handleAPC gx vo (apc_payload head data) e =
    (let keys = parseKittyKeys head; pend = em_kittyPending e
     in if more_follows head then
          e\<lparr>em_kittyPending :=
              \<lparr>kp_keys = (if kp_data pend = '''' \<and> kp_keys pend = None then Some keys else kp_keys pend),
               kp_data = kp_data pend @ data\<rparr>\<rparr>
        else if kp_data pend \<noteq> '''' then
          finishKitty gx vo (case kp_keys pend of None \<Rightarrow> [] | Some k \<Rightarrow> k) (kp_data pend @ data)
            (e\<lparr>em_kittyPending := no_pending\<rparr>)
        else (finishKitty gx vo keys data e)\<lparr>em_kittyPending := no_pending\<rparr>)"
proof -
  have g: "byte_of_char (CHR ''G'') = 0x47" by code_simp
  have d: "string_of_bytes (drop 1 (apc_payload head data)) = head @ CHR '';'' # data"
    by (simp add: apc_payload_def bytes_of_def string_of_bytes_def comp_def)
  have c: "str_cut '';'' (head @ CHR '';'' # data) = Some (head, data)"
    by (rule str_cut_char) (use assms in \<open>simp add: transmits_def\<close>)
  have "apc_payload head data \<noteq> []" "apc_payload head data ! 0 = 0x47"
    by (simp_all add: apc_payload_def bytes_of_def g)
  with assms show ?thesis
    unfolding handleAPC_def Let_def d c by (simp add: transmits_def more_follows_def)
qed

lemma chunks_pending:
  assumes "list_all (\<lambda>(h, d). transmits h \<and> more_follows h) cs" and "kp_keys (em_kittyPending e) = Some k"
  shows "fold (handleAPC gx vo) (map (\<lambda>(h, d). apc_payload h d) cs) e
     = e\<lparr>em_kittyPending := \<lparr>kp_keys = Some k, kp_data = kp_data (em_kittyPending e) @ concat (map snd cs)\<rparr>\<rparr>"
  using assms
proof (induction cs arbitrary: e)
  case (Cons c cs)
  obtain h d where c: "c = (h, d)" by fastforce
  have "handleAPC gx vo (apc_payload h d) e
      = e\<lparr>em_kittyPending := \<lparr>kp_keys = Some k, kp_data = kp_data (em_kittyPending e) @ d\<rparr>\<rparr>"
    using Cons.prems by (simp add: c handleAPC_payload Let_def)
  with Cons show ?case by (simp add: c)
qed (cases e, simp)

text \<open>
  Property C22.  A picture sent in chunks is put together: with no transmission pending, chunks
  that announce more, followed by one that does not, are decoded once, with the control keys of the
  first chunk and the data of all of them.  Nothing limits the data a transmission may accumulate.
\<close>

theorem kitty_chunks_reassembled:
  assumes "em_kittyPending e = no_pending" and "cs \<noteq> []"
    and "list_all (\<lambda>(h, d). transmits h \<and> more_follows h) cs" and "concat (map snd cs) \<noteq> ''''"
    and "transmits hl" and "\<not> more_follows hl"
  shows "handleAPC gx vo (apc_payload hl dl) (fold (handleAPC gx vo) (map (\<lambda>(h, d). apc_payload h d) cs) e)
     = finishKitty gx vo (parseKittyKeys (fst (hd cs))) (concat (map snd cs) @ dl) e"
proof -
  obtain h d cs' where cs: "cs = (h, d) # cs'" using assms(2) by (cases cs) auto
  let ?k = "parseKittyKeys h"
  let ?e1 = "e\<lparr>em_kittyPending := \<lparr>kp_keys = Some ?k, kp_data = d\<rparr>\<rparr>"
  have "handleAPC gx vo (apc_payload h d) e = ?e1"
    using assms(1,3) by (simp add: cs handleAPC_payload Let_def no_pending_def)
  then have f: "fold (handleAPC gx vo) (map (\<lambda>(h, d). apc_payload h d) cs) e
      = e\<lparr>em_kittyPending := \<lparr>kp_keys = Some ?k, kp_data = concat (map snd cs)\<rparr>\<rparr>"
    using chunks_pending [of cs' ?e1 ?k gx vo] assms(3) by (simp add: cs)
  have e: "e\<lparr>em_kittyPending := no_pending\<rparr> = e" using assms(1) by (cases e) simp
  show ?thesis
    using assms(4) e unfolding f handleAPC_payload [OF assms(5)] Let_def
    by (simp add: assms(6) cs)
qed

theorem kitty_chunks_reassembled_witness:
  "handleAPC no_gfx rec_ops (apc_payload ''m=0'' ''QQ=='')
     (fold (handleAPC no_gfx rec_ops) (map (\<lambda>(h, d). apc_payload h d) [(''f=100,m=1'', ''QUJD''), (''m=1'', ''QUJD'')])
       rec_emulator)
   = finishKitty no_gfx rec_ops (parseKittyKeys (fst (hd [(''f=100,m=1'', ''QUJD''), (''m=1'', ''QUJD'')])))
       (concat (map snd [(''f=100,m=1'', ''QUJD''), (''m=1'', ''QUJD'')]) @ ''QQ=='') rec_emulator"
proof (rule kitty_chunks_reassembled)
  have "transmits ''f=100,m=1''" "more_follows ''f=100,m=1''" "transmits ''m=1''" "more_follows ''m=1''"
    by code_simp+
  then show "list_all (\<lambda>(h, d). transmits h \<and> more_follows h) [(''f=100,m=1'', ''QUJD''), (''m=1'', ''QUJD'')]"
    by simp
  show "transmits ''m=0''" "\<not> more_follows ''m=0''" by code_simp+
qed (simp_all add: rec_emulator_def newEmulator_def)

section \<open>Placement\<close>

definition on_screen :: "int \<Rightarrow> int \<Rightarrow> image_asset \<Rightarrow> bool" where
  "on_screen cols rows a \<longleftrightarrow>
     0 \<le> ia_col a \<and> 1 \<le> ia_cellCols a \<and> ia_col a + ia_cellCols a \<le> cols
     \<and> 0 \<le> ia_row a \<and> 1 \<le> ia_cellRows a \<and> ia_row a + ia_cellRows a \<le> rows"

definition adds_on_screen :: "'v vt_ops \<Rightarrow> 'v emulator \<Rightarrow> 'v emulator \<Rightarrow> bool" where
  "adds_on_screen vo e e' \<longleftrightarrow>
     em_images e' = em_images e
     \<or> (\<exists>a. em_images e' = em_images e @ [a] \<and> on_screen (vo_width vo (em_vt e)) (vo_height vo (em_vt e)) a)"

lemma adds_refl [simp]: "em_images e' = em_images e \<Longrightarrow> adds_on_screen vo e e'"
  by (simp add: adds_on_screen_def)

definition cursor_inside :: "'v vt_ops \<Rightarrow> 'v emulator \<Rightarrow> bool" where
  "cursor_inside vo e \<longleftrightarrow> (case vo_cursor vo (em_vt e) of
     (x, y) \<Rightarrow> 0 \<le> x \<and> x < vo_width vo (em_vt e) \<and> 0 \<le> y \<and> y < vo_height vo (em_vt e))"

lemma addImage_images:
  assumes "cursor_inside vo e"
  shows "adds_on_screen vo e (addImage vo p img m raw keys e)"
proof -
  obtain x y where c: "vo_cursor vo (em_vt e) = (x, y)" by fastforce
  obtain cc cr where k: "kitty_cells (em_cellW e) (em_cellH e) img keys = (cc, cr)" by fastforce
  let ?a = "asset p (x, y) (min (vo_width vo (em_vt e) - x) cc, min (vo_height vo (em_vt e) - y) cr) m raw img"
  have xy: "0 \<le> x" "0 \<le> y" using assms c by (simp_all add: cursor_inside_def)
  from addImage_cases [OF c k, of p m raw] show ?thesis
  proof
    assume "\<exists>bs. addImage vo p img m raw keys e = vt_put vo bs (e\<lparr>em_images := em_images e @ [?a]\<rparr>)
        \<and> \<not> min (vo_width vo (em_vt e) - x) cc \<le> 0 \<and> \<not> min (vo_height vo (em_vt e) - y) cr \<le> 0"
    then obtain bs where e': "addImage vo p img m raw keys e = vt_put vo bs (e\<lparr>em_images := em_images e @ [?a]\<rparr>)"
      and n: "\<not> min (vo_width vo (em_vt e) - x) cc \<le> 0" "\<not> min (vo_height vo (em_vt e) - y) cr \<le> 0" by blast
    have "on_screen (vo_width vo (em_vt e)) (vo_height vo (em_vt e)) ?a"
      using clip [OF xy(1) n(1)] clip [OF xy(2) n(2)] xy
      by (simp only: on_screen_def asset_def image_asset.simps fst_conv snd_conv)
    moreover have "em_images (addImage vo p img m raw keys e) = em_images e @ [?a]"
      unfolding e' by (simp add: vt_put_def)
    ultimately show ?thesis unfolding adds_on_screen_def by blast
  qed simp
qed

lemma handleDCS_images:
  assumes "cursor_inside vo e"
  shows "adds_on_screen vo e (handleDCS gx vo payload e)"
proof -
  obtain x y where c: "vo_cursor vo (em_vt e) = (x, y)" by fastforce
  then have b: "0 \<le> x" "x < vo_width vo (em_vt e)" "0 \<le> y" "y < vo_height vo (em_vt e)"
    using assms by (simp_all add: cursor_inside_def)
  have n: "\<not> min (vo_width vo (em_vt e) - x) (max 1 n) \<le> 0" "\<not> min (vo_height vo (em_vt e) - y) (max 1 n) \<le> 0" for n
    using b by simp_all
  have "on_screen (vo_width vo (em_vt e)) (vo_height vo (em_vt e))
      (asset q (x, y) (min (vo_width vo (em_vt e) - x) (max 1 n), min (vo_height vo (em_vt e) - y) (max 1 n')) s bs i)"
    for q n n' s bs i
    using clip [OF b(1) n(1) [of n]] clip [OF b(3) n(2) [of n']] b
    by (simp only: on_screen_def asset_def image_asset.simps fst_conv snd_conv)
  then show ?thesis
    unfolding handleDCS_def Let_def c prod.case adds_on_screen_def by (simp split: option.split)
qed

lemma finishKitty_images:
  "cursor_inside vo e \<Longrightarrow> adds_on_screen vo e (finishKitty gx vo keys pl e)"
  by (simp add: finishKitty_def Let_def addImage_images split: option.split)

text \<open>
  Property C23.  Pictures of the kitty and the sixel protocol are placed on the screen: with the
  cursor inside the screen, a completed sequence adds at most one picture, at least one cell wide
  and high, and within the screen.
\<close>

theorem pictures_placed_on_screen:
  assumes "cursor_inside vo e"
  shows "adds_on_screen vo e (handleAPC gx vo payload e) \<and> adds_on_screen vo e (handleDCS gx vo payload e)"
proof
  have "cursor_inside vo (e\<lparr>em_kittyPending := k\<rparr>)" for k using assms by (simp add: cursor_inside_def)
  then have 1: "adds_on_screen vo e (finishKitty gx vo keys pl (e\<lparr>em_kittyPending := k\<rparr>))" for keys pl k
    using finishKitty_images [of vo "e\<lparr>em_kittyPending := k\<rparr>" gx keys pl] by (simp add: adds_on_screen_def)
  have 2: "adds_on_screen vo e ((finishKitty gx vo keys pl e)\<lparr>em_kittyPending := k\<rparr>)" for keys pl k
    using finishKitty_images [OF assms, of gx keys pl] by (simp add: adds_on_screen_def)
  show "adds_on_screen vo e (handleAPC gx vo payload e)"
    by (simp add: handleAPC_def Let_def 1 2 split: prod.split option.split)
  show "adds_on_screen vo e (handleDCS gx vo payload e)" by (rule handleDCS_images [OF assms])
qed

theorem pictures_placed_on_screen_witness:
  "adds_on_screen rec_ops rec_emulator (handleAPC no_gfx rec_ops [0x47] rec_emulator)"
proof -
  have "cursor_inside rec_ops rec_emulator" by (simp add: cursor_inside_def rec_ops_def)
  from pictures_placed_on_screen [OF this] show ?thesis by blast
qed

section \<open>The snapshot\<close>

lemma screen_row_length [simp]: "length (screen_row at x n) = n"
  by (induction at x n rule: screen_row.induct) (auto split: option.split)

lemma emu_screen_ok: "grid_ok (emu_screen vo e)"
  by (auto simp: grid_ok_def emu_screen_def Let_def list_all_iff)

lemma snapshot_grid: "sn_grid (emu_snapshot vo now e) = emu_screen vo e"
  by (simp add: emu_snapshot_def cloneGrid_eq emu_screen_ok Let_def split: prod.split)

text \<open>
  A reference description of a row, column by column: a column is covered when the column before it
  is not and holds a character of two cells.
\<close>

fun covered :: "(nat \<Rightarrow> vt_cell option) \<Rightarrow> nat \<Rightarrow> nat \<Rightarrow> bool" where
  "covered at x 0 = False"
| "covered at x (Suc i) =
     (\<not> covered at x i \<and> (case at (x + i) of None \<Rightarrow> False | Some vc \<Rightarrow> uc_width vc > 1))"

definition shown :: "(nat \<Rightarrow> vt_cell option) \<Rightarrow> nat \<Rightarrow> cell" where
  "shown at x = (case at x of None \<Rightarrow> blankCell defaultColor | Some vc \<Rightarrow> vtCellToGrid vc)"

lemma covered_next:
  "\<not> covered at x 1 \<Longrightarrow> covered at x (Suc i) = covered at (x + 1) i"
  by (induction i) (auto split: option.splits)

lemma covered_skip:
  "covered at x 1 \<Longrightarrow> covered at x (Suc (Suc i)) = covered at (x + 2) i"
  by (induction i) (auto split: option.splits)

lemma screen_row_nth:
  "i < n \<Longrightarrow> screen_row at x n ! i = (if covered at x i then zero_cell else shown at (x + i))"
proof (induction at x n arbitrary: i rule: screen_row.induct)
  case (3 at x n)
  show ?case
  proof (cases "covered at x 1")
    case True
    then obtain vc where vc: "at x = Some vc" "uc_width vc > 1" by (auto split: option.splits)
    consider "i = 0" | "i = 1" | j where "i = Suc (Suc j)" by (metis One_nat_def nat.exhaust)
    then show ?thesis
    proof cases
      case 3
      then show ?thesis using 3 "3.IH"(2) [OF vc, of j] "3.prems" vc
        by (simp only: covered_skip [OF True]) (simp add: covered_skip [OF True, simplified])
    qed (use vc in \<open>simp_all add: shown_def\<close>)
  next
    case False
    then have row: "screen_row at x (Suc (Suc n)) = shown at x # screen_row at (x + 1) (Suc n)"
      by (auto simp: shown_def split: option.splits)
    show ?thesis
    proof (cases i)
      case (Suc j)
      have "screen_row at (x + 1) (Suc n) ! j = (if covered at (x + 1) j then zero_cell else shown at (x + 1 + j))"
        using 3 False Suc by (cases "at x") auto
      with Suc show ?thesis by (simp only: row covered_next [OF False]) simp
    qed (simp add: row del: screen_row.simps)
  qed
qed (auto simp: shown_def)

text \<open>
  Property C21.  The grid of a snapshot is the screen of the engine: it has the engine's rows and
  columns, and a cell is the engine's cell (a blank one where the engine has none), except that the
  column after a character of two cells is a placeholder.  The loop that skips columns agrees with
  this description column by column.
\<close>

theorem snapshot_shows_screen:
  assumes "y < nat (vo_height vo (em_vt e))" and "x < nat (vo_width vo (em_vt e))"
  shows "grid_ok (sn_grid (emu_snapshot vo now e))
     \<and> grid_cell (int y) (int x) (sn_grid (emu_snapshot vo now e))
       = (if covered (\<lambda>x. vo_cell vo (em_vt e) x y) 0 x then zero_cell
          else shown (\<lambda>x. vo_cell vo (em_vt e) x y) x)"
proof -
  have "gr_cells (emu_screen vo e) ! y ! x = screen_row (\<lambda>x. vo_cell vo (em_vt e) x y) 0 (nat (vo_width vo (em_vt e))) ! x"
    using assms(1) by (simp add: emu_screen_def Let_def del: upt_Suc)
  then have "grid_cell (int y) (int x) (emu_screen vo e)
      = screen_row (\<lambda>x. vo_cell vo (em_vt e) x y) 0 (nat (vo_width vo (em_vt e))) ! x"
    using assms by (simp add: grid_cell_def emu_screen_def Let_def)
  then show ?thesis by (simp add: snapshot_grid emu_screen_ok screen_row_nth assms(2))
qed

definition wide_ops :: "unit vt_ops" where
  "wide_ops =
     \<lparr>vo_write = \<lambda>_ v. v, vo_resize = \<lambda>_ _ v. v, vo_width = \<lambda>_. 4, vo_height = \<lambda>_. 1, vo_cursor = \<lambda>_. (0, 0),
      vo_cell = \<lambda>_ x _. Some \<lparr>uc_content = [0x41], uc_width = (if x = 1 then 2 else 1), uc_fg = VNone, uc_bg = VNone,
                            uc_attrs = [], uc_underline = False\<rparr>\<rparr>"

theorem snapshot_shows_screen_witness:
  "grid_cell 0 2 (sn_grid (emu_snapshot wide_ops 0 (newEmulator (\<lambda>_ _. ()) 4 1))) = zero_cell"
proof -
  let ?e = "newEmulator (\<lambda>_ _. ()) 4 1"
  have "0 < nat (vo_height wide_ops (em_vt ?e))" "2 < nat (vo_width wide_ops (em_vt ?e))"
    by (simp_all add: wide_ops_def)
  from snapshot_shows_screen [OF this, of 0] show ?thesis
    by (simp add: wide_ops_def numeral_2_eq_2)
qed

end
