(* ===== verification/Paint.thy ===== *)
theory Paint
  imports Complex_Main Emulator
begin

text \<open>
  The bitmap of a snapshot: \<open>PNG\<close> of \<open>internal/capture/render.go\<close> and its helpers, as the list of
  drawing operations applied to the canvas, in order.  The font face, the width of runes and the
  encoder of the finished canvas are parameters.
\<close>

section \<open>Drawing operations\<close>

text \<open>
  A filled rectangle, one pixel, a glyph at a dot (in 1/64 of a pixel), a picture scaled into a
  rectangle.  Operations outside of the canvas have no effect, as in Go's image package.
\<close>

datatype draw =
    Fill int int int int rgb
  | Pixel int int rgb
  | Glyph int int nat rgb
  | Scale int int int int image

text \<open>
  A font face: ascent and descent rounded up to pixels, and for a rune its advance in 1/64 of a pixel
  and whether the font has it.  \<open>DrawString\<close> draws at the dot and advances the dot.
\<close>

record face =
  fc_ascent :: int
  fc_descent :: int
  fc_advance :: "nat \<Rightarrow> int \<times> bool"

record paint_env =
  pe_face :: "int \<Rightarrow> face option"
  pe_width :: "nat \<Rightarrow> nat"
  pe_encode :: "int \<times> int \<Rightarrow> draw list \<Rightarrow> bytes option"

definition defaultFG :: rgb where "defaultFG = (0xcc, 0xcc, 0xcc)"

definition defaultBG :: rgb where "defaultBG = (0, 0, 0)"

text \<open>The face for a cell height: its size in points is at least 6.\<close>

definition monoFace :: "paint_env \<Rightarrow> int \<Rightarrow> face option" where
  "monoFace pe cellH = pe_face pe (if cellH - 4 < 6 then 6 else cellH - 4)"

definition blend_channel :: "nat \<Rightarrow> byte \<Rightarrow> byte \<Rightarrow> byte" where
  "blend_channel w f b = word_of_nat ((unat f * w + unat b * (255 - w)) div 255)"

definition blendColor :: "rgb \<Rightarrow> rgb \<Rightarrow> rat \<Rightarrow> rgb" where
  "blendColor fg bg alpha =
     (let w = unat (word_of_int \<lfloor>alpha * 255\<rfloor> :: byte)
      in case (fg, bg) of
           ((fr, fg', fb), (br, bg', bb)) \<Rightarrow> (blend_channel w fr br, blend_channel w fg' bg', blend_channel w fb bb))"

text \<open>A hollow rectangle, the stand-in for a missing glyph.\<close>

definition drawTofu :: "int \<Rightarrow> int \<Rightarrow> int \<Rightarrow> int \<Rightarrow> rgb \<Rightarrow> draw list" where
  "drawTofu x0 y0 w h col =
     concat (map (\<lambda>x. [Pixel x y0 col, Pixel x (y0 + h - 1) col]) [x0..x0 + w - 1])
     @ concat (map (\<lambda>y. [Pixel x0 y col, Pixel (x0 + w - 1) y col]) [y0..y0 + h - 1])"

definition drawLine :: "int \<Rightarrow> int \<Rightarrow> int \<Rightarrow> int \<Rightarrow> rgb \<Rightarrow> draw list" where
  "drawLine x0 y0 x1 y1 col = (if y0 \<noteq> y1 then [] else map (\<lambda>x. Pixel x y0 col) [x0..x1])"

section \<open>One cell\<close>

text \<open>\<open>string(rune)\<close> of a value that is no character is the replacement character.\<close>

definition string_rune :: "nat \<Rightarrow> nat" where
  "string_rune r = (if is_scalar r then r else rune_error)"

definition ceil64 :: "int \<Rightarrow> int" where
  "ceil64 a = (a + 63) div 64"

definition cell_ink :: "cell \<Rightarrow> rgb" where
  "cell_ink cell =
     (let fgc = (case colorFromColor (fst (renderedColors cell)) of None \<Rightarrow> defaultFG | Some c \<Rightarrow> c);
          bgc = (case colorFromColor (ce_bg cell) of None \<Rightarrow> defaultBG | Some b \<Rightarrow> b)
      in if ce_dim cell then blendColor fgc bgc (55 / 100) else fgc)"

definition rune_cells :: "paint_env \<Rightarrow> nat \<Rightarrow> int" where
  "rune_cells pe r = (if pe_width pe r = 2 then 2 else 1)"

definition cell_background :: "int \<Rightarrow> int \<Rightarrow> int \<Rightarrow> int \<Rightarrow> cell \<Rightarrow> draw list" where
  "cell_background cellW cellH x0 y0 cell =
     (case colorFromColor (ce_bg cell) of
        None \<Rightarrow> []
      | Some bgc \<Rightarrow> [Fill x0 y0 (x0 + cellW) (y0 + cellH) bgc])"

text \<open>
  The glyph, drawn a second time for bold after the dot moved by one pixel, and the lines.
\<close>

definition cell_glyph :: "face \<Rightarrow> int \<Rightarrow> int \<Rightarrow> int \<Rightarrow> int \<Rightarrow> int \<Rightarrow> cell \<Rightarrow> rgb \<Rightarrow> draw list" where
  "cell_glyph fc w cellW cellH x0 y0 cell ink =
     (let r = string_rune (ce_rune cell);
          adv = fst (fc_advance fc r);
          lineHeight = fc_ascent fc + fc_descent fc;
          dotX = 64 * (x0 + (cellW * w - ceil64 adv) sdiv 2);
          dotY = 64 * (y0 + (cellH - lineHeight) sdiv 2 + fc_ascent fc)
      in [Glyph dotX dotY r ink]
         @ (if ce_bold cell then [Glyph (dotX + adv + 64) dotY r ink] else [])
         @ (if ce_underline cell
            then drawLine x0 (y0 + cellH - 2) (x0 + cellW * w - 1) (y0 + cellH - 2) ink else [])
         @ (if ce_strikethrough cell
            then drawLine x0 (y0 + lineHeight sdiv 2 + 1) (x0 + cellW * w - 1) (y0 + lineHeight sdiv 2 + 1) ink
            else []))"

definition paint_cell :: "paint_env \<Rightarrow> face \<Rightarrow> int \<Rightarrow> int \<Rightarrow> int \<times> int \<Rightarrow> cell \<Rightarrow> draw list" where
  "paint_cell pe fc cellW cellH rc cell =
     (let x0 = snd rc * cellW; y0 = fst rc * cellH; w = rune_cells pe (ce_rune cell)
      in cell_background cellW cellH x0 y0 cell
         @ (if ce_invisible cell \<or> ce_rune cell = 0 \<or> ce_rune cell = 32 then []
            else if \<not> snd (fc_advance fc (ce_rune cell)) then drawTofu x0 y0 (cellW * w) cellH (cell_ink cell)
            else cell_glyph fc w cellW cellH x0 y0 cell (cell_ink cell)))"

section \<open>The canvas\<close>

definition paint_text :: "paint_env \<Rightarrow> face \<Rightarrow> int \<Rightarrow> int \<Rightarrow> grid \<Rightarrow> draw list" where
  "paint_text pe fc cellW cellH g =
     concat (map (\<lambda>r. concat (map (\<lambda>c. paint_cell pe fc cellW cellH (int r, int c) (grid_cell (int r) (int c) g))
       [0..<gr_cols g])) [0..<gr_rows g])"

definition paint_images :: "int \<Rightarrow> int \<Rightarrow> image_asset list \<Rightarrow> draw list" where
  "paint_images cellW cellH images =
     map (\<lambda>a. Scale (ia_col a * cellW) (ia_row a * cellH)
                ((ia_col a + ia_cellCols a) * cellW) ((ia_row a + ia_cellRows a) * cellH) (ia_img a)) images"

definition canvas :: "paint_env \<Rightarrow> face \<Rightarrow> grid \<Rightarrow> image_asset list \<Rightarrow> int \<Rightarrow> int \<Rightarrow> draw list" where
  "canvas pe fc g images cellW cellH =
     [Fill 0 0 (int (gr_cols g) * cellW) (int (gr_rows g) * cellH) defaultBG]
     @ paint_text pe fc cellW cellH g @ paint_images cellW cellH images"

definition render_png :: "paint_env \<Rightarrow> grid \<Rightarrow> image_asset list \<Rightarrow> int \<Rightarrow> int \<Rightarrow> bytes option" where
  "render_png pe g images cellW cellH =
     (case monoFace pe cellH of
        None \<Rightarrow> None
      | Some fc \<Rightarrow>
          pe_encode pe (int (gr_cols g) * cellW, int (gr_rows g) * cellH) (canvas pe fc g images cellW cellH))"

definition snapshot_png :: "paint_env \<Rightarrow> snapshot \<Rightarrow> bytes option" where
  "snapshot_png pe s = render_png pe (sn_grid s) (sn_images s) (sn_cellW s) (sn_cellH s)"

section \<open>Blending\<close>

lemma mix_between:
  assumes "w \<le> (255 :: nat)"
  shows "min f b \<le> (f * w + b * (255 - w)) div 255 \<and> (f * w + b * (255 - w)) div 255 \<le> max f b"
proof -
  have "min f b * 255 \<le> f * w + b * (255 - w)"
  proof -
    have "min f b * 255 = min f b * w + min f b * (255 - w)"
      using assms by (simp add: add_mult_distrib2 [symmetric])
    also have "\<dots> \<le> f * w + b * (255 - w)" by (intro add_mono mult_le_mono1) simp_all
    finally show ?thesis .
  qed
  moreover have "f * w + b * (255 - w) \<le> max f b * 255"
  proof -
    have "f * w + b * (255 - w) \<le> max f b * w + max f b * (255 - w)" by (intro add_mono mult_le_mono1) simp_all
    also have "\<dots> = max f b * 255" using assms by (simp add: add_mult_distrib2 [symmetric])
    finally show ?thesis .
  qed
  ultimately show ?thesis by (simp add: less_eq_div_iff_mult_less_eq div_le_mono [of _ "max f b * 255" 255, simplified])
qed

definition rgb_between :: "rgb \<Rightarrow> rgb \<Rightarrow> rgb \<Rightarrow> bool" where
  "rgb_between c1 c2 c =
     (case (c1, c2, c) of
        ((r1, g1, b1), (r2, g2, b2), (r, g, b)) \<Rightarrow>
          list_all (\<lambda>(x, y, z). min x y \<le> z \<and> z \<le> max x y) [(r1, r2, r), (g1, g2, g), (b1, b2, b)])"

lemma blend_channel_exact:
  assumes "w \<le> 255"
  shows "unat (blend_channel w f b) = (unat f * w + unat b * (255 - w)) div 255"
proof -
  have "(unat f * w + unat b * (255 - w)) div 255 \<le> max (unat f) (unat b)"
    using mix_between [OF assms] by blast
  also have "\<dots> < 256" using unsigned_less [of f, where 'a = nat] unsigned_less [of b, where 'a = nat] by simp
  finally show ?thesis by (simp add: blend_channel_def unat_of_nat take_bit_nat_eq_self)
qed

lemma blend_channel_between:
  assumes "w \<le> 255"
  shows "min f b \<le> blend_channel w f b \<and> blend_channel w f b \<le> max f b"
  using mix_between [OF assms, of "unat f" "unat b"]
  by (auto simp: word_le_nat_alt blend_channel_exact [OF assms] min_def max_def split: if_splits)

lemma blend_channel_same: "w \<le> 255 \<Longrightarrow> blend_channel w b b = b"
  using blend_channel_between [of w b b] by (simp add: order.antisym)

lemma alpha_weight: "unat (word_of_int \<lfloor>alpha * 255\<rfloor> :: byte) \<le> 255"
  using unsigned_less [of "word_of_int \<lfloor>alpha * 255\<rfloor> :: byte", where 'a = nat] by simp

lemma blend_same: "blendColor c c alpha = c"
  by (simp add: blendColor_def blend_channel_same alpha_weight Let_def split: prod.split)

text \<open>
  Mixing two colors does not wrap around: for every transparency, each channel of the
  mixture is the exact quotient of the weighted sum, so it lies between the channels that are mixed;
  mixing a color with itself gives the color.
\<close>

lemma blend_stays_between:
  "rgb_between fg bg (blendColor fg bg alpha) \<and> blendColor fg fg alpha = fg
   \<and> unat (fst (blendColor fg bg alpha))
     = (unat (fst fg) * unat (word_of_int \<lfloor>alpha * 255\<rfloor> :: byte)
        + unat (fst bg) * (255 - unat (word_of_int \<lfloor>alpha * 255\<rfloor> :: byte))) div 255"
  by (simp add: blend_same)
    (simp add: blendColor_def rgb_between_def blend_channel_between alpha_weight blend_channel_exact Let_def
      split: prod.split)

section \<open>Where a cell paints\<close>

fun draw_within :: "int \<Rightarrow> int \<Rightarrow> int \<Rightarrow> int \<Rightarrow> draw \<Rightarrow> bool" where
  "draw_within x0 y0 x1 y1 (Fill a b c d _) = (x0 \<le> a \<and> y0 \<le> b \<and> c \<le> x1 \<and> d \<le> y1)"
| "draw_within x0 y0 x1 y1 (Pixel x y _) = (x0 \<le> x \<and> x < x1 \<and> y0 \<le> y \<and> y < y1)"
| "draw_within x0 y0 x1 y1 (Glyph _ _ _ _) = True"
| "draw_within x0 y0 x1 y1 (Scale a b c d _) = (x0 \<le> a \<and> y0 \<le> b \<and> c \<le> x1 \<and> d \<le> y1)"

lemma tofu_within:
  "0 < w \<Longrightarrow> 0 < h \<Longrightarrow> list_all (draw_within x0 y0 (x0 + w) (y0 + h)) (drawTofu x0 y0 w h col)"
  by (auto simp: drawTofu_def list_all_iff)

lemma line_within:
  "y0 \<le> y \<Longrightarrow> y < y1 \<Longrightarrow> list_all (draw_within x0 y0 (x0 + w) y1) (drawLine x0 y (x0 + w - 1) y col)"
  by (auto simp: drawLine_def list_all_iff)

lemma background_within:
  "cellW \<le> w \<Longrightarrow> list_all (draw_within x0 y0 (x0 + w) (y0 + cellH)) (cell_background cellW cellH x0 y0 cell)"
  by (simp add: cell_background_def split: option.split)

lemma rune_cells_wide: "0 < cellW \<Longrightarrow> cellW \<le> cellW * rune_cells pe r"
  by (simp add: rune_cells_def)

lemma half_line: "0 \<le> l \<Longrightarrow> l < 2 * (h - 1) \<Longrightarrow> 0 \<le> l div 2 \<and> l div 2 + 1 < (h :: int)"
  by presburger

lemma glyph_within:
  assumes "2 \<le> cellH" and "0 \<le> fc_ascent fc + fc_descent fc" and "fc_ascent fc + fc_descent fc < 2 * (cellH - 1)"
  shows "list_all (draw_within x0 y0 (x0 + cellW * w) (y0 + cellH)) (cell_glyph fc w cellW cellH x0 y0 cell ink)"
proof -
  let ?l = "fc_ascent fc + fc_descent fc"
  have "?l sdiv 2 = ?l div 2" using assms(2) by (cases "?l = 0") (simp_all add: signed_divide_int_def)
  then have l: "0 \<le> ?l sdiv 2" "?l sdiv 2 + 1 < cellH" using half_line [OF assms(2,3)] by simp_all
  have "list_all (draw_within x0 y0 (x0 + cellW * w) (y0 + cellH))
      (drawLine x0 (y0 + cellH - 2) (x0 + cellW * w - 1) (y0 + cellH - 2) ink)"
    by (rule line_within) (use assms(1) in auto)
  moreover have "list_all (draw_within x0 y0 (x0 + cellW * w) (y0 + cellH))
      (drawLine x0 (y0 + ?l sdiv 2 + 1) (x0 + cellW * w - 1) (y0 + ?l sdiv 2 + 1) ink)"
    by (rule line_within) (use l in auto)
  ultimately show ?thesis by (simp add: cell_glyph_def Let_def)
qed

text \<open>
  Apart from glyphs, a cell paints inside its own block, one cell wide or two for a
  wide rune: its background, the box for a missing glyph and the lines, provided the face's line
  height is below twice the cell height less one pixel.
\<close>

lemma cell_paints_in_block:
  assumes "0 < cellW" and "2 \<le> cellH"
    and "0 \<le> fc_ascent fc + fc_descent fc" and "fc_ascent fc + fc_descent fc < 2 * (cellH - 1)"
  shows "list_all (draw_within (c * cellW) (r * cellH) (c * cellW + cellW * rune_cells pe (ce_rune cell)) (r * cellH + cellH))
    (paint_cell pe fc cellW cellH (r, c) cell)"
  unfolding paint_cell_def Let_def
  using tofu_within [of "cellW * rune_cells pe (ce_rune cell)" cellH] assms rune_cells_wide [OF assms(1), of pe "ce_rune cell"]
  by (simp add: background_within glyph_within)

lemma cell_paints_in_block_witness:
  "list_all (draw_within 9 0 18 18)
     (paint_cell \<lparr>pe_face = \<lambda>_. None, pe_width = \<lambda>_. 1, pe_encode = \<lambda>_ _. None\<rparr>
       \<lparr>fc_ascent = 14, fc_descent = 4, fc_advance = \<lambda>_. (540, True)\<rparr> 9 18 (0, 1)
       (zero_cell\<lparr>ce_rune := 65, ce_underline := True\<rparr>))"
  using cell_paints_in_block [of 9 18 "\<lparr>fc_ascent = 14, fc_descent = 4, fc_advance = \<lambda>_. (540, True)\<rparr>" 1 0
      "\<lparr>pe_face = \<lambda>_. None, pe_width = \<lambda>_. 1, pe_encode = \<lambda>_ _. None\<rparr>" "zero_cell\<lparr>ce_rune := 65, ce_underline := True\<rparr>"]
  by (simp add: rune_cells_def)

section \<open>Reverse video, bold and wide characters\<close>

fun ink :: "draw \<Rightarrow> rgb option" where
  "ink (Fill _ _ _ _ c) = Some c"
| "ink (Pixel _ _ c) = Some c"
| "ink (Glyph _ _ _ c) = Some c"
| "ink (Scale _ _ _ _ _) = None"

lemma glyph_ink: "list_all (\<lambda>d. ink d = Some col) (cell_glyph fc w cellW cellH x0 y0 cell col)"
  by (auto simp: cell_glyph_def Let_def drawLine_def list_all_iff)

lemma tofu_ink: "list_all (\<lambda>d. ink d = Some col) (drawTofu x0 y0 w h col)"
  by (auto simp: drawTofu_def list_all_iff)

text \<open>
  The bitmap does not swap the background of reversed cells: a reversed cell with a
  background color is painted in that one color only, background, glyph and lines, so its text
  cannot be read, while the HTML of the same cell has the two colors swapped.
\<close>

lemma reversed_text_invisible:
  assumes "ce_reverse cell" and "colorFromColor (ce_bg cell) = Some b"
  shows "list_all (\<lambda>d. ink d = Some b) (paint_cell pe fc cellW cellH rc cell)
     \<and> fst (renderedColors cell) = ce_bg cell \<and> fst (snd (renderedColors cell)) = ce_fg cell"
proof -
  have "cell_ink cell = b"
    using assms by (simp add: cell_ink_def renderedColors_def blend_same Let_def)
  then show ?thesis
    using assms by (simp add: paint_cell_def cell_background_def glyph_ink tofu_ink renderedColors_def Let_def)
qed

lemma reversed_text_invisible_witness:
  "list_all (\<lambda>d. ink d = Some (0, 0xcd, 0))
     (paint_cell \<lparr>pe_face = \<lambda>_. None, pe_width = \<lambda>_. 1, pe_encode = \<lambda>_ _. None\<rparr>
       \<lparr>fc_ascent = 14, fc_descent = 4, fc_advance = \<lambda>_. (540, True)\<rparr> 9 18 (0, 1)
       (zero_cell\<lparr>ce_rune := 65, ce_reverse := True, ce_bg := defaultColor\<lparr>co_mode := ColorIndex, co_index := 2\<rparr>\<rparr>))"
proof -
  have "colorFromColor (defaultColor\<lparr>co_mode := ColorIndex, co_index := 2\<rparr>) = Some (0, 0xcd, 0)"
    by (simp add: colorFromColor_def ansiRGBValues_def ansi_table_def)
  then show ?thesis
    using reversed_text_invisible [of "zero_cell\<lparr>ce_rune := 65, ce_reverse := True,
        ce_bg := defaultColor\<lparr>co_mode := ColorIndex, co_index := 2\<rparr>\<rparr>"] by simp
qed

text \<open>
  Bold is meant as a second glyph one pixel to the right, but the first drawing has already advanced
  the dot: for a glyph as wide as its cell, the copy starts in the next cell.
\<close>

lemma bold_copy_in_next_cell:
  assumes "ce_bold cell" and "ceil64 (fst (fc_advance fc (string_rune (ce_rune cell)))) = cellW * w"
  shows "\<exists>x y x'. take 2 (cell_glyph fc w cellW cellH x0 y0 cell col)
      = [Glyph x y (string_rune (ce_rune cell)) col, Glyph x' y (string_rune (ce_rune cell)) col]
     \<and> 64 * (x0 + cellW * w) < x'"
proof -
  let ?adv = "fst (fc_advance fc (string_rune (ce_rune cell)))"
  have "(?adv + 63) div 64 = cellW * w" using assms(2) by (simp add: ceil64_def)
  then have "64 * (cellW * w) \<le> ?adv + 63" by linarith
  then show ?thesis using assms by (simp add: cell_glyph_def Let_def ceil64_def)
qed

text \<open>The placeholder after a wide character paints nothing: its background covers the left half only.\<close>

lemma placeholder_paints_nothing: "paint_cell pe fc cellW cellH rc zero_cell = []"
  by (simp add: paint_cell_def cell_background_def zero_cell_def defaultColor_def colorFromColor_def Let_def)

end
