(* ===== verification/Api_Screen.thy ===== *)
theory Api_Screen
  imports Api_Sessions Emulator_Props Paint
begin

text \<open>
  The screen mirror inside the server: the adapter of \<open>internal/api/mirror.go\<close> that makes an emulator
  a session's mirror, and the screen handler of \<open>agent_handler.go\<close> with its answer.  What the mirror
  relies on (the terminal engine, the codecs, the width of runes, the answers the engine produces
  between two drains) is the parameter \<open>capture_env\<close>.
\<close>

section \<open>The adapter\<close>

text \<open>
  \<open>cx_arrivals\<close> gives, for the state at a drain, the chunks the answer pump has queued before it and
  those it delivers while the drain waits.
\<close>

record 'v capture_env =
  cx_gfx :: gfx_env
  cx_width :: "nat \<Rightarrow> nat"
  cx_vt :: "'v vt_ops"
  cx_new :: "int \<Rightarrow> int \<Rightarrow> 'v"
  cx_arrivals :: "'v emulator \<Rightarrow> bytes list \<times> bytes list"

definition mirror_drain :: "'v capture_env \<Rightarrow> 'v emulator \<Rightarrow> bytes \<times> 'v emulator" where
  "mirror_drain cx e =
     (case cx_arrivals cx e of (before, during) \<Rightarrow> drainAnswers during (fold emu_answer before e))"

definition capture_mirror :: "'v capture_env \<Rightarrow> 'v emulator mirror_ops" where
  "capture_mirror cx =
     \<lparr>mo_write = (\<lambda>p e. snd (emu_write (cx_gfx cx) (cx_width cx) (cx_vt cx) p e)),
      mo_resize = emu_resize (cx_vt cx),
      mo_drain = mirror_drain cx,
      mo_text = (\<lambda>e. snapshot_text (emu_snapshot (cx_vt cx) 0 e))\<rparr>"

text \<open>The size of a terminal, when it has one and it is positive, or 80 by 24.\<close>

definition mirrorFactory ::
  "'v capture_env \<Rightarrow> bool \<Rightarrow> ('t \<Rightarrow> (int \<times> int) option) \<Rightarrow> 't \<Rightarrow> 'v emulator option" where
  "mirrorFactory cx enabled tsize term =
     (if \<not> enabled then None
      else case (case tsize term of Some (c, r) \<Rightarrow> if c > 0 \<and> r > 0 then (c, r) else (80, 24) | None \<Rightarrow> (80, 24)) of
        (cols, rows) \<Rightarrow> Some (newEmulator (cx_new cx) cols rows))"

section \<open>The screen as an answer\<close>

record screen_response =
  sr_mirror :: bool
  sr_sessionID :: string
  sr_takenAt :: string
  sr_cols :: int
  sr_rows :: int
  sr_cursorRow :: int
  sr_cursorCol :: int
  sr_cursorVisible :: bool
  sr_text :: string
  sr_cells :: "cell_json list"
  sr_images :: "image_json list"

definition newScreenResponse :: "(int \<Rightarrow> string) \<Rightarrow> string \<Rightarrow> string \<Rightarrow> snapshot \<Rightarrow> bool \<Rightarrow> screen_response" where
  "newScreenResponse tfmt i text raw withCells =
     \<lparr>sr_mirror = True, sr_sessionID = i, sr_takenAt = tfmt (sn_takenAt raw), sr_cols = sn_cols raw,
      sr_rows = sn_rows raw, sr_cursorRow = sn_cursorRow raw, sr_cursorCol = sn_cursorCol raw,
      sr_cursorVisible = sn_cursorVisible raw, sr_text = text,
      sr_cells = (if withCells then snapshot_cells raw else []), sr_images = imagesJSON (sn_images raw)\<rparr>"

datatype screen_body = TextBody string | JsonScreen screen_response | PngBody bytes

text \<open>The headers of an answer with a screen.\<close>

fun screen_headers :: "screen_body \<Rightarrow> (string \<times> string) list" where
  "screen_headers (TextBody t) = [(''Content-Type'', ''text/plain; charset=utf-8''), (''Cache-Control'', ''no-store'')]"
| "screen_headers (PngBody b) = [(''Content-Type'', ''image/png''), (''Cache-Control'', ''no-store'')]"
| "screen_headers (JsonScreen r) = [(''Content-Type'', ''application/json; charset=utf-8'')]"

text \<open>\<open>Screen\<close> of a session with an emulator: the text and the snapshot behind it.\<close>

definition session_snapshot ::
  "'v capture_env \<Rightarrow> int \<Rightarrow> 'v emulator session \<Rightarrow> sess_error + (string \<times> snapshot)" where
  "session_snapshot cx now s =
     (case s_mirror s of
        None \<Rightarrow> Inl ErrMirrorDisabled
      | Some e \<Rightarrow> let snap = emu_snapshot (cx_vt cx) now e in Inr (snapshot_text snap, snap))"

definition handleGetScreen ::
  "'v capture_env \<Rightarrow> paint_env \<Rightarrow> (int \<Rightarrow> string) \<Rightarrow> int \<Rightarrow> string \<Rightarrow> string
     \<Rightarrow> ('v emulator, 't, 's, 'd) server \<Rightarrow> screen_body http" where
  "handleGetScreen cx pe tfmt now format i st =
     (case mgr_get i (sv_mgr st) of
        Inl _ \<Rightarrow> HErr 404 ''session not found''
      | Inr en \<Rightarrow>
          (case session_snapshot cx now (en_sess en) of
             Inl ErrMirrorDisabled \<Rightarrow> HErr 503 ''screen mirror disabled (start gossh with --mirror)''
           | Inl _ \<Rightarrow> HErr 500 ''failed to read screen''
           | Inr (text, raw) \<Rightarrow>
               if format = ''json''
               then HOk 200 (JsonScreen (newScreenResponse tfmt (s_id (en_sess en)) text raw True))
               else if format = ''png''
               then (case snapshot_png pe raw of
                       None \<Rightarrow> HErr 500 ''failed to render PNG''
                     | Some data \<Rightarrow> HOk 200 (PngBody data))
               else HOk 200 (TextBody text)))"

section \<open>The mirror of a session stays within its limits\<close>

lemma factory_ok: "mirrorFactory cx enabled tsize term = Some e \<Longrightarrow> emu_ok e"
  by (auto simp: mirrorFactory_def newEmulator_ok split: if_splits prod.splits)

lemma mirror_drain_ok: "mirror_drain cx e = (a, e') \<Longrightarrow> emu_ok e \<Longrightarrow> emu_ok e'"
  using drain_ok [OF answers_ok [of e "fst (cx_arrivals cx e)"], of "snd (cx_arrivals cx e)"]
  by (simp add: mirror_drain_def split: prod.splits)

definition mirror_ok :: "'v emulator session \<Rightarrow> bool" where
  "mirror_ok s \<longleftrightarrow> (case s_mirror s of None \<Rightarrow> True | Some e \<Rightarrow> emu_ok e)"

text \<open>What happens to the mirror of a session: output of its terminal, and new sizes.\<close>

datatype mirror_event = Output int bytes | Resized int int

fun mirror_step :: "'m mirror_ops \<Rightarrow> mirror_event \<Rightarrow> 'm session \<Rightarrow> 'm session" where
  "mirror_step mo (Output now chunk) s = snd (pump_mirror mo now chunk s)"
| "mirror_step mo (Resized c r) s = syncMirrorSize mo c r s"

lemma mirror_step_ok: "mirror_ok s \<Longrightarrow> mirror_ok (mirror_step (capture_mirror cx) ev s)"
  by (cases ev)
    (auto simp: mirror_ok_def pump_mirror_def syncMirrorSize_def capture_mirror_def write_limits resize_ok
      split: option.splits prod.splits elim: mirror_drain_ok)


section \<open>The screen handler\<close>

text \<open>
  The three forms of the screen agree: for a session with a mirror, the text form is
  the plain text of the emulator's screen, the JSON form carries the same text, the styled cells of
  the same screen, its size and its cursor, and the bitmap is painted from the same screen.  The text
  a wait looks at is the same too.
\<close>

lemma screen_forms_agree:
  assumes "mgr_get i (sv_mgr st) = Inr en" and "s_mirror (en_sess en) = Some e"
  shows "handleGetScreen cx pe tfmt now ''text'' i st = HOk 200 (TextBody (grid_text (emu_screen (cx_vt cx) e)))
    \<and> (\<exists>r. handleGetScreen cx pe tfmt now ''json'' i st = HOk 200 (JsonScreen r)
          \<and> sr_text r = grid_text (emu_screen (cx_vt cx) e) \<and> sr_cells r = cellsJSON (emu_screen (cx_vt cx) e)
          \<and> (sr_cols r, sr_rows r) = (vo_width (cx_vt cx) (em_vt e), vo_height (cx_vt cx) (em_vt e))
          \<and> (sr_cursorCol r, sr_cursorRow r) = vo_cursor (cx_vt cx) (em_vt e))
    \<and> handleGetScreen cx pe tfmt now ''png'' i st
       = (case render_png pe (emu_screen (cx_vt cx) e) (em_images e) (em_cellW e) (em_cellH e) of
            None \<Rightarrow> HErr 500 ''failed to render PNG'' | Some b \<Rightarrow> HOk 200 (PngBody b))
    \<and> mo_text (capture_mirror cx) e = grid_text (emu_screen (cx_vt cx) e)"
proof -
  obtain x y where c: "vo_cursor (cx_vt cx) (em_vt e) = (x, y)" by fastforce
  have [simp]: "snapshot_png pe (emu_snapshot (cx_vt cx) now e)
      = render_png pe (emu_screen (cx_vt cx) e) (em_images e) (em_cellW e) (em_cellH e)"
    by (simp add: snapshot_png_def snapshot_grid) (simp add: emu_snapshot_def c Let_def)
  have [simp]: "snapshot_text (emu_snapshot (cx_vt cx) n e) = grid_text (emu_screen (cx_vt cx) e)"
    "snapshot_cells (emu_snapshot (cx_vt cx) n e) = cellsJSON (emu_screen (cx_vt cx) e)" for n
    by (simp_all add: snapshot_text_def snapshot_cells_def snapshot_grid)
  have "newScreenResponse tfmt s (grid_text (emu_screen (cx_vt cx) e)) (emu_snapshot (cx_vt cx) now e) True = r \<Longrightarrow>
      (sr_cols r, sr_rows r) = (vo_width (cx_vt cx) (em_vt e), vo_height (cx_vt cx) (em_vt e))
      \<and> (sr_cursorCol r, sr_cursorRow r) = (x, y)" for s r
    by (auto simp: newScreenResponse_def emu_snapshot_def c Let_def)
  then show ?thesis
    using assms by (simp add: handleGetScreen_def session_snapshot_def c capture_mirror_def Let_def)
      (simp add: newScreenResponse_def)
qed

text \<open>Without a mirror there is no screen, and reading one changes nothing: the handler returns no state.\<close>

lemma screen_needs_mirror:
  "mgr_get i (sv_mgr st) = Inr en \<Longrightarrow> s_mirror (en_sess en) = None \<Longrightarrow>
   handleGetScreen cx pe tfmt now format i st = HErr 503 ''screen mirror disabled (start gossh with --mirror)''"
  by (simp add: handleGetScreen_def session_snapshot_def)

definition demo_capture :: "bytes capture_env" where
  "demo_capture = \<lparr>cx_gfx = no_gfx, cx_width = \<lambda>_. 1, cx_vt = rec_ops, cx_new = \<lambda>_ _. [], cx_arrivals = \<lambda>_. ([], [])\<rparr>"

definition demo_screen_server :: "(bytes emulator, unit, memory_store, unit) server" where
  "demo_screen_server =
     \<lparr>sv_mgr = (newManager \<lparr>ms_items = []\<rparr> 0 0 [] True)\<lparr>mg_sessions :=
        [(''s'', \<lparr>en_sess = new_session ''s'' demo_host_spec (mirrorFactory demo_capture True (\<lambda>_. None) ()) True 0,
                 en_term = (), en_exited = False, en_log = []\<rparr>)]\<rparr>,
      sv_hosts = sv_hosts demo_server, sv_forwards = newForwardRegistry\<rparr>"

end
