(* ===== verification/Keys.thy ===== *)
theory Keys
  imports Utf8 Utils
begin

text \<open>
  \<open>cmd/keys.go\<close>: the names of keys on the command line and the bytes a terminal expects for them.
  The lower case of a code point outside ASCII is the standard library's table, a parameter.
\<close>

section \<open>Strings as runes\<close>

text \<open>The conversion \<open>[]rune(s)\<close>; a byte that is no UTF-8 gives the replacement character.\<close>

function runes :: "bytes \<Rightarrow> nat list" where
  "runes [] = []"
| "runes (b # bs) = (case decode_rune (b # bs) of (r, n) \<Rightarrow> r # runes (drop (n - 1) bs))"
  by pat_completeness auto
termination
  by (relation "measure length") auto

definition str_runes :: "string \<Rightarrow> nat list" where
  "str_runes s = runes (bytes_of s)"

definition is_ascii :: "string \<Rightarrow> bool" where
  "is_ascii s \<longleftrightarrow> list_all (\<lambda>c. (of_char c :: nat) < 128) s"

text \<open>\<open>strings.ToLower\<close>; \<open>low\<close> is \<open>unicode.ToLower\<close>.\<close>

definition to_lower :: "(nat \<Rightarrow> nat) \<Rightarrow> string \<Rightarrow> string" where
  "to_lower low s =
     (if is_ascii s then map lower_char s
      else string_of_bytes (concat (map (\<lambda>r. encode_rune (low r)) (str_runes s))))"

section \<open>The tables\<close>

definition esc_seq :: "string \<Rightarrow> bytes" where
  "esc_seq s = 0x1b # bytes_of s"

definition namedKeys :: "(string \<times> bytes) list" where
  "namedKeys =
     [(''enter'', [0x0D]), (''return'', [0x0D]), (''tab'', [0x09]), (''escape'', [0x1b]), (''esc'', [0x1b]),
      (''space'', [0x20]), (''backspace'', [0x7f]), (''delete'', esc_seq ''[3~''), (''del'', esc_seq ''[3~''),
      (''insert'', esc_seq ''[2~''), (''ins'', esc_seq ''[2~''),
      (''up'', esc_seq ''OA''), (''down'', esc_seq ''OB''), (''right'', esc_seq ''OC''), (''left'', esc_seq ''OD''),
      (''home'', esc_seq ''OH''), (''end'', esc_seq ''OF''), (''pageup'', esc_seq ''[5~''), (''pgup'', esc_seq ''[5~''),
      (''pagedown'', esc_seq ''[6~''), (''pgdn'', esc_seq ''[6~''), (''pgdown'', esc_seq ''[6~''),
      (''f1'', esc_seq ''OP''), (''f2'', esc_seq ''OQ''), (''f3'', esc_seq ''OR''), (''f4'', esc_seq ''OS''),
      (''f5'', esc_seq ''[15~''), (''f6'', esc_seq ''[17~''), (''f7'', esc_seq ''[18~''), (''f8'', esc_seq ''[19~''),
      (''f9'', esc_seq ''[20~''), (''f10'', esc_seq ''[21~''), (''f11'', esc_seq ''[23~''), (''f12'', esc_seq ''[24~'')]"

definition tildeKeys :: "(string \<times> nat) list" where
  "tildeKeys =
     [(''insert'', 2), (''ins'', 2), (''delete'', 3), (''del'', 3), (''pageup'', 5), (''pgup'', 5),
      (''pagedown'', 6), (''pgdn'', 6), (''pgdown'', 6), (''f5'', 15), (''f6'', 17), (''f7'', 18), (''f8'', 19),
      (''f9'', 20), (''f10'', 21), (''f11'', 23), (''f12'', 24)]"

definition navFinal :: "(string \<times> char) list" where
  "navFinal =
     [(''up'', CHR ''A''), (''down'', CHR ''B''), (''right'', CHR ''C''), (''left'', CHR ''D''),
      (''home'', CHR ''H''), (''end'', CHR ''F'')]"

definition fKeyFinal :: "(string \<times> char) list" where
  "fKeyFinal = [(''f1'', CHR ''P''), (''f2'', CHR ''Q''), (''f3'', CHR ''R''), (''f4'', CHR ''S'')]"

section \<open>Combinations\<close>

definition modifierCode :: "bool \<Rightarrow> bool \<Rightarrow> bool \<Rightarrow> nat option" where
  "modifierCode ctrl alt shift =
     (if \<not> ctrl \<and> \<not> alt \<and> shift then Some 2
      else if \<not> ctrl \<and> alt \<and> \<not> shift then Some 3
      else if \<not> ctrl \<and> alt \<and> shift then Some 4
      else if ctrl \<and> \<not> alt \<and> \<not> shift then Some 5
      else if ctrl \<and> \<not> alt \<and> shift then Some 6
      else if ctrl \<and> alt \<and> \<not> shift then Some 7
      else if ctrl \<and> alt \<and> shift then Some 8
      else None)"

definition prependEsc :: "bytes \<Rightarrow> bytes" where
  "prependEsc b = 0x1b # b"

text \<open>The modifiers before the last part: control, alt and shift, or none when one is unknown.\<close>

fun read_modifiers :: "string list \<Rightarrow> bool \<times> bool \<times> bool \<Rightarrow> (bool \<times> bool \<times> bool) option" where
  "read_modifiers [] cas = Some cas"
| "read_modifiers (m # ms) (c, a, s) =
     (if m = ''ctrl'' then read_modifiers ms (True, a, s)
      else if m = ''alt'' \<or> m = ''meta'' then read_modifiers ms (c, True, s)
      else if m = ''shift'' then read_modifiers ms (c, a, True)
      else None)"

definition modified_key :: "nat \<Rightarrow> string \<Rightarrow> bytes option" where
  "modified_key code key =
     (case map_of navFinal key of
        Some final \<Rightarrow> Some (esc_seq (''[1;'' @ nat_itoa code @ [final]))
      | None \<Rightarrow>
          (case map_of tildeKeys key of
             Some n \<Rightarrow> Some (esc_seq (''['' @ nat_itoa n @ '';'' @ nat_itoa code @ ''~''))
           | None \<Rightarrow>
               (case map_of fKeyFinal key of
                  Some final \<Rightarrow> Some (esc_seq (''[1;'' @ nat_itoa code @ [final]))
                | None \<Rightarrow> None)))"

definition ctrl_letter :: "nat list \<Rightarrow> bool" where
  "ctrl_letter rs \<longleftrightarrow> length rs = 1 \<and> 97 \<le> rs ! 0 \<and> rs ! 0 \<le> 122"

definition alt_key :: "string \<Rightarrow> bytes option" where
  "alt_key key =
     (if length (str_runes key) = 1 then Some (prependEsc (encode_rune (str_runes key ! 0)))
      else map_option prependEsc (map_of namedKeys key))"

definition resolveModifierCombo :: "string \<Rightarrow> bytes option" where
  "resolveModifierCombo lower =
     (let parts = str_split CHR ''+'' lower
      in if length parts < 2 then None
         else
           let key = last parts
           in case read_modifiers (butlast parts) (False, False, False) of
                None \<Rightarrow> None
              | Some (ctrl, alt, shift) \<Rightarrow>
                  if ctrl \<and> \<not> alt \<and> \<not> shift \<and> ctrl_letter (str_runes key)
                  then Some [nbyte (str_runes key ! 0 - 97) + 1]
                  else if alt \<and> \<not> ctrl \<and> \<not> shift \<and> alt_key key \<noteq> None then alt_key key
                  else if shift \<and> \<not> ctrl \<and> \<not> alt \<and> key = ''tab'' then Some (esc_seq ''[Z'')
                  else (case modifierCode ctrl alt shift of
                          None \<Rightarrow> None
                        | Some code \<Rightarrow> modified_key code key))"

section \<open>Names\<close>

definition resolveKey :: "(nat \<Rightarrow> nat) \<Rightarrow> string \<Rightarrow> bytes option" where
  "resolveKey low name =
     (let lower = to_lower low name
      in case resolveModifierCombo lower of
           Some b \<Rightarrow> Some b
         | None \<Rightarrow>
             (case map_of namedKeys lower of
                Some b \<Rightarrow> Some b
              | None \<Rightarrow> if length (str_runes name) = 1 then Some (encode_rune (str_runes name ! 0)) else None))"

fun resolveKeys :: "(nat \<Rightarrow> nat) \<Rightarrow> string list \<Rightarrow> bytes option" where
  "resolveKeys low [] = Some []"
| "resolveKeys low (n # ns) =
     (case resolveKey low n of
        None \<Rightarrow> None
      | Some b \<Rightarrow> map_option (append b) (resolveKeys low ns))"

section \<open>Lemmas\<close>

text \<open>The modifier parameter is one plus the bit mask of shift, alt and control.\<close>

definition bit_of :: "bool \<Rightarrow> nat" where
  "bit_of b = (if b then 1 else 0)"

lemma modifierCode_mask:
  "modifierCode ctrl alt shift =
     (if ctrl \<or> alt \<or> shift then Some (1 + bit_of shift + 2 * bit_of alt + 4 * bit_of ctrl) else None)"
  by (cases ctrl; cases alt; cases shift) (simp_all add: modifierCode_def bit_of_def)

lemma encode_scalar_runes: "is_scalar c \<Longrightarrow> runes (encode_scalar c) = [c]"
proof -
  assume "is_scalar c"
  then have d: "decode_rune (encode_scalar c) = (c, length (encode_scalar c))"
    using decode_encode_scalar [of c "[]"] by simp
  obtain b bs where e: "encode_scalar c = b # bs" using encode_scalar_length [of c] by (cases "encode_scalar c") auto
  then show ?thesis using d by (simp add: e)
qed

lemma resolveKeys_append:
  "resolveKeys low (xs @ ys) =
     (case resolveKeys low xs of None \<Rightarrow> None | Some a \<Rightarrow> map_option (append a) (resolveKeys low ys))"
  by (induction xs) (cases "resolveKeys low ys"; auto split: option.splits)+

lemma resolveKeys_Some:
  "resolveKeys low ns = Some out \<longleftrightarrow>
     list_all (\<lambda>n. resolveKey low n \<noteq> None) ns \<and> out = concat (map (\<lambda>n. the (resolveKey low n)) ns)"
  by (induction ns arbitrary: out) (auto split: option.splits)

lemma namedKeys_shape:
  "list_all (\<lambda>(k, b). 2 \<le> length k \<and> (of_char (hd k) :: nat) < 128) namedKeys"
  by (simp add: namedKeys_def)

lemma ascii_scalar: "c < 128 \<Longrightarrow> encode_scalar c = [nbyte c]"
  by (simp add: encode_scalar_def)

lemma wide_scalar_bytes: "is_scalar c \<Longrightarrow> 128 \<le> c \<Longrightarrow> \<forall>b \<in> set (encode_scalar c). 128 \<le> unat b"
  by (auto simp: encode_scalar_def is_scalar_def)

lemma scalar_not_named:
  assumes "is_scalar d"
  shows "map_of namedKeys (string_of_bytes (encode_scalar d)) = None"
proof -
  have "(string_of_bytes (encode_scalar d), b) \<notin> set namedKeys" for b
  proof (cases "d < 128")
    case True
    then have "length (string_of_bytes (encode_scalar d)) = 1" by (simp add: ascii_scalar string_of_bytes_def)
    then show ?thesis using namedKeys_shape by (fastforce simp: list_all_iff)
  next
    case False
    obtain x xs where e: "encode_scalar d = x # xs"
      using encode_scalar_length [of d] by (cases "encode_scalar d") auto
    with wide_scalar_bytes [OF assms] False have "128 \<le> unat x" by simp
    then have "128 \<le> (of_char (hd (string_of_bytes (encode_scalar d))) :: nat)"
      using unsigned_less [of x, where 'a = nat] by (simp add: e string_of_bytes_def char_of_byte_def)
    then show ?thesis using namedKeys_shape by (fastforce simp: list_all_iff)
  qed
  then show ?thesis
    by (cases "map_of namedKeys (string_of_bytes (encode_scalar d))") (auto dest: map_of_SomeD)
qed

lemma split_plain: "c \<notin> set s \<Longrightarrow> str_split c s = [s]"
  by (induction s) auto

lemma scalar_no_combo:
  assumes "is_scalar d"
  shows "resolveModifierCombo (string_of_bytes (encode_scalar d)) = None"
proof (cases "CHR ''+'' \<in> set (string_of_bytes (encode_scalar d))")
  case True
  then obtain b where b: "b \<in> set (encode_scalar d)" "CHR ''+'' = char_of_byte b" by (auto simp: string_of_bytes_def)
  have "unat b = (of_char (char_of_byte b) :: nat)"
    using unsigned_less [of b, where 'a = nat] by (simp add: char_of_byte_def)
  then have "unat b = 43" by (simp add: b(2) [symmetric])
  with b(1) wide_scalar_bytes [OF assms] have "\<not> 128 \<le> d" by fastforce
  then have "d < 128" by simp
  then have "string_of_bytes (encode_scalar d) = ''+''"
    using b by (simp add: ascii_scalar string_of_bytes_def)
  then show ?thesis by (simp add: resolveModifierCombo_def Let_def)
next
  case False
  then show ?thesis by (simp add: resolveModifierCombo_def split_plain Let_def)
qed

text \<open>The lower case of a single character is a single character.\<close>

lemma lower_single:
  assumes "is_scalar c"
  shows "\<exists>d. is_scalar d \<and> to_lower low (string_of_bytes (encode_scalar c)) = string_of_bytes (encode_scalar d)"
proof (cases "c < 128")
  case True
  define d where "d = (if 65 \<le> c \<and> c \<le> 90 then c + 32 else c)"
  have [simp]: "unat (nbyte c) = c" using True by simp
  have "lower_char (char_of_byte (nbyte c)) = char_of_byte (nbyte d)"
    using True by (simp add: lower_char_def char_of_byte_def d_def Let_def)
  moreover have "d < 128" "is_scalar d" using True by (auto simp: d_def is_scalar_def)
  ultimately have "to_lower low (string_of_bytes (encode_scalar c)) = string_of_bytes (encode_scalar d)"
    using True by (simp add: to_lower_def is_ascii_def ascii_scalar string_of_bytes_def char_of_byte_def)
  with \<open>is_scalar d\<close> show ?thesis by blast
next
  case False
  obtain x xs where e: "encode_scalar c = x # xs"
    using encode_scalar_length [of c] by (cases "encode_scalar c") auto
  with wide_scalar_bytes [OF assms] False have "128 \<le> unat x" by simp
  then have "\<not> is_ascii (string_of_bytes (encode_scalar c))"
    using unsigned_less [of x, where 'a = nat] by (simp add: is_ascii_def e string_of_bytes_def char_of_byte_def)
  then have "to_lower low (string_of_bytes (encode_scalar c)) = string_of_bytes (encode_rune (low c))"
    by (simp add: to_lower_def str_runes_def encode_scalar_runes assms)
  moreover have "\<exists>d. is_scalar d \<and> encode_rune r = encode_scalar d" for r
  proof (cases "is_scalar r")
    case False
    have "is_scalar rune_error" by (simp add: is_scalar_def rune_error_def)
    with False show ?thesis unfolding encode_rune_def by auto
  qed (auto simp: encode_rune_def)
  ultimately show ?thesis by metis
qed

text \<open>
  A single character of any script, given as a key, is typed as itself: its UTF-8
  bytes, whatever the library's table of lower case letters says; no single character is taken
  for the name of a key or for a combination, the plus sign included.
\<close>

lemma single_character_is_itself:
  assumes "is_scalar c"
  shows "resolveKey low (string_of_bytes (encode_scalar c)) = Some (encode_scalar c)"
proof -
  obtain d where d: "is_scalar d"
    "to_lower low (string_of_bytes (encode_scalar c)) = string_of_bytes (encode_scalar d)"
    using lower_single [OF assms] by blast
  have "encode_rune c = encode_scalar c" using assms by (simp add: encode_rune_def)
  then show ?thesis
    by (simp add: resolveKey_def d scalar_no_combo scalar_not_named str_runes_def encode_scalar_runes assms Let_def)
qed

text \<open>
  The name is folded to lower case before it is taken apart: \<open>Alt+F\<close> types what \<open>Alt+f\<close> does.  And
  control is not supported with every key, as the message for unknown keys says.
\<close>

lemma alt_loses_case: "resolveKey low ''Alt+F'' = resolveKey low ''Alt+f''"
proof -
  have "map lower_char ''Alt+F'' = ''alt+f''" "map lower_char ''Alt+f'' = ''alt+f''" by code_simp+
  then have "to_lower low ''Alt+F'' = ''alt+f''" "to_lower low ''Alt+f'' = ''alt+f''"
    by (simp_all add: to_lower_def is_ascii_def)
  moreover have "resolveModifierCombo ''alt+f'' \<noteq> None"
  proof -
    have "str_split CHR ''+'' ''alt+f'' = [''alt'', ''f'']" by simp
    moreover have "bytes_of ''f'' = [0x66]" by (simp add: bytes_of_def byte_of_char_def)
    ultimately show ?thesis
      by (simp add: resolveModifierCombo_def alt_key_def str_runes_def decode_rune_def Let_def)
  qed
  ultimately show ?thesis by (auto simp: resolveKey_def)
qed

end
