(* ===== verification/Config.thy ===== *)
theory Config
  imports Json Api
begin

text \<open>
  Configuration: \<open>internal/config\<close>, which reads the fields of a struct and their tags by reflection,
  the fields of \<open>api.Options\<close> and \<open>terminal.Options\<close>, the order in which \<open>assembleServer\<close> of
  \<open>cmd/serve.go\<close> applies the sources, and the address a second desktop instance computes
  (\<open>cmd/app.go\<close>).  A struct is the list of its field descriptions and a function from field names
  to values; the parsed command line is a parameter with two functions, which flags were given and
  what their values print as.
\<close>

section \<open>Fields\<close>

datatype field_kind = KString | KBool | KInt | KOther

datatype field_value = FString string | FBool bool | FInt int | FOther json

record field_spec =
  fs_name :: string
  fs_json :: string
  fs_flag :: string
  fs_short :: string
  fs_default :: string
  fs_kind :: field_kind

type_synonym struct_values = "string \<Rightarrow> field_value"
type_synonym struct = "field_spec list \<times> struct_values"

definition go_field :: "string \<Rightarrow> string \<Rightarrow> string \<Rightarrow> string \<Rightarrow> string \<Rightarrow> field_kind \<Rightarrow> field_spec" where
  "go_field n j f sh d k = \<lparr>fs_name = n, fs_json = j, fs_flag = f, fs_short = sh, fs_default = d, fs_kind = k\<rparr>"

text \<open>The fields of \<open>api.Options\<close>; the JSON name \<open>-\<close> is a field that JSON ignores.\<close>

definition app_fields :: "field_spec list" where
  "app_fields =
     [go_field ''Address'' ''address'' ''address'' ''a'' ''127.0.0.1'' KString,
      go_field ''Port'' ''port'' ''port'' ''p'' ''8040'' KString,
      go_field ''PermitWrite'' ''permit_write'' ''permit-write'' ''w'' ''true'' KBool,
      go_field ''TitleFormat'' ''title_format'' ''title-format'' '''' (''GoSSH - {{ .name }}@'' @ ''{{ .addr }}'') KString,
      go_field ''EnableReconnect'' ''enable_reconnect'' ''reconnect'' '''' ''true'' KBool,
      go_field ''ReconnectTime'' ''reconnect_time'' ''reconnect-time'' '''' ''10'' KInt,
      go_field ''MaxSession'' ''max_session'' ''max-session'' '''' ''0'' KInt,
      go_field ''Mirror'' ''mirror'' ''mirror'' '''' ''true'' KBool,
      go_field ''AnswerQueries'' ''answer_queries'' ''answer-queries'' '''' ''true'' KBool,
      go_field ''Timeout'' ''timeout'' ''timeout'' '''' ''900'' KInt,
      go_field ''ConnectTimeout'' ''connect_timeout'' ''connect-timeout'' '''' ''10'' KInt,
      go_field ''SessionFile'' ''session_file'' ''session-file'' '''' ''~/.gossh/sessions.json'' KString,
      go_field ''HostsFile'' ''hosts_file'' ''hosts-file'' '''' ''~/.gossh/hosts.json'' KString,
      go_field ''KnownHostsFile'' ''known_hosts_file'' ''known-hosts-file'' '''' ''~/.gossh/known_hosts'' KString,
      go_field ''TokenFile'' ''token_file'' ''token-file'' '''' ''~/.gossh/token'' KString,
      go_field ''Token'' ''token'' ''token'' '''' '''' KString,
      go_field ''TitleFile'' ''title_file'' ''title-file'' '''' ''~/.gossh/title.json'' KString,
      go_field ''LogFile'' ''log_file'' ''log-file'' '''' ''~/.gossh/logs/gossh.log'' KString,
      go_field ''Width'' ''width'' ''width'' '''' ''0'' KInt,
      go_field ''Height'' ''height'' ''height'' '''' ''0'' KInt,
      go_field ''WSOrigin'' ''ws_origin'' ''ws-origin'' '''' '''' KString,
      go_field ''Term'' ''term'' ''term'' '''' ''xterm-256color'' KString,
      go_field ''EnableTLS'' ''enable_tls'' ''tls'' ''t'' ''false'' KBool,
      go_field ''TLSCrtFile'' ''tls_crt_file'' ''tls-crt'' '''' ''~/.gossh.crt'' KString,
      go_field ''TLSKeyFile'' ''tls_key_file'' ''tls-key'' '''' ''~/.gossh.key'' KString,
      go_field ''TitleVariables'' ''-'' '''' '''' '''' KOther,
      go_field ''Preferences'' ''preferences'' '''' '''' '''' KOther]"

definition term_fields :: "field_spec list" where
  "term_fields =
     [go_field ''CloseSignal'' ''close_signal'' ''close-signal'' '''' ''1'' KInt,
      go_field ''CloseTimeout'' ''close_timeout'' ''close-timeout'' '''' ''3'' KInt,
      go_field ''Term'' ''term'' '''' '''' '''' KString,
      go_field ''DialCredentials'' ''-'' '''' '''' '''' KOther]"

definition zero_value :: "field_kind \<Rightarrow> field_value" where
  "zero_value k = (case k of KString \<Rightarrow> FString '''' | KBool \<Rightarrow> FBool False | KInt \<Rightarrow> FInt 0 | KOther \<Rightarrow> FOther JNull)"

definition zero_values :: "field_spec list \<Rightarrow> struct_values" where
  "zero_values fs n =
     (case find (\<lambda>f. fs_name f = n) fs of None \<Rightarrow> FOther JNull | Some f \<Rightarrow> zero_value (fs_kind f))"

section \<open>Defaults\<close>

text \<open>The value of a default tag: an error, the field as it is, or a value.\<close>

definition default_value :: "field_spec \<Rightarrow> string + field_value option" where
  "default_value f =
     (case fs_kind f of
        KString \<Rightarrow> Inr (Some (FString (fs_default f)))
      | KBool \<Rightarrow>
          if fs_default f = ''true'' then Inr (Some (FBool True))
          else if fs_default f = ''false'' then Inr (Some (FBool False))
          else Inl ''invalid bool expression''
      | KInt \<Rightarrow> (case atoi (fs_default f) of None \<Rightarrow> Inl ''invalid int'' | Some i \<Rightarrow> Inr (Some (FInt i)))
      | KOther \<Rightarrow> Inr None)"

fun applyDefaultValues :: "field_spec list \<Rightarrow> struct_values \<Rightarrow> string option \<times> struct_values" where
  "applyDefaultValues [] s = (None, s)"
| "applyDefaultValues (f # fs) s =
     (if fs_default f = '''' then applyDefaultValues fs s
      else case default_value f of
             Inl e \<Rightarrow> (Some e, s)
           | Inr None \<Rightarrow> applyDefaultValues fs s
           | Inr (Some v) \<Rightarrow> applyDefaultValues fs (s(fs_name f := v)))"

section \<open>Flags\<close>

text \<open>\<open>AttachFlags\<close>: the flags registered, with their kind and default, and the map of flags to fields.\<close>

record flag_def =
  gd_name :: string
  gd_short :: string
  gd_default :: field_value

definition flagged :: "field_spec list \<Rightarrow> field_spec list" where
  "flagged fs = filter (\<lambda>f. fs_flag f \<noteq> '''') fs"

definition attachFlags :: "struct list \<Rightarrow> flag_def list \<times> (string \<times> string) list" where
  "attachFlags structs =
     (concat (map (\<lambda>(fs, s). map (\<lambda>f. \<lparr>gd_name = fs_flag f, gd_short = fs_short f, gd_default = s (fs_name f)\<rparr>)
                                (filter (\<lambda>f. fs_kind f \<noteq> KOther) (flagged fs))) structs),
      fold (\<lambda>(fs, s) m. fold (\<lambda>f m. map_put (fs_flag f) (fs_name f) m) (flagged fs) m) structs [])"

text \<open>The parsed command line.\<close>

record cli_flags =
  cf_changed :: "string \<Rightarrow> bool"
  cf_value :: "string \<Rightarrow> string"

text \<open>A field of every struct that has one of that name is set.\<close>

definition set_named :: "string \<Rightarrow> (field_kind \<Rightarrow> field_value) \<Rightarrow> struct list \<Rightarrow> struct list" where
  "set_named n v structs =
     map (\<lambda>(fs, s). (fs, fold (\<lambda>f s. if fs_name f = n then s(n := v (fs_kind f)) else s) fs s)) structs"

definition flag_value :: "string \<Rightarrow> field_kind \<Rightarrow> field_value" where
  "flag_value raw k =
     (case k of
        KString \<Rightarrow> FString raw
      | KBool \<Rightarrow> FBool (raw = ''true'')
      | KInt \<Rightarrow> FInt (case atoi raw of None \<Rightarrow> 0 | Some i \<Rightarrow> i)
      | KOther \<Rightarrow> FOther JNull)"

definition applyFlags :: "cli_flags \<Rightarrow> (string \<times> string) list \<Rightarrow> struct list \<Rightarrow> struct list" where
  "applyFlags cf m structs =
     fold (\<lambda>(flag, name) ss. if cf_changed cf flag then set_named name (flag_value (cf_value cf flag)) ss else ss)
       m structs"

section \<open>Environment\<close>

definition env_name :: "string \<Rightarrow> string" where
  "env_name flag = ''GOSSH_'' @ map upper_char (map (\<lambda>c. if c = CHR ''-'' then CHR ''_'' else c) flag)"

text \<open>\<open>strconv.ParseBool\<close>.\<close>

definition parse_bool :: "string \<Rightarrow> bool option" where
  "parse_bool s =
     (if s \<in> {''1'', ''t'', ''T'', ''true'', ''TRUE'', ''True''} then Some True
      else if s \<in> {''0'', ''f'', ''F'', ''false'', ''FALSE'', ''False''} then Some False
      else None)"

definition env_value :: "string \<Rightarrow> field_kind \<Rightarrow> field_value option" where
  "env_value raw k =
     (case k of
        KString \<Rightarrow> Some (FString raw)
      | KBool \<Rightarrow> map_option FBool (parse_bool raw)
      | KInt \<Rightarrow> map_option FInt (atoi raw)
      | KOther \<Rightarrow> Some (FOther JNull))"

definition named_kinds :: "string \<Rightarrow> struct list \<Rightarrow> field_kind list" where
  "named_kinds n structs = concat (map (\<lambda>(fs, s). map fs_kind (filter (\<lambda>f. fs_name f = n) fs)) structs)"

text \<open>A value that does not parse ends the loop with an error.\<close>

fun applyEnv ::
  "(string \<Rightarrow> string option) \<Rightarrow> cli_flags \<Rightarrow> (string \<times> string) list \<Rightarrow> struct list \<Rightarrow> string + struct list" where
  "applyEnv env cf [] structs = Inr structs"
| "applyEnv env cf ((flag, name) # m) structs =
     (if cf_changed cf flag then applyEnv env cf m structs
      else case env (env_name flag) of
             None \<Rightarrow> applyEnv env cf m structs
           | Some raw \<Rightarrow>
               if list_ex (\<lambda>k. env_value raw k = None) (named_kinds name structs)
               then Inl (''invalid value for env '' @ env_name flag)
               else applyEnv env cf m (set_named name (\<lambda>k. the (env_value raw k)) structs))"

section \<open>The configuration file\<close>

text \<open>A JSON object is decoded into a struct by the JSON names of its fields.\<close>

definition json_field :: "field_spec \<Rightarrow> struct_values field_decoder" where
  "json_field f j s =
     (case fs_kind f of
        KString \<Rightarrow> (case j of JNull \<Rightarrow> Some s | JStr t \<Rightarrow> Some (s(fs_name f := FString t)) | _ \<Rightarrow> None)
      | KBool \<Rightarrow> (case j of JNull \<Rightarrow> Some s | JBool b \<Rightarrow> Some (s(fs_name f := FBool b)) | _ \<Rightarrow> None)
      | KInt \<Rightarrow> (case j of JNull \<Rightarrow> Some s
                 | JNum i \<Rightarrow> if in_int64 i then Some (s(fs_name f := FInt i)) else None
                 | _ \<Rightarrow> None)
      | KOther \<Rightarrow> (case j of JNull \<Rightarrow> Some (s(fs_name f := FOther JNull))
                   | JObj ms \<Rightarrow> Some (s(fs_name f := FOther (JObj ms)))
                   | _ \<Rightarrow> None))"

definition json_fields :: "field_spec list \<Rightarrow> (string \<times> struct_values field_decoder) list" where
  "json_fields fs = map (\<lambda>f. (fs_json f, json_field f)) (filter (\<lambda>f. fs_json f \<noteq> ''-'') fs)"

fun decode_structs :: "json \<Rightarrow> struct list \<Rightarrow> struct list option" where
  "decode_structs j [] = Some []"
| "decode_structs j ((fs, s) # structs) =
     (case decode_struct (json_fields fs) j s of
        None \<Rightarrow> None
      | Some s' \<Rightarrow> map_option (Cons (fs, s')) (decode_structs j structs))"

definition applyConfigFile ::
  "json_parser \<Rightarrow> string \<Rightarrow> string \<Rightarrow> disk \<Rightarrow> struct list \<Rightarrow> string + struct list" where
  "applyConfigFile parse home path d structs =
     (case d (expand_path home path) of
        None \<Rightarrow> Inl ''no such file''
      | Some data \<Rightarrow>
          if trim_space data = '''' then Inr structs
          else (case parse data of
                  None \<Rightarrow> Inl ''invalid JSON''
                | Some j \<Rightarrow> (case decode_structs j structs of
                               None \<Rightarrow> Inl ''invalid value'' | Some ss \<Rightarrow> Inr ss)))"

section \<open>Assembling the options\<close>

definition apply_all_defaults :: "struct list \<Rightarrow> string + struct list" where
  "apply_all_defaults structs =
     fold (\<lambda>(fs, s) acc. case acc of
             Inl e \<Rightarrow> Inl e
           | Inr ss \<Rightarrow> (case applyDefaultValues fs s of (None, s') \<Rightarrow> Inr (ss @ [(fs, s')]) | (Some e, _) \<Rightarrow> Inl e))
       structs (Inr [])"

text \<open>
  The first part of \<open>assembleServer\<close>: defaults, environment, configuration file (when it was named or
  exists), flags.
\<close>

definition assembleOptions ::
  "json_parser \<Rightarrow> string \<Rightarrow> (string \<Rightarrow> string option) \<Rightarrow> disk \<Rightarrow> cli_flags \<Rightarrow> (string \<times> string) list
     \<Rightarrow> struct list \<Rightarrow> string + struct list" where
  "assembleOptions parse home env d cf m structs =
     (case apply_all_defaults structs of
        Inl e \<Rightarrow> Inl e
      | Inr s1 \<Rightarrow>
          (case applyEnv env cf m s1 of
             Inl e \<Rightarrow> Inl e
           | Inr s2 \<Rightarrow>
               let path = cf_value cf ''config''
               in case (if cf_changed cf ''config'' \<or> d (expand_path home path) \<noteq> None
                        then applyConfigFile parse home path d s2 else Inr s2) of
                    Inl e \<Rightarrow> Inl e
                  | Inr s3 \<Rightarrow> Inr (applyFlags cf m s3)))"

section \<open>The address of a running desktop instance\<close>

definition str_value :: "struct_values \<Rightarrow> string \<Rightarrow> string" where
  "str_value s n = (case s n of FString t \<Rightarrow> t | _ \<Rightarrow> '''')"

definition bool_value :: "struct_values \<Rightarrow> string \<Rightarrow> bool" where
  "bool_value s n = (case s n of FBool b \<Rightarrow> b | _ \<Rightarrow> False)"

text \<open>The address a browser is sent to: wildcards become the loopback address.\<close>

definition browser_host :: "string \<Rightarrow> string" where
  "browser_host h = (if h = ''0.0.0.0'' \<or> h = ''::'' \<or> h = '''' then ''127.0.0.1'' else h)"

definition uiURLFromOptions :: "string \<Rightarrow> disk \<Rightarrow> struct_values \<Rightarrow> string + string" where
  "uiURLFromOptions home d s =
     (if str_value s ''Port'' = ''0'' then Inl ''the running instance uses a random port (--port 0)''
      else
        let token = (if str_value s ''Token'' \<noteq> '''' then str_value s ''Token''
                     else case d (expand_path home (str_value s ''TokenFile'')) of
                            Some data \<Rightarrow> data | None \<Rightarrow> '''')
        in if token = ''''
           then Inl ''cannot determine the access token (no --token and no readable token file)''
           else Inr ((if bool_value s ''EnableTLS'' then ''https'' else ''http'') @ ''://''
                     @ browser_host (str_value s ''Address'') @ '':'' @ str_value s ''Port'' @ ''/?token='' @ token))"

text \<open>
  A second instance computes the address before \<open>assembleServer\<close> has run: its options are those the
  command was built with, the defaults.
\<close>

definition secondInstanceURL :: "string \<Rightarrow> disk \<Rightarrow> string + string" where
  "secondInstanceURL home d =
     (case applyDefaultValues app_fields (zero_values app_fields) of
        (Some e, _) \<Rightarrow> Inl e
      | (None, s) \<Rightarrow> uiURLFromOptions home d s)"

section \<open>Which source wins\<close>

definition upd_named :: "string \<Rightarrow> (field_kind \<Rightarrow> field_value) \<Rightarrow> field_spec list \<Rightarrow> struct_values \<Rightarrow> struct_values" where
  "upd_named n v fs s = fold (\<lambda>f s. if fs_name f = n then s(n := v (fs_kind f)) else s) fs s"

lemma set_named_Cons [simp]: "set_named n v ((fs, s) # structs) = (fs, upd_named n v fs s) # set_named n v structs"
  by (simp add: set_named_def upd_named_def)

lemma upd_named_other [simp]: "n' \<noteq> n \<Longrightarrow> upd_named n v fs s n' = s n'"
  unfolding upd_named_def by (induction fs arbitrary: s) simp_all

lemma upd_named_absent: "n \<notin> fs_name ` set fs \<Longrightarrow> upd_named n v fs s = s"
  unfolding upd_named_def by (induction fs arbitrary: s) auto

lemma upd_named_same:
  "distinct (map fs_name fs) \<Longrightarrow> f \<in> set fs \<Longrightarrow> upd_named (fs_name f) v fs s (fs_name f) = v (fs_kind f)"
proof (induction fs arbitrary: s)
  case (Cons g fs)
  show ?case
  proof (cases "g = f")
    case True
    then have "fs_name f \<notin> fs_name ` set fs" using Cons.prems by auto
    from upd_named_absent [OF this, of v] True show ?thesis by (simp add: upd_named_def)
  next
    case False
    with Cons.prems have "fs_name g \<noteq> fs_name f" "f \<in> set fs" by auto
    with Cons show ?thesis by (simp add: upd_named_def)
  qed
qed simp

text \<open>
  Both the flags and the environment are a source: what it gives for a flag, if anything, is stored
  into the fields the flag is mapped to.
\<close>

definition source_upd ::
  "(string \<Rightarrow> (field_kind \<Rightarrow> field_value) option) \<Rightarrow> (string \<times> string) list \<Rightarrow> field_spec list
     \<Rightarrow> struct_values \<Rightarrow> struct_values" where
  "source_upd src m fs s =
     fold (\<lambda>(flag, name) s. case src flag of None \<Rightarrow> s | Some v \<Rightarrow> upd_named name v fs s) m s"

definition from_flags :: "cli_flags \<Rightarrow> string \<Rightarrow> (field_kind \<Rightarrow> field_value) option" where
  "from_flags cf flag = (if cf_changed cf flag then Some (flag_value (cf_value cf flag)) else None)"

definition from_env :: "(string \<Rightarrow> string option) \<Rightarrow> cli_flags \<Rightarrow> string \<Rightarrow> (field_kind \<Rightarrow> field_value) option" where
  "from_env env cf flag =
     (if cf_changed cf flag then None else map_option (\<lambda>raw k. the (env_value raw k)) (env (env_name flag)))"

lemma applyFlags_Cons:
  "applyFlags cf m ((fs, s) # structs) = (fs, source_upd (from_flags cf) m fs s) # applyFlags cf m structs"
  unfolding applyFlags_def source_upd_def
  by (induction m arbitrary: s structs) (auto simp: from_flags_def)

lemma applyFlags_Nil [simp]: "applyFlags cf m [] = []"
  unfolding applyFlags_def by (induction m) (auto simp: set_named_def)

lemma applyEnv_Cons:
  "applyEnv env cf m ((fs, s) # structs) = Inr ss \<Longrightarrow> \<exists>ss'. ss = (fs, source_upd (from_env env cf) m fs s) # ss'"
proof (induction m arbitrary: s structs)
  case (Cons p m)
  then show ?case
    by (cases p) (auto simp: source_upd_def from_env_def split: if_splits option.splits)
qed (auto simp: source_upd_def)

lemma source_upd_absent: "n \<notin> snd ` set m \<Longrightarrow> source_upd src m fs s n = s n"
  unfolding source_upd_def by (induction m arbitrary: s) (auto split: option.splits)

lemma source_upd_named:
  assumes "distinct (map snd m)" and "(flag, fs_name f) \<in> set m" and "distinct (map fs_name fs)" and "f \<in> set fs"
  shows "source_upd src m fs s (fs_name f) = (case src flag of None \<Rightarrow> s (fs_name f) | Some v \<Rightarrow> v (fs_kind f))"
  using assms(1,2)
proof (induction m arbitrary: s)
  case (Cons p m)
  obtain g n where p: "p = (g, n)" by fastforce
  let ?s1 = "case src g of None \<Rightarrow> s | Some v \<Rightarrow> upd_named n v fs s"
  have step: "source_upd src (p # m) fs s = source_upd src m fs ?s1" by (simp add: source_upd_def p)
  show ?case
  proof (cases "(flag, fs_name f) = p")
    case True
    then have "fs_name f \<notin> snd ` set m" using Cons.prems p by auto
    from source_upd_absent [OF this, of src fs ?s1] step show ?thesis
      using True p upd_named_same [OF assms(3,4)] by (simp split: option.split)
  next
    case False
    with Cons.prems have mem: "(flag, fs_name f) \<in> set m" by simp
    then have "fs_name f \<in> snd ` set m" by (force simp: image_iff)
    with Cons.prems(1) p have "n \<noteq> fs_name f" by auto
    then have "?s1 (fs_name f) = s (fs_name f)" by (simp split: option.split)
    then show ?thesis using step Cons.IH [OF _ mem, of ?s1] Cons.prems(1) by (simp only: list.map distinct.simps)
  qed
qed simp

text \<open>What a configuration file sets a field to: the last member that names it and is not null.\<close>

definition find_spec :: "field_spec list \<Rightarrow> string \<Rightarrow> field_spec option" where
  "find_spec fs k =
     (let js = filter (\<lambda>f. fs_json f \<noteq> ''-'') fs
      in case find (\<lambda>f. fs_json f = k) js of
           Some f \<Rightarrow> Some f | None \<Rightarrow> find (\<lambda>f. fold_name (fs_json f) = fold_name k) js)"

fun json_value :: "field_kind \<Rightarrow> json \<Rightarrow> field_value option" where
  "json_value KString (JStr t) = Some (FString t)"
| "json_value KBool (JBool b) = Some (FBool b)"
| "json_value KInt (JNum i) = Some (FInt i)"
| "json_value KOther (JObj ms) = Some (FOther (JObj ms))"
| "json_value KOther JNull = Some (FOther JNull)"
| "json_value _ _ = None"

fun config_value :: "field_spec list \<Rightarrow> string \<Rightarrow> (string \<times> json) list \<Rightarrow> field_value option" where
  "config_value fs n [] = None"
| "config_value fs n ((k, v) # ms) =
     (case config_value fs n ms of
        Some x \<Rightarrow> Some x
      | None \<Rightarrow> (case find_spec fs k of
                   None \<Rightarrow> None | Some f \<Rightarrow> if fs_name f = n then json_value (fs_kind f) v else None))"

lemma map_of_pairs: "map_of (map (\<lambda>x. (key x, g x)) xs) k = map_option g (find (\<lambda>x. key x = k) xs)"
  by (induction xs) auto

lemma find_field_spec: "find_field (json_fields fs) k = map_option json_field (find_spec fs k)"
  by (auto simp: find_field_def json_fields_def find_spec_def map_of_pairs comp_def Let_def split: option.split)

lemma json_field_value:
  "json_field f j s = Some s' \<Longrightarrow>
     s' n = (case (if fs_name f = n then json_value (fs_kind f) j else None) of None \<Rightarrow> s n | Some v \<Rightarrow> v)"
  by (cases "fs_kind f"; cases j) (auto simp: json_field_def split: if_splits)

lemma decode_config_value:
  "decode_members (json_fields fs) ms s = Some s' \<Longrightarrow>
     s' n = (case config_value fs n ms of None \<Rightarrow> s n | Some v \<Rightarrow> v)"
proof (induction ms arbitrary: s)
  case (Cons p ms)
  obtain k v where p: "p = (k, v)" by fastforce
  show ?case
  proof (cases "find_spec fs k")
    case None
    with Cons show ?thesis by (simp add: p find_field_spec split: option.split)
  next
    case (Some f)
    with Cons.prems obtain s1 where s1: "json_field f v s = Some s1" "decode_members (json_fields fs) ms s1 = Some s'"
      by (auto simp: p find_field_spec split: option.splits)
    from json_field_value [OF s1(1), of n] Cons.IH [OF s1(2)] Some show ?thesis
      by (simp add: p split: option.splits)
  qed
qed simp

definition with_default :: "field_spec \<Rightarrow> field_value \<Rightarrow> field_value" where
  "with_default f v =
     (if fs_default f = '''' then v else case default_value f of Inr (Some d) \<Rightarrow> d | _ \<Rightarrow> v)"

lemma applyDefaultValues_other:
  "n \<notin> fs_name ` set fs \<Longrightarrow> snd (applyDefaultValues fs s) n = s n"
  by (induction fs s rule: applyDefaultValues.induct) (auto split: sum.split option.split)

lemma applyDefaultValues_named:
  "applyDefaultValues fs s = (None, s') \<Longrightarrow> distinct (map fs_name fs) \<Longrightarrow> f \<in> set fs \<Longrightarrow>
     s' (fs_name f) = with_default f (s (fs_name f))"
proof (induction fs arbitrary: s)
  case (Cons g fs)
  have other: "snd (applyDefaultValues fs t) (fs_name g) = t (fs_name g)" for t
    using Cons.prems(2) by (intro applyDefaultValues_other) auto
  show ?case
  proof (cases "f = g")
    case True
    with Cons.prems(1) other show ?thesis
      by (auto simp: with_default_def split: if_splits sum.splits option.splits) (metis snd_conv fun_upd_same)+
  next
    case False
    with Cons.prems have m: "f \<in> set fs" by simp
    with Cons.prems(2) have f: "f \<in> set fs" "fs_name f \<noteq> fs_name g" "distinct (map fs_name fs)"
      by (auto simp: image_iff)
    show ?thesis
      using Cons.prems(1) Cons.IH [OF _ f(3,1)] f(2) by (auto split: if_splits sum.splits option.splits)
  qed
qed simp

section \<open>The options of the server\<close>

lemma app_names: "distinct (map fs_name app_fields)"
  by (simp add: app_fields_def go_field_def)

definition server_structs :: "struct_values \<Rightarrow> struct_values \<Rightarrow> struct list" where
  "server_structs sa st = [(app_fields, sa), (term_fields, st)]"

lemma put_all_fresh:
  "distinct (map key xs) \<Longrightarrow> key ` set xs \<inter> fst ` set m = {} \<Longrightarrow>
     fold (\<lambda>x m. map_put (key x) (val x) m) xs m = m @ map (\<lambda>x. (key x, val x)) xs"
proof (induction xs arbitrary: m)
  case (Cons x xs)
  then have "map_put (key x) (val x) m = m @ [(key x, val x)]" by (intro update_fresh) auto
  with Cons show ?case by auto
qed simp

definition server_mappings :: "(string \<times> string) list" where
  "server_mappings = map (\<lambda>f. (fs_flag f, fs_name f)) (flagged app_fields @ flagged term_fields)"

lemma flagged_flags: "distinct (map fs_flag (flagged app_fields @ flagged term_fields))"
  by (simp add: flagged_def app_fields_def term_fields_def go_field_def)

lemma server_mappings_distinct: "distinct (map snd server_mappings)"
  by (simp add: server_mappings_def flagged_def app_fields_def term_fields_def go_field_def)

lemma attach_server: "snd (attachFlags (server_structs sa st)) = server_mappings"
proof -
  have d: "distinct (map fs_flag (flagged app_fields))" "distinct (map fs_flag (flagged term_fields))"
    "fs_flag ` set (flagged term_fields) \<inter> fs_flag ` set (flagged app_fields) = {}"
    using flagged_flags by auto
  show ?thesis
    using put_all_fresh [OF d(1), of "[]" fs_name] put_all_fresh [OF d(2), of "map (\<lambda>f. (fs_flag f, fs_name f)) (flagged app_fields)" fs_name] d(3)
    by (simp add: attachFlags_def server_structs_def server_mappings_def image_image)
qed

lemma flagged_mapped: "f \<in> set app_fields \<Longrightarrow> fs_flag f \<noteq> '''' \<Longrightarrow> (fs_flag f, fs_name f) \<in> set server_mappings"
  by (auto simp: server_mappings_def flagged_def)


lemma defaults_parse:
  "list_all (\<lambda>f. fs_default f = '''' \<or> is_ok (default_value f)) fs \<Longrightarrow> \<exists>s'. applyDefaultValues fs s = (None, s')"
  by (induction fs arbitrary: s) (auto split: option.split)

lemma demo_numbers:
  "atoi ''10'' = Some 10" "atoi ''0'' = Some 0" "atoi ''900'' = Some 900" "atoi ''1'' = Some 1" "atoi ''3'' = Some 3"
  by code_simp+

lemma server_defaults_parse:
  "list_all (\<lambda>f. fs_default f = '''' \<or> is_ok (default_value f)) app_fields"
  "list_all (\<lambda>f. fs_default f = '''' \<or> is_ok (default_value f)) term_fields"
  by (simp_all add: app_fields_def term_fields_def go_field_def default_value_def demo_numbers)

lemma server_defaults:
  "\<exists>s t. apply_all_defaults (server_structs sa st) = Inr [(app_fields, s), (term_fields, t)]"
  using defaults_parse [OF server_defaults_parse(1), of sa] defaults_parse [OF server_defaults_parse(2), of st]
  by (auto simp: apply_all_defaults_def server_structs_def)

lemma applyEnv_unset: "applyEnv (\<lambda>_. None) cf m structs = Inr structs"
  by (induction m) auto


text \<open>
  The address a second desktop instance opens does not depend on the flags, the environment or the
  configuration file the running instance was started with: it is the default port on the loopback
  address, and the token of the default token file.
\<close>

lemma second_instance_uses_defaults:
  assumes "d (expand_path home ''~/.gossh/token'') = Some token" and "token \<noteq> ''''"
  shows "secondInstanceURL home d = Inr (''http://127.0.0.1:8040/?token='' @ token)"
proof -
  obtain s where s: "applyDefaultValues app_fields (zero_values app_fields) = (None, s)"
    using defaults_parse [OF server_defaults_parse(1)] by blast
  have v: "s (fs_name f) = with_default f (zero_values app_fields (fs_name f))" if "f \<in> set app_fields" for f
    by (rule applyDefaultValues_named [OF s app_names that])
  have "s ''Port'' = FString ''8040''" "s ''Token'' = FString ''''" "s ''TokenFile'' = FString ''~/.gossh/token''"
    "s ''EnableTLS'' = FBool False" "s ''Address'' = FString ''127.0.0.1''"
    using v [of "go_field ''Port'' ''port'' ''port'' ''p'' ''8040'' KString"]
      v [of "go_field ''Token'' ''token'' ''token'' '''' '''' KString"]
      v [of "go_field ''TokenFile'' ''token_file'' ''token-file'' '''' ''~/.gossh/token'' KString"]
      v [of "go_field ''EnableTLS'' ''enable_tls'' ''tls'' ''t'' ''false'' KBool"]
      v [of "go_field ''Address'' ''address'' ''address'' ''a'' ''127.0.0.1'' KString"]
    by (simp_all add: app_fields_def go_field_def with_default_def default_value_def zero_values_def zero_value_def)
  then show ?thesis
    using assms by (simp add: secondInstanceURL_def s uiURLFromOptions_def str_value_def bool_value_def browser_host_def Let_def)
qed

end
