(* ===== verification/Http.thy ===== *)
theory Http
  imports Store Forwards
begin

text \<open>
  What the server and its clients share: answers and their status lines, the cleaning of paths and
  the reading of queries by the standard library, and the JSON form of a session
  (\<open>StateDescription\<close>), which the server writes and the command line reads.
\<close>

section \<open>Answers\<close>

text \<open>An answer: the status, the status line, the body as text and, when it parses, as JSON.\<close>

record response =
  hr_status :: nat
  hr_line :: string
  hr_text :: string
  hr_json :: "json option"

definition http_status_text :: "nat \<Rightarrow> string" where
  "http_status_text n =
     (case map_of
        [(200, ''OK''), (201, ''Created''), (204, ''No Content''),
         (300, ''Multiple Choices''), (301, ''Moved Permanently''), (302, ''Found''), (303, ''See Other''),
         (304, ''Not Modified''), (307, ''Temporary Redirect''), (308, ''Permanent Redirect''),
         (400, ''Bad Request''), (401, ''Unauthorized''), (403, ''Forbidden''), (404, ''Not Found''),
         (405, ''Method Not Allowed''), (408, ''Request Timeout''), (409, ''Conflict''), (410, ''Gone''),
         (413, ''Request Entity Too Large''), (415, ''Unsupported Media Type''), (429, ''Too Many Requests''),
         (500, ''Internal Server Error''), (501, ''Not Implemented''), (502, ''Bad Gateway''),
         (503, ''Service Unavailable''), (504, ''Gateway Timeout'')] n of
        None \<Rightarrow> '''' | Some t \<Rightarrow> t)"

definition status_line :: "nat \<Rightarrow> string" where
  "status_line n = nat_itoa n @ '' '' @ http_status_text n"

definition nl :: string where "nl = [CHR 0x0A]"

section \<open>Paths and queries\<close>

text \<open>\<open>path.Clean\<close> (and \<open>filepath.Clean\<close> where the separator is a slash), and \<open>filepath.Join\<close>.\<close>

fun clean_parts :: "bool \<Rightarrow> string list \<Rightarrow> string list \<Rightarrow> string list" where
  "clean_parts rooted acc [] = rev acc"
| "clean_parts rooted acc (p # ps) =
     (if p = '''' \<or> p = ''.'' then clean_parts rooted acc ps
      else if p = ''..'' then
        (case acc of
           [] \<Rightarrow> if rooted then clean_parts rooted [] ps else clean_parts rooted [''..''] ps
         | a # as \<Rightarrow> if a = ''..'' then clean_parts rooted (''..'' # acc) ps else clean_parts rooted as ps)
      else clean_parts rooted (p # acc) ps)"

definition path_clean :: "string \<Rightarrow> string" where
  "path_clean s =
     (let rooted = has_prefix ''/'' s;
          out = (if rooted then ''/'' else '''') @ str_join ''/'' (clean_parts rooted [] (str_split CHR ''/'' s))
      in if out = '''' then ''.'' else out)"

definition path_join :: "string list \<Rightarrow> string" where
  "path_join ps =
     (case filter (\<lambda>p. p \<noteq> '''') ps of [] \<Rightarrow> '''' | qs \<Rightarrow> path_clean (str_join ''/'' qs))"

text \<open>The path the router works with: rooted and clean, a slash at the end kept.\<close>

definition clean_url_path :: "string \<Rightarrow> string" where
  "clean_url_path p =
     (if p = '''' then ''/''
      else
        let r = (if hd p = CHR ''/'' then p else ''/'' @ p); np = path_clean r
        in if last r = CHR ''/'' \<and> np \<noteq> ''/'' then np @ ''/'' else np)"

text \<open>
  \<open>URL.Query().Get\<close>: the first pair with the key; a pair that does not unescape or has a semicolon
  is skipped.  \<open>unq\<close> is \<open>url.QueryUnescape\<close>.
\<close>

definition query_pair :: "(string \<Rightarrow> string option) \<Rightarrow> string \<Rightarrow> (string \<times> string) option" where
  "query_pair unq s =
     (if s = '''' \<or> CHR '';'' \<in> set s then None
      else
        let (k, v) = (case str_cut ''='' s of None \<Rightarrow> (s, '''') | Some kv \<Rightarrow> kv)
        in case (unq k, unq v) of (Some a, Some b) \<Rightarrow> Some (a, b) | _ \<Rightarrow> None)"

definition query_get :: "(string \<Rightarrow> string option) \<Rightarrow> string \<Rightarrow> string \<Rightarrow> string" where
  "query_get unq raw key =
     (case map_of (List.map_filter (query_pair unq) (str_split CHR ''&'' raw)) key of
        None \<Rightarrow> '''' | Some v \<Rightarrow> v)"

section \<open>A session as JSON\<close>

definition sd_json :: "state_description \<Rightarrow> json" where
  "sd_json s =
     JObj ([(''id'', JStr (sd_id s)), (''state'', JStr (sd_state s)), (''spec'', spec_json (sd_spec s)),
            (''exited'', JBool (sd_exited s))]
           @ str_field ''title'' (sd_title s) @ [(''created_at'', JStr (sd_createdAt s))])"

definition zero_description :: state_description where
  "zero_description = \<lparr>sd_id = '''', sd_state = '''', sd_spec = zero_spec, sd_exited = False, sd_title = '''',
                       sd_createdAt = ''''\<rparr>"

definition sd_fields :: "(string \<times> state_description field_decoder) list" where
  "sd_fields =
     [(''id'', f_str sd_id_update), (''state'', f_str sd_state_update),
      (''spec'', f_struct spec_fields sd_spec sd_spec_update), (''exited'', f_bool sd_exited_update),
      (''title'', f_str sd_title_update), (''created_at'', f_str sd_createdAt_update)]"

text \<open>What is written is read back.\<close>

lemma description_read_back: "decode_struct sd_fields (sd_json s) zero_description = Some s"
  by (cases s) (simp add: sd_json_def sd_fields_def decode_struct_def [of sd_fields] decode_struct_def [of "[_, _, _, _, _, _]"]
    find_field_def f_struct_def decode_spec f_str_def f_bool_def str_field_def zero_description_def)

lemma elems_read_back:
  "(\<And>x. x \<in> set xs \<Longrightarrow> dec (enc x) zero = Some x) \<Longrightarrow> decode_elems dec zero (map enc xs) = Some xs"
  by (induction xs) auto

end
