(* ===== verification/Cli.thy ===== *)
theory Cli
  imports Keys Config Http
begin

text \<open>
  \<open>cmd/client.go\<close>: what the commands that talk to a running server share.  A command is a resumption:
  it ends with a result, or issues a request and goes on with the answer, so that its requests and
  their order are part of the model, and a command can be run against any server.
\<close>

section \<open>Requests and commands\<close>

record request =
  hq_method :: string
  hq_url :: string
  hq_auth :: string
  hq_body :: "json option"

text \<open>No answer at all is a server that cannot be reached.\<close>

datatype 'r cli = Done 'r | Call request "response option \<Rightarrow> 'r cli"

primrec cli_bind :: "'a cli \<Rightarrow> ('a \<Rightarrow> 'b cli) \<Rightarrow> 'b cli" where
  "cli_bind (Done r) f = f r"
| "cli_bind (Call q k) f = Call q (\<lambda>a. cli_bind (k a) f)"

text \<open>Go on unless there is an error.\<close>

definition cli_try :: "('e + 'a) cli \<Rightarrow> ('a \<Rightarrow> ('e + 'b) cli) \<Rightarrow> ('e + 'b) cli" where
  "cli_try m f = cli_bind m (\<lambda>r. case r of Inl e \<Rightarrow> Done (Inl e) | Inr a \<Rightarrow> f a)"

text \<open>A command run against a world: its result, the world after it, and the requests it made.\<close>

primrec run_cli :: "('w \<Rightarrow> request \<Rightarrow> response option \<times> 'w) \<Rightarrow> 'r cli \<Rightarrow> 'w \<Rightarrow> 'r \<times> 'w \<times> request list" where
  "run_cli srv (Done r) w = (r, w, [])"
| "run_cli srv (Call q k) w =
     (case srv w q of (a, w1) \<Rightarrow> (case run_cli srv (k a) w1 of (r, w2, qs) \<Rightarrow> (r, w2, q # qs)))"

section \<open>Where the server is\<close>

text \<open>\<open>home\<close> is \<open>os.UserHomeDir\<close>.\<close>

definition expandHome :: "string option \<Rightarrow> string \<Rightarrow> string" where
  "expandHome home path =
     (if \<not> has_prefix ''~/'' path then path
      else case home of
             None \<Rightarrow> path
           | Some h \<Rightarrow> if h = '''' then path else path_join [h, drop 2 path])"

text \<open>
  The outside of a command: the JSON parser, environment, files, home directory, standard input and
  output, the library's tables of lower case and case folding, its formats of times and quoted
  strings, and whether files can be written (the temporary one under its name).
\<close>

record cli_env =
  ce_parse :: json_parser
  ce_env :: "string \<Rightarrow> string option"
  ce_disk :: disk
  ce_home :: "string option"
  ce_stdin :: "string option"
  ce_tty :: bool
  ce_low :: "nat \<Rightarrow> nat"
  ce_fold :: "nat \<Rightarrow> nat"
  ce_quote :: "string \<Rightarrow> string"
  ce_writable :: bool
  ce_temp :: "string option"
  ce_rfc3339 :: "int \<Rightarrow> string"

text \<open>The persistent flags of the commands that talk to a server; a flag not given is empty.\<close>

record api_flags =
  af_config :: string
  af_server :: string
  af_token :: string
  af_tokenFile :: string
  af_json :: "bool option"

definition getenv :: "cli_env \<Rightarrow> string \<Rightarrow> string" where
  "getenv ce k = (case ce_env ce k of None \<Rightarrow> '''' | Some v \<Rightarrow> v)"

definition client_options :: "cli_env \<Rightarrow> api_flags \<Rightarrow> string + struct_values" where
  "client_options ce af =
     (case applyDefaultValues app_fields (zero_values app_fields) of
        (Some e, _) \<Rightarrow> Inl e
      | (None, s) \<Rightarrow>
          (case ce_disk ce (expandHome (ce_home ce) (af_config af)) of
             None \<Rightarrow> Inr s
           | Some data \<Rightarrow>
               if trim_space data = '''' then Inr s
               else (case Option.bind (ce_parse ce data) (\<lambda>j. decode_struct (json_fields app_fields) j s) of
                       None \<Rightarrow> Inl ''invalid config file'' | Some s' \<Rightarrow> Inr s')))"

definition trim_slashes :: "string \<Rightarrow> string" where
  "trim_slashes s = trim_right (\<lambda>c. c = CHR ''/'') s"

definition client_base :: "cli_env \<Rightarrow> api_flags \<Rightarrow> struct_values \<Rightarrow> string + string" where
  "client_base ce af s =
     (let given = (if af_server af = '''' then getenv ce ''GOSSH_SERVER'' else af_server af);
          base = (if given \<noteq> '''' then Inr given
                  else if str_value s ''Port'' = ''0''
                  then Inl ''the running server chose a random port (--port 0); pass --server http://host:port''
                  else Inr ((if bool_value s ''EnableTLS'' then ''https'' else ''http'') @ ''://''
                            @ browser_host (str_value s ''Address'') @ '':'' @ str_value s ''Port''))
      in case base of
           Inl e \<Rightarrow> Inl e
         | Inr b \<Rightarrow> Inr (trim_slashes (if str_contains ''://'' b then b else ''http://'' @ b)))"

definition client_token :: "cli_env \<Rightarrow> api_flags \<Rightarrow> struct_values \<Rightarrow> string" where
  "client_token ce af s =
     (if af_token af \<noteq> '''' then af_token af
      else if getenv ce ''GOSSH_TOKEN'' \<noteq> '''' then getenv ce ''GOSSH_TOKEN''
      else if str_value s ''Token'' \<noteq> '''' then str_value s ''Token''
      else
        let tokenFile = (if af_tokenFile af = '''' then str_value s ''TokenFile'' else af_tokenFile af)
        in if tokenFile = '''' then ''''
           else (case ce_disk ce (expandHome (ce_home ce) tokenFile) of None \<Rightarrow> '''' | Some data \<Rightarrow> trim_space data))"

record api_client =
  ac_base :: string
  ac_token :: string

definition apiEndpoint :: "cli_env \<Rightarrow> api_flags \<Rightarrow> string + api_client" where
  "apiEndpoint ce af =
     (case client_options ce af of
        Inl e \<Rightarrow> Inl e
      | Inr s \<Rightarrow>
          (case client_base ce af s of
             Inl e \<Rightarrow> Inl e
           | Inr base \<Rightarrow>
               let token = client_token ce af s
               in if token = ''''
                  then Inl (''no access token found: pass --token, set GOSSH_TOKEN, or make sure ''
                            @ ''the server's token file is readable'')
                  else Inr \<lparr>ac_base = base, ac_token = token\<rparr>))"

section \<open>Calls\<close>

text \<open>The error of an answer, from at most 4096 bytes of its body.\<close>

definition error_field :: "json \<Rightarrow> string option" where
  "error_field j = decode_struct [(''error'', f_str (\<lambda>g s. g s))] j ''''"

definition error_message :: "response \<Rightarrow> string" where
  "error_message r =
     (let raw = trim_space (take 4096 (hr_text r));
          field = (if length (hr_text r) \<le> 4096 then Option.bind (hr_json r) error_field else None);
          message = (case field of Some e \<Rightarrow> if e \<noteq> '''' then e else raw | None \<Rightarrow> raw)
      in if message = '''' then hr_line r else message)"

definition apiError :: "response \<Rightarrow> string" where
  "apiError r =
     (let message = error_message r
      in if hr_status r = 401 then message @ '' (check --token / GOSSH_TOKEN / the server's token file)''
         else if hr_status r = 403 then message @ '' (the server was started with --permit-write=false)''
         else if hr_status r = 503 \<and> str_contains ''mirror'' message
         then message @ '' (the screen mirror is on by default; check --mirror)''
         else http_status_text (hr_status r) @ '': '' @ message)"

definition api_request :: "api_client \<Rightarrow> string \<Rightarrow> string \<Rightarrow> json option \<Rightarrow> request" where
  "api_request c m path body =
     \<lparr>hq_method = m, hq_url = ac_base c @ path, hq_auth = ''Bearer '' @ ac_token c, hq_body = body\<rparr>"

text \<open>\<open>do\<close> and \<open>getBytes\<close>: one request; \<open>out\<close> reads the body of a success.\<close>

definition api_call ::
  "api_client \<Rightarrow> string \<Rightarrow> string \<Rightarrow> json option \<Rightarrow> (response \<Rightarrow> 'a option) \<Rightarrow> (string + 'a) cli" where
  "api_call c m path body out =
     Call (api_request c m path body)
       (\<lambda>a. Done (case a of
           None \<Rightarrow> Inl (''cannot reach '' @ ac_base c)
         | Some r \<Rightarrow>
             if hr_status r < 200 \<or> hr_status r \<ge> 300 then Inl (apiError r)
             else (case out r of None \<Rightarrow> Inl ''invalid response'' | Some x \<Rightarrow> Inr x)))"

definition no_out :: "response \<Rightarrow> unit option" where
  "no_out r = Some ()"

definition text_out :: "response \<Rightarrow> string option" where
  "text_out r = Some (hr_text r)"

definition json_out :: "'a field_decoder \<Rightarrow> 'a \<Rightarrow> response \<Rightarrow> 'a option" where
  "json_out dec zero r = Option.bind (hr_json r) (\<lambda>j. dec j zero)"

text \<open>A list: \<open>null\<close> is the empty list.\<close>

definition f_elems :: "'v field_decoder \<Rightarrow> 'v \<Rightarrow> ('v list) field_decoder" where
  "f_elems dec zero j xs =
     (case j of JNull \<Rightarrow> Some [] | JArr js \<Rightarrow> decode_elems dec zero js | _ \<Rightarrow> None)"

section \<open>Hosts by name\<close>

text \<open>
  \<open>strings.EqualFold\<close>: the runes agree up to simple case folding; \<open>ce_fold\<close> gives the representative of
  a rune's class, the library's table.
\<close>

definition equal_fold :: "(nat \<Rightarrow> nat) \<Rightarrow> string \<Rightarrow> string \<Rightarrow> bool" where
  "equal_fold fo a b \<longleftrightarrow> map fo (str_runes a) = map fo (str_runes b)"

definition listHosts :: "api_client \<Rightarrow> (string + host list) cli" where
  "listHosts c = api_call c ''GET'' ''/api/hosts'' None (json_out (f_elems (decode_struct host_fields) zero_host) [])"

definition pick_host :: "cli_env \<Rightarrow> string \<Rightarrow> host list \<Rightarrow> string + string" where
  "pick_host ce query hosts =
     (case find (\<lambda>h. h_id h = query) hosts of
        Some h \<Rightarrow> Inr (h_id h)
      | None \<Rightarrow>
          (case filter (\<lambda>h. equal_fold (ce_fold ce) (h_name h) query) hosts of
             [h] \<Rightarrow> Inr (h_id h)
           | [] \<Rightarrow> Inl (''no host matches '' @ ce_quote ce query @ '' (see `gossh hosts ls`)'')
           | hs \<Rightarrow> Inl (nat_itoa (length hs) @ '' hosts are named '' @ ce_quote ce query @ '', use the host id'')))"

definition resolveHost :: "cli_env \<Rightarrow> api_client \<Rightarrow> string \<Rightarrow> (string + string) cli" where
  "resolveHost ce c query = cli_try (listHosts c) (\<lambda>hosts. Done (pick_host ce query hosts))"

definition getHost :: "cli_env \<Rightarrow> api_client \<Rightarrow> string \<Rightarrow> (string + host) cli" where
  "getHost ce c query =
     cli_try (resolveHost ce c query) (\<lambda>i.
       api_call c ''GET'' (''/api/hosts/'' @ i) None (json_out (decode_struct host_fields) zero_host))"

section \<open>Output\<close>

text \<open>JSON, a line, bytes as they are, a file.\<close>

datatype printed = OutJson json | OutLine string | OutRaw string | OutFile string string

text \<open>A command ends with an error or not, and with what it has printed.\<close>

type_synonym outcome = "string option \<times> printed list"

definition cli_do :: "(string + 'a) cli \<Rightarrow> ('a \<Rightarrow> outcome cli) \<Rightarrow> outcome cli" where
  "cli_do m f = cli_bind m (\<lambda>r. case r of Inl e \<Rightarrow> Done (Some e, []) | Inr a \<Rightarrow> f a)"

definition fails :: "string \<Rightarrow> outcome cli" where
  "fails e = Done (Some e, [])"

definition prints :: "printed list \<Rightarrow> outcome cli" where
  "prints out = Done (None, out)"

definition with_client :: "cli_env \<Rightarrow> api_flags \<Rightarrow> (api_client \<Rightarrow> outcome cli) \<Rightarrow> outcome cli" where
  "with_client ce af f = (case apiEndpoint ce af of Inl e \<Rightarrow> fails e | Inr c \<Rightarrow> f c)"

definition cliJSON :: "cli_env \<Rightarrow> api_flags \<Rightarrow> bool" where
  "cliJSON ce af = (case af_json af of Some forced \<Rightarrow> forced | None \<Rightarrow> \<not> ce_tty ce)"

text \<open>Columns are padded to the width in runes of their widest cell, the last one is not.\<close>

fun row_widths :: "string list \<Rightarrow> nat list \<Rightarrow> nat list" where
  "row_widths [] ws = ws"
| "row_widths (c # cs) [] = length (str_runes c) # row_widths cs []"
| "row_widths (c # cs) (w # ws) = max (length (str_runes c)) w # row_widths cs ws"

fun render_row :: "nat list \<Rightarrow> string list \<Rightarrow> string" where
  "render_row ws [] = []"
| "render_row ws [c] = c"
| "render_row (w # ws) (c # d # cs) = c @ replicate (w - length (str_runes c) + 2) CHR '' '' @ render_row ws (d # cs)"
| "render_row [] (c # d # cs) = c @ ''  '' @ render_row [] (d # cs)"

definition renderTable :: "string list list \<Rightarrow> string" where
  "renderTable rows =
     (let ws = fold row_widths rows []
      in trim_right (\<lambda>c. c = CHR 0x0A) (concat (map (\<lambda>row. render_row ws row @ [CHR 0x0A]) rows)))"

end
