(* ===== verification/Cli_Sessions.thy ===== *)
theory Cli_Sessions
  imports Cli
begin

text \<open>
  The commands \<open>gossh session ...\<close> of \<open>cmd/session.go\<close>, and the forwards of a session of
  \<open>cmd/forwards.go\<close>.  A command is a function of its flags and arguments.
\<close>

section \<open>Finding the session\<close>

definition listSessions :: "api_client \<Rightarrow> (string + state_description list) cli" where
  "listSessions c =
     api_call c ''GET'' ''/api/sessions'' None
       (json_out (decode_struct [(''sessions'', f_elems (decode_struct sd_fields) zero_description)]) [])"

definition formatSessions :: "state_description list \<Rightarrow> string" where
  "formatSessions list =
     renderTable ([''ID'', ''STATE'', ''HOST'', ''ADDRESS'', ''USER'', ''TITLE'']
       # map (\<lambda>s. [sd_id s, sd_state s @ (if sd_exited s then '' (exited)'' else ''''), cs_name (sd_spec s),
                   cs_addr (sd_spec s), cs_user (sd_spec s), sd_title s]) list)"

definition describeSession :: "state_description \<Rightarrow> string" where
  "describeSession s =
     str_join '' '' ([cs_name (sd_spec s)]
       @ (if cs_addr (sd_spec s) \<noteq> '''' then [cs_user (sd_spec s) @ ''@'' @ cs_addr (sd_spec s)] else [])
       @ (if sd_exited s then [''exited''] else []))"

text \<open>An exact id, then a unique prefix of an id, then a unique title or host name.\<close>

definition pick_session ::
  "cli_env \<Rightarrow> string \<Rightarrow> string \<Rightarrow> state_description list \<Rightarrow> string + state_description" where
  "pick_session ce base query list =
     (if list = [] then Inl (''no sessions on '' @ base @ '' (create one with `gossh session create --host <host>`)'')
      else if query = '''' then
        (case list of
           [s] \<Rightarrow> Inr s
         | _ \<Rightarrow> Inl (nat_itoa (length list) @ '' sessions are alive, pick one with --session/-s:'' @ nl @ formatSessions list))
      else
        (case find (\<lambda>s. sd_id s = query) list of
           Some s \<Rightarrow> Inr s
         | None \<Rightarrow>
             (case filter (\<lambda>s. has_prefix query (sd_id s)) list of
                [s] \<Rightarrow> Inr s
              | [] \<Rightarrow>
                  (case filter (\<lambda>s. (sd_title s \<noteq> '''' \<and> equal_fold (ce_fold ce) (sd_title s) query)
                                   \<or> equal_fold (ce_fold ce) (cs_name (sd_spec s)) query) list of
                     [s] \<Rightarrow> Inr s
                   | [] \<Rightarrow> Inl (''no session matches '' @ ce_quote ce query @ '' on '' @ base @ '':'' @ nl
                               @ formatSessions list)
                   | ss \<Rightarrow> Inl (ce_quote ce query @ '' matches '' @ nat_itoa (length ss)
                               @ '' sessions, use an id instead:'' @ nl @ formatSessions ss))
              | ss \<Rightarrow> Inl (''session id prefix '' @ ce_quote ce query @ '' is ambiguous ('' @ nat_itoa (length ss)
                          @ '' matches):'' @ nl @ formatSessions ss))))"

definition resolveSession :: "cli_env \<Rightarrow> api_client \<Rightarrow> string \<Rightarrow> (string + state_description) cli" where
  "resolveSession ce c query = cli_try (listSessions c) (\<lambda>list. Done (pick_session ce (ac_base c) query list))"

definition with_session ::
  "cli_env \<Rightarrow> api_flags \<Rightarrow> string \<Rightarrow> (api_client \<Rightarrow> state_description \<Rightarrow> outcome cli) \<Rightarrow> outcome cli" where
  "with_session ce af query f = with_client ce af (\<lambda>c. cli_do (resolveSession ce c query) (f c))"

definition session_path :: "state_description \<Rightarrow> string \<Rightarrow> string" where
  "session_path s rest = ''/api/sessions/'' @ sd_id s @ rest"

section \<open>Typing\<close>

definition sendBytes :: "cli_env \<Rightarrow> api_flags \<Rightarrow> string \<Rightarrow> bytes \<Rightarrow> string \<Rightarrow> outcome cli" where
  "sendBytes ce af query payload encoding =
     with_session ce af query (\<lambda>c s.
       cli_do (api_call c ''POST'' (session_path s ''/keys'')
                (Some (JObj [(''encoding'', JStr encoding),
                             (''input'', JStr (if encoding = ''base64'' then base64_encode payload
                                              else string_of_bytes payload))]))
                (json_out (decode_struct [(''written'', f_int (\<lambda>g i. g i))]) 0))
         (\<lambda>written.
            prints (if cliJSON ce af
                    then [OutJson (JObj [(''session_id'', JStr (sd_id s)), (''written'', JNum written)])] else [])))"

definition session_type :: "cli_env \<Rightarrow> api_flags \<Rightarrow> string \<Rightarrow> bool \<Rightarrow> string list \<Rightarrow> outcome cli" where
  "session_type ce af query enter args =
     sendBytes ce af query (bytes_of (str_join '' '' args @ (if enter then [CHR 0x0D] else ''''))) ''text''"

definition session_press :: "cli_env \<Rightarrow> api_flags \<Rightarrow> string \<Rightarrow> string list \<Rightarrow> outcome cli" where
  "session_press ce af query args =
     (case resolveKeys (ce_low ce) args of
        None \<Rightarrow> fails ''unknown key''
      | Some payload \<Rightarrow> sendBytes ce af query payload ''base64'')"

section \<open>Listing and creating\<close>

definition session_ls :: "cli_env \<Rightarrow> api_flags \<Rightarrow> outcome cli" where
  "session_ls ce af =
     with_client ce af (\<lambda>c. cli_do (listSessions c) (\<lambda>list. prints
       [if cliJSON ce af then OutJson (JObj [(''base'', JStr (ac_base c)), (''sessions'', JArr (map sd_json list))])
        else if list = [] then OutLine (''(no sessions on '' @ ac_base c @ '')'')
        else OutLine (formatSessions list)]))"

record create_flags =
  cr_host :: string
  cr_id :: string
  cr_password :: string
  cr_passphrase :: string
  cr_save :: bool

definition create_body :: "create_flags \<Rightarrow> string \<Rightarrow> json" where
  "create_body cr hostID =
     JObj ([(''host_id'', JStr hostID)] @ str_field ''id'' (cr_id cr)
       @ str_field ''password'' (cr_password cr)
       @ (if cr_password cr \<noteq> '''' \<and> cr_save cr then [(''save_password'', JBool True)] else [])
       @ str_field ''passphrase'' (cr_passphrase cr)
       @ (if cr_passphrase cr \<noteq> '''' \<and> cr_save cr then [(''save_passphrase'', JBool True)] else []))"

definition session_create :: "cli_env \<Rightarrow> api_flags \<Rightarrow> create_flags \<Rightarrow> outcome cli" where
  "session_create ce af cr =
     (if cr_host cr = ''''
      then fails ''--host is required (an inventory host id or name; use `local` for the local server)''
      else with_client ce af (\<lambda>c. cli_do (resolveHost ce c (cr_host cr)) (\<lambda>hostID.
        cli_do (api_call c ''POST'' ''/api/sessions'' (Some (create_body cr hostID))
                 (json_out (decode_struct sd_fields) zero_description)) (\<lambda>created.
          prints [if cliJSON ce af then OutJson (sd_json created)
                  else OutLine (sd_id created @ ''  '' @ describeSession created)]))))"

section \<open>The screen\<close>

definition resolveScreenJSON :: "cli_env \<Rightarrow> api_flags \<Rightarrow> bool \<Rightarrow> bool" where
  "resolveScreenJSON ce af asPNG =
     (case af_json af of Some forced \<Rightarrow> forced | None \<Rightarrow> if asPNG then False else \<not> ce_tty ce)"

definition ensureTrailingNewline :: "string \<Rightarrow> string" where
  "ensureTrailingNewline data = (if data = '''' \<or> last data = CHR 0x0A then data else data @ nl)"

definition writeScreenPNG :: "cli_env \<Rightarrow> bool \<Rightarrow> string \<Rightarrow> string \<Rightarrow> outcome cli" where
  "writeScreenPNG ce toStdout path data =
     (if toStdout then prints [OutRaw data]
      else if path \<noteq> '''' then
        (let p = expandHome (ce_home ce) path
         in if ce_writable ce then prints [OutFile p data, OutLine p] else fails ''write failed'')
      else (case ce_temp ce of
              None \<Rightarrow> fails ''no temporary file''
            | Some name \<Rightarrow> if ce_writable ce then prints [OutFile name data, OutLine name]
                           else fails ''write failed''))"

definition session_screen_cmd :: "cli_env \<Rightarrow> api_flags \<Rightarrow> string \<Rightarrow> bool \<Rightarrow> bool \<Rightarrow> string \<Rightarrow> outcome cli" where
  "session_screen_cmd ce af query asPNG toStdout path =
     (let asJSON = resolveScreenJSON ce af asPNG
      in if asPNG \<and> asJSON then fails ''--png and --json cannot be combined''
         else with_session ce af query (\<lambda>c s.
           let format = (if asPNG then ''png'' else if asJSON then ''json'' else ''text'')
           in cli_do (api_call c ''GET'' (session_path s (''/screen?format='' @ format)) None text_out) (\<lambda>data.
                if asPNG then writeScreenPNG ce toStdout path data
                else prints [OutRaw (ensureTrailingNewline data)])))"

record wait_outcome =
  wt_takenAt :: string
  wt_cols :: int
  wt_rows :: int
  wt_text :: string
  wt_cells :: json
  wt_images :: json
  wt_matched :: bool
  wt_quiet :: bool
  wt_timedOut :: bool

definition f_raw :: "((json \<Rightarrow> json) \<Rightarrow> 'r \<Rightarrow> 'r) \<Rightarrow> 'r field_decoder" where
  "f_raw upd j r = Some (upd (\<lambda>_. j) r)"

definition wait_fields :: "(string \<times> wait_outcome field_decoder) list" where
  "wait_fields =
     [(''taken_at'', f_str wt_takenAt_update), (''cols'', f_int wt_cols_update), (''rows'', f_int wt_rows_update),
      (''text'', f_str wt_text_update), (''cells'', f_raw wt_cells_update), (''images'', f_raw wt_images_update),
      (''matched'', f_bool wt_matched_update), (''quiet'', f_bool wt_quiet_update),
      (''timed_out'', f_bool wt_timedOut_update)]"

definition zero_wait :: wait_outcome where
  "zero_wait = \<lparr>wt_takenAt = '''', wt_cols = 0, wt_rows = 0, wt_text = '''', wt_cells = JArr [], wt_images = JArr [],
                wt_matched = False, wt_quiet = False, wt_timedOut = False\<rparr>"

text \<open>Raw messages that were not in the answer are left out; \<open>JArr []\<close> stands for those.\<close>

definition wait_json :: "wait_outcome \<Rightarrow> json" where
  "wait_json r =
     JObj ([(''taken_at'', JStr (wt_takenAt r)), (''cols'', JNum (wt_cols r)), (''rows'', JNum (wt_rows r)),
            (''text'', JStr (wt_text r))]
           @ (if wt_cells r = JArr [] then [] else [(''cells'', wt_cells r)])
           @ (if wt_images r = JArr [] then [] else [(''images'', wt_images r)])
           @ [(''matched'', JBool (wt_matched r)), (''quiet'', JBool (wt_quiet r)),
              (''timed_out'', JBool (wt_timedOut r))])"

definition session_wait_cmd :: "cli_env \<Rightarrow> api_flags \<Rightarrow> string \<Rightarrow> string \<Rightarrow> int \<Rightarrow> int \<Rightarrow> outcome cli" where
  "session_wait_cmd ce af query pattern stableMS timeoutMS =
     (if pattern = '''' \<and> stableMS \<le> 0 then fails ''--text or --stable is required''
      else if timeoutMS \<le> 0 \<or> timeoutMS > 300000
      then fails ''--timeout must be between 1 and 300000 ms (the server caps a wait at 5 minutes)''
      else with_session ce af query (\<lambda>c s.
        cli_do (api_call c ''POST'' (session_path s ''/wait'')
                 (Some (JObj ((if stableMS > 0 then [(''quiet_ms'', JNum stableMS)] else [])
                              @ str_field ''regex'' pattern @ [(''timeout_ms'', JNum timeoutMS)])))
                 (json_out (decode_struct wait_fields) zero_wait)) (\<lambda>r.
          Done ((if wt_timedOut r then Some (''wait timed out after '' @ itoa timeoutMS @ '' ms'') else None),
                (if cliJSON ce af then [OutJson (wait_json r)] else [])))))"

section \<open>Changing a session\<close>

definition reportSessionState :: "cli_env \<Rightarrow> api_flags \<Rightarrow> state_description \<Rightarrow> string \<Rightarrow> outcome cli" where
  "reportSessionState ce af state human =
     prints [if cliJSON ce af then OutJson (sd_json state) else OutLine human]"

definition session_rename :: "cli_env \<Rightarrow> api_flags \<Rightarrow> string \<Rightarrow> string list \<Rightarrow> outcome cli" where
  "session_rename ce af query args =
     with_session ce af query (\<lambda>c s.
       cli_do (api_call c ''PUT'' (session_path s ''/title'') (Some (JObj [(''title'', JStr (str_join '' '' args))]))
                (json_out (decode_struct [(''title'', f_str (\<lambda>g t. g t))]) '''')) (\<lambda>title.
         prints [if cliJSON ce af then OutJson (JObj [(''id'', JStr (sd_id s)), (''title'', JStr title)])
                 else OutLine (''Renamed '' @ sd_id s @ '' to '' @ ce_quote ce title)]))"

definition session_resize_cmd :: "cli_env \<Rightarrow> api_flags \<Rightarrow> string \<Rightarrow> int \<Rightarrow> int \<Rightarrow> outcome cli" where
  "session_resize_cmd ce af query cols rows =
     (if cols \<le> 0 \<or> rows \<le> 0 then fails ''--cols and --rows must be positive''
      else with_session ce af query (\<lambda>c s.
        cli_do (api_call c ''POST'' (session_path s ''/resize'')
                 (Some (JObj [(''height'', JNum rows), (''width'', JNum cols)]))
                 (json_out (decode_struct sd_fields) zero_description)) (\<lambda>state.
          reportSessionState ce af state (''Resized '' @ sd_id s @ '' to '' @ itoa cols @ ''x'' @ itoa rows))))"

definition sessionSignals :: "string list" where
  "sessionSignals = [''SIGHUP'', ''SIGINT'', ''SIGQUIT'', ''SIGKILL'', ''SIGTERM'']"

text \<open>\<open>upper\<close> is \<open>strings.ToUpper\<close> of the argument.\<close>

definition session_signal_cmd :: "cli_env \<Rightarrow> api_flags \<Rightarrow> string \<Rightarrow> (string \<Rightarrow> string) \<Rightarrow> string \<Rightarrow> outcome cli" where
  "session_signal_cmd ce af query upper arg =
     (let sig = upper arg
      in if sig \<notin> set sessionSignals
         then fails (''unknown signal '' @ ce_quote ce arg @ '' (expected one of '' @ str_join '', '' sessionSignals @ '')'')
         else with_session ce af query (\<lambda>c s.
           cli_do (api_call c ''POST'' (session_path s ''/signal'') (Some (JObj [(''signal'', JStr sig)]))
                    (json_out (decode_struct sd_fields) zero_description)) (\<lambda>state.
             reportSessionState ce af state (''Sent '' @ sig @ '' to '' @ sd_id s))))"

definition session_destroy_cmd :: "cli_env \<Rightarrow> api_flags \<Rightarrow> string \<Rightarrow> outcome cli" where
  "session_destroy_cmd ce af query =
     with_session ce af query (\<lambda>c s.
       cli_do (api_call c ''DELETE'' (session_path s '''') None no_out) (\<lambda>_.
         prints [if cliJSON ce af then OutJson (JObj [(''id'', JStr (sd_id s)), (''destroyed'', JBool True)])
                 else OutLine (''Destroyed session '' @ sd_id s)]))"

end
