(* ===== verification/Cli_Hosts.thy ===== *)
theory Cli_Hosts
  imports Cli_Sessions
begin

text \<open>
  The commands on hosts (\<open>cmd/hosts.go\<close>), on forwards (\<open>cmd/forwards.go\<close>), on stored secrets
  (\<open>cmd/secrets.go\<close>), on host-key pins (\<open>cmd/knownhosts.go\<close>) and on the page title (\<open>cmd/title.go\<close>).
\<close>

section \<open>Credentials and secrets\<close>

text \<open>The credential selectors; \<open>kf_key\<close> is \<open>None\<close> when the flag was not given.\<close>

record credential_flags =
  kf_key :: "string option"
  kf_agent :: bool
  kf_password :: bool

definition credentialFromFlags :: "credential_flags \<Rightarrow> string + credential option" where
  "credentialFromFlags kf =
     (let exclusive = ''--key, --agent and --password are mutually exclusive''
      in if kf_key kf = Some '''' then Inl ''--key needs a path''
         else if kf_key kf \<noteq> None \<and> (kf_agent kf \<or> kf_password kf) then Inl exclusive
         else if kf_agent kf \<and> kf_password kf then Inl exclusive
         else (case kf_key kf of
                 Some path \<Rightarrow> Inr (Some \<lparr>cr_kind = credKey, cr_keyPath = path\<rparr>)
               | None \<Rightarrow>
                   if kf_agent kf then Inr (Some \<lparr>cr_kind = credAgent, cr_keyPath = ''''\<rparr>)
                   else if kf_password kf then Inr (Some \<lparr>cr_kind = credPassword, cr_keyPath = ''''\<rparr>)
                   else Inr None))"

definition secretFromFlags :: "cli_env \<Rightarrow> string \<Rightarrow> string + string option" where
  "secretFromFlags ce secret =
     (if secret = '''' then Inr None
      else if secret = ''-'' then
        (case ce_stdin ce of
           None \<Rightarrow> Inl ''reading the secret from stdin''
         | Some data \<Rightarrow>
             let value = trim_right (\<lambda>c. c = CHR 0x0D \<or> c = CHR 0x0A) data
             in if value = '''' then Inl ''stdin carried no secret'' else Inr (Some value))
      else Inr (Some secret))"

definition saveSecret :: "api_client \<Rightarrow> host \<Rightarrow> string \<Rightarrow> (string + unit) cli" where
  "saveSecret c h secret =
     (if cr_kind (h_credential h) = credPassword then Done (Inr ())
      else if cr_kind (h_credential h) = credKey then
        (if cr_keyPath (h_credential h) = '''' then Done (Inl ''cannot store a passphrase without a key path'')
         else api_call c ''POST'' ''/api/secrets''
                (Some (JObj [(''key_path'', JStr (cr_keyPath (h_credential h))), (''kind'', JStr ''passphrase''),
                             (''secret'', JStr secret)]))
                (\<lambda>r. map_option (\<lambda>_. ()) (json_out (\<lambda>j m. case j of JNull \<Rightarrow> Some m | JObj ms \<Rightarrow>
                     decode_map_members (f_bool (\<lambda>g b. g b)) False ms m | _ \<Rightarrow> None) [] r)))
      else Done (Inl ''a secret can only be stored for a \"password\" or \"key\" credential''))"

section \<open>Output\<close>

definition credentialLabel :: "host \<Rightarrow> string" where
  "credentialLabel h =
     (if cr_kind (h_credential h) = credKey then
        (if cr_keyPath (h_credential h) \<noteq> '''' then ''key ('' @ cr_keyPath (h_credential h) @ '')'' else ''key'')
      else if cr_kind (h_credential h) = '''' then credDefault else cr_kind (h_credential h))"

definition formatHosts :: "host list \<Rightarrow> string" where
  "formatHosts list =
     renderTable ([''ID'', ''NAME'', ''USER@ADDRESS'', ''CREDENTIAL'']
       # map (\<lambda>h. [h_id h, h_name h @ (if h_builtin h then '' (builtin)'' else ''''),
                   h_user h @ ''@'' @ (if h_builtin h then h_address h else host_addr h), credentialLabel h]) list)"

text \<open>The format \<open>%-11s\<close>.\<close>

definition pad11 :: "string \<Rightarrow> string" where
  "pad11 s = s @ replicate (11 - length (str_runes s)) CHR '' ''"

definition describe_field :: "string \<Rightarrow> string \<Rightarrow> string" where
  "describe_field key value = (if value = '''' then '''' else pad11 (key @ '':'') @ '' '' @ value @ nl)"

definition describeHost :: "host \<Rightarrow> string" where
  "describeHost h =
     trim_right (\<lambda>c. c = CHR 0x0A)
       (describe_field ''id'' (h_id h) @ describe_field ''name'' (h_name h) @ describe_field ''address'' (host_addr h)
        @ describe_field ''user'' (h_user h) @ describe_field ''credential'' (credentialLabel h)
        @ (if h_forwards h = [] then ''''
           else pad11 ''forwards:'' @ '' '' @ nat_itoa (length (h_forwards h)) @ '' (see `gossh hosts forwards ls ''
                @ h_id h @ ''`)'' @ nl)
        @ (if h_builtin h then describe_field ''builtin'' ''true (the local server: connect-only)'' else ''''))"

section \<open>Hosts\<close>

definition hosts_ls :: "cli_env \<Rightarrow> api_flags \<Rightarrow> outcome cli" where
  "hosts_ls ce af =
     with_client ce af (\<lambda>c. cli_do (listHosts c) (\<lambda>list. prints
       [if cliJSON ce af then OutJson (JArr (map host_json list))
        else if list = [] then OutLine ''(no hosts; add one with `gossh hosts add`)''
        else OutLine (formatHosts list)]))"

text \<open>The request: the host, and a password to save when there is one.\<close>

definition host_payload :: "host \<Rightarrow> string option \<Rightarrow> json" where
  "host_payload h password =
     (case host_json h of
        JObj ms \<Rightarrow> JObj (ms @ (case password of
                              None \<Rightarrow> [] | Some p \<Rightarrow> [(''password'', JStr p), (''save_password'', JBool True)]))
      | j \<Rightarrow> j)"

definition password_to_send :: "host \<Rightarrow> string option \<Rightarrow> string option" where
  "password_to_send h secret = (if cr_kind (h_credential h) = credPassword then secret else None)"

text \<open>After the host was written: the passphrase of a key is stored by a call of its own.\<close>

definition store_passphrase :: "api_client \<Rightarrow> host \<Rightarrow> host \<Rightarrow> string option \<Rightarrow> (string + unit) cli" where
  "store_passphrase c asked h secret =
     (case secret of
        Some s \<Rightarrow> if cr_kind (h_credential asked) = credKey then saveSecret c h s else Done (Inr ())
      | None \<Rightarrow> Done (Inr ()))"

record add_flags =
  hf_name :: string
  hf_address :: string
  hf_user :: string
  hf_port :: int

definition hosts_add :: "cli_env \<Rightarrow> api_flags \<Rightarrow> add_flags \<Rightarrow> credential_flags \<Rightarrow> string \<Rightarrow> outcome cli" where
  "hosts_add ce af hf kf secretFlag =
     (if hf_name hf = '''' \<or> hf_address hf = '''' \<or> hf_user hf = ''''
      then fails ''--name, --address and --user are required''
      else case credentialFromFlags kf of
        Inl e \<Rightarrow> fails e
      | Inr found \<Rightarrow>
          let cred = (case found of None \<Rightarrow> \<lparr>cr_kind = credDefault, cr_keyPath = ''''\<rparr> | Some k \<Rightarrow> k)
          in (case secretFromFlags ce secretFlag of
                Inl e \<Rightarrow> fails e
              | Inr secret \<Rightarrow>
                  let h = zero_host\<lparr>h_name := hf_name hf, h_address := hf_address hf, h_port := hf_port hf,
                                    h_user := hf_user hf, h_credential := cred\<rparr>
                  in with_client ce af (\<lambda>c.
                       cli_do (api_call c ''POST'' ''/api/hosts'' (Some (host_payload h (password_to_send h secret)))
                                (json_out (decode_struct host_fields) zero_host)) (\<lambda>created.
                       cli_do (store_passphrase c h created secret) (\<lambda>_. prints
                         [if cliJSON ce af then OutJson (host_json created)
                          else OutLine (''Added host '' @ h_name created @ '' (id: '' @ h_id created @ '')'')])))))"

definition hosts_show :: "cli_env \<Rightarrow> api_flags \<Rightarrow> string \<Rightarrow> outcome cli" where
  "hosts_show ce af query =
     with_client ce af (\<lambda>c. cli_do (getHost ce c query) (\<lambda>h. prints
       [if cliJSON ce af then OutJson (host_json h) else OutLine (describeHost h)]))"

text \<open>The flags of \<open>edit\<close>; a flag that was not given is \<open>None\<close>.\<close>

record edit_flags =
  ef_name :: "string option"
  ef_address :: "string option"
  ef_user :: "string option"
  ef_port :: "int option"

definition edited :: "edit_flags \<Rightarrow> credential option \<Rightarrow> host \<Rightarrow> host" where
  "edited ef cred h =
     h\<lparr>h_name := (case ef_name ef of None \<Rightarrow> h_name h | Some v \<Rightarrow> v),
       h_address := (case ef_address ef of None \<Rightarrow> h_address h | Some v \<Rightarrow> v),
       h_user := (case ef_user ef of None \<Rightarrow> h_user h | Some v \<Rightarrow> v),
       h_port := (case ef_port ef of None \<Rightarrow> h_port h | Some v \<Rightarrow> v),
       h_credential := (case cred of None \<Rightarrow> h_credential h | Some v \<Rightarrow> v)\<rparr>"

definition hosts_edit ::
  "cli_env \<Rightarrow> api_flags \<Rightarrow> string \<Rightarrow> edit_flags \<Rightarrow> credential_flags \<Rightarrow> string \<Rightarrow> outcome cli" where
  "hosts_edit ce af query ef kf secretFlag =
     (case credentialFromFlags kf of
        Inl e \<Rightarrow> fails e
      | Inr cred \<Rightarrow>
          (case secretFromFlags ce secretFlag of
             Inl e \<Rightarrow> fails e
           | Inr secret \<Rightarrow>
               with_client ce af (\<lambda>c. cli_do (getHost ce c query) (\<lambda>h0.
                 let h = edited ef cred h0
                 in cli_do (api_call c ''PUT'' (''/api/hosts/'' @ h_id h) (Some (host_payload h (password_to_send h secret)))
                             (json_out (decode_struct host_fields) zero_host)) (\<lambda>updated.
                    cli_do (store_passphrase c updated updated secret) (\<lambda>_. prints
                      [if cliJSON ce af then OutJson (host_json updated)
                       else OutLine (''Updated host '' @ h_id updated)]))))))"

definition hosts_rm :: "cli_env \<Rightarrow> api_flags \<Rightarrow> string \<Rightarrow> outcome cli" where
  "hosts_rm ce af query =
     with_client ce af (\<lambda>c. cli_do (resolveHost ce c query) (\<lambda>i.
       cli_do (api_call c ''DELETE'' (''/api/hosts/'' @ i) None no_out) (\<lambda>_. prints
         [if cliJSON ce af then OutJson (JObj [(''id'', JStr i), (''removed'', JBool True)])
          else OutLine (''Removed host '' @ i)])))"

section \<open>Forwards\<close>

record forward_flags =
  ff_kind :: string
  ff_bind :: string
  ff_target :: string

definition readForwardFlags :: "forward_flags \<Rightarrow> string + forward" where
  "readForwardFlags ff =
     (if ff_bind ff = '''' then Inl ''--bind is required''
      else if ff_kind ff = ''local'' \<or> ff_kind ff = ''remote'' then
        (if ff_target ff = '''' then Inl (''--target is required for a '' @ ff_kind ff @ '' forward'')
         else Inr \<lparr>fw_kind = ff_kind ff, fw_bind = ff_bind ff, fw_target = ff_target ff, fw_enabled = None\<rparr>)
      else if ff_kind ff = ''dynamic''
      then Inr \<lparr>fw_kind = ff_kind ff, fw_bind = ff_bind ff, fw_target = '''', fw_enabled = None\<rparr>
      else Inl ''--kind must be one of [local remote dynamic]'')"

record forward_row =
  fr_ID :: string
  fr_Kind :: string
  fr_Bind :: string
  fr_Target :: string
  fr_Status :: string
  fr_Error :: string

definition formatForwards :: "forward_row list \<Rightarrow> string" where
  "formatForwards rows =
     (let status = list_ex (\<lambda>r. fr_Status r \<noteq> '''') rows
      in renderTable (([''ID'', ''KIND'', ''BIND'', ''TARGET''] @ (if status then [''STATUS''] else []))
           # map (\<lambda>r. [fr_ID r, fr_Kind r, fr_Bind r, fr_Target r]
                      @ (if status then [fr_Status r @ (if fr_Error r \<noteq> '''' then '': '' @ fr_Error r else '''')] else []))
               rows))"

definition printForwards :: "cli_env \<Rightarrow> api_flags \<Rightarrow> forward_row list \<Rightarrow> json \<Rightarrow> outcome cli" where
  "printForwards ce af rows payload =
     prints [if cliJSON ce af then OutJson payload
             else if rows = [] then OutLine ''(no forwards)'' else OutLine (formatForwards rows)]"

text \<open>An entry of either list; the status and the error of a session's forward stay empty.\<close>

definition zero_row :: forward_row where
  "zero_row = \<lparr>fr_ID = '''', fr_Kind = '''', fr_Bind = '''', fr_Target = '''', fr_Status = '''', fr_Error = ''''\<rparr>"

definition session_forward_fields :: "(string \<times> forward_row field_decoder) list" where
  "session_forward_fields =
     [(''id'', f_str fr_ID_update), (''kind'', f_str fr_Kind_update), (''bind'', f_str fr_Bind_update),
      (''target'', f_str fr_Target_update)]"

definition host_forward_fields :: "(string \<times> forward_row field_decoder) list" where
  "host_forward_fields =
     session_forward_fields @ [(''status'', f_str fr_Status_update), (''error'', f_str fr_Error_update)]"

definition session_forward_json :: "forward_row \<Rightarrow> json" where
  "session_forward_json r =
     JObj [(''id'', JStr (fr_ID r)), (''kind'', JStr (fr_Kind r)), (''bind'', JStr (fr_Bind r)),
           (''target'', JStr (fr_Target r))]"

definition host_forward_json :: "forward_row \<Rightarrow> json" where
  "host_forward_json r =
     JObj ([(''id'', JStr (fr_ID r)), (''kind'', JStr (fr_Kind r)), (''bind'', JStr (fr_Bind r)),
            (''target'', JStr (fr_Target r)), (''status'', JStr (fr_Status r))] @ str_field ''error'' (fr_Error r))"

definition session_forwards_ls :: "cli_env \<Rightarrow> api_flags \<Rightarrow> string \<Rightarrow> outcome cli" where
  "session_forwards_ls ce af query =
     with_session ce af query (\<lambda>c s.
       cli_do (api_call c ''GET'' (session_path s ''/forwards'') None
                (json_out (f_elems (decode_struct session_forward_fields) zero_row) [])) (\<lambda>rows.
         printForwards ce af rows
           (JObj [(''forwards'', JArr (map session_forward_json rows)), (''session_id'', JStr (sd_id s))])))"

definition session_forwards_add :: "cli_env \<Rightarrow> api_flags \<Rightarrow> string \<Rightarrow> forward_flags \<Rightarrow> outcome cli" where
  "session_forwards_add ce af query ff =
     (case readForwardFlags ff of
        Inl e \<Rightarrow> fails e
      | Inr spec \<Rightarrow> with_session ce af query (\<lambda>c s.
          cli_do (api_call c ''POST'' (session_path s ''/forwards'') (Some (forward_json spec))
                   (json_out (decode_struct session_forward_fields) zero_row)) (\<lambda>entry. prints
            [if cliJSON ce af then OutJson (session_forward_json entry)
             else OutLine (''Added forward '' @ fr_ID entry @ '' to '' @ sd_id s)])))"

definition session_forwards_rm :: "cli_env \<Rightarrow> api_flags \<Rightarrow> string \<Rightarrow> string \<Rightarrow> outcome cli" where
  "session_forwards_rm ce af query fid =
     with_session ce af query (\<lambda>c s.
       cli_do (api_call c ''DELETE'' (session_path s (''/forwards/'' @ fid)) None no_out) (\<lambda>_. prints
         [if cliJSON ce af then OutJson (JObj [(''removed'', JStr fid), (''session_id'', JStr (sd_id s))])
          else OutLine (''Removed forward '' @ fid @ '' from '' @ sd_id s)]))"

definition host_forwards_ls :: "cli_env \<Rightarrow> api_flags \<Rightarrow> string \<Rightarrow> outcome cli" where
  "host_forwards_ls ce af query =
     with_client ce af (\<lambda>c. cli_do (resolveHost ce c query) (\<lambda>i.
       cli_do (api_call c ''GET'' (''/api/hosts/'' @ i @ ''/forwards'') None
                (json_out (f_elems (decode_struct host_forward_fields) zero_row) [])) (\<lambda>rows.
         printForwards ce af rows (JObj [(''forwards'', JArr (map host_forward_json rows)), (''host_id'', JStr i)]))))"

definition putHost :: "api_client \<Rightarrow> host \<Rightarrow> (string + unit) cli" where
  "putHost c h = api_call c ''PUT'' (''/api/hosts/'' @ h_id h) (Some (host_json h)) no_out"

definition describeForwardTarget :: "forward \<Rightarrow> string" where
  "describeForwardTarget f = (if fw_target f = '''' then ''(dynamic SOCKS5)'' else fw_target f)"

definition host_forwards_add :: "cli_env \<Rightarrow> api_flags \<Rightarrow> string \<Rightarrow> forward_flags \<Rightarrow> outcome cli" where
  "host_forwards_add ce af query ff =
     (case readForwardFlags ff of
        Inl e \<Rightarrow> fails e
      | Inr spec \<Rightarrow> with_client ce af (\<lambda>c. cli_do (getHost ce c query) (\<lambda>h0.
          let h = h0\<lparr>h_forwards := h_forwards h0 @ [spec]\<rparr>
          in cli_do (putHost c h) (\<lambda>_. prints
               [if cliJSON ce af then OutJson (host_json h)
                else OutLine (''Added '' @ fw_kind spec @ '' forward to '' @ h_name h @ '': '' @ fw_bind spec @ '' -> ''
                              @ describeForwardTarget spec)]))))"

definition host_forwards_rm :: "cli_env \<Rightarrow> api_flags \<Rightarrow> string \<Rightarrow> string \<Rightarrow> string \<Rightarrow> outcome cli" where
  "host_forwards_rm ce af query bind kind =
     (if bind = '''' then fails ''--bind is required''
      else with_client ce af (\<lambda>c. cli_do (getHost ce c query) (\<lambda>h0.
        let hit = (\<lambda>f. fw_bind f = bind \<and> (kind = '''' \<or> fw_kind f = kind));
            removed = length (filter hit (h_forwards h0));
            h = h0\<lparr>h_forwards := filter (\<lambda>f. \<not> hit f) (h_forwards h0)\<rparr>
        in if removed = 0 then fails (''no forward on '' @ h_name h0 @ '' binds '' @ bind)
           else cli_do (putHost c h) (\<lambda>_. prints
             [if cliJSON ce af then OutJson (host_json h)
              else OutLine (''Removed '' @ nat_itoa removed @ '' forward(s) from '' @ h_name h)]))))"

section \<open>Secrets, pins and the title\<close>

record secret_flags =
  xf_kind :: string
  xf_addr :: string
  xf_user :: string
  xf_key :: string

definition readSecretSelector :: "secret_flags \<Rightarrow> string option" where
  "readSecretSelector xf =
     (if xf_kind xf = ''password'' then
        (if xf_addr xf = '''' \<or> xf_user xf = '''' then Some ''--addr and --user are required for a password'' else None)
      else if xf_kind xf = ''passphrase'' then
        (if xf_key xf = '''' then Some ''--key is required for a passphrase'' else None)
      else Some ''--kind must be password or passphrase'')"

definition describeSecret :: "secret_flags \<Rightarrow> string" where
  "describeSecret xf =
     (if xf_kind xf = ''passphrase'' then ''passphrase for '' @ xf_key xf
      else ''password for '' @ xf_user xf @ ''@'' @ xf_addr xf)"

definition secrets_set_cmd :: "cli_env \<Rightarrow> api_flags \<Rightarrow> secret_flags \<Rightarrow> string \<Rightarrow> outcome cli" where
  "secrets_set_cmd ce af xf secretFlag =
     (case readSecretSelector xf of
        Some e \<Rightarrow> fails e
      | None \<Rightarrow>
          (case secretFromFlags ce secretFlag of
             Inl e \<Rightarrow> fails e
           | Inr None \<Rightarrow> fails ''--secret is required''
           | Inr (Some secret) \<Rightarrow>
               with_client ce af (\<lambda>c.
                 cli_do (api_call c ''POST'' ''/api/secrets''
                          (Some (JObj (if xf_kind xf = ''password''
                                       then [(''addr'', JStr (xf_addr xf)), (''kind'', JStr (xf_kind xf)),
                                             (''secret'', JStr secret), (''user'', JStr (xf_user xf))]
                                       else [(''key_path'', JStr (xf_key xf)), (''kind'', JStr (xf_kind xf)),
                                             (''secret'', JStr secret)]))) no_out) (\<lambda>_. prints
                   [if cliJSON ce af then OutJson (JObj [(''kind'', JStr (xf_kind xf)), (''saved'', JBool True)])
                    else OutLine (''Stored '' @ describeSecret xf @ '' in the system keyring'')]))))"

text \<open>\<open>enc\<close> is \<open>url.Values.Encode\<close>, \<open>esc\<close> below is \<open>url.PathEscape\<close>.\<close>

definition secrets_rm_cmd ::
  "((string \<times> string) list \<Rightarrow> string) \<Rightarrow> cli_env \<Rightarrow> api_flags \<Rightarrow> secret_flags \<Rightarrow> outcome cli" where
  "secrets_rm_cmd enc ce af xf =
     (case readSecretSelector xf of
        Some e \<Rightarrow> fails e
      | None \<Rightarrow> with_client ce af (\<lambda>c.
          cli_do (api_call c ''DELETE''
                   (''/api/secrets?'' @ enc ((''kind'', xf_kind xf) #
                      (if xf_kind xf = ''password'' then [(''addr'', xf_addr xf), (''user'', xf_user xf)]
                       else [(''key_path'', xf_key xf)]))) None no_out) (\<lambda>_. prints
            [if cliJSON ce af then OutJson (JObj [(''kind'', JStr (xf_kind xf)), (''removed'', JBool True)])
             else OutLine (''Deleted '' @ describeSecret xf @ '' from the system keyring'')])))"

record known_host_pin =
  kp_addr :: string
  kp_keyType :: string
  kp_fingerprint :: string
  kp_firstSeen :: int

definition pin_fields :: "(string \<times> known_host_pin field_decoder) list" where
  "pin_fields =
     [(''addr'', f_str kp_addr_update), (''key_type'', f_str kp_keyType_update),
      (''fingerprint'', f_str kp_fingerprint_update), (''first_seen'', f_int kp_firstSeen_update)]"

definition pin_json :: "known_host_pin \<Rightarrow> json" where
  "pin_json p =
     JObj [(''addr'', JStr (kp_addr p)), (''key_type'', JStr (kp_keyType p)),
           (''fingerprint'', JStr (kp_fingerprint p)), (''first_seen'', JNum (kp_firstSeen p))]"

definition known_hosts_ls :: "cli_env \<Rightarrow> api_flags \<Rightarrow> outcome cli" where
  "known_hosts_ls ce af =
     with_client ce af (\<lambda>c.
       cli_do (api_call c ''GET'' ''/api/known-hosts'' None
                (json_out (f_elems (decode_struct pin_fields)
                   \<lparr>kp_addr = '''', kp_keyType = '''', kp_fingerprint = '''', kp_firstSeen = 0\<rparr>) [])) (\<lambda>pins. prints
         [if cliJSON ce af then OutJson (JArr (map pin_json pins))
          else if pins = [] then OutLine ''(no pinned host keys)''
          else OutLine (renderTable ([''ADDRESS'', ''KEY TYPE'', ''FINGERPRINT'', ''FIRST SEEN'']
                 # map (\<lambda>p. [kp_addr p, kp_keyType p, kp_fingerprint p,
                             if kp_firstSeen p > 0 then ce_rfc3339 ce (kp_firstSeen p) else ''-'']) pins))]))"

definition known_hosts_forget :: "(string \<Rightarrow> string) \<Rightarrow> cli_env \<Rightarrow> api_flags \<Rightarrow> string \<Rightarrow> outcome cli" where
  "known_hosts_forget esc ce af addr =
     with_client ce af (\<lambda>c.
       cli_do (api_call c ''DELETE'' (''/api/known-hosts/'' @ esc addr) None no_out) (\<lambda>_. prints
         [if cliJSON ce af then OutJson (JObj [(''addr'', JStr addr), (''forgotten'', JBool True)])
          else OutLine (''Forgot host key for '' @ addr)]))"

definition title_out :: "response \<Rightarrow> string option" where
  "title_out r = json_out (decode_struct [(''title'', f_str (\<lambda>g t. g t))]) '''' r"

definition title_json :: "string \<Rightarrow> json" where
  "title_json t = JObj [(''title'', JStr t)]"

definition title_get :: "cli_env \<Rightarrow> api_flags \<Rightarrow> outcome cli" where
  "title_get ce af =
     with_client ce af (\<lambda>c. cli_do (api_call c ''GET'' ''/api/title'' None title_out) (\<lambda>t. prints
       [if cliJSON ce af then OutJson (title_json t)
        else if t = '''' then OutLine ''(unset: the UI uses its built-in title)'' else OutLine t]))"

definition putTitle :: "cli_env \<Rightarrow> api_flags \<Rightarrow> string \<Rightarrow> outcome cli" where
  "putTitle ce af title =
     with_client ce af (\<lambda>c.
       cli_do (api_call c ''PUT'' ''/api/title'' (Some (title_json title)) title_out) (\<lambda>t. prints
         [if cliJSON ce af then OutJson (title_json t)
          else if t = '''' then OutLine ''Cleared the page title''
          else OutLine (''Page title set to '' @ ce_quote ce t)]))"

definition title_set :: "cli_env \<Rightarrow> api_flags \<Rightarrow> string list \<Rightarrow> outcome cli" where
  "title_set ce af args = putTitle ce af (str_join '' '' args)"

definition title_clear :: "cli_env \<Rightarrow> api_flags \<Rightarrow> outcome cli" where
  "title_clear ce af = putTitle ce af ''''"

end
