(* ===== verification/Api_Routes.thy ===== *)
theory Api_Routes
  imports Api_Screen Http
begin

text \<open>
  \<open>setupHandlers\<close> of \<open>internal/api/server.go\<close> and the wrappers around the handlers: which request
  reaches which handler, with the token checked before; how the answers are written
  (\<open>writeJSON\<close>, \<open>writeError\<close>).  One request is a function of the whole server's state, so that the
  handlers, the token and the command line compose.  Compression and the log are left out.
\<close>

section \<open>The forms of the answers\<close>

fun kind_text :: "forward_kind \<Rightarrow> string" where
  "kind_text ForwardLocal = ''local''"
| "kind_text ForwardRemote = ''remote''"
| "kind_text ForwardDynamic = ''dynamic''"
| "kind_text (UnknownKind s) = s"

definition entry_json :: "forward_entry \<Rightarrow> json" where
  "entry_json e =
     JObj [(''id'', JStr (fe_id e)), (''kind'', JStr (kind_text (fe_kind e))), (''bind'', JStr (fe_bind e)),
           (''target'', JStr (fe_target e))]"

definition host_forward_view :: "host_forward \<Rightarrow> json" where
  "host_forward_view f =
     JObj ([(''id'', JStr (hf_id f)), (''kind'', JStr (kind_text (hf_kind f))), (''bind'', JStr (hf_bind f)),
            (''target'', JStr (hf_target f)), (''status'', JStr (hf_status f))]
           @ str_field ''error'' (hf_error f))"

definition pin_view_json :: "pin_view \<Rightarrow> json" where
  "pin_view_json p =
     JObj [(''addr'', JStr (pw_addr p)), (''key_type'', JStr (pw_keyType p)),
           (''fingerprint'', JStr (pw_fingerprint p)), (''first_seen'', JNum (pw_firstSeen p))]"

definition opt_str_field :: "string \<Rightarrow> string option \<Rightarrow> (string \<times> json) list" where
  "opt_str_field k v = (case v of None \<Rightarrow> [] | Some s \<Rightarrow> [(k, JStr s)])"

definition cell_value :: "cell_json \<Rightarrow> json" where
  "cell_value c =
     JObj ([(''r'', JNum (int (cj_r c))), (''c'', JNum (int (cj_c c))), (''ch'', JStr (cj_ch c))]
           @ opt_str_field ''fg'' (cj_fg c) @ opt_str_field ''bg'' (cj_bg c)
           @ bool_field ''bold'' (cj_bold c) @ bool_field ''dim'' (cj_dim c) @ bool_field ''italic'' (cj_italic c)
           @ bool_field ''underline'' (cj_underline c) @ bool_field ''blink'' (cj_blink c)
           @ bool_field ''reverse'' (cj_reverse c) @ bool_field ''invisible'' (cj_invisible c)
           @ bool_field ''strikethrough'' (cj_strikethrough c))"

definition image_value :: "image_json \<Rightarrow> json" where
  "image_value i =
     JObj ([(''id'', JNum (int (ij_id i))), (''protocol'', JStr (ij_protocol i)), (''row'', JNum (ij_row i)),
            (''col'', JNum (ij_col i)), (''cell_cols'', JNum (ij_cellCols i)), (''cell_rows'', JNum (ij_cellRows i)),
            (''width'', JNum (ij_width i)), (''height'', JNum (ij_height i))]
           @ str_field ''mime'' (ij_mime i) @ [(''data_uri'', JStr (ij_dataURI i))])"

definition list_field :: "string \<Rightarrow> json list \<Rightarrow> (string \<times> json) list" where
  "list_field k js = (if js = [] then [] else [(k, JArr js)])"

definition screen_members :: "screen_response \<Rightarrow> (string \<times> json) list" where
  "screen_members r =
     [(''mirror'', JBool (sr_mirror r)), (''session_id'', JStr (sr_sessionID r)), (''taken_at'', JStr (sr_takenAt r)),
      (''cols'', JNum (sr_cols r)), (''rows'', JNum (sr_rows r)),
      (''cursor'', JObj [(''row'', JNum (sr_cursorRow r)), (''col'', JNum (sr_cursorCol r)),
                         (''visible'', JBool (sr_cursorVisible r))]),
      (''text'', JStr (sr_text r))]
     @ list_field ''cells'' (map cell_value (sr_cells r)) @ list_field ''images'' (map image_value (sr_images r))"

text \<open>\<open>writeJSON\<close> and \<open>writeError\<close>; an answer 204 has no body.\<close>

definition writeJSON :: "(json \<Rightarrow> string) \<Rightarrow> nat \<Rightarrow> json \<Rightarrow> response" where
  "writeJSON marshal n j =
     \<lparr>hr_status = n, hr_line = status_line n, hr_text = marshal j @ nl, hr_json = Some j\<rparr>"

definition text_answer :: "nat \<Rightarrow> string \<Rightarrow> response" where
  "text_answer n t = \<lparr>hr_status = n, hr_line = status_line n, hr_text = t, hr_json = None\<rparr>"

definition writeError :: "(json \<Rightarrow> string) \<Rightarrow> nat \<Rightarrow> string \<Rightarrow> response" where
  "writeError marshal n t = writeJSON marshal n (JObj [(''error'', JStr t)])"

definition answer :: "(json \<Rightarrow> string) \<Rightarrow> ('a \<Rightarrow> json) \<Rightarrow> 'a http \<Rightarrow> response" where
  "answer marshal enc r =
     (case r of
        HErr n t \<Rightarrow> writeError marshal n t
      | HOk n a \<Rightarrow> if n = 204 then text_answer 204 '''' else writeJSON marshal n (enc a))"

fun screen_answer :: "(json \<Rightarrow> string) \<Rightarrow> screen_body http \<Rightarrow> response" where
  "screen_answer marshal (HErr n t) = writeError marshal n t"
| "screen_answer marshal (HOk n (TextBody t)) = text_answer n t"
| "screen_answer marshal (HOk n (PngBody b)) = text_answer n (string_of_bytes b)"
| "screen_answer marshal (HOk n (JsonScreen r)) = writeJSON marshal n (JObj (screen_members r))"

section \<open>The route table\<close>

datatype route =
    CreateSession | SessionStatus | ListSessions | GetSession string | SetSessionTitle string
  | DeleteSession string | ResizeSession string | SignalSession string
  | GetScreen string | WaitSession string | SendKeys string
  | ListHosts | CreateHost | GetHost string | UpdateHost string | DeleteHost string | HostForwards string
  | ListPins | ForgetPin string | SetSecret | DropSecret
  | ListForwards string | AddForward string | DeleteForward string string
  | GetPageTitle | PutPageTitle

datatype seg = Lit string | Wild

text \<open>One argument and two, for the wildcards of a pattern.\<close>

definition arg1 :: "(string \<Rightarrow> route) \<Rightarrow> string list \<Rightarrow> route" where
  "arg1 f xs = f (xs ! 0)"

definition arg2 :: "(string \<Rightarrow> string \<Rightarrow> route) \<Rightarrow> string list \<Rightarrow> route" where
  "arg2 f xs = f (xs ! 0) (xs ! 1)"

definition api_path :: "seg list \<Rightarrow> seg list" where
  "api_path ss = Lit ''api'' # ss"

definition sess_path :: "seg list \<Rightarrow> seg list" where
  "sess_path ss = api_path (Lit ''sessions'' # Wild # ss)"

definition api_table :: "(string \<times> seg list \<times> (string list \<Rightarrow> route)) list" where
  "api_table =
     [(''POST'', api_path [Lit ''sessions''], \<lambda>_. CreateSession),
      (''POST'', api_path [Lit ''sessions'', Lit ''status''], \<lambda>_. SessionStatus),
      (''GET'', api_path [Lit ''sessions''], \<lambda>_. ListSessions),
      (''GET'', sess_path [], arg1 GetSession),
      (''PUT'', sess_path [Lit ''title''], arg1 SetSessionTitle),
      (''DELETE'', sess_path [], arg1 DeleteSession),
      (''POST'', sess_path [Lit ''resize''], arg1 ResizeSession),
      (''POST'', sess_path [Lit ''signal''], arg1 SignalSession),
      (''GET'', sess_path [Lit ''screen''], arg1 GetScreen),
      (''POST'', sess_path [Lit ''wait''], arg1 WaitSession),
      (''POST'', sess_path [Lit ''keys''], arg1 SendKeys),
      (''GET'', api_path [Lit ''hosts''], \<lambda>_. ListHosts),
      (''POST'', api_path [Lit ''hosts''], \<lambda>_. CreateHost),
      (''GET'', api_path [Lit ''hosts'', Wild], arg1 GetHost),
      (''PUT'', api_path [Lit ''hosts'', Wild], arg1 UpdateHost),
      (''DELETE'', api_path [Lit ''hosts'', Wild], arg1 DeleteHost),
      (''GET'', api_path [Lit ''hosts'', Wild, Lit ''forwards''], arg1 HostForwards),
      (''GET'', api_path [Lit ''known-hosts''], \<lambda>_. ListPins),
      (''DELETE'', api_path [Lit ''known-hosts'', Wild], arg1 ForgetPin),
      (''POST'', api_path [Lit ''secrets''], \<lambda>_. SetSecret),
      (''DELETE'', api_path [Lit ''secrets''], \<lambda>_. DropSecret),
      (''GET'', sess_path [Lit ''forwards''], arg1 ListForwards),
      (''POST'', sess_path [Lit ''forwards''], arg1 AddForward),
      (''DELETE'', sess_path [Lit ''forwards'', Wild], arg2 DeleteForward),
      (''GET'', api_path [Lit ''title''], \<lambda>_. GetPageTitle),
      (''PUT'', api_path [Lit ''title''], \<lambda>_. PutPageTitle)]"

text \<open>
  A pattern against the unescaped segments of a path: a wildcard takes one segment, which is not a
  slash.
\<close>

fun match_segs :: "seg list \<Rightarrow> string list \<Rightarrow> string list option" where
  "match_segs [] [] = Some []"
| "match_segs (Lit s # ps) (x # xs) = (if x = s then match_segs ps xs else None)"
| "match_segs (Wild # ps) (x # xs) =
     (if x = ''/'' then None else map_option (Cons x) (match_segs ps xs))"
| "match_segs _ _ = None"

definition method_fits :: "string \<Rightarrow> string \<Rightarrow> bool" where
  "method_fits pattern m \<longleftrightarrow> m = pattern \<or> pattern = ''GET'' \<and> m = ''HEAD''"

text \<open>The routes a request fits; \<open>unesc\<close> is the unescaping of a segment.\<close>

definition unescape_seg :: "(string \<Rightarrow> string option) \<Rightarrow> string \<Rightarrow> string" where
  "unescape_seg unesc s = (case unesc s of None \<Rightarrow> s | Some t \<Rightarrow> t)"

text \<open>The segments after the first slash; a slash at the end is a segment of its own.\<close>

fun norm_segs :: "(string \<Rightarrow> string option) \<Rightarrow> string list \<Rightarrow> string list" where
  "norm_segs unesc [] = []"
| "norm_segs unesc [s] = [if s = '''' then ''/'' else unescape_seg unesc s]"
| "norm_segs unesc (s # t # ss) = unescape_seg unesc s # norm_segs unesc (t # ss)"

definition path_segs :: "(string \<Rightarrow> string option) \<Rightarrow> string \<Rightarrow> string list" where
  "path_segs unesc path = norm_segs unesc (tl (str_split CHR ''/'' path))"

definition fitting :: "string \<Rightarrow> string list \<Rightarrow> route list" where
  "fitting m segs =
     List.map_filter (\<lambda>(pm, ps, f). if method_fits pm m then map_option f (match_segs ps segs) else None) api_table"

definition path_known :: "string list \<Rightarrow> bool" where
  "path_known segs \<longleftrightarrow> list_ex (\<lambda>(pm, ps, f). match_segs ps segs \<noteq> None) api_table"

datatype target =
    IndexPage | Asset string | ApiRoute route | ApiNotFound | ApiWrongMethod | WebSocket
  | RedirectTo string | NotFound | WrongMethod

definition api_target :: "string \<Rightarrow> string list \<Rightarrow> target" where
  "api_target m segs =
     (case fitting m segs of
        r # _ \<Rightarrow> ApiRoute r
      | [] \<Rightarrow> if path_known segs then ApiWrongMethod else ApiNotFound)"

text \<open>The outer table; a path that is not clean is redirected to the clean one.\<close>

definition get_only :: "string \<Rightarrow> target \<Rightarrow> target" where
  "get_only m t = (if method_fits ''GET'' m then t else WrongMethod)"

definition find_target :: "(string \<Rightarrow> string option) \<Rightarrow> string \<Rightarrow> string \<Rightarrow> target" where
  "find_target unesc m path =
     (let p = (if m = ''CONNECT'' then path else clean_url_path path); segs = path_segs unesc p
      in if segs = [''api''] then RedirectTo (p @ ''/'')
         else if p \<noteq> path then RedirectTo p
         else if segs = [''/''] then get_only m IndexPage
         else if segs = [''ws''] then get_only m WebSocket
         else if segs = [''main.js''] \<or> segs = [''favicon.png''] then get_only m (Asset (hd segs))
         else if segs \<noteq> [] \<and> hd segs = ''api'' then api_target m segs
         else NotFound)"

section \<open>The whole server\<close>

text \<open>
  The state behind the routes: the sessions, hosts, secrets and forwards (\<open>server\<close>), the page title
  and the pinned host keys.  The files of all of them are on the disk of the host state.
\<close>

record ('v, 't, 's, 'd) gossh =
  go_server :: "('v emulator, 't, 's, 'd) server"
  go_title :: title_store
  go_known :: known_hosts

record ('v, 't, 's, 'd, 'c) gossh_env =
  ge_api :: "('v emulator, 't, 's, 'd) api_env"
  ge_capture :: "'v capture_env"
  ge_paint :: paint_env
  ge_token :: string
  ge_permitWrite :: bool
  ge_marshal :: "json \<Rightarrow> string"
  ge_home :: string
  ge_os :: os_env
  ge_sha256 :: "bytes \<Rightarrow> bytes"
  ge_unescape :: "string \<Rightarrow> string option"
  ge_unquery :: "string \<Rightarrow> string option"
  ge_asset :: "string \<Rightarrow> string option"
  ge_compile :: "string \<Rightarrow> (string \<Rightarrow> bool) option"
  ge_client :: "string \<Rightarrow> forward_error + 'c"
  ge_listen :: "'c \<Rightarrow> bool \<Rightarrow> string \<Rightarrow> bool"

text \<open>What a request finds besides: the time, fresh ids, and the rounds a wait sees with its last screen.\<close>

record happening =
  hp_now :: int
  hp_fresh :: string
  hp_rid :: string
  hp_rounds :: "wait_obs list"
  hp_screen :: snapshot

record http_request =
  in_method :: string
  in_path :: string
  in_query :: string
  in_authorization :: string
  in_xToken :: string
  in_body :: req_body

definition request_token :: "(string \<Rightarrow> string option) \<Rightarrow> http_request \<Rightarrow> token_request" where
  "request_token unq q =
     \<lparr>tr_authorization = in_authorization q, tr_xToken = in_xToken q, tr_query = query_get unq (in_query q) ''token''\<rparr>"

definition with_hosts ::
  "('v, 't, 's, 'd) gossh \<Rightarrow> 'd host_state \<Rightarrow> ('v, 't, 's, 'd) gossh" where
  "with_hosts st hs = st\<lparr>go_server := (go_server st)\<lparr>sv_hosts := hs\<rparr>\<rparr>"

definition host_part :: "('v, 't, 's, 'd) gossh \<Rightarrow> 'd host_state" where
  "host_part st = sv_hosts (go_server st)"

definition with_disk :: "('v, 't, 's, 'd) gossh \<Rightarrow> disk \<Rightarrow> ('v, 't, 's, 'd) gossh" where
  "with_disk st d = with_hosts st ((host_part st)\<lparr>hs_disk := d\<rparr>)"

definition wait_json_answer ::
  "('v, 't, 's, 'd, 'c) gossh_env \<Rightarrow> happening \<Rightarrow> string \<Rightarrow> string \<times> wait_result \<Rightarrow> json" where
  "wait_json_answer ge hp i r =
     JObj (screen_members (newScreenResponse (ev_fmt (ge_api ge)) i (fst r) (hp_screen hp) True)
           @ [(''matched'', JBool (wr_matched (snd r))), (''quiet'', JBool (wr_quiet (snd r))),
              (''timed_out'', JBool (wr_timedOut (snd r)))])"

text \<open>The handlers of the sessions; no answer is a wait whose client is gone or that has not ended.\<close>

fun run_session_route ::
  "('v, 't, 's, 'd, 'c) gossh_env \<Rightarrow> happening \<Rightarrow> http_request \<Rightarrow> route
     \<Rightarrow> ('v emulator, 't, 's, 'd) server \<Rightarrow> response option \<times> ('v emulator, 't, 's, 'd) server" where
  "run_session_route ge hp q CreateSession st =
     (case handleCreateSession (ge_api ge) (hp_fresh hp) (hp_now hp) (in_body q) st of
        (r, st') \<Rightarrow> (Some (answer (ge_marshal ge) sd_json r), st'))"
| "run_session_route ge hp q SessionStatus st =
     (Some (answer (ge_marshal ge) (\<lambda>m. JObj [(''sessions'', JObj (map (\<lambda>(k, d). (k, sd_json d)) m))])
              (handleSessionStatus (ge_api ge) (in_body q) st)), st)"
| "run_session_route ge hp q ListSessions st =
     (Some (answer (ge_marshal ge) (\<lambda>ds. JObj [(''sessions'', JArr (map sd_json ds))])
              (handleListSessions (ge_api ge) st)), st)"
| "run_session_route ge hp q (GetSession i) st =
     (Some (answer (ge_marshal ge) sd_json (handleGetSession (ge_api ge) i st)), st)"
| "run_session_route ge hp q (SetSessionTitle i) st =
     (case handleUpdateTitle (ge_api ge) i (in_body q) st of
        (r, st') \<Rightarrow> (Some (answer (ge_marshal ge) (\<lambda>t. JObj [(''title'', JStr t)]) r), st'))"
| "run_session_route ge hp q (DeleteSession i) st =
     (case handleDeleteSession (ge_api ge) i st of
        (r, st') \<Rightarrow> (Some (answer (ge_marshal ge) (\<lambda>_. JNull) r), st'))"
| "run_session_route ge hp q (ResizeSession i) st =
     (case handleResizeSession (ge_api ge) i (in_body q) st of
        (r, st') \<Rightarrow> (Some (answer (ge_marshal ge) sd_json r), st'))"
| "run_session_route ge hp q (SignalSession i) st =
     (case handleSignalSession (ge_api ge) i (in_body q) st of
        (r, st') \<Rightarrow> (Some (answer (ge_marshal ge) sd_json r), st'))"
| "run_session_route ge hp q (GetScreen i) st =
     (Some (screen_answer (ge_marshal ge)
              (handleGetScreen (ge_capture ge) (ge_paint ge) (ev_fmt (ge_api ge)) (hp_now hp)
                 (query_get (ge_unquery ge) (in_query q) ''format'') i st)), st)"
| "run_session_route ge hp q (WaitSession i) st =
     (case handleWaitSession (ge_compile ge) (hp_now hp) (hp_rounds hp) i (in_body q) st of
        WaitReply r \<Rightarrow> (Some (answer (ge_marshal ge) (wait_json_answer ge hp i) r), st)
      | _ \<Rightarrow> (None, st))"
| "run_session_route ge hp q (SendKeys i) st =
     (case handleKeys (ge_api ge) (ge_permitWrite ge) i (in_body q) st of
        (r, st') \<Rightarrow> (Some (answer (ge_marshal ge) (\<lambda>n. JObj [(''written'', JNum (int n))]) r), st'))"
| "run_session_route ge hp q (ListForwards i) st =
     (Some (answer (ge_marshal ge) (\<lambda>es. JArr (map entry_json es)) (handleListForwards i (sv_forwards st))), st)"
| "run_session_route ge hp q (AddForward i) st =
     (case handleAddForward (ge_client ge) (ge_listen ge) (hp_rid hp) i (body_json (in_body q)) (sv_forwards st) of
        (r, f) \<Rightarrow> (Some (answer (ge_marshal ge) entry_json r), st\<lparr>sv_forwards := f\<rparr>))"
| "run_session_route ge hp q (DeleteForward i fid) st =
     (case handleDeleteForward i fid (sv_forwards st) of
        (r, f) \<Rightarrow> (Some (answer (ge_marshal ge) entry_json r), st\<lparr>sv_forwards := f\<rparr>))"
| "run_session_route ge hp q _ st = (None, st)"

text \<open>The handlers of the hosts and their secrets.\<close>

fun run_host_route ::
  "('v, 't, 's, 'd, 'c) gossh_env \<Rightarrow> happening \<Rightarrow> http_request \<Rightarrow> route \<Rightarrow> 'd host_state
     \<Rightarrow> response option \<times> 'd host_state" where
  "run_host_route ge hp q ListHosts hs =
     (Some (answer (ge_marshal ge) (\<lambda>l. JArr (map host_json l)) (handleListHosts (ev_user (ge_api ge)) (hs_inv hs))), hs)"
| "run_host_route ge hp q CreateHost hs =
     (case handleCreateHost (ge_marshal ge) (ge_os ge) (ev_krOk (ge_api ge)) (ev_user (ge_api ge)) (hp_now hp)
             (hp_fresh hp) (body_json (in_body q)) hs of
        (r, hs') \<Rightarrow> (Some (answer (ge_marshal ge) host_json r), hs'))"
| "run_host_route ge hp q (GetHost i) hs =
     (Some (answer (ge_marshal ge) host_json (handleGetHost (ev_user (ge_api ge)) i (hs_inv hs))), hs)"
| "run_host_route ge hp q (UpdateHost i) hs =
     (case handleUpdateHost (ge_marshal ge) (ge_os ge) (ev_krOk (ge_api ge)) (ev_user (ge_api ge)) (hp_now hp)
             (ev_launch (ge_api ge)) i (body_json (in_body q)) hs of
        (r, hs') \<Rightarrow> (Some (answer (ge_marshal ge) host_json r), hs'))"
| "run_host_route ge hp q (DeleteHost i) hs =
     (case handleDeleteHost (ge_marshal ge) (ge_os ge) i hs of
        (r, hs') \<Rightarrow> (Some (answer (ge_marshal ge) (\<lambda>_. JNull) r), hs'))"
| "run_host_route ge hp q (HostForwards i) hs =
     (case handleListHostForwards (ev_user (ge_api ge)) i hs of
        (r, hs') \<Rightarrow> (Some (answer (ge_marshal ge) (\<lambda>l. JArr (map host_forward_view l)) r), hs'))"
| "run_host_route ge hp q SetSecret hs =
     (case handleSetSecret (ev_krOk (ge_api ge)) (body_json (in_body q)) (hs_secrets hs) of
        (r, s) \<Rightarrow> (Some (answer (ge_marshal ge) (\<lambda>b. JObj [(''saved'', JBool b)]) r), hs\<lparr>hs_secrets := s\<rparr>))"
| "run_host_route ge hp q DropSecret hs =
     (case handleDeleteSecret (ev_krOk (ge_api ge)) (query_get (ge_unquery ge) (in_query q)) (hs_secrets hs) of
        (r, s) \<Rightarrow> (Some (answer (ge_marshal ge) (\<lambda>_. JNull) r), hs\<lparr>hs_secrets := s\<rparr>))"
| "run_host_route ge hp q _ hs = (None, hs)"

definition host_route :: "route \<Rightarrow> bool" where
  "host_route r = (case r of
     ListHosts \<Rightarrow> True | CreateHost \<Rightarrow> True | GetHost _ \<Rightarrow> True | UpdateHost _ \<Rightarrow> True | DeleteHost _ \<Rightarrow> True
   | HostForwards _ \<Rightarrow> True | SetSecret \<Rightarrow> True | DropSecret \<Rightarrow> True | _ \<Rightarrow> False)"

definition run_route ::
  "('v, 't, 's, 'd, 'c) gossh_env \<Rightarrow> happening \<Rightarrow> http_request \<Rightarrow> route
     \<Rightarrow> ('v, 't, 's, 'd) gossh \<Rightarrow> response option \<times> ('v, 't, 's, 'd) gossh" where
  "run_route ge hp q r st =
     (let marshal = ge_marshal ge; d = hs_disk (host_part st)
      in case r of
           ListPins \<Rightarrow> (Some (answer marshal (\<lambda>ps. JArr (map pin_view_json ps))
                               (handleListKnownHosts (ge_sha256 ge) (go_known st))), st)
         | ForgetPin a \<Rightarrow>
             (case handleForgetKnownHost marshal (ge_os ge) a (go_known st) d of
                (res, k, d') \<Rightarrow> (Some (answer marshal (\<lambda>_. JNull) res), with_disk st d'\<lparr>go_known := k\<rparr>))
         | GetPageTitle \<Rightarrow> (Some (answer marshal (\<lambda>t. JObj [(''title'', JStr t)]) (handleGetTitle (go_title st))), st)
         | PutPageTitle \<Rightarrow>
             (case handlePutTitle marshal (ge_home ge) (ge_os ge) (body_json (in_body q)) (go_title st) d of
                (res, ts, d') \<Rightarrow>
                  (Some (answer marshal (\<lambda>t. JObj [(''title'', JStr t)]) res), with_disk st d'\<lparr>go_title := ts\<rparr>))
         | _ \<Rightarrow>
             if host_route r
             then (case run_host_route ge hp q r (host_part st) of (a, hs) \<Rightarrow> (a, with_hosts st hs))
             else (case run_session_route ge hp q r (go_server st) of (a, sv) \<Rightarrow> (a, st\<lparr>go_server := sv\<rparr>)))"

text \<open>
  One request.  What reaches the WebSocket handler is \<open>Ws_Router\<close>'s; its answer here is the upgrade.
\<close>

definition unauthorized :: response where
  "unauthorized = text_answer 401 (''unauthorized: missing or invalid access token'' @ nl)"

definition serve ::
  "('v, 't, 's, 'd, 'c) gossh_env \<Rightarrow> happening \<Rightarrow> http_request
     \<Rightarrow> ('v, 't, 's, 'd) gossh \<Rightarrow> response option \<times> ('v, 't, 's, 'd) gossh" where
  "serve ge hp q st =
     (let ok = requireToken (ge_token ge) (request_token (ge_unquery ge) q)
      in case find_target (ge_unescape ge) (in_method q) (in_path q) of
           IndexPage \<Rightarrow> (Some (case ge_asset ge ''index.html'' of
                                None \<Rightarrow> text_answer 500 (''Internal Server Error'' @ nl) | Some t \<Rightarrow> text_answer 200 t), st)
         | Asset name \<Rightarrow> (Some (case ge_asset ge name of
                                 None \<Rightarrow> text_answer 404 (''404 page not found'' @ nl) | Some t \<Rightarrow> text_answer 200 t), st)
         | RedirectTo p \<Rightarrow> (Some (text_answer 301 ''''), st)
         | NotFound \<Rightarrow> (Some (text_answer 404 (''404 page not found'' @ nl)), st)
         | WrongMethod \<Rightarrow> (Some (text_answer 405 (''Method Not Allowed'' @ nl)), st)
         | WebSocket \<Rightarrow> (Some (if ok then text_answer 101 '''' else unauthorized), st)
         | ApiNotFound \<Rightarrow> (Some (if ok then text_answer 404 (''404 page not found'' @ nl) else unauthorized), st)
         | ApiWrongMethod \<Rightarrow> (Some (if ok then text_answer 405 (''Method Not Allowed'' @ nl) else unauthorized), st)
         | ApiRoute r \<Rightarrow> if ok then run_route ge hp q r st else (Some unauthorized, st))"


section \<open>Every route and its path\<close>

text \<open>The method and the segments that name a route, and the arguments it takes from the path.\<close>

fun route_request :: "route \<Rightarrow> string \<times> string list" where
  "route_request CreateSession = (''POST'', [''api'', ''sessions''])"
| "route_request SessionStatus = (''POST'', [''api'', ''sessions'', ''status''])"
| "route_request ListSessions = (''GET'', [''api'', ''sessions''])"
| "route_request (GetSession i) = (''GET'', [''api'', ''sessions'', i])"
| "route_request (SetSessionTitle i) = (''PUT'', [''api'', ''sessions'', i, ''title''])"
| "route_request (DeleteSession i) = (''DELETE'', [''api'', ''sessions'', i])"
| "route_request (ResizeSession i) = (''POST'', [''api'', ''sessions'', i, ''resize''])"
| "route_request (SignalSession i) = (''POST'', [''api'', ''sessions'', i, ''signal''])"
| "route_request (GetScreen i) = (''GET'', [''api'', ''sessions'', i, ''screen''])"
| "route_request (WaitSession i) = (''POST'', [''api'', ''sessions'', i, ''wait''])"
| "route_request (SendKeys i) = (''POST'', [''api'', ''sessions'', i, ''keys''])"
| "route_request ListHosts = (''GET'', [''api'', ''hosts''])"
| "route_request CreateHost = (''POST'', [''api'', ''hosts''])"
| "route_request (GetHost i) = (''GET'', [''api'', ''hosts'', i])"
| "route_request (UpdateHost i) = (''PUT'', [''api'', ''hosts'', i])"
| "route_request (DeleteHost i) = (''DELETE'', [''api'', ''hosts'', i])"
| "route_request (HostForwards i) = (''GET'', [''api'', ''hosts'', i, ''forwards''])"
| "route_request ListPins = (''GET'', [''api'', ''known-hosts''])"
| "route_request (ForgetPin a) = (''DELETE'', [''api'', ''known-hosts'', a])"
| "route_request SetSecret = (''POST'', [''api'', ''secrets''])"
| "route_request DropSecret = (''DELETE'', [''api'', ''secrets''])"
| "route_request (ListForwards i) = (''GET'', [''api'', ''sessions'', i, ''forwards''])"
| "route_request (AddForward i) = (''POST'', [''api'', ''sessions'', i, ''forwards''])"
| "route_request (DeleteForward i f) = (''DELETE'', [''api'', ''sessions'', i, ''forwards'', f])"
| "route_request GetPageTitle = (''GET'', [''api'', ''title''])"
| "route_request PutPageTitle = (''PUT'', [''api'', ''title''])"

fun seg_args :: "seg list \<Rightarrow> string list \<Rightarrow> string list" where
  "seg_args [] xs = []"
| "seg_args (Lit s # ps) xs = s # seg_args ps xs"
| "seg_args (Wild # ps) xs = hd xs # seg_args ps (tl xs)"

fun route_args :: "route \<Rightarrow> string list" where
  "route_args (GetSession i) = [i]"
| "route_args (SetSessionTitle i) = [i]"
| "route_args (DeleteSession i) = [i]"
| "route_args (ResizeSession i) = [i]"
| "route_args (SignalSession i) = [i]"
| "route_args (GetScreen i) = [i]"
| "route_args (WaitSession i) = [i]"
| "route_args (SendKeys i) = [i]"
| "route_args (GetHost i) = [i]"
| "route_args (UpdateHost i) = [i]"
| "route_args (DeleteHost i) = [i]"
| "route_args (HostForwards i) = [i]"
| "route_args (ForgetPin i) = [i]"
| "route_args (ListForwards i) = [i]"
| "route_args (AddForward i) = [i]"
| "route_args (DeleteForward i f) = [i, f]"
| "route_args _ = []"

lemmas route_table = api_table_def api_path_def sess_path_def arg1_def arg2_def method_fits_def

lemma fitting_route:
  assumes "list_all (\<lambda>a. a \<noteq> ''/'') (route_args r)" and "method_fits (fst (route_request r)) m"
  shows "fitting m (snd (route_request r)) = [r]"
  using assms by (cases r) (auto simp: fitting_def route_table List.map_filter_def)


definition wilds :: "seg list \<Rightarrow> nat" where
  "wilds ps = length (filter (\<lambda>p. p = Wild) ps)"

lemma match_segs_fill:
  "match_segs ps xs = Some as \<Longrightarrow>
     xs = seg_args ps as \<and> length as = wilds ps \<and> list_all (\<lambda>a. a \<noteq> ''/'') as"
  by (induction ps xs arbitrary: as rule: match_segs.induct) (auto simp: wilds_def split: if_splits)

lemma table_entry:
  assumes "(pm, ps, f) \<in> set api_table" and "length as = wilds ps" and "list_all P as"
  shows "route_request (f as) = (pm, seg_args ps as) \<and> list_all P (route_args (f as))"
  using assms unfolding api_table_def
  by (auto simp: api_path_def sess_path_def arg1_def arg2_def wilds_def length_Suc_conv)

lemma fitting_only:
  assumes "r \<in> set (fitting m segs)"
  shows "method_fits (fst (route_request r)) m \<and> segs = snd (route_request r)
     \<and> list_all (\<lambda>a. a \<noteq> ''/'') (route_args r)"
proof -
  from assms obtain pm ps f as where e: "(pm, ps, f) \<in> set api_table" "method_fits pm m" "match_segs ps segs = Some as"
    "r = f as"
    by (auto simp: fitting_def List.map_filter_def split: if_splits)
  note fill = match_segs_fill [OF e(3)]
  with table_entry [OF e(1), of as] e show ?thesis by auto
qed

lemma fitting_singleton: "fitting m segs = [] \<or> (\<exists>r. fitting m segs = [r])"
proof (cases "fitting m segs")
  case (Cons r rs)
  then have "r \<in> set (fitting m segs)" by simp
  then show ?thesis using fitting_route fitting_only by blast
qed simp


text \<open>
  What the paths rely on of \<open>url.PathEscape\<close> and \<open>url.PathUnescape\<close>: one inverts the other, an escaped
  segment has no slash, and letters, digits and four marks are not escaped.
\<close>

definition unreserved :: "char \<Rightarrow> bool" where
  "unreserved c \<longleftrightarrow>
     (let n = (of_char c :: nat)
      in 97 \<le> n \<and> n \<le> 122 \<or> 65 \<le> n \<and> n \<le> 90 \<or> 48 \<le> n \<and> n \<le> 57 \<or> n = 45 \<or> n = 46 \<or> n = 95 \<or> n = 126)"

definition escaping :: "(string \<Rightarrow> string) \<Rightarrow> (string \<Rightarrow> string option) \<Rightarrow> bool" where
  "escaping esc unesc \<longleftrightarrow>
     (\<forall>s. unesc (esc s) = Some s) \<and> (\<forall>s. CHR ''/'' \<notin> set (esc s)) \<and> (\<forall>s. list_all unreserved s \<longrightarrow> esc s = s)"

definition route_path :: "(string \<Rightarrow> string) \<Rightarrow> route \<Rightarrow> string" where
  "route_path esc r = ''/'' @ str_join ''/'' (map esc (snd (route_request r)))"

text \<open>An argument that survives the cleaning of the path.\<close>

definition plain_arg :: "string \<Rightarrow> bool" where
  "plain_arg a \<longleftrightarrow> a \<noteq> '''' \<and> a \<noteq> ''/'' \<and> a \<noteq> ''.'' \<and> a \<noteq> ''..''"

lemma escaped_arg:
  assumes "escaping esc unesc" and "plain_arg a"
  shows "esc a \<noteq> '''' \<and> esc a \<noteq> ''.'' \<and> esc a \<noteq> ''..''"
proof -
  have "esc '''' = ''''" "esc ''.'' = ''.''" "esc ''..'' = ''..''"
    using assms(1) by (auto simp: escaping_def unreserved_def)
  moreover have "esc a = esc b \<Longrightarrow> a = b" for b using assms(1) unfolding escaping_def by (metis option.inject)
  ultimately show ?thesis using assms(2) by (auto simp: plain_arg_def)
qed

lemma route_segs_plain:
  "list_all plain_arg (route_args r) \<Longrightarrow> snd (route_request r) \<noteq> [] \<and> list_all plain_arg (snd (route_request r))"
  by (cases r) (simp_all add: plain_arg_def)

lemma str_split_append: "c \<notin> set s \<Longrightarrow> str_split c (s @ c # t) = s # str_split c t"
  by (induction s) auto

lemma str_split_plain: "c \<notin> set s \<Longrightarrow> str_split c s = [s]"
  by (induction s) auto

lemma split_join:
  "list_all (\<lambda>s. c \<notin> set s) ss \<Longrightarrow> ss \<noteq> [] \<Longrightarrow> str_split c (str_join [c] ss) = ss"
proof (induction ss rule: induct_list012)
  case (3 s t ss)
  then show ?case by (simp add: str_split_append)
qed (simp_all add: str_split_plain)

lemma clean_parts_keep:
  "list_all (\<lambda>s. s \<noteq> '''' \<and> s \<noteq> ''.'' \<and> s \<noteq> ''..'') ss \<Longrightarrow> clean_parts rooted acc ss = rev acc @ ss"
  by (induction ss arbitrary: acc) auto

lemma last_join: "ss \<noteq> [] \<Longrightarrow> last ss \<noteq> [] \<Longrightarrow> str_join sep ss \<noteq> [] \<and> last (str_join sep ss) = last (last ss)"
  by (induction ss rule: induct_list012) auto

lemma clean_path_keep:
  assumes "list_all (\<lambda>s. s \<noteq> '''' \<and> s \<noteq> ''.'' \<and> s \<noteq> ''..'' \<and> CHR ''/'' \<notin> set s) ss" and "ss \<noteq> []"
  shows "clean_url_path (''/'' @ str_join ''/'' ss) = ''/'' @ str_join ''/'' ss"
    and "tl (str_split CHR ''/'' (''/'' @ str_join ''/'' ss)) = ss"
proof -
  have s: "str_split CHR ''/'' (str_join ''/'' ss) = ss"
    using split_join [of "CHR ''/''" ss] assms by (simp add: list_all_iff)
  have l: "last ss \<noteq> ''''" "CHR ''/'' \<notin> set (last ss)" using assms by (auto simp: list_all_iff)
  then have "last (last ss) \<noteq> CHR ''/''" using last_in_set by metis
  then have "str_join ''/'' ss \<noteq> ''''" "last (str_join ''/'' ss) \<noteq> CHR ''/''"
    using last_join [OF assms(2) l(1)] by simp_all
  moreover have "clean_parts True [] ss = ss" using clean_parts_keep [of ss True "[]"] assms by (simp add: list_all_iff)
  then have "path_clean (''/'' @ str_join ''/'' ss) = ''/'' @ str_join ''/'' ss"
    by (simp add: path_clean_def has_prefix_def s Let_def)
  ultimately show "clean_url_path (''/'' @ str_join ''/'' ss) = ''/'' @ str_join ''/'' ss"
    by (simp add: clean_url_path_def Let_def)
  show "tl (str_split CHR ''/'' (''/'' @ str_join ''/'' ss)) = ss" by (simp add: s)
qed

lemma norm_segs_escaped:
  "escaping esc unesc \<Longrightarrow> list_all plain_arg ss \<Longrightarrow> norm_segs unesc (map esc ss) = ss"
  using escaped_arg [of esc unesc]
  by (induction ss rule: induct_list012) (auto simp: unescape_seg_def escaping_def)

lemma api_segs: "hd (snd (route_request r)) = ''api'' \<and> length (snd (route_request r)) > 1"
  by (cases r) simp_all

lemma route_found:
  assumes "path_segs unesc path = snd (route_request r)" and "clean_url_path path = path"
    and "list_all plain_arg (route_args r)"
  shows "find_target unesc (fst (route_request r)) path = ApiRoute r"
proof -
  have "list_all (\<lambda>a. a \<noteq> ''/'') (route_args r)" using assms(3) by (auto simp: list_all_iff plain_arg_def)
  then have "fitting (fst (route_request r)) (snd (route_request r)) = [r]"
    by (rule fitting_route) (simp add: method_fits_def)
  then have "api_target (fst (route_request r)) (snd (route_request r)) = ApiRoute r"
    by (simp add: api_target_def)
  then show ?thesis
    using api_segs [of r] by (auto simp: find_target_def assms Let_def get_only_def)
qed

text \<open>
  Property C27.  Every handler is reached by exactly its own requests.  The method and path of a
  route, its arguments escaped, lead to that route with those arguments, when no argument is empty,
  a slash, a dot or two dots (the router cleans those away).  And a request, whatever its method
  and path, that leads to a route has that route's method (\<open>HEAD\<close> besides \<open>GET\<close>) and, unescaped, that
  route's path.
\<close>

theorem routes_reached_by_path:
  assumes "escaping esc unesc" and "list_all plain_arg (route_args r)"
  shows "find_target unesc (fst (route_request r)) (route_path esc r) = ApiRoute r
     \<and> (\<forall>m path r'. find_target unesc m path = ApiRoute r' \<longrightarrow>
           method_fits (fst (route_request r')) m \<and> path_segs unesc path = snd (route_request r'))"
proof
  note plain = route_segs_plain [OF assms(2)]
  have "list_all (\<lambda>s. s \<noteq> '''' \<and> s \<noteq> ''.'' \<and> s \<noteq> ''..'' \<and> CHR ''/'' \<notin> set s) (map esc (snd (route_request r)))"
    using plain escaped_arg [OF assms(1)] assms(1) by (auto simp: list_all_iff escaping_def)
  note keep = clean_path_keep [OF this]
  have segs: "path_segs unesc (route_path esc r) = snd (route_request r)"
    unfolding path_segs_def route_path_def using keep(2) plain norm_segs_escaped [OF assms(1)] by simp
  have "clean_url_path (route_path esc r) = route_path esc r"
    unfolding route_path_def using keep(1) plain by simp
  then show "find_target unesc (fst (route_request r)) (route_path esc r) = ApiRoute r"
    by (rule route_found [OF segs _ assms(2)])
  show "\<forall>m path r'. find_target unesc m path = ApiRoute r' \<longrightarrow>
          method_fits (fst (route_request r')) m \<and> path_segs unesc path = snd (route_request r')"
  proof (intro allI impI)
    fix m path r'
    assume "find_target unesc m path = ApiRoute r'"
    then have "api_target m (path_segs unesc path) = ApiRoute r'"
      by (auto simp: find_target_def Let_def get_only_def split: if_splits)
    then have "r' \<in> set (fitting m (path_segs unesc path))"
      by (auto simp: api_target_def split: list.splits if_splits)
    then show "method_fits (fst (route_request r')) m \<and> path_segs unesc path = snd (route_request r')"
      using fitting_only by blast
  qed
qed


text \<open>An escaping of the two characters that need it here.\<close>

definition demo_esc :: "string \<Rightarrow> string" where
  "demo_esc s = concat (map (\<lambda>c. if c = CHR ''/'' then ''%s'' else if c = CHR ''%'' then ''%p'' else [c]) s)"

fun demo_unesc_chars :: "string \<Rightarrow> string" where
  "demo_unesc_chars (a # b # s) =
     (if a = CHR ''%'' then (if b = CHR ''s'' then CHR ''/'' else CHR ''%'') # demo_unesc_chars s
      else a # demo_unesc_chars (b # s))"
| "demo_unesc_chars s = s"

lemma demo_unesc_plain: "c \<noteq> CHR ''%'' \<Longrightarrow> demo_unesc_chars (c # s) = c # demo_unesc_chars s"
  by (cases s) auto

lemma demo_escaping: "escaping demo_esc (\<lambda>s. Some (demo_unesc_chars s))"
proof -
  have "demo_unesc_chars (demo_esc s) = s" for s
    by (induction s) (auto simp: demo_esc_def demo_unesc_plain)
  moreover have "CHR ''/'' \<notin> set (demo_esc s)" for s
    by (auto simp: demo_esc_def split: if_splits)
  moreover have "list_all unreserved s \<Longrightarrow> demo_esc s = s" for s
    by (induction s) (auto simp: demo_esc_def unreserved_def)
  ultimately show ?thesis by (simp add: escaping_def)
qed

theorem routes_reached_by_path_witness:
  "find_target (\<lambda>s. Some (demo_unesc_chars s)) ''DELETE'' ''/api/sessions/a%sb/forwards/f'' = ApiRoute (DeleteForward ''a/b'' ''f'')"
  using routes_reached_by_path [OF demo_escaping, of "DeleteForward ''a/b'' ''f''"]
  by (simp add: plain_arg_def route_path_def demo_esc_def)


section \<open>Access and answers\<close>


text \<open>The statuses the handlers answer with.\<close>

definition good_http :: "'a http \<Rightarrow> bool" where
  "good_http r \<longleftrightarrow> (case r of HErr n t \<Rightarrow> n \<in> {400, 403, 404, 409, 500, 503} | HOk n a \<Rightarrow> n \<in> {200, 201, 204})"

definition good_answer :: "response \<Rightarrow> bool" where
  "good_answer a \<longleftrightarrow>
     (if hr_status a = 204 then hr_text a = '''' \<and> hr_json a = None
      else if hr_status a \<in> {400, 403, 404, 409, 500, 503} then \<exists>t. hr_json a = Some (JObj [(''error'', JStr t)])
      else hr_status a \<in> {200, 201})"

lemma answer_good [simp]: "good_http r \<Longrightarrow> good_answer (answer marshal enc r)"
  by (auto simp: good_http_def good_answer_def answer_def writeError_def writeJSON_def text_answer_def split: http.splits)

lemma screen_answer_good [simp]: "good_http r \<Longrightarrow> (\<And>n a. r = HOk n a \<Longrightarrow> n = 200) \<Longrightarrow> good_answer (screen_answer marshal r)"
  by (cases "(marshal, r)" rule: screen_answer.cases)
     (auto simp: good_http_def good_answer_def writeError_def writeJSON_def text_answer_def)

lemma session_handlers_good:
  "good_http (fst (handleCreateSession env fresh now body st))"
  "good_http (handleSessionStatus env body st)"
  "good_http (handleListSessions env st)"
  "good_http (handleGetSession env i st)"
  "good_http (fst (handleUpdateTitle env i body st))"
  "good_http (fst (handleDeleteSession env i st))"
  "good_http (fst (handleResizeSession env i body st))"
  "good_http (fst (handleSignalSession env i body st))"
  "good_http (fst (handleKeys env p i body st))"
  by (auto simp: good_http_def handleCreateSession_def handleSessionStatus_def handleListSessions_def handleGetSession_def
      handleUpdateTitle_def handleDeleteSession_def handleResizeSession_def handleSignalSession_def handleKeys_def Let_def
      split: option.split sum.split prod.split sess_error.split)

lemma wait_good: "handleWaitSession compile now obs i body st = WaitReply r \<Longrightarrow> good_http r"
  by (auto simp: good_http_def handleWaitSession_def Let_def split: option.splits sum.splits if_splits sess_error.splits)

lemma screen_good:
  "good_http (handleGetScreen cx pe tfmt now format i st)"
  "handleGetScreen cx pe tfmt now format i st = HOk n a \<Longrightarrow> n = 200"
  by (auto simp: good_http_def handleGetScreen_def split: option.splits sum.splits if_splits prod.splits sess_error.splits)

lemma forward_handlers_good:
  "good_http (fst (handleAddForward client listen rid sid jbody f))"
  "good_http (handleListForwards sid f)"
  "good_http (fst (handleDeleteForward sid eid f))"
  by (auto simp: good_http_def handleAddForward_def handleListForwards_def handleDeleteForward_def Let_def
      split: option.split sum.split prod.split forward_kind.split)

lemma host_handlers_good:
  "good_http (handleListHosts user iv)"
  "good_http (fst (handleCreateHost marshal e kr user now fresh jbody hs))"
  "good_http (handleGetHost user i iv)"
  "good_http (fst (handleUpdateHost marshal e kr user now launch i jbody hs))"
  "good_http (fst (handleDeleteHost marshal e i hs))"
  "good_http (fst (handleListHostForwards user i hs))"
  "good_http (fst (handleSetSecret kr jbody s))"
  "good_http (fst (handleDeleteSecret kr qf s))"
  by (auto simp: good_http_def handleListHosts_def handleCreateHost_def handleGetHost_def handleUpdateHost_def
      handleDeleteHost_def handleListHostForwards_def handleSetSecret_def handleDeleteSecret_def Let_def
      split: option.split sum.split prod.split)

lemma other_handlers_good:
  "good_http (handleListKnownHosts sha k)"
  "good_http (fst (handleForgetKnownHost marshal e a k d))"
  "good_http (handleGetTitle ts)"
  "good_http (fst (handlePutTitle marshal home e jbody ts d))"
  by (auto simp: good_http_def handleListKnownHosts_def handleForgetKnownHost_def handleGetTitle_def handlePutTitle_def
      Let_def split: option.split prod.split)

lemmas handlers_good =
  session_handlers_good forward_handlers_good host_handlers_good other_handlers_good


text \<open>
  Property C29.  Every route has its handler and every handler answers: only a wait may give no
  answer, and then nothing has changed.  An answer has one of nine statuses; 204 comes without a body,
  and an error is a JSON object with the message under \<open>error\<close>, which is what the command line reads.
\<close>

theorem every_route_answered:
  "case run_route ge hp q r st of
     (None, st') \<Rightarrow> (\<exists>i. r = WaitSession i) \<and> st' = st
   | (Some a, st') \<Rightarrow> good_answer a"
proof (cases "host_route r")
  case True
  then show ?thesis
    by (cases r) (simp_all add: run_route_def host_route_def split_beta handlers_good Let_def)
next
  case False
  then show ?thesis
  proof (cases r)
    case (WaitSession i)
    then show ?thesis
      by (auto simp: run_route_def host_route_def Let_def dest: wait_good split: wait_reply.split)
  next
    case (GetScreen i)
    then show ?thesis
      by (simp add: run_route_def host_route_def Let_def screen_answer_good [OF screen_good])
  qed (simp_all add: run_route_def host_route_def split_beta handlers_good Let_def)
qed

section \<open>A concrete server\<close>

definition demo_gossh_env :: "(bytes, unit, memory_store, unit, unit) gossh_env" where
  "demo_gossh_env =
     \<lparr>ge_api = \<lparr>ev_ops = memory_ops, ev_factory = (\<lambda>_. demo_factory), ev_mirrorF = (\<lambda>_. None),
        ev_mo = capture_mirror demo_capture, ev_tok = (\<lambda>_ _. True), ev_krOk = True, ev_user = ''u'',
        ev_launch = (\<lambda>_ _ _ _. Inl ''''), ev_dial = (\<lambda>_ _. Inl ''''), ev_fmt = (\<lambda>_. '''')\<rparr>,
      ge_capture = demo_capture, ge_paint = \<lparr>pe_face = \<lambda>_. None, pe_width = \<lambda>_. 1, pe_encode = \<lambda>_ _. None\<rparr>,
      ge_token = ''secret'', ge_permitWrite = True, ge_marshal = (\<lambda>_. ''{}''), ge_home = ''/r'', ge_os = os_ok,
      ge_sha256 = id, ge_unescape = Some, ge_unquery = Some, ge_asset = (\<lambda>_. None), ge_compile = (\<lambda>_. None),
      ge_client = (\<lambda>_. Inr ()), ge_listen = (\<lambda>_ _ _. True)\<rparr>"

definition demo_gossh :: "(bytes, unit, memory_store, unit) gossh" where
  "demo_gossh = \<lparr>go_server = demo_screen_server, go_title = \<lparr>ts_path = '''', ts_title = ''''\<rparr>,
                 go_known = \<lparr>kh_path = '''', kh_pins = Some []\<rparr>\<rparr>"

definition demo_happening :: happening where
  "demo_happening = \<lparr>hp_now = 0, hp_fresh = ''f'', hp_rid = ''r'', hp_rounds = [],
     hp_screen = emu_snapshot rec_ops 0 rec_emulator\<rparr>"


end
