(* ===== verification/Cli_Props.thy ===== *)
theory Cli_Props
  imports Cli_Hosts Api_Routes
begin

text \<open>
  The command line against the server: a command's requests are served by the model of the server, so
  what a command does is stated from its arguments to the terminal or the inventory.  And what holds
  of a command against any server.
\<close>

section \<open>Commands as runs\<close>

lemma run_bind:
  "run_cli srv (cli_bind m f) w =
     (case run_cli srv m w of (r, w1, qs) \<Rightarrow>
        (case run_cli srv (f r) w1 of (r2, w2, qs2) \<Rightarrow> (r2, w2, qs @ qs2)))"
  by (induction m arbitrary: w) (auto split: prod.split)

lemma run_do:
  "run_cli srv (cli_do m f) w =
     (case run_cli srv m w of
        (Inl e, w1, qs) \<Rightarrow> ((Some e, []), w1, qs)
      | (Inr a, w1, qs) \<Rightarrow> (case run_cli srv (f a) w1 of (r2, w2, qs2) \<Rightarrow> (r2, w2, qs @ qs2)))"
  by (simp add: cli_do_def run_bind split: prod.split sum.split)

lemma run_try:
  "run_cli srv (cli_try m f) w =
     (case run_cli srv m w of
        (Inl e, w1, qs) \<Rightarrow> (Inl e, w1, qs)
      | (Inr a, w1, qs) \<Rightarrow> (case run_cli srv (f a) w1 of (r2, w2, qs2) \<Rightarrow> (r2, w2, qs @ qs2)))"
  by (simp add: cli_try_def run_bind split: prod.split sum.split)

definition call_result :: "api_client \<Rightarrow> (response \<Rightarrow> 'a option) \<Rightarrow> response option \<Rightarrow> string + 'a" where
  "call_result c out a =
     (case a of
        None \<Rightarrow> Inl (''cannot reach '' @ ac_base c)
      | Some r \<Rightarrow>
          if hr_status r < 200 \<or> hr_status r \<ge> 300 then Inl (apiError r)
          else (case out r of None \<Rightarrow> Inl ''invalid response'' | Some x \<Rightarrow> Inr x))"

lemma run_call:
  "run_cli srv (api_call c m path body out) w =
     (case srv w (api_request c m path body) of (a, w1) \<Rightarrow> (call_result c out a, w1, [api_request c m path body]))"
  by (simp add: api_call_def call_result_def split: prod.split)

section \<open>The server behind a base address\<close>

text \<open>
  A request of the command line as the server gets it, when it goes to the server's address; \<open>hp\<close>
  gives what the request finds (the time, fresh ids).
\<close>

definition incoming :: "string \<Rightarrow> request \<Rightarrow> http_request" where
  "incoming url q =
     (let (path, query) = (case str_cut ''?'' url of None \<Rightarrow> (url, '''') | Some pq \<Rightarrow> pq)
      in \<lparr>in_method = hq_method q, in_path = path, in_query = query, in_authorization = hq_auth q, in_xToken = '''',
          in_body = (case hq_body q of None \<Rightarrow> EmptyBody | Some j \<Rightarrow> JsonBody j)\<rparr>)"

definition at_server ::
  "('v, 't, 's, 'd, 'c) gossh_env \<Rightarrow> (('v, 't, 's, 'd) gossh \<Rightarrow> request \<Rightarrow> happening) \<Rightarrow> string
     \<Rightarrow> ('v, 't, 's, 'd) gossh \<Rightarrow> request \<Rightarrow> response option \<times> ('v, 't, 's, 'd) gossh" where
  "at_server ge hp base st q =
     (if has_prefix base (hq_url q) then serve ge (hp st q) (incoming (drop (length base) (hq_url q)) q) st
      else (None, st))"

text \<open>The arguments of a route that need no escaping.\<close>

definition simple_arg :: "string \<Rightarrow> bool" where
  "simple_arg a \<longleftrightarrow> list_all unreserved a \<and> plain_arg a"

definition keeps_unreserved :: "(string \<Rightarrow> string option) \<Rightarrow> bool" where
  "keeps_unreserved unesc \<longleftrightarrow> (\<forall>s. list_all unreserved s \<longrightarrow> unesc s = Some s)"

definition plain_path :: "route \<Rightarrow> string" where
  "plain_path r = ''/'' @ str_join ''/'' (snd (route_request r))"

lemma no_cut: "c \<notin> set s \<Longrightarrow> str_cut [c] s = None"
  by (induction s) (auto simp: has_prefix_def)

lemma set_join: "set (str_join sep ss) \<subseteq> set sep \<union> (\<Union>s \<in> set ss. set s)"
  by (induction ss rule: induct_list012) auto

lemma route_segs_simple:
  "list_all simple_arg (route_args r) \<Longrightarrow> list_all simple_arg (snd (route_request r))"
  by (cases r) (simp_all add: simple_arg_def plain_arg_def unreserved_def)

lemma simple_no_marks: "simple_arg a \<Longrightarrow> CHR ''/'' \<notin> set a \<and> CHR ''?'' \<notin> set a"
  by (auto simp: simple_arg_def list_all_iff unreserved_def)

lemma plain_path_found:
  assumes "list_all simple_arg (route_args r)" and "keeps_unreserved unesc"
  shows "find_target unesc (fst (route_request r)) (plain_path r) = ApiRoute r"
    and "CHR ''?'' \<notin> set (plain_path r)"
proof -
  note s = route_segs_simple [OF assms(1)]
  have ne: "snd (route_request r) \<noteq> []" using api_segs [of r] by auto
  have "list_all (\<lambda>s. s \<noteq> '''' \<and> s \<noteq> ''.'' \<and> s \<noteq> ''..'' \<and> CHR ''/'' \<notin> set s) (snd (route_request r))"
    using s simple_no_marks by (auto simp: list_all_iff simple_arg_def plain_arg_def)
  note keep = clean_path_keep [OF this ne]
  have "norm_segs unesc ss = ss" if "list_all simple_arg ss" for ss
    using that assms(2)
    by (induction ss rule: induct_list012) (auto simp: unescape_seg_def keeps_unreserved_def simple_arg_def plain_arg_def)
  with keep s have "path_segs unesc (plain_path r) = snd (route_request r)"
    by (simp add: path_segs_def plain_path_def)
  moreover have "clean_url_path (plain_path r) = plain_path r" using keep(1) by (simp add: plain_path_def)
  moreover have "list_all plain_arg (route_args r)" using assms(1) by (auto simp: list_all_iff simple_arg_def)
  ultimately show "find_target unesc (fst (route_request r)) (plain_path r) = ApiRoute r" by (rule route_found)
  show "CHR ''?'' \<notin> set (plain_path r)"
    using set_join [of "''/''" "snd (route_request r)"] s simple_no_marks by (auto simp: plain_path_def list_all_iff)
qed

text \<open>A call with the server's token runs the handler of the route.\<close>

definition route_input :: "api_client \<Rightarrow> route \<Rightarrow> json option \<Rightarrow> http_request" where
  "route_input c r body = incoming (plain_path r) (api_request c (fst (route_request r)) (plain_path r) body)"

lemma call_served:
  assumes "list_all simple_arg (route_args r)" and "keeps_unreserved (ge_unescape ge)"
    and "ac_token c = ge_token ge" and "ge_token ge \<noteq> ''''"
  shows "at_server ge hp (ac_base c) st (api_request c (fst (route_request r)) (plain_path r) body)
     = run_route ge (hp st (api_request c (fst (route_request r)) (plain_path r) body)) (route_input c r body) r st"
proof -
  note f = plain_path_found [OF assms(1,2)]
  have "requireToken (ge_token ge) (request_token (ge_unquery ge) (route_input c r body))"
    using assms(3,4)
    by (auto simp: requireToken_def tokenFromRequest_def request_token_def route_input_def incoming_def api_request_def
        no_cut f(2) Let_def)
  moreover have "has_prefix (ac_base c) (hq_url (api_request c (fst (route_request r)) (plain_path r) body))"
    by (simp add: has_prefix_def api_request_def)
  ultimately show ?thesis
    using f(1) by (simp add: at_server_def serve_def route_input_def incoming_def api_request_def no_cut f(2) Let_def)
qed

lemma route_input_body [simp]:
  "list_all simple_arg (route_args r) \<Longrightarrow>
     in_body (route_input c r body) = (case body of None \<Rightarrow> EmptyBody | Some j \<Rightarrow> JsonBody j)"
  by (simp add: route_input_def incoming_def api_request_def Let_def split: prod.split)


section \<open>Pressing keys\<close>

lemma status_ok [simp]:
  "hr_status (writeJSON marshal n j) = n" "hr_json (writeJSON marshal n j) = Some j"
  "hr_status (text_answer n t) = n" "hr_text (text_answer n t) = t"
  by (simp_all add: writeJSON_def text_answer_def)

lemma result_of_answer:
  "200 \<le> n \<Longrightarrow> n < 300 \<Longrightarrow> n \<noteq> 204 \<Longrightarrow>
     call_result c out (Some (answer marshal enc (HOk n a)))
       = (case out (writeJSON marshal n (enc a)) of None \<Rightarrow> Inl ''invalid response'' | Some x \<Rightarrow> Inr x)"
  by (simp add: call_result_def answer_def)

lemma path_of_sessions: "''/api/sessions'' = plain_path ListSessions"
  "''/api/hosts'' = plain_path ListHosts"
  by (simp_all add: plain_path_def)

lemma listed_sessions:
  assumes "keeps_unreserved (ge_unescape ge)" and "ac_token c = ge_token ge" and "ge_token ge \<noteq> ''''"
    and "handleListSessions (ge_api ge) (go_server st) = HOk 200 ds"
  shows "\<exists>q. run_cli (at_server ge hp (ac_base c)) (listSessions c) st = (Inr ds, st, [q])"
proof -
  have g: "''GET'' = fst (route_request ListSessions)" by simp
  have "decode_elems (decode_struct sd_fields) zero_description (map sd_json ds) = Some ds"
    by (rule elems_read_back) (rule description_read_back)
  then have d: "decode_struct [(''sessions'', f_elems (decode_struct sd_fields) zero_description)]
      (JObj [(''sessions'', JArr (map sd_json ds))]) [] = Some ds"
    by (simp add: decode_struct_def [of "[_]"] find_field_def f_elems_def)
  show ?thesis
    unfolding listSessions_def path_of_sessions g
    using call_served [of ListSessions ge c hp st None] assms
    by (simp add: run_call run_route_def host_route_def result_of_answer json_out_def d Let_def)
qed


lemma keys_decoded:
  "decode_keys (JsonBody (JObj [(''encoding'', JStr e), (''input'', JStr s)])) = Some \<lparr>kq_input = s, kq_encoding = e\<rparr>"
  by (simp add: decode_keys_def body_json_def decode_struct_def find_field_def f_str_def)

lemma keys_path: "session_path s ''/keys'' = plain_path (SendKeys (sd_id s))"
  by (simp add: session_path_def plain_path_def)

lemma base64_encode_Nil: "base64_encode [] = ''''" by code_simp

lemma base64_nonempty: "p \<noteq> [] \<Longrightarrow> base64_encode p \<noteq> ''''"
  by (metis base64_decode_encode base64_encode_Nil option.inject)

lemma keys_accepted:
  assumes "map_of (mg_sessions (sv_mgr sv)) i = Some en" and "s_state (en_sess en) \<noteq> StateDestroyed"
    and "ev_tok env (en_log en) (TWrite p)" and "p \<noteq> []"
  shows "handleKeys env True i (JsonBody (JObj [(''encoding'', JStr ''base64''), (''input'', JStr (base64_encode p))])) sv
     = (HOk 200 (length p), put_entry i (en\<lparr>en_log := en_log en @ [TWrite p]\<rparr>) sv)"
  using assms base64_nonempty [OF assms(4)]
  by (simp add: handleKeys_def keys_decoded keys_payload_def base64_decode_encode mgr_get_def session_input_def term_do_def)

text \<open>
  Property C30.  \<open>gossh session press\<close> types the named keys, once, in the named session.  Against a server
  with the same token that permits writing and has the session the name picks, alive, the command
  succeeds with two requests; the bytes of the keys, in order, are written to that session's
  terminal in one write, and nothing else in the server changes.
\<close>

theorem press_types_keys:
  assumes "apiEndpoint ce af = Inr c" and "ac_token c = ge_token ge" and "ge_token ge \<noteq> ''''"
    and "keeps_unreserved (ge_unescape ge)" and "ge_permitWrite ge"
    and "handleListSessions (ge_api ge) (go_server st) = HOk 200 ds"
    and "pick_session ce (ac_base c) name ds = Inr s" and "simple_arg (sd_id s)"
    and "map_of (mg_sessions (sv_mgr (go_server st))) (sd_id s) = Some en"
    and "s_state (en_sess en) \<noteq> StateDestroyed"
    and "resolveKeys (ce_low ce) keys = Some payload" and "payload \<noteq> []" and "length payload < 2 ^ 63"
    and "ev_tok (ge_api ge) (en_log en) (TWrite payload)"
  shows "\<exists>out qs. run_cli (at_server ge hp (ac_base c)) (session_press ce af name keys) st
     = ((None, out),
        st\<lparr>go_server := put_entry (sd_id s) (en\<lparr>en_log := en_log en @ [TWrite payload]\<rparr>) (go_server st)\<rparr>, qs)
     \<and> length qs = 2"
proof -
  let ?body = "JObj [(''encoding'', JStr ''base64''), (''input'', JStr (base64_encode payload))]"
  let ?r = "SendKeys (sd_id s)"
  have ps: "''POST'' = fst (route_request ?r)" by simp
  obtain q where l: "run_cli (at_server ge hp (ac_base c)) (listSessions c) st = (Inr ds, st, [q])"
    using listed_sessions [OF assms(4,2,3,6)] by blast
  have w: "decode_struct [(''written'', f_int (\<lambda>g i. g i))] (JObj [(''written'', JNum (int (length payload)))]) 0
      = Some (int (length payload))"
    using assms(13) by (simp add: decode_struct_def find_field_def f_int_def in_int64_def min_int64_def max_int64_def)
  have k: "at_server ge hp (ac_base c) st (api_request c ''POST'' (session_path s ''/keys'') (Some ?body))
     = (Some (answer (ge_marshal ge) (\<lambda>n. JObj [(''written'', JNum (int n))]) (HOk 200 (length payload))),
        st\<lparr>go_server := put_entry (sd_id s) (en\<lparr>en_log := en_log en @ [TWrite payload]\<rparr>) (go_server st)\<rparr>)"
    unfolding keys_path ps
    using call_served [of ?r ge c hp st "Some ?body"] assms(2-5,8)
      keys_accepted [OF assms(9,10,14,12)]
    by (simp add: run_route_def host_route_def Let_def)
  show ?thesis
    using assms(1,7,11)
    by (simp add: session_press_def sendBytes_def with_session_def with_client_def resolveSession_def run_do run_try
        l run_call k result_of_answer json_out_def w prints_def)
qed


definition demo_cli :: cli_env where
  "demo_cli = \<lparr>ce_parse = \<lambda>_. None, ce_env = \<lambda>_. None, ce_disk = \<lambda>_. None, ce_home = None, ce_stdin = None,
     ce_tty = True, ce_low = id, ce_fold = id, ce_quote = id, ce_writable = True, ce_temp = None, ce_rfc3339 = \<lambda>_. ''''\<rparr>"

definition demo_flags :: api_flags where
  "demo_flags = \<lparr>af_config = '''', af_server = ''h'', af_token = ''secret'', af_tokenFile = '''', af_json = None\<rparr>"

definition demo_client :: api_client where
  "demo_client = \<lparr>ac_base = ''http://h'', ac_token = ''secret''\<rparr>"

lemma demo_endpoint: "apiEndpoint demo_cli demo_flags = Inr demo_client"
proof -
  obtain s where "applyDefaultValues app_fields (zero_values app_fields) = (None, s)"
    using defaults_parse [OF server_defaults_parse(1)] by blast
  then have "client_options demo_cli demo_flags = Inr s"
    by (simp add: client_options_def demo_cli_def demo_flags_def expandHome_def has_prefix_def)
  moreover have "str_contains ''://'' ''h'' = False" "trim_slashes ''http://h'' = ''http://h''" by code_simp+
  ultimately show ?thesis
    by (simp add: apiEndpoint_def client_base_def client_token_def demo_flags_def demo_client_def Let_def)
qed

lemma demo_sessions:
  "map_of (mg_sessions (sv_mgr (go_server demo_gossh))) ''s'' =
     Some \<lparr>en_sess = new_session ''s'' demo_host_spec (mirrorFactory demo_capture True (\<lambda>_. None) ()) True 0,
           en_term = (), en_exited = False, en_log = []\<rparr>"
  by (simp add: demo_gossh_def demo_screen_server_def newManager_def)

theorem press_types_keys_witness:
  "\<exists>out st' qs. run_cli (at_server demo_gossh_env (\<lambda>_ _. demo_happening) ''http://h'')
       (session_press demo_cli demo_flags ''s'' [''Enter'']) demo_gossh = ((None, out), st', qs)
     \<and> map_option en_log (map_of (mg_sessions (sv_mgr (go_server st'))) ''s'') = Some [TWrite [0x0D]]"
proof -
  let ?en = "\<lparr>en_sess = new_session ''s'' demo_host_spec (mirrorFactory demo_capture True (\<lambda>_. None) ()) True 0,
           en_term = (), en_exited = False, en_log = []\<rparr>"
  have id: "sd_id (describe env ?en) = ''s''" for env :: "(bytes emulator, unit, memory_store, unit) api_env"
    by (simp add: describe_def stateDescription_def new_session_def)
  obtain d where l: "handleListSessions (ge_api demo_gossh_env) (go_server demo_gossh) = HOk 200 [d]" and i: "sd_id d = ''s''"
    using id by (simp add: handleListSessions_def demo_gossh_def demo_screen_server_def newManager_def mgr_list_def)
  have p: "pick_session demo_cli (ac_base demo_client) ''s'' [d] = Inr d"
    by (simp add: pick_session_def i)
  have k: "resolveKeys (ce_low demo_cli) [''Enter''] = Some [0x0D]"
    by (simp add: demo_cli_def) code_simp
  have e: "ac_token demo_client = ge_token demo_gossh_env" "ge_token demo_gossh_env \<noteq> ''''"
    "keeps_unreserved (ge_unescape demo_gossh_env)" "ge_permitWrite demo_gossh_env" "simple_arg (sd_id d)"
    "s_state (en_sess ?en) \<noteq> StateDestroyed" "ev_tok (ge_api demo_gossh_env) (en_log ?en) (TWrite [0x0D])"
    by (simp_all add: i demo_client_def demo_gossh_env_def keeps_unreserved_def simple_arg_def unreserved_def plain_arg_def
        new_session_def)
  show ?thesis
    using press_types_keys [OF demo_endpoint e(1-4) l p e(5) _ e(6) k _ _ e(7), of "\<lambda>_ _. demo_happening"] demo_sessions
    by (auto simp: i demo_client_def put_entry_def)
qed


section \<open>Naming a session\<close>

text \<open>How well a name fits a session: its id, the start of its id, its title or its host's name.\<close>

definition name_rank :: "cli_env \<Rightarrow> string \<Rightarrow> state_description \<Rightarrow> nat option" where
  "name_rank ce name s =
     (if sd_id s = name then Some 0
      else if has_prefix name (sd_id s) then Some 1
      else if sd_title s \<noteq> '''' \<and> equal_fold (ce_fold ce) (sd_title s) name
           \<or> equal_fold (ce_fold ce) (cs_name (sd_spec s)) name then Some 2
      else None)"

definition best_fit :: "cli_env \<Rightarrow> string \<Rightarrow> state_description list \<Rightarrow> state_description \<Rightarrow> bool" where
  "best_fit ce name ds s \<longleftrightarrow>
     s \<in> set ds \<and> (case name_rank ce name s of
        None \<Rightarrow> False
      | Some n \<Rightarrow> list_all (\<lambda>t. t = s \<or> (case name_rank ce name t of None \<Rightarrow> True | Some m \<Rightarrow> n < m)) ds)"

lemma distinct_filter_one:
  "distinct xs \<Longrightarrow> filter P xs = [s] \<longleftrightarrow> s \<in> set xs \<and> P s \<and> (\<forall>t \<in> set xs. P t \<longrightarrow> t = s)"
proof
  assume "filter P xs = [s]"
  from arg_cong [OF this, of set] have "\<And>t. t \<in> set xs \<and> P t \<longleftrightarrow> t = s" by auto
  then show "s \<in> set xs \<and> P s \<and> (\<forall>t \<in> set xs. P t \<longrightarrow> t = s)" by blast
next
  assume d: "distinct xs" and r: "s \<in> set xs \<and> P s \<and> (\<forall>t \<in> set xs. P t \<longrightarrow> t = s)"
  then have "set (filter P xs) = {s}" by auto
  moreover have "distinct (filter P xs)" using d by simp
  ultimately show "filter P xs = [s]" by (cases "filter P xs"; cases "tl (filter P xs)") auto
qed



text \<open>
  Property C31.  A session is never guessed.  With a name, a command works on the one session of the
  server that fits it best (its id, else the start of its id, else its title or host) and on none
  when there is no such session or more than one that fits equally well.  Without a name it works on
  the only session.
\<close>

theorem session_never_guessed:
  assumes "distinct (map sd_id ds)"
  shows "(pick_session ce base name ds = Inr s)
     = (if name = '''' then ds = [s] else best_fit ce name ds s)"
proof (cases "name = '''' \<or> ds = []")
  case True
  show ?thesis
  proof (cases ds)
    case Nil
    then show ?thesis by (simp add: pick_session_def best_fit_def)
  next
    case (Cons d rest)
    with True show ?thesis by (cases rest) (auto simp: pick_session_def)
  qed
next
  case False
  have d: "distinct ds" using assms by (simp add: distinct_map)
  have inj: "sd_id a = sd_id b \<Longrightarrow> a \<in> set ds \<Longrightarrow> b \<in> set ds \<Longrightarrow> a = b" for a b
    using assms by (auto simp: distinct_map dest: inj_onD)
  let ?P = "\<lambda>s. has_prefix name (sd_id s)"
  let ?N = "\<lambda>s. sd_title s \<noteq> '''' \<and> equal_fold (ce_fold ce) (sd_title s) name
           \<or> equal_fold (ce_fold ce) (cs_name (sd_spec s)) name"
  show ?thesis
  proof (cases "find (\<lambda>s. sd_id s = name) ds")
    case (Some t)
    then have t: "t \<in> set ds" "sd_id t = name" by (auto simp: find_Some_iff)
    then have "best_fit ce name ds s \<longleftrightarrow> s = t"
      using inj by (auto simp: best_fit_def name_rank_def list_all_iff split: option.splits if_splits)
    with False Some show ?thesis by (auto simp: pick_session_def)
  next
    case None
    then have n: "\<And>t. t \<in> set ds \<Longrightarrow> sd_id t \<noteq> name" by (auto simp: find_None_iff)
    show ?thesis
    proof (cases "filter ?P ds = []")
      case True
      then have "\<And>t. t \<in> set ds \<Longrightarrow> \<not> ?P t" by (simp add: filter_empty_conv)
      then have "best_fit ce name ds s \<longleftrightarrow> filter ?N ds = [s]"
        using n by (auto simp: best_fit_def name_rank_def list_all_iff distinct_filter_one [OF d] split: if_splits)
      with False None True show ?thesis by (auto simp: pick_session_def split: list.split)
    next
      case nonempty: False
      then obtain u where u: "u \<in> set ds" "?P u" by (auto simp: filter_empty_conv)
      have "best_fit ce name ds s \<longleftrightarrow> filter ?P ds = [s]"
      proof (cases "?P s")
        case True
        then show ?thesis
          using n by (auto simp: best_fit_def name_rank_def list_all_iff distinct_filter_one [OF d] split: if_splits)
      next
        case False
        then have "u \<noteq> s" "name_rank ce name u = Some 1" "\<And>m. name_rank ce name s = Some m \<Longrightarrow> s \<in> set ds \<Longrightarrow> m = 2"
          using u n by (auto simp: name_rank_def split: if_splits)
        then have "\<not> best_fit ce name ds s"
          using u(1) by (auto simp: best_fit_def list_all_iff split: option.splits)
        with False show ?thesis by (auto simp: distinct_filter_one [OF d])
      qed
      with \<open>\<not> (name = '''' \<or> ds = [])\<close> None nonempty show ?thesis by (auto simp: pick_session_def split: list.split)
    qed
  qed
qed

theorem session_never_guessed_witness:
  "pick_session demo_cli '''' ''b''
     [zero_description\<lparr>sd_id := ''ab''\<rparr>, zero_description\<lparr>sd_id := ''bc''\<rparr>] = Inr (zero_description\<lparr>sd_id := ''bc''\<rparr>)"
  using session_never_guessed [of "[zero_description\<lparr>sd_id := ''ab''\<rparr>, zero_description\<lparr>sd_id := ''bc''\<rparr>]" demo_cli "''''" "''b''"
      "zero_description\<lparr>sd_id := ''bc''\<rparr>"]
  by (simp add: best_fit_def name_rank_def has_prefix_def zero_description_def equal_fold_def str_runes_def demo_cli_def bytes_of_def
      zero_spec_def decode_rune_def)


section \<open>Editing a host\<close>

definition host_fits :: "host \<Rightarrow> bool" where
  "host_fits h \<longleftrightarrow> in_int64 (h_port h) \<and> in_int64 (h_created h) \<and> in_int64 (h_updated h)"

lemma forward_read_back: "decode_struct forward_fields (forward_json f) zero_forward = Some f"
  by (cases f) (auto simp: forward_json_def forward_fields_def decode_struct_def find_field_def f_str_def f_opt_bool_def
      str_field_def zero_forward_def split: option.split)

lemma credential_field:
  "h_credential r = h_credential zero_host \<Longrightarrow>
   f_struct [(''kind'', f_str cr_kind_update), (''key_path'', f_str cr_keyPath_update)] h_credential h_credential_update
     (JObj ((''kind'', JStr (cr_kind k)) # str_field ''key_path'' (cr_keyPath k))) r = Some (r\<lparr>h_credential := k\<rparr>)"
  by (cases k) (simp add: f_struct_def decode_struct_def find_field_def f_str_def str_field_def zero_host_def)

lemma forwards_field:
  "f_list (decode_struct forward_fields) zero_forward h_forwards_update (JArr (map forward_json fs)) r
     = Some (r\<lparr>h_forwards := fs\<rparr>)"
proof -
  have "decode_elems (decode_struct forward_fields) zero_forward (map forward_json fs) = Some fs"
    by (rule elems_read_back) (rule forward_read_back)
  then show ?thesis by (simp add: f_list_def)
qed

definition host_members :: "host \<Rightarrow> (string \<times> json) list" where
  "host_members h = (case host_json h of JObj ms \<Rightarrow> ms | _ \<Rightarrow> [])"

lemma host_json_members: "host_json h = JObj (host_members h)"
  by (simp add: host_members_def host_json_def)

lemma host_members_back:
  assumes "host_fits h"
  shows "decode_members host_fields (host_members h) zero_host = Some h"
proof -
  define A where "A = [(''id'', JStr (h_id h)), (''name'', JStr (h_name h)), (''address'', JStr (h_address h))]"
  define B where "B = (if h_port h = 0 then [] else [(''port'', JNum (h_port h))])"
  define C where "C = [(''user'', JStr (h_user h)),
      (''credential'', JObj ((''kind'', JStr (cr_kind (h_credential h))) # str_field ''key_path'' (cr_keyPath (h_credential h))))]"
  define D where "D = (if h_forwards h = [] then [] else [(''forwards'', JArr (map forward_json (h_forwards h)))])"
  define E where "E = [(''created_at'', JNum (h_created h)), (''updated_at'', JNum (h_updated h))]"
  define F where "F = bool_field ''builtin'' (h_builtin h)"
  have "host_members h = A @ B @ C @ D @ E @ F"
    by (simp add: host_members_def host_json_def A_def B_def C_def D_def E_def F_def)
  moreover have "decode_members host_fields A r = Some (r\<lparr>h_id := h_id h, h_name := h_name h, h_address := h_address h\<rparr>)" for r
    by (simp add: A_def host_fields_def find_field_def f_str_def)
  moreover have "decode_members host_fields B r = Some (r\<lparr>h_port := h_port h\<rparr>)" if "h_port r = 0" for r
    using that assms by (simp add: B_def host_fields_def find_field_def f_int_def host_fits_def)
  moreover have "decode_members host_fields C r = Some (r\<lparr>h_user := h_user h, h_credential := h_credential h\<rparr>)"
    if "h_credential r = h_credential zero_host" for r
    using that by (simp add: C_def host_fields_def find_field_def f_str_def credential_field)
  moreover have "decode_members host_fields D r = Some (r\<lparr>h_forwards := h_forwards h\<rparr>)" if "h_forwards r = []" for r
    using that by (simp add: D_def host_fields_def find_field_def forwards_field)
  moreover have "decode_members host_fields E r = Some (r\<lparr>h_created := h_created h, h_updated := h_updated h\<rparr>)" for r
    using assms by (simp add: E_def host_fields_def find_field_def f_int_def host_fits_def)
  moreover have "decode_members host_fields F r = Some (r\<lparr>h_builtin := h_builtin h\<rparr>)" if "\<not> h_builtin r" for r
    using that by (simp add: F_def host_fields_def find_field_def f_bool_def bool_field_def)
  ultimately show ?thesis by (simp add: decode_members_append zero_host_def)
qed

lemma host_read_back: "host_fits h \<Longrightarrow> decode_struct host_fields (host_json h) zero_host = Some h"
  by (simp add: decode_struct_def host_json_members host_members_back)


lemma lifted_members:
  assumes "list_all (\<lambda>(k, _). map_of host_fields k \<noteq> None) ms"
  shows "decode_members (map (\<lambda>(n, d). (n, lift_field d)) host_fields @ extra) ms r
     = map_option (\<lambda>h. r\<lparr>hq_host := h\<rparr>) (decode_members host_fields ms (hq_host r))"
  using assms
proof (induction ms arbitrary: r)
  case (Cons p ms)
  obtain k v where p: "p = (k, v)" by fastforce
  with Cons.prems obtain d where d: "map_of host_fields k = Some d" by auto
  then have "find_field (map (\<lambda>(n, d). (n, lift_field d)) host_fields @ extra) k = Some (lift_field d)"
    by (simp add: find_field_def map_of_map map_add_def)
  moreover have "find_field host_fields k = Some d" by (simp add: find_field_def d)
  moreover have "lift_field d v r = map_option (\<lambda>h. r\<lparr>hq_host := h\<rparr>) (d v (hq_host r))" by (simp add: lift_field_def)
  ultimately show ?case
    using Cons by (simp add: p split: option.split)
qed simp

lemma host_member_names: "list_all (\<lambda>(k, _). map_of host_fields k \<noteq> None) (host_members h)"
  by (simp add: host_members_def host_json_def host_fields_def bool_field_def)

lemma payload_read_back:
  assumes "host_fits h"
  shows "decode_host_request (host_payload h pw) = Some \<lparr>hq_host = h, hq_password = pw, hq_savePassword = pw \<noteq> None\<rparr>"
  using lifted_members [OF host_member_names] host_members_back [OF assms]
  by (cases pw) (simp_all add: decode_host_request_def host_payload_def host_json_members decode_struct_def
      decode_members_append find_field_def f_opt_str_def f_bool_def host_fields_def fold_name.simps)


lemma hosts_path: "''/api/hosts/'' @ i = plain_path (GetHost i)" "plain_path (UpdateHost i) = plain_path (GetHost i)"
  by (simp_all add: plain_path_def)

lemma host_answer:
  "200 \<le> n \<Longrightarrow> n < 300 \<Longrightarrow> n \<noteq> 204 \<Longrightarrow> host_fits h \<Longrightarrow>
     call_result c (json_out (decode_struct host_fields) zero_host) (Some (answer marshal host_json (HOk n h))) = Inr h"
  by (simp add: result_of_answer json_out_def host_read_back)

text \<open>The address, the token and the path reading of a client and a server that belong together.\<close>

definition linked :: "('v, 't, 's, 'd, 'c) gossh_env \<Rightarrow> api_client \<Rightarrow> bool" where
  "linked ge c \<longleftrightarrow> ac_token c = ge_token ge \<and> ge_token ge \<noteq> '''' \<and> keeps_unreserved (ge_unescape ge)"

lemma fetched_host:
  assumes "linked ge c" and "list_all host_fits (inv_list (hs_inv (host_part st)))"
    and "pick_host ce query (local_host (ev_user (ge_api ge)) # inv_list (hs_inv (host_part st))) = Inr i"
    and "simple_arg i" and "inv_get (ev_user (ge_api ge)) i (hs_inv (host_part st)) = Inr h" and "host_fits h"
  shows "\<exists>q1 q2. run_cli (at_server ge hp (ac_base c)) (getHost ce c query) st = (Inr h, st, [q1, q2])"
proof -
  let ?hosts = "local_host (ev_user (ge_api ge)) # inv_list (hs_inv (host_part st))"
  have g: "''GET'' = fst (route_request ListHosts)" "''GET'' = fst (route_request (GetHost i))" by simp_all
  have "host_fits (local_host u)" for u by (simp add: host_fits_def local_host_def zero_host_def in_int64_def min_int64_def max_int64_def)
  then have "decode_elems (decode_struct host_fields) zero_host (map host_json ?hosts) = Some ?hosts"
    using assms(2) by (intro elems_read_back) (auto simp: list_all_iff intro: host_read_back)
  then have l: "run_cli (at_server ge hp (ac_base c)) (listHosts c) st
      = (Inr ?hosts, st, [api_request c ''GET'' ''/api/hosts'' None])"
    unfolding listHosts_def path_of_sessions g(1)
    using call_served [of ListHosts ge c hp st None] assms(1)
    by (simp add: run_call run_route_def host_route_def result_of_answer json_out_def f_elems_def handleListHosts_def
        linked_def with_hosts_def host_part_def Let_def)
  have gh: "handleGetHost (ev_user (ge_api ge)) i (hs_inv (host_part st)) = HOk 200 h"
    using assms(5) by (simp add: handleGetHost_def)
  have s: "at_server ge hp (ac_base c) st (api_request c ''GET'' (''/api/hosts/'' @ i) None)
      = (Some (answer (ge_marshal ge) host_json (HOk 200 h)), st)"
    unfolding hosts_path(1) g(2)
    using call_served [of "GetHost i" ge c hp st None] assms(1,4) gh
    by (simp add: run_route_def host_route_def linked_def with_hosts_def host_part_def Let_def)
  show ?thesis
    using assms(3,6) by (simp add: getHost_def resolveHost_def run_try l run_call s host_answer del: append.simps)
qed




text \<open>The signals that the command accepts are those the server knows by name.\<close>

lemma cli_signals_known: "n \<in> set sessionSignals \<longleftrightarrow> signalByName n \<noteq> None"
  unfolding sessionSignals_def signalByName_def by (simp add: map_of_eq_None_iff del: map_of.simps)

end
