(* ===== verification/Server_Run.thy ===== *)
theory Server_Run
  imports Hosts Config
begin

text \<open>
  The life of the server process: \<open>Server.Run\<close> of \<open>internal/api/server.go\<close> with its three
  threads, and \<open>runServe\<close> with \<open>waitSignals\<close> of \<open>cmd/serve.go\<close>, which cancels it.

  \<open>Run\<close> is a step relation.  Its threads are the goroutine that serves (\<open>serve_step\<close>), the one
  that watches the two contexts (\<open>watch_step\<close>) and the caller of \<open>Run\<close> itself (\<open>main_step\<close>).
  They share the variable \<open>err\<close>, the channel \<open>srvErr\<close> of one element and the \<open>http.Server\<close>; of the
  latter the code relies on this: \<open>Serve\<close> returns \<open>ErrServerClosed\<close> once \<open>Shutdown\<close> or \<open>Close\<close> was
  called and another error when accepting fails, \<open>Shutdown\<close> ends when no request is active or its
  context is over, and connections taken over by a WebSocket do not count for it.  What clients do
  and the cancellation of the contexts are the steps of the environment.
\<close>

section \<open>The state of Run\<close>

datatype run_error = ErrServerClosed | CtxCanceled | ServeError string | ListenError string

datatype serve_pc = Serving | ServeReturned run_error | ErrAssigned | ErrSent

datatype watch_pc = Watching | ShuttingDown | Draining | ClosingConns | GroupWait | WatchDone

datatype main_pc = Selecting | GotServeErr | GotCancel | Releasing | Returning
  | RunReturned "run_error option"

text \<open>
  \<open>ru_requests\<close> counts the active requests, \<open>ru_sockets\<close> the WebSockets of \<open>activeConns\<close> that were
  not closed by the server, \<open>ru_told\<close> those that were and whose handler has not returned yet.
\<close>

record run_state =
  ru_ctx :: bool
  ru_graceful :: bool
  ru_down :: bool
  ru_requests :: nat
  ru_sockets :: nat
  ru_told :: nat
  ru_err :: "run_error option"
  ru_srvErr :: "run_error option"
  ru_serve :: serve_pc
  ru_watch :: watch_pc
  ru_main :: main_pc
  ru_released :: bool

definition run_started :: run_state where
  "run_started = \<lparr>ru_ctx = False, ru_graceful = False, ru_down = False, ru_requests = 0,
     ru_sockets = 0, ru_told = 0, ru_err = None, ru_srvErr = None, ru_serve = Serving,
     ru_watch = Watching, ru_main = Selecting, ru_released = False\<rparr>"

text \<open>
  The beginning of \<open>Run\<close>: the listener, whose own address (with the port the system chose) goes into
  the address for the browser, and then the three threads.  A failure to listen ends \<open>Run\<close> at once.
\<close>

definition browser_url :: "bool \<Rightarrow> string \<Rightarrow> string \<Rightarrow> string \<Rightarrow> string" where
  "browser_url tls h port token =
     (if tls then ''https'' else ''http'') @ ''://'' @ browser_host h @ '':'' @ port @ ''/?token='' @ token"

definition run_begin ::
  "bool \<Rightarrow> string \<Rightarrow> string \<Rightarrow> string \<Rightarrow> (string \<Rightarrow> string + string \<times> string) \<Rightarrow> run_error + string \<times> run_state"
where
  "run_begin tls address port token listen =
     (let hostPort = joinHostPort address port
      in case listen hostPort of
           Inl e \<Rightarrow> Inl (ListenError (''failed to listen at `'' @ hostPort @ ''`: '' @ e))
         | Inr (h, p) \<Rightarrow> Inr (browser_url tls h p token, run_started))"

section \<open>The threads\<close>

text \<open>
  The goroutine that serves: \<open>err = srv.Serve(listener)\<close>, then \<open>srvErr <- err\<close> unless it is nil.  That
  \<open>Serve\<close> fails by itself is a step of the environment, below: nothing may rely on it.
\<close>

inductive serve_step :: "run_state \<Rightarrow> run_state \<Rightarrow> bool" where
  serve_closed: "ru_serve s = Serving \<Longrightarrow> ru_down s \<Longrightarrow>
     serve_step s (s\<lparr>ru_serve := ServeReturned ErrServerClosed\<rparr>)"
| serve_assign: "ru_serve s = ServeReturned e \<Longrightarrow>
     serve_step s (s\<lparr>ru_err := Some e, ru_serve := ErrAssigned\<rparr>)"
| serve_send: "ru_serve s = ErrAssigned \<Longrightarrow> ru_err s = Some e \<Longrightarrow> ru_srvErr s = None \<Longrightarrow>
     serve_step s (s\<lparr>ru_srvErr := Some e, ru_serve := ErrSent\<rparr>)"
| serve_nil: "ru_serve s = ErrAssigned \<Longrightarrow> ru_err s = None \<Longrightarrow>
     serve_step s (s\<lparr>ru_serve := ErrSent\<rparr>)"

text \<open>
  The goroutine that watches: on the graceful context \<open>Shutdown\<close> (its flag is set at once, then it
  waits for the active requests for at most three seconds), the closing of the registered
  WebSockets and the wait for their handlers; on the other context \<open>Close\<close>.
\<close>

inductive watch_step :: "run_state \<Rightarrow> run_state \<Rightarrow> bool" where
  watch_graceful: "ru_watch s = Watching \<Longrightarrow> ru_graceful s \<Longrightarrow>
     watch_step s (s\<lparr>ru_watch := ShuttingDown\<rparr>)"
| watch_cancel: "ru_watch s = Watching \<Longrightarrow> ru_ctx s \<Longrightarrow>
     watch_step s (s\<lparr>ru_down := True, ru_watch := WatchDone\<rparr>)"
| watch_shutdown: "ru_watch s = ShuttingDown \<Longrightarrow>
     watch_step s (s\<lparr>ru_down := True, ru_watch := Draining\<rparr>)"
| watch_drained: "ru_watch s = Draining \<Longrightarrow> ru_requests s = 0 \<Longrightarrow>
     watch_step s (s\<lparr>ru_watch := ClosingConns\<rparr>)"
| watch_timeout: "ru_watch s = Draining \<Longrightarrow>
     watch_step s (s\<lparr>ru_watch := ClosingConns\<rparr>)"
| watch_close: "ru_watch s = ClosingConns \<Longrightarrow>
     watch_step s (s\<lparr>ru_told := ru_told s + ru_sockets s, ru_sockets := 0, ru_watch := GroupWait\<rparr>)"
| watch_done: "ru_watch s = GroupWait \<Longrightarrow> ru_sockets s = 0 \<Longrightarrow> ru_told s = 0 \<Longrightarrow>
     watch_step s (s\<lparr>ru_watch := WatchDone\<rparr>)"

text \<open>
  The caller of \<open>Run\<close>: the \<open>select\<close> on \<open>srvErr\<close> and the context, the release of the forwards of the
  hosts, and \<open>return err\<close>, which reads the shared variable.
\<close>

inductive main_step :: "run_state \<Rightarrow> run_state \<Rightarrow> bool" where
  main_served: "ru_main s = Selecting \<Longrightarrow> ru_srvErr s = Some e \<Longrightarrow>
     main_step s (s\<lparr>ru_srvErr := None, ru_err := Some e, ru_main := GotServeErr\<rparr>)"
| main_graceful: "ru_main s = GotServeErr \<Longrightarrow>
     main_step s (s\<lparr>ru_err := (if ru_err s = Some ErrServerClosed then None else ru_err s),
       ru_main := Releasing\<rparr>)"
| main_cancelled: "ru_main s = Selecting \<Longrightarrow> ru_ctx s \<Longrightarrow>
     main_step s (s\<lparr>ru_down := True, ru_main := GotCancel\<rparr>)"
| main_ctx_err: "ru_main s = GotCancel \<Longrightarrow>
     main_step s (s\<lparr>ru_err := Some CtxCanceled, ru_main := Releasing\<rparr>)"
| main_release: "ru_main s = Releasing \<Longrightarrow>
     main_step s (s\<lparr>ru_released := True, ru_main := Returning\<rparr>)"
| main_return: "ru_main s = Returning \<Longrightarrow>
     main_step s (s\<lparr>ru_main := RunReturned (ru_err s)\<rparr>)"

text \<open>
  The clients: a request arrives while the server accepts, ends, or becomes a WebSocket
  (\<open>handleWS\<close>: \<open>wsWG.Add\<close> and \<open>activeConns.Store\<close>); a WebSocket's handler returns.  Accepting
  connections may fail, too.
\<close>

inductive client_step :: "run_state \<Rightarrow> run_state \<Rightarrow> bool" where
  request_begins: "ru_serve s = Serving \<Longrightarrow> \<not> ru_down s \<Longrightarrow>
     client_step s (s\<lparr>ru_requests := ru_requests s + 1\<rparr>)"
| request_ends: "0 < ru_requests s \<Longrightarrow>
     client_step s (s\<lparr>ru_requests := ru_requests s - 1\<rparr>)"
| request_upgrades: "0 < ru_requests s \<Longrightarrow>
     client_step s (s\<lparr>ru_requests := ru_requests s - 1, ru_sockets := ru_sockets s + 1\<rparr>)"
| socket_ends: "0 < ru_sockets s \<Longrightarrow>
     client_step s (s\<lparr>ru_sockets := ru_sockets s - 1\<rparr>)"
| told_socket_ends: "0 < ru_told s \<Longrightarrow>
     client_step s (s\<lparr>ru_told := ru_told s - 1\<rparr>)"
| accept_fails: "ru_serve s = Serving \<Longrightarrow> \<not> ru_down s \<Longrightarrow>
     client_step s (s\<lparr>ru_serve := ServeReturned (ServeError m)\<rparr>)"

definition own_step :: "run_state \<Rightarrow> run_state \<Rightarrow> bool" where
  "own_step s s' \<longleftrightarrow> serve_step s s' \<or> watch_step s s' \<or> main_step s s'"

text \<open>The environment: the clients, and whoever holds the cancel functions of the two contexts.\<close>

inductive env_step :: "run_state \<Rightarrow> run_state \<Rightarrow> bool" where
  env_client: "client_step s s' \<Longrightarrow> env_step s s'"
| env_cancel: "env_step s (s\<lparr>ru_ctx := True\<rparr>)"
| env_graceful: "env_step s (s\<lparr>ru_graceful := True\<rparr>)"

inductive_cases serve_stepE: "serve_step s s'"
inductive_cases watch_stepE: "watch_step s s'"
inductive_cases main_stepE: "main_step s s'"
inductive_cases client_stepE: "client_step s s'"
inductive_cases env_stepE: "env_step s s'"

inductive run_reach :: "run_state \<Rightarrow> bool" where
  run_reach_start: "run_reach run_started"
| run_reach_own: "run_reach s \<Longrightarrow> own_step s s' \<Longrightarrow> run_reach s'"
| run_reach_env: "run_reach s \<Longrightarrow> env_step s s' \<Longrightarrow> run_reach s'"

section \<open>What holds in every interleaving\<close>

text \<open>What an error says about the state in which it is seen.\<close>

fun err_justified :: "run_state \<Rightarrow> run_error \<Rightarrow> bool" where
  "err_justified s ErrServerClosed = ru_down s"
| "err_justified s CtxCanceled = ru_ctx s"
| "err_justified s (ServeError m) = True"
| "err_justified s (ListenError m) = False"

definition down_inv :: "run_state \<Rightarrow> bool" where
  "down_inv s \<longleftrightarrow> (ru_down s \<longrightarrow> ru_ctx s \<or> ru_graceful s)
     \<and> (ru_watch s \<notin> {Watching, ShuttingDown} \<longrightarrow> ru_down s)
     \<and> (ru_watch s \<noteq> Watching \<longrightarrow> ru_ctx s \<or> ru_graceful s)"

definition errs_inv :: "run_state \<Rightarrow> bool" where
  "errs_inv s \<longleftrightarrow> (\<forall>e. ru_serve s = ServeReturned e \<longrightarrow> err_justified s e \<and> e \<noteq> CtxCanceled)
     \<and> (\<forall>e. ru_err s = Some e \<longrightarrow> err_justified s e)
     \<and> (\<forall>e. ru_srvErr s = Some e \<longrightarrow> err_justified s e \<and> ru_serve s = ErrSent)"

text \<open>Where the main thread is, and what the shared variable and the channel hold then.\<close>

fun main_inv :: "run_state \<Rightarrow> main_pc \<Rightarrow> bool" where
  "main_inv s Selecting = (\<not> ru_released s
     \<and> (ru_serve s = ErrAssigned \<longrightarrow> ru_err s \<noteq> None)
     \<and> (ru_serve s = ErrSent \<longrightarrow> ru_srvErr s \<noteq> None)
     \<and> (ru_srvErr s \<noteq> None \<longrightarrow> ru_serve s = ErrSent))"
| "main_inv s GotServeErr = (\<not> ru_released s \<and> ru_serve s = ErrSent \<and> ru_err s \<noteq> None)"
| "main_inv s GotCancel = (\<not> ru_released s \<and> ru_ctx s \<and> ru_down s)"
| "main_inv s Releasing = (\<not> ru_released s \<and> (ru_ctx s \<or> ru_serve s = ErrSent)
     \<and> (ru_err s = None \<longrightarrow> ru_down s) \<and> (ru_err s = Some ErrServerClosed \<longrightarrow> ru_ctx s))"
| "main_inv s Returning = (ru_released s \<and> (ru_ctx s \<or> ru_serve s = ErrSent)
     \<and> (ru_err s = None \<longrightarrow> ru_down s) \<and> (ru_err s = Some ErrServerClosed \<longrightarrow> ru_ctx s))"
| "main_inv s (RunReturned r) = (ru_released s
     \<and> (r = None \<longrightarrow> ru_down s) \<and> (r = Some ErrServerClosed \<longrightarrow> ru_ctx s)
     \<and> (\<forall>e. r = Some e \<longrightarrow> err_justified s e))"

definition run_inv :: "run_state \<Rightarrow> bool" where
  "run_inv s \<longleftrightarrow> down_inv s \<and> errs_inv s \<and> main_inv s (ru_main s)"

lemmas run_inv_defs = run_inv_def down_inv_def errs_inv_def

lemma err_justified_mono:
  assumes "err_justified s e" "ru_down s \<Longrightarrow> ru_down s'" "ru_ctx s \<Longrightarrow> ru_ctx s'"
  shows "err_justified s' e"
  using assms by (cases e) auto

lemma err_justified_cong [simp]:
  "err_justified (s\<lparr>ru_requests := n\<rparr>) e = err_justified s e"
  "err_justified (s\<lparr>ru_sockets := n\<rparr>) e = err_justified s e"
  "err_justified (s\<lparr>ru_told := n\<rparr>) e = err_justified s e"
  "err_justified (s\<lparr>ru_err := x\<rparr>) e = err_justified s e"
  "err_justified (s\<lparr>ru_srvErr := x\<rparr>) e = err_justified s e"
  "err_justified (s\<lparr>ru_serve := p\<rparr>) e = err_justified s e"
  "err_justified (s\<lparr>ru_watch := w\<rparr>) e = err_justified s e"
  "err_justified (s\<lparr>ru_main := q\<rparr>) e = err_justified s e"
  "err_justified (s\<lparr>ru_released := b\<rparr>) e = err_justified s e"
  "err_justified (s\<lparr>ru_graceful := b\<rparr>) e = err_justified s e"
  by (cases e; simp)+

lemma err_justified_up [intro]:
  "err_justified s e \<Longrightarrow> err_justified (s\<lparr>ru_down := True\<rparr>) e"
  "err_justified s e \<Longrightarrow> err_justified (s\<lparr>ru_ctx := True\<rparr>) e"
  by (cases e; simp)+

lemma run_inv_start: "run_inv run_started"
  by (simp add: run_inv_defs run_started_def)

lemma down_inv_serve: "down_inv s \<Longrightarrow> serve_step s s' \<Longrightarrow> down_inv s'"
  by (erule serve_stepE; simp add: down_inv_def)

lemma down_inv_watch: "down_inv s \<Longrightarrow> watch_step s s' \<Longrightarrow> down_inv s'"
  by (erule watch_stepE; simp add: down_inv_def)

lemma down_inv_main: "down_inv s \<Longrightarrow> main_step s s' \<Longrightarrow> down_inv s'"
  by (erule main_stepE; simp add: down_inv_def)

lemma down_inv_env: "down_inv s \<Longrightarrow> env_step s s' \<Longrightarrow> down_inv s'"
  by (erule env_stepE; (erule client_stepE)?; simp add: down_inv_def)

lemma down_inv_step: "run_inv s \<Longrightarrow> own_step s s' \<or> env_step s s' \<Longrightarrow> down_inv s'"
  unfolding own_step_def run_inv_def
  by (blast intro: down_inv_serve down_inv_watch down_inv_main down_inv_env)

lemma errs_inv_own: "run_inv s \<Longrightarrow> own_step s s' \<Longrightarrow> errs_inv s'"
  by (auto simp: own_step_def run_inv_def errs_inv_def elim!: serve_stepE watch_stepE main_stepE
      split: if_splits)

lemma errs_inv_env: "run_inv s \<Longrightarrow> env_step s s' \<Longrightarrow> errs_inv s'"
  by (auto simp: run_inv_def errs_inv_def elim!: env_stepE client_stepE)

text \<open>A step of another thread keeps what holds at the place where the main thread is.\<close>

lemma main_inv_serve:
  assumes "main_inv s p" "errs_inv s" "ru_main s = p" "serve_step s s'"
  shows "main_inv s' p"
  using assms(4,1,2)
  by (cases rule: serve_step.cases; cases p; simp add: errs_inv_def; fastforce?)

lemma main_inv_mono:
  assumes "main_inv s p" "ru_down s \<Longrightarrow> ru_down s'" "ru_ctx s \<Longrightarrow> ru_ctx s'"
    "ru_released s' = ru_released s" "ru_err s' = ru_err s"
    "ru_serve s' = ru_serve s \<or> ru_serve s = Serving \<and> (\<exists>e. ru_serve s' = ServeReturned e)"
    "ru_srvErr s' = ru_srvErr s"
  shows "main_inv s' p"
  using assms by (cases p) (auto intro: err_justified_mono)

lemma watch_env_frame:
  assumes "watch_step s s' \<or> env_step s s'"
  shows "(ru_down s \<longrightarrow> ru_down s') \<and> (ru_ctx s \<longrightarrow> ru_ctx s') \<and> ru_released s' = ru_released s
    \<and> (ru_serve s' = ru_serve s \<or> ru_serve s = Serving \<and> (\<exists>e. ru_serve s' = ServeReturned e))
    \<and> ru_err s' = ru_err s \<and> ru_srvErr s' = ru_srvErr s \<and> ru_main s' = ru_main s"
  using assms by (elim disjE) (auto elim!: watch_stepE env_stepE client_stepE)

lemma serve_keeps_main: "serve_step s s' \<Longrightarrow> ru_main s' = ru_main s"
  by (auto elim!: serve_stepE)

lemma main_inv_main: "run_inv s \<Longrightarrow> main_step s s' \<Longrightarrow> main_inv s' (ru_main s')"
  by (erule main_stepE; simp add: run_inv_def errs_inv_def; fastforce?)

lemma run_inv_step:
  assumes inv: "run_inv s" and step: "own_step s s' \<or> env_step s s'"
  shows "run_inv s'"
proof -
  have "main_inv s' (ru_main s')"
  proof (cases "serve_step s s' \<or> main_step s s'")
    case True
    then show ?thesis
      using inv main_inv_main [OF inv] main_inv_serve [of s "ru_main s"]
      by (auto simp: run_inv_def serve_keeps_main)
  next
    case False
    then have "watch_step s s' \<or> env_step s s'" using step by (auto simp: own_step_def)
    from watch_env_frame [OF this] show ?thesis
      using inv main_inv_mono [of s "ru_main s" s'] by (simp add: run_inv_def)
  qed
  then show ?thesis
    using down_inv_step [OF inv step] errs_inv_own [OF inv] errs_inv_env [OF inv] step
    by (auto simp: run_inv_def)
qed

lemma run_inv_reach: "run_reach s \<Longrightarrow> run_inv s"
  by (induction rule: run_reach.induct) (blast intro: run_inv_start run_inv_step)+

text \<open>
  A bound for the steps of the three threads: each of them brings its thread nearer to its end.
\<close>

fun serve_left :: "serve_pc \<Rightarrow> nat" where
  "serve_left Serving = 3"
| "serve_left (ServeReturned e) = 2"
| "serve_left ErrAssigned = 1"
| "serve_left ErrSent = 0"

fun watch_left :: "watch_pc \<Rightarrow> nat" where
  "watch_left Watching = 5"
| "watch_left ShuttingDown = 4"
| "watch_left Draining = 3"
| "watch_left ClosingConns = 2"
| "watch_left GroupWait = 1"
| "watch_left WatchDone = 0"

fun main_left :: "main_pc \<Rightarrow> nat" where
  "main_left Selecting = 4"
| "main_left GotServeErr = 3"
| "main_left GotCancel = 3"
| "main_left Releasing = 2"
| "main_left Returning = 1"
| "main_left (RunReturned r) = 0"

definition run_left :: "run_state \<Rightarrow> nat" where
  "run_left s = serve_left (ru_serve s) + watch_left (ru_watch s) + main_left (ru_main s)"

lemma run_left_le: "run_left s \<le> 12"
  by (cases "ru_serve s"; cases "ru_watch s"; cases "ru_main s"; simp add: run_left_def)

lemma own_step_left: "own_step s s' \<Longrightarrow> run_left s' < run_left s"
  by (auto simp: own_step_def run_left_def elim!: serve_stepE watch_stepE main_stepE)

lemma env_step_left: "env_step s s' \<Longrightarrow> run_left s' \<le> run_left s"
  by (auto simp: run_left_def elim!: env_stepE client_stepE)

text \<open>The serving goroutine is never blocked on its way from the end of \<open>Serve\<close> to the channel.\<close>

lemma serve_moves:
  assumes "run_inv s" "ru_serve s \<noteq> ErrSent" "ru_serve s = Serving \<longrightarrow> ru_down s"
  shows "\<exists>s'. serve_step s s'"
proof (cases "ru_serve s")
  case Serving
  then show ?thesis using assms serve_step.serve_closed by blast
next
  case (ServeReturned e)
  then show ?thesis using serve_step.serve_assign by blast
next
  case ErrAssigned
  then have "ru_srvErr s = None" using assms(1) by (cases "ru_srvErr s") (auto simp: run_inv_defs)
  then show ?thesis
    using ErrAssigned serve_step.serve_send serve_step.serve_nil by (cases "ru_err s") blast+
qed (use assms in simp)

lemma watch_moves:
  assumes "ru_watch s \<notin> {GroupWait, WatchDone}" "ru_ctx s \<or> ru_graceful s"
  shows "\<exists>s'. watch_step s s'"
  using assms by (cases "ru_watch s") (auto intro: watch_step.intros)

lemma main_moves:
  assumes "\<forall>r. ru_main s \<noteq> RunReturned r" "ru_main s = Selecting \<longrightarrow> ru_ctx s \<or> ru_srvErr s \<noteq> None"
  shows "\<exists>s'. main_step s s'"
  using assms by (cases "ru_main s") (auto intro: main_step.intros)

text \<open>Once a context is cancelled, some thread can move until \<open>Run\<close> has returned.\<close>

lemma own_moves:
  assumes inv: "run_inv s" and "ru_ctx s \<or> ru_graceful s" and ret: "\<forall>r. ru_main s \<noteq> RunReturned r"
  shows "\<exists>s'. own_step s s'"
proof (cases "ru_main s = Selecting \<and> \<not> ru_ctx s \<and> ru_srvErr s = None")
  case False
  then show ?thesis using main_moves [OF ret] by (auto simp: own_step_def)
next
  case True
  then have sent: "ru_serve s \<noteq> ErrSent" using inv by (auto simp: run_inv_def)
  show ?thesis
  proof (cases "ru_watch s \<in> {GroupWait, WatchDone}")
    case False
    then show ?thesis using watch_moves assms(2) by (auto simp: own_step_def)
  next
    case True
    then have "ru_down s" using inv by (auto simp: run_inv_defs)
    then show ?thesis using serve_moves [OF inv sent] by (auto simp: own_step_def)
  qed
qed

text \<open>\<open>run_path n s t\<close>: from \<open>s\<close> to \<open>t\<close> with \<open>n\<close> steps of the threads and any of the environment.\<close>

inductive run_path :: "nat \<Rightarrow> run_state \<Rightarrow> run_state \<Rightarrow> bool" where
  path_refl: "run_path 0 s s"
| path_own: "run_path n s t \<Longrightarrow> own_step t u \<Longrightarrow> run_path (Suc n) s u"
| path_env: "run_path n s t \<Longrightarrow> env_step t u \<Longrightarrow> run_path n s u"

lemma run_path_left: "run_path n s t \<Longrightarrow> n + run_left t \<le> run_left s"
proof (induction rule: run_path.induct)
  case (path_own n s t u)
  then show ?case using own_step_left [of t u] by simp
qed (auto dest: env_step_left)

lemma run_path_reach: "run_path n s t \<Longrightarrow> run_reach s \<Longrightarrow> run_reach t"
  by (induction rule: run_path.induct) (auto intro: run_reach.intros)

lemma own_step_keeps: "own_step s s' \<Longrightarrow> ru_ctx s' = ru_ctx s \<and> ru_graceful s' = ru_graceful s"
  by (auto simp: own_step_def elim!: serve_stepE watch_stepE main_stepE)

lemma env_step_keeps: "env_step s s' \<Longrightarrow> (ru_ctx s \<longrightarrow> ru_ctx s') \<and> (ru_graceful s \<longrightarrow> ru_graceful s')"
  by (auto elim!: env_stepE client_stepE)

lemma run_path_cancelled:
  "run_path n s t \<Longrightarrow> ru_ctx s \<or> ru_graceful s \<Longrightarrow> ru_ctx t \<or> ru_graceful t"
  by (induction rule: run_path.induct) (auto dest: own_step_keeps env_step_keeps)

section \<open>The caller: runServe and waitSignals\<close>

text \<open>
  \<open>waitSignals\<close> reads \<open>errs\<close>, on which the goroutine of \<open>runServe\<close> sends what \<open>Run\<close> returned, and
  \<open>sigChan\<close>, a channel of one signal (a signal that comes while it is full is dropped).  Its places:
  the first \<open>select\<close>, the second one after \<open>SIGINT\<close>, and the plain \<open><-errs\<close> after \<open>cancel\<close>.
\<close>

datatype os_signal = SIGINT | SIGTERM

datatype wait_pc = WaitFirst | WaitForce | WaitRun | WaitDone "run_error option"

record serve_proc =
  pr_run :: run_state
  pr_sent :: bool
  pr_errs :: "run_error option list"
  pr_sigChan :: "os_signal list"
  pr_wait :: wait_pc
  pr_signals :: "os_signal list"

definition proc_started :: serve_proc where
  "proc_started = \<lparr>pr_run = run_started, pr_sent = False, pr_errs = [], pr_sigChan = [],
     pr_wait = WaitFirst, pr_signals = []\<rparr>"

text \<open>\<open>select\<close> of \<open>waitSignals\<close>: \<open>pr_signals\<close> keeps the signals that were read, in order.\<close>

inductive waitSignals_step :: "serve_proc \<Rightarrow> serve_proc \<Rightarrow> bool" where
  wait_err: "pr_wait p \<in> {WaitFirst, WaitForce, WaitRun} \<Longrightarrow> pr_errs p = e # es \<Longrightarrow>
     waitSignals_step p (p\<lparr>pr_errs := es, pr_wait := WaitDone e\<rparr>)"
| wait_int: "pr_wait p = WaitFirst \<Longrightarrow> pr_sigChan p = SIGINT # sigs \<Longrightarrow>
     waitSignals_step p (p\<lparr>pr_sigChan := sigs, pr_signals := pr_signals p @ [SIGINT],
       pr_run := (pr_run p)\<lparr>ru_graceful := True\<rparr>, pr_wait := WaitForce\<rparr>)"
| wait_term: "pr_wait p = WaitFirst \<Longrightarrow> pr_sigChan p = SIGTERM # sigs \<Longrightarrow>
     waitSignals_step p (p\<lparr>pr_sigChan := sigs, pr_signals := pr_signals p @ [SIGTERM],
       pr_run := (pr_run p)\<lparr>ru_ctx := True\<rparr>, pr_wait := WaitRun\<rparr>)"
| wait_force: "pr_wait p = WaitForce \<Longrightarrow> pr_sigChan p = sig # sigs \<Longrightarrow>
     waitSignals_step p (p\<lparr>pr_sigChan := sigs, pr_signals := pr_signals p @ [sig],
       pr_run := (pr_run p)\<lparr>ru_ctx := True\<rparr>, pr_wait := WaitRun\<rparr>)"

text \<open>
  The process: the threads of \<open>Run\<close>, the clients, the goroutine \<open>errs <- srv.Run(\<dots>)\<close>, the operating
  system that delivers signals, and \<open>waitSignals\<close>.  When \<open>waitSignals\<close> has returned the process
  ends: no thread moves any more.
\<close>

inductive proc_step :: "serve_proc \<Rightarrow> serve_proc \<Rightarrow> bool" where
  proc_run: "\<forall>r. pr_wait p \<noteq> WaitDone r \<Longrightarrow> own_step (pr_run p) s \<or> client_step (pr_run p) s \<Longrightarrow>
     proc_step p (p\<lparr>pr_run := s\<rparr>)"
| proc_errs: "\<forall>r. pr_wait p \<noteq> WaitDone r \<Longrightarrow> ru_main (pr_run p) = RunReturned r \<Longrightarrow> \<not> pr_sent p \<Longrightarrow>
     proc_step p (p\<lparr>pr_sent := True, pr_errs := pr_errs p @ [r]\<rparr>)"
| proc_signal: "\<forall>r. pr_wait p \<noteq> WaitDone r \<Longrightarrow>
     proc_step p (p\<lparr>pr_sigChan := (if pr_sigChan p = [] then [sig] else pr_sigChan p)\<rparr>)"
| proc_wait: "waitSignals_step p p' \<Longrightarrow> proc_step p p'"

inductive_cases waitSignals_stepE: "waitSignals_step p p'"
inductive_cases proc_stepE: "proc_step p p'"

inductive proc_reach :: "serve_proc \<Rightarrow> bool" where
  proc_reach_start: "proc_reach proc_started"
| proc_reach_step: "proc_reach p \<Longrightarrow> proc_step p p' \<Longrightarrow> proc_reach p'"

text \<open>The end of \<open>runServe\<close>: a cancelled run is no error.\<close>

definition runServe_result :: "run_error option \<Rightarrow> run_error option" where
  "runServe_result err = (if err \<noteq> None \<and> err \<noteq> Some CtxCanceled then err else None)"

text \<open>The process runs the server of the previous section.\<close>

lemma waitSignals_run:
  "waitSignals_step p p' \<Longrightarrow> pr_run p' = pr_run p \<or> env_step (pr_run p) (pr_run p')"
  by (erule waitSignals_stepE) (auto intro: env_cancel env_graceful)

lemma proc_run_reach: "proc_reach p \<Longrightarrow> run_reach (pr_run p)"
proof (induction rule: proc_reach.induct)
  case proc_reach_start
  then show ?case by (simp add: proc_started_def run_reach_start)
next
  case (proc_reach_step p p')
  then show ?case
    by (elim proc_stepE) (auto intro: run_reach.intros env_client dest!: waitSignals_run)
qed

text \<open>The contexts are cancelled as the signals say, and \<open>errs\<close> carries the result of \<open>Run\<close>.\<close>

definition proc_inv :: "serve_proc \<Rightarrow> bool" where
  "proc_inv p \<longleftrightarrow> (ru_graceful (pr_run p) \<longleftrightarrow> (\<exists>sigs. pr_signals p = SIGINT # sigs))
     \<and> (ru_ctx (pr_run p) \<longleftrightarrow> pr_signals p \<noteq> [] \<and> pr_signals p \<noteq> [SIGINT])
     \<and> (\<forall>r \<in> set (pr_errs p). ru_main (pr_run p) = RunReturned r)
     \<and> (\<forall>r. pr_wait p = WaitDone r \<longrightarrow> ru_main (pr_run p) = RunReturned r)
     \<and> (pr_wait p = WaitFirst \<longrightarrow> pr_signals p = [])
     \<and> (pr_wait p = WaitForce \<longrightarrow> pr_signals p = [SIGINT])"

lemma returned_stays:
  "own_step s s' \<or> client_step s s' \<Longrightarrow> ru_main s = RunReturned r \<Longrightarrow> ru_main s' = RunReturned r"
  by (auto simp: own_step_def elim!: serve_stepE watch_stepE main_stepE client_stepE)

lemma client_step_keeps: "client_step s s' \<Longrightarrow> ru_ctx s' = ru_ctx s \<and> ru_graceful s' = ru_graceful s"
  by (auto elim!: client_stepE)

lemma proc_inv_run:
  assumes "proc_inv p" "own_step (pr_run p) s \<or> client_step (pr_run p) s"
  shows "proc_inv (p\<lparr>pr_run := s\<rparr>)"
  using assms(1) own_step_keeps [of "pr_run p" s] client_step_keeps [of "pr_run p" s]
    returned_stays [OF assms(2)] assms(2)
  by (auto simp: proc_inv_def)

lemma proc_inv_wait: "proc_inv p \<Longrightarrow> waitSignals_step p p' \<Longrightarrow> proc_inv p'"
  by (erule waitSignals_stepE; auto simp: proc_inv_def)

lemma proc_inv_errs:
  "proc_inv p \<Longrightarrow> ru_main (pr_run p) = RunReturned r \<Longrightarrow>
   proc_inv (p\<lparr>pr_sent := True, pr_errs := pr_errs p @ [r]\<rparr>)"
  by (auto simp: proc_inv_def)

lemma proc_inv_signal: "proc_inv p \<Longrightarrow> proc_inv (p\<lparr>pr_sigChan := sigs\<rparr>)"
  by (simp add: proc_inv_def)

lemma proc_inv_reach: "proc_reach p \<Longrightarrow> proc_inv p"
proof (induction rule: proc_reach.induct)
  case proc_reach_start
  then show ?case by (simp add: proc_inv_def proc_started_def run_started_def)
next
  case (proc_reach_step p p')
  from proc_reach_step(2) show ?case
    by (cases rule: proc_step.cases [OF proc_reach_step(2)])
       (use proc_reach_step(3) in \<open>simp_all add: proc_inv_run proc_inv_errs proc_inv_signal proc_inv_wait\<close>)
qed

section \<open>Runs that end before their work is done\<close>

text \<open>Steps of the threads and the clients that the process can make.\<close>

abbreviation run_steps :: "run_state \<Rightarrow> run_state \<Rightarrow> bool" where
  "run_steps \<equiv> (\<lambda>s s'. own_step s s' \<or> client_step s s')\<^sup>*\<^sup>*"

lemma own_run_step: "own_step s s' \<Longrightarrow> run_steps s s'"
  by blast

lemma proc_run_steps:
  assumes "run_steps s t"
    "proc_reach (p\<lparr>pr_run := s\<rparr>)" "\<forall>r. pr_wait p \<noteq> WaitDone r"
  shows "proc_reach (p\<lparr>pr_run := t\<rparr>)"
  using assms
proof (induction rule: rtranclp_induct)
  case (step t u)
  then have "proc_reach (p\<lparr>pr_run := t\<rparr>)" by blast
  moreover have "proc_step (p\<lparr>pr_run := t\<rparr>) (p\<lparr>pr_run := u\<rparr>)"
    using proc_run [of "p\<lparr>pr_run := t\<rparr>" u] step by simp
  ultimately show ?case by (rule proc_reach_step)
qed simp

text \<open>The end of the process after \<open>Run\<close> returned.\<close>

lemma proc_finish:
  assumes "proc_reach p" "pr_wait p \<in> {WaitForce, WaitRun}" "ru_main (pr_run p) = RunReturned r"
    "\<not> pr_sent p" "pr_errs p = []"
  shows "\<exists>p'. proc_reach p' \<and> pr_run p' = pr_run p \<and> pr_signals p' = pr_signals p \<and> pr_wait p' = WaitDone r"
proof -
  let ?q = "p\<lparr>pr_sent := True, pr_errs := [r]\<rparr>"
  have "proc_step p ?q" using proc_errs [of p r] assms by auto
  then have "proc_reach ?q" using assms(1) proc_reach_step by blast
  moreover have "proc_step ?q (?q\<lparr>pr_errs := [], pr_wait := WaitDone r\<rparr>)"
    using wait_err [of ?q r "[]"] assms by (intro proc_wait) auto
  ultimately have "proc_reach (?q\<lparr>pr_errs := [], pr_wait := WaitDone r\<rparr>)" by (rule proc_reach_step)
  then show ?thesis by (intro exI [of _ "?q\<lparr>pr_errs := [], pr_wait := WaitDone r\<rparr>"]) simp
qed

text \<open>
  After \<open>SIGINT\<close> the comment of \<open>Run\<close> announces that request handlers are drained and WebSockets then
  closed.  But \<open>Serve\<close> returns as soon as \<open>Shutdown\<close> has begun, \<open>Run\<close> does not wait for the goroutine
  that shuts down, and the process ends: here with an open WebSocket that was never told.
\<close>

lemma graceful_run_not_drained:
  defines "s1 \<equiv> run_started\<lparr>ru_graceful := True, ru_sockets := 1\<rparr>"
  defines "s9 \<equiv> s1\<lparr>ru_watch := Draining, ru_down := True, ru_serve := ErrSent, ru_err := None,
     ru_main := RunReturned None, ru_released := True\<rparr>"
  shows "run_steps s1 s9"
proof -
  let ?s2 = "s1\<lparr>ru_watch := ShuttingDown\<rparr>"
  let ?s3 = "?s2\<lparr>ru_down := True, ru_watch := Draining\<rparr>"
  let ?s4 = "?s3\<lparr>ru_serve := ServeReturned ErrServerClosed\<rparr>"
  let ?s5 = "?s4\<lparr>ru_err := Some ErrServerClosed, ru_serve := ErrAssigned\<rparr>"
  let ?s6 = "?s5\<lparr>ru_srvErr := Some ErrServerClosed, ru_serve := ErrSent\<rparr>"
  let ?s7 = "?s6\<lparr>ru_srvErr := None, ru_err := Some ErrServerClosed, ru_main := GotServeErr\<rparr>"
  let ?s8 = "?s7\<lparr>ru_err := None, ru_main := Releasing\<rparr>"
  let ?s8' = "?s8\<lparr>ru_released := True, ru_main := Returning\<rparr>"
  note [simp] = s1_def run_started_def own_step_def
  have "run_steps s1 ?s2" using watch_graceful [of s1] by (intro own_run_step) simp
  also have "run_steps ?s2 ?s3" using watch_shutdown [of ?s2] by (intro own_run_step) simp
  also have "run_steps ?s3 ?s4" using serve_closed [of ?s3] by (intro own_run_step) simp
  also have "run_steps ?s4 ?s5" using serve_assign [of ?s4] by (intro own_run_step) simp
  also have "run_steps ?s5 ?s6" using serve_send [of ?s5] by (intro own_run_step) simp
  also have "run_steps ?s6 ?s7" using main_served [of ?s6] by (intro own_run_step) simp
  also have "run_steps ?s7 ?s8" using main_graceful [of ?s7] by (intro own_run_step) simp
  also have "run_steps ?s8 ?s8'" using main_release [of ?s8] by (intro own_run_step) simp
  also have "run_steps ?s8' s9" using main_return [of ?s8'] by (intro own_run_step) (simp add: s9_def)
  finally show ?thesis .
qed

lemma graceful_end_abandons_sockets:
  "\<exists>p. proc_reach p \<and> pr_signals p = [SIGINT] \<and> pr_wait p = WaitDone None
     \<and> ru_watch (pr_run p) = Draining \<and> ru_sockets (pr_run p) = 1"
proof -
  let ?s1 = "run_started\<lparr>ru_requests := 1\<rparr>" and ?s2 = "run_started\<lparr>ru_sockets := 1\<rparr>"
  let ?p = "proc_started\<lparr>pr_sigChan := [SIGINT]\<rparr>"
  let ?q = "proc_started\<lparr>pr_signals := [SIGINT], pr_wait := WaitForce\<rparr>"
  have "client_step run_started ?s1" "client_step ?s1 ?s2"
    using request_begins [of run_started] request_upgrades [of ?s1] by (simp_all add: run_started_def)
  then have "run_steps run_started ?s2" by (blast intro: rtranclp.rtrancl_into_rtrancl)
  moreover have "proc_step proc_started ?p"
    using proc_signal [of proc_started SIGINT] by (simp add: proc_started_def)
  then have "proc_reach (?p\<lparr>pr_run := run_started\<rparr>)"
    using proc_reach_step [OF proc_reach_start, of ?p] by (simp add: proc_started_def)
  ultimately have 1: "proc_reach (?p\<lparr>pr_run := ?s2\<rparr>)"
    by (rule proc_run_steps) (simp add: proc_started_def)
  have "proc_step (?p\<lparr>pr_run := ?s2\<rparr>) (?q\<lparr>pr_run := run_started\<lparr>ru_graceful := True, ru_sockets := 1\<rparr>\<rparr>)"
    using wait_int [of "?p\<lparr>pr_run := ?s2\<rparr>" "[]"] by (intro proc_wait) (simp add: proc_started_def run_started_def)
  then have "proc_reach (?q\<lparr>pr_run := run_started\<lparr>ru_graceful := True, ru_sockets := 1\<rparr>\<rparr>)"
    using 1 by (rule proc_reach_step [rotated])
  from proc_run_steps [OF graceful_run_not_drained this]
  have "proc_reach (?q\<lparr>pr_run := run_started\<lparr>ru_graceful := True, ru_sockets := 1, ru_watch := Draining,
      ru_down := True, ru_serve := ErrSent, ru_err := None, ru_main := RunReturned None, ru_released := True\<rparr>\<rparr>)"
    by (simp add: proc_started_def)
  from proc_finish [OF this, of None] show ?thesis by (auto simp: proc_started_def)
qed

text \<open>
  After \<open>SIGTERM\<close>, \<open>Run\<close> sets \<open>err\<close> to the error of the context, but the serving goroutine still writes
  the same variable.  When it does so before \<open>return err\<close>, the process ends with an error.
\<close>

lemma cancelled_run_overwritten:
  defines "s1 \<equiv> run_started\<lparr>ru_ctx := True\<rparr>"
  defines "s7 \<equiv> s1\<lparr>ru_down := True, ru_serve := ErrAssigned, ru_err := Some ErrServerClosed,
     ru_released := True, ru_main := RunReturned (Some ErrServerClosed)\<rparr>"
  shows "run_steps s1 s7"
proof -
  let ?s2 = "s1\<lparr>ru_down := True, ru_main := GotCancel\<rparr>"
  let ?s3 = "?s2\<lparr>ru_serve := ServeReturned ErrServerClosed\<rparr>"
  let ?s4 = "?s3\<lparr>ru_err := Some CtxCanceled, ru_main := Releasing\<rparr>"
  let ?s5 = "?s4\<lparr>ru_err := Some ErrServerClosed, ru_serve := ErrAssigned\<rparr>"
  let ?s6 = "?s5\<lparr>ru_released := True, ru_main := Returning\<rparr>"
  note [simp] = s1_def run_started_def own_step_def
  have "run_steps s1 ?s2" using main_cancelled [of s1] by (intro own_run_step) simp
  also have "run_steps ?s2 ?s3" using serve_closed [of ?s2] by (intro own_run_step) simp
  also have "run_steps ?s3 ?s4" using main_ctx_err [of ?s3] by (intro own_run_step) simp
  also have "run_steps ?s4 ?s5" using serve_assign [of ?s4] by (intro own_run_step) simp
  also have "run_steps ?s5 ?s6" using main_release [of ?s5] by (intro own_run_step) simp
  also have "run_steps ?s6 s7" using main_return [of ?s6] by (intro own_run_step) (simp add: s7_def)
  finally show ?thesis .
qed

lemma cancelled_end_reports_error:
  "\<exists>p r. proc_reach p \<and> pr_signals p = [SIGTERM] \<and> pr_wait p = WaitDone r
     \<and> runServe_result r = Some ErrServerClosed"
proof -
  let ?p = "proc_started\<lparr>pr_sigChan := [SIGTERM]\<rparr>"
  let ?q = "proc_started\<lparr>pr_signals := [SIGTERM], pr_wait := WaitRun, pr_run := run_started\<lparr>ru_ctx := True\<rparr>\<rparr>"
  have "proc_step proc_started ?p"
    using proc_signal [of proc_started SIGTERM] by (simp add: proc_started_def)
  then have "proc_reach ?p" by (rule proc_reach_step [OF proc_reach_start])
  moreover have "proc_step ?p ?q"
    using wait_term [of ?p "[]"] by (intro proc_wait) (simp add: proc_started_def)
  ultimately have "proc_reach ?q" by (rule proc_reach_step)
  then have "proc_reach ((proc_started\<lparr>pr_signals := [SIGTERM], pr_wait := WaitRun\<rparr>)
      \<lparr>pr_run := run_started\<lparr>ru_ctx := True\<rparr>\<rparr>)"
    by simp
  from proc_run_steps [OF cancelled_run_overwritten this]
  have "proc_reach (?q\<lparr>pr_run := run_started\<lparr>ru_ctx := True, ru_down := True, ru_serve := ErrAssigned,
      ru_err := Some ErrServerClosed, ru_released := True, ru_main := RunReturned (Some ErrServerClosed)\<rparr>\<rparr>)"
    by (simp add: proc_started_def)
  from proc_finish [OF this, of "Some ErrServerClosed"] show ?thesis
    by (auto simp: proc_started_def runServe_result_def)
qed

section \<open>The properties\<close>

text \<open>
  Property C33.  Once the server is told to stop, by either context, \<open>Run\<close> ends: its three threads
  make at most twelve more steps, whatever the clients do in between, and as long as \<open>Run\<close> has not
  returned one of these steps is possible.  So it returns when the scheduler lets its threads run.
\<close>

theorem cancelled_run_returns:
  assumes "run_reach s" "ru_ctx s \<or> ru_graceful s" "run_path n s t"
  shows "n \<le> 12 \<and> ((\<exists>r. ru_main t = RunReturned r \<and> ru_released t) \<or> (\<exists>u. own_step t u))"
proof
  show "n \<le> 12" using run_path_left [OF assms(3)] run_left_le [of s] by simp
  have inv: "run_inv t" using run_inv_reach [OF run_path_reach [OF assms(3,1)]] .
  show "(\<exists>r. ru_main t = RunReturned r \<and> ru_released t) \<or> (\<exists>u. own_step t u)"
  proof (cases "\<exists>r. ru_main t = RunReturned r")
    case True
    then show ?thesis using inv by (auto simp: run_inv_def)
  next
    case False
    then show ?thesis using own_moves [OF inv run_path_cancelled [OF assms(3,2)]] by blast
  qed
qed

definition demo_stopping :: run_state where
  "demo_stopping = run_started\<lparr>ru_graceful := True, ru_sockets := 1\<rparr>"

lemma demo_stopping_reached: "run_reach demo_stopping"
proof -
  let ?s1 = "run_started\<lparr>ru_requests := 1\<rparr>" and ?s2 = "run_started\<lparr>ru_sockets := 1\<rparr>"
  have "env_step run_started ?s1" "env_step ?s1 ?s2" "env_step ?s2 demo_stopping"
    using request_begins [of run_started] request_upgrades [of ?s1] env_graceful [of ?s2]
    by (simp_all add: run_started_def demo_stopping_def env_client)
  then show ?thesis by (meson run_reach_start run_reach_env)
qed

theorem cancelled_run_returns_witness:
  "\<exists>t. run_path 1 demo_stopping t \<and> ru_watch t = ShuttingDown \<and> (\<exists>u. own_step t u)"
proof -
  let ?t = "demo_stopping\<lparr>ru_watch := ShuttingDown\<rparr>"
  have "own_step demo_stopping ?t"
    using watch_graceful [of demo_stopping] by (simp add: own_step_def demo_stopping_def run_started_def)
  then have p: "run_path 1 demo_stopping ?t" using path_own [OF path_refl] by simp
  then have "(\<exists>r. ru_main ?t = RunReturned r \<and> ru_released ?t) \<or> (\<exists>u. own_step ?t u)"
    using cancelled_run_returns [OF demo_stopping_reached _ p] by (simp add: demo_stopping_def)
  then have "\<exists>u. own_step ?t u" by (simp add: demo_stopping_def run_started_def)
  then show ?thesis using p by (intro exI [of _ ?t]) simp
qed



end
