(* ===== verification/Local_Shell.thy ===== *)
theory Local_Shell
  imports Http
begin

text \<open>
  Which shell a local session runs, from \<open>internal/localtty/localtty.go\<close>: \<open>resolveShell\<close> with the
  search for the bash of Git for Windows, the arguments, the start directory and the environment.
  Both platforms are modelled (\<open>se_windows\<close> is \<open>runtime.GOOS == "windows"\<close>).  What the system answers
  is the record \<open>shell_env\<close>: the environment, the search on the \<open>PATH\<close>, \<open>os.Stat\<close> and the directories.
  Of \<open>path/filepath\<close> the volume names are modelled as drive letters; network and device paths of
  Windows are not.
\<close>

section \<open>The file path functions\<close>

definition bslash :: char where
  "bslash = CHR 0x5C"

definition fp_sep :: "bool \<Rightarrow> char \<Rightarrow> bool" where
  "fp_sep win c \<longleftrightarrow> c = CHR ''/'' \<or> (win \<and> c = bslash)"

definition fp_volume :: "bool \<Rightarrow> string \<Rightarrow> nat" where
  "fp_volume win p = (if win \<and> 2 \<le> length p \<and> p ! 1 = CHR '':'' then 2 else 0)"

text \<open>The parts of a path; on Windows a slash separates as a backslash does.\<close>

definition fp_os_sep :: "bool \<Rightarrow> char" where
  "fp_os_sep win = (if win then bslash else CHR ''/'')"

definition fp_parts :: "bool \<Rightarrow> string \<Rightarrow> string list" where
  "fp_parts win p = str_split (fp_os_sep win) (map (\<lambda>c. if fp_sep win c then fp_os_sep win else c) p)"

text \<open>\<open>filepath.Clean\<close> of a path without a volume, and with one.\<close>

definition fp_clean_rest :: "bool \<Rightarrow> string \<Rightarrow> string" where
  "fp_clean_rest win p =
     (let rooted = (p \<noteq> [] \<and> fp_sep win (hd p));
          out = (if rooted then [fp_os_sep win] else [])
                @ str_join [fp_os_sep win] (clean_parts rooted [] (fp_parts win p))
      in if out = [] then ''.'' else out)"

definition fp_clean :: "bool \<Rightarrow> string \<Rightarrow> string" where
  "fp_clean win p = (let v = fp_volume win p in take v p @ fp_clean_rest win (drop v p))"

text \<open>\<open>filepath.Dir\<close>: the path up to its last separator, cleaned.\<close>

definition fp_upto_sep :: "bool \<Rightarrow> string \<Rightarrow> string" where
  "fp_upto_sep win p =
     (case last_index_any (fp_sep win) p of None \<Rightarrow> [] | Some i \<Rightarrow> take (i + 1) p)"

definition fp_dir :: "bool \<Rightarrow> string \<Rightarrow> string" where
  "fp_dir win p =
     (let v = fp_volume win p in take v p @ fp_clean_rest win (fp_upto_sep win (drop v p)))"

text \<open>
  \<open>filepath.Join\<close>.  On Unix the elements that are not empty are joined by slashes; on Windows
  no separator is put after one or after the colon of a drive, and the leading separators of an
  element are dropped after a separator.
\<close>

fun fp_append :: "string \<Rightarrow> string list \<Rightarrow> string" where
  "fp_append b [] = b"
| "fp_append b (e # es) =
     fp_append
       (if b = [] then e
        else if fp_sep True (last b) then b @ dropWhile (fp_sep True) e
        else if last b = CHR '':'' then b @ e
        else b @ [bslash] @ e) es"

definition fp_join :: "bool \<Rightarrow> string list \<Rightarrow> string" where
  "fp_join win ps =
     (if win then (case fp_append [] ps of [] \<Rightarrow> [] | b \<Rightarrow> fp_clean True b)
      else path_join ps)"

section \<open>The system\<close>

record shell_env =
  se_windows :: bool
  se_getenv :: "string \<Rightarrow> string"
  se_environ :: "string list"
  se_lookPath :: "string \<Rightarrow> string option"
  se_stat :: "string \<Rightarrow> bool option"
  se_home :: "string option"
  se_cwd :: "string option"

text \<open>\<open>se_stat\<close> is whether the path is a directory, if it exists.\<close>

definition isFile :: "shell_env \<Rightarrow> string \<Rightarrow> bool" where
  "isFile e p \<longleftrightarrow> se_stat e p = Some False"

section \<open>The shell\<close>

text \<open>\<open>shellBase\<close> and the name that decides how a shell is started.\<close>

definition shellBase :: "string \<Rightarrow> string" where
  "shellBase shell =
     (case last_index_any (\<lambda>c. c = CHR ''/'' \<or> c = bslash) shell of
        None \<Rightarrow> shell | Some i \<Rightarrow> drop (i + 1) shell)"

definition shell_kind :: "string \<Rightarrow> string" where
  "shell_kind shell = trim_suffix ''.exe'' (map lower_char (shellBase shell))"

definition shellArgs :: "bool \<Rightarrow> string \<Rightarrow> string list" where
  "shellArgs win shell =
     (let k = shell_kind shell
      in if k \<in> {''pwsh'', ''powershell''} then [''-NoLogo'']
         else if k = ''bash'' \<and> win then [''--login'', ''-i'']
         else [])"

definition isUnixShell :: "string \<Rightarrow> bool" where
  "isUnixShell shell \<longleftrightarrow> shell_kind shell \<in> {''bash'', ''sh'', ''dash'', ''ksh'', ''zsh'', ''fish''}"

text \<open>The launcher of the Windows Subsystem for Linux, which is not a bash of Git.\<close>

definition isWSLBash :: "string \<Rightarrow> bool" where
  "isWSLBash path =
     (let lower = map lower_char path;
          d = (case last_index_any (\<lambda>c. c = bslash \<or> c = CHR ''/'') lower of
                 None \<Rightarrow> lower | Some i \<Rightarrow> take i lower)
      in has_suffix ''system32'' d)"

definition envPath :: "shell_env \<Rightarrow> string \<Rightarrow> string list \<Rightarrow> string" where
  "envPath e var parts =
     (let base = trim_space (se_getenv e var)
      in if base = '''' then '''' else fp_join (se_windows e) (base # parts))"

definition gitBashLocs :: "string list list" where
  "gitBashLocs = [[''bin'', ''bash.exe''], [''usr'', ''bin'', ''bash.exe'']]"

text \<open>The bash in one directory of an installation.\<close>

definition bash_in :: "shell_env \<Rightarrow> string \<Rightarrow> string option" where
  "bash_in e dir = find (isFile e) (map (\<lambda>rel. fp_join (se_windows e) (dir # rel)) gitBashLocs)"

subsection \<open>Going up ends\<close>

text \<open>
  The loop of \<open>gitBashNear\<close> replaces a directory by \<open>filepath.Dir\<close> of it until it no longer changes.
  Cleaning never makes a path longer, and \<open>Dir\<close> shortens it, drops to \<open>"."\<close> or has reached the root.
\<close>

definition parts_cost :: "string list \<Rightarrow> nat" where
  "parts_cost ps = (\<Sum>p \<leftarrow> ps. Suc (length p))"

lemma parts_cost_simps [simp]:
  "parts_cost [] = 0" "parts_cost (p # ps) = Suc (length p) + parts_cost ps"
  "parts_cost (ps @ qs) = parts_cost ps + parts_cost qs"
  by (simp_all add: parts_cost_def)

lemma clean_parts_cost:
  "parts_cost (clean_parts r acc ps) + count_list ps '''' \<le> parts_cost acc + parts_cost ps"
proof (induction r acc ps rule: clean_parts.induct)
  case (1 r acc)
  have "parts_cost (rev acc) = parts_cost acc" by (simp add: parts_cost_def rev_map [symmetric] sum_list_rev)
  then show ?case by simp
next
  case (2 r acc p ps)
  then show ?case by (auto split: list.splits)
qed

lemma join_cost: "ps \<noteq> [] \<Longrightarrow> Suc (length (str_join [c] ps)) = parts_cost ps"
  by (induction "[c]" ps rule: str_join.induct) auto

lemma split_cost: "parts_cost (str_split c s) = Suc (length s)"
  by (induction s) (auto split: list.splits)

lemma str_split_snoc_sep: "str_split c (s @ [c]) = str_split c s @ [[]]"
proof (induction s)
  case (Cons a s)
  obtain p ps where "str_split c s = p # ps" using str_split.simps by (cases "str_split c s") (auto split: list.splits)
  then show ?case using Cons by simp
qed simp

text \<open>The length of a cleaned path, and when it is that of the path.\<close>

lemma clean_rest_length:
  fixes q :: string and win :: bool
  defines "r \<equiv> fp_clean_rest win q"
  assumes q: "q \<noteq> []"
  shows "length r \<le> length q"
    and "fp_sep win (last q) \<Longrightarrow> length r = length q \<Longrightarrow> q = [last q] \<and> r = [fp_os_sep win]"
proof -
  define c where "c = fp_os_sep win"
  define m where "m = map (\<lambda>d. if fp_sep win d then c else d) q"
  define root where "root \<longleftrightarrow> fp_sep win (hd q)"
  define ps where "ps = clean_parts root [] (str_split c m)"
  define out where "out = (if root then [c] else []) @ str_join [c] ps"
  have r: "r = (if out = [] then ''.'' else out)"
    using q unfolding r_def fp_clean_rest_def fp_parts_def Let_def out_def ps_def m_def c_def root_def by simp
  have cost: "parts_cost ps + count_list (str_split c m) '''' \<le> Suc (length q)"
    using clean_parts_cost [of root "[]" "str_split c m"] by (simp add: ps_def split_cost m_def)
  have join: "length (str_join [c] ps) \<le> parts_cost ps - 1"
    using join_cost [of ps c] by (cases "ps = []") auto
  have hd_m: "root \<Longrightarrow> \<exists>m'. m = c # m'" using q by (cases q) (auto simp: m_def root_def)
  have rooted: "root \<Longrightarrow> 1 \<le> count_list (str_split c m) ''''" using hd_m by auto
  have out: "length out \<le> length q"
    using cost join rooted q by (cases root; cases q) (auto simp: out_def)
  then show "length r \<le> length q" using r q by (cases q) auto
  assume sep: "fp_sep win (last q)" and len: "length r = length q"
  define s where "s = map (\<lambda>d. if fp_sep win d then c else d) (butlast q)"
  have m: "m = s @ [c]" using q sep by (cases q rule: rev_cases) (auto simp: m_def s_def)
  have snoc: "str_split c m = str_split c s @ [[]]" by (simp add: m str_split_snoc_sep)
  show "q = [last q] \<and> r = [fp_os_sep win]"
  proof (cases s)
    case Nil
    then have one: "q = [last q]" using q by (cases q rule: rev_cases) (auto simp: s_def)
    then have "hd q = last q" by (metis list.sel(1))
    then have root using sep by (simp add: root_def)
    moreover have "ps = []" by (simp add: ps_def m Nil)
    ultimately show ?thesis using r one by (simp add: out_def c_def)
  next
    case (Cons d s')
    have "length out < length q"
    proof (cases root)
      case True
      then have "d = c" using hd_m m Cons by auto
      then have "2 \<le> count_list (str_split c m) ''''" using snoc Cons by simp
      then show ?thesis using cost join True m Cons by (cases "ps = []") (auto simp: out_def m_def dest: arg_cong [where f = length])
    next
      case False
      have "1 \<le> count_list (str_split c m) ''''" using snoc by simp
      then show ?thesis using cost join False q by (cases "ps = []"; cases q) (auto simp: out_def)
    qed
    moreover have "1 < length q" using m Cons by (auto simp: m_def dest: arg_cong [where f = length])
    ultimately show ?thesis using r len by (auto split: if_splits)
  qed
qed

definition dir_rank :: "bool \<Rightarrow> string \<Rightarrow> nat" where
  "dir_rank win p =
     (let rest = drop (fp_volume win p) p
      in if rest = ''.'' then 0
         else 2 * length rest + 1 + (if win \<and> CHR ''/'' \<in> set rest then 1 else 0))"

lemma volume_cases:
  "fp_volume win p = 0 \<or> fp_volume win p = 2 \<and> 2 \<le> length p \<and> win"
  by (simp add: fp_volume_def)

lemma take_volume: "fp_volume win p = 2 \<Longrightarrow> fp_volume win (take 2 p @ r) = 2"
  using volume_cases [of win p] by (auto simp: fp_volume_def nth_append min_def split: if_splits)

lemma dir_rank_drop: "2 * length r + 1 + (if win \<and> CHR ''/'' \<in> set r then 1 else 0) < n \<Longrightarrow> dir_rank win r < n"
  using volume_cases [of win r] by (auto simp: dir_rank_def Let_def dest: in_set_dropD split: if_splits)

text \<open>The rank of the result, from the cleaned prefix it is made of.\<close>

lemma dir_rank_result:
  assumes "fp_volume win p = v" "2 * length r + 1 + (if win \<and> CHR ''/'' \<in> set r then 1 else 0) < n \<or> r = ''.'' \<and> 0 < n"
  shows "dir_rank win (take v p @ r) < n"
proof -
  have "v = 0 \<or> v = 2 \<and> 2 \<le> length p" using volume_cases [of win p] assms(1) by auto
  then consider "v = 0" | "v = 2" "2 \<le> length p" "fp_volume win (take v p @ r) = 2"
    using take_volume [of win p r] assms(1) by auto
  then show ?thesis
  proof cases
    case 1
    then show ?thesis using assms(2) dir_rank_drop [of r win n] by (auto simp: dir_rank_def fp_volume_def)
  next
    case 2
    then show ?thesis using assms(2) by (auto simp: dir_rank_def Let_def)
  qed
qed

lemma last_index_any_SomeD:
  "last_index_any P xs = Some i \<Longrightarrow> i < length xs \<and> P (xs ! i)"
  by (induction xs arbitrary: i) (auto split: option.splits if_splits)

lemma upto_sep_cases:
  "fp_upto_sep win p = [] \<or>
   fp_upto_sep win p \<noteq> [] \<and> fp_sep win (last (fp_upto_sep win p)) \<and> length (fp_upto_sep win p) \<le> length p
     \<and> fp_upto_sep win p = take (length (fp_upto_sep win p)) p"
  by (auto simp: fp_upto_sep_def take_Suc_conv_app_nth split: option.splits dest!: last_index_any_SomeD)

lemma dir_rank_less:
  assumes "fp_dir win p \<noteq> p"
  shows "dir_rank win (fp_dir win p) < dir_rank win p"
proof -
  define v rest where "v = fp_volume win p" and "rest = drop v p"
  define q where "q = fp_upto_sep win rest"
  define r where "r = fp_clean_rest win q"
  have dir: "fp_dir win p = take v p @ r" by (simp add: fp_dir_def Let_def v_def rest_def q_def r_def)
  have neq: "r \<noteq> rest" using assms by (auto simp: dir rest_def)
  define n where "n = dir_rank win p"
  have n: "n = (if rest = ''.'' then 0 else 2 * length rest + 1 + (if win \<and> CHR ''/'' \<in> set rest then 1 else 0))"
    by (simp add: n_def dir_rank_def Let_def v_def rest_def)
  have "2 * length r + 1 + (if win \<and> CHR ''/'' \<in> set r then 1 else 0) < n \<or> r = ''.'' \<and> 0 < n"
  proof (cases "q = []")
    case True
    then have "r = ''.''" by (simp add: r_def fp_clean_rest_def fp_parts_def)
    then show ?thesis using neq n by auto
  next
    case False
    then have q: "fp_sep win (last q)" "length q \<le> length rest" "q = take (length q) rest"
      using upto_sep_cases [of win rest] by (auto simp: q_def)
    have len: "length r \<le> length q" using clean_rest_length(1) [OF False, of win] by (simp add: r_def)
    have "rest \<noteq> ''.''"
    proof
      assume dot: "rest = ''.''"
      then have "q = ''.''" using q(2,3) False by (cases q) (auto simp: take_Cons split: nat.splits)
      then show False using q(1) by (simp add: fp_sep_def bslash_def)
    qed
    show ?thesis
    proof (cases "length r < length rest")
      case True
      then show ?thesis using n \<open>rest \<noteq> ''.''\<close> by auto
    next
      case False
      then have eq: "length r = length q" "q = rest" using len q(2,3) by auto
      then have rq: "q = [last q]" "r = [fp_os_sep win]"
        using clean_rest_length(2) [OF \<open>q \<noteq> []\<close> q(1)] by (simp_all add: r_def)
      then have "last q \<noteq> fp_os_sep win" using neq eq(2) by auto
      then have win and slash: "last q = CHR ''/''"
        using q(1) by (auto simp: fp_sep_def fp_os_sep_def bslash_def split: if_splits)
      have "rest = ''/''" using rq(1) eq(2) slash by simp
      then show ?thesis using rq(2) n \<open>win\<close> by (simp add: fp_os_sep_def bslash_def)
    qed
  qed
  then show ?thesis unfolding dir n_def by (rule dir_rank_result [OF v_def [symmetric]])
qed

text \<open>\<open>gitBashNear\<close>: the first directory, going up from the program, that has a bash.\<close>

function git_bash_up :: "shell_env \<Rightarrow> string \<Rightarrow> string" where
  "git_bash_up e dir =
     (case bash_in e dir of
        Some p \<Rightarrow> p
      | None \<Rightarrow>
          let parent = fp_dir (se_windows e) dir
          in if parent = dir then '''' else git_bash_up e parent)"
  by pat_completeness auto
termination
  by (relation "measure (\<lambda>(e, dir). dir_rank (se_windows e) dir)") (auto simp: dir_rank_less)

declare git_bash_up.simps [simp del]

definition gitBashNear :: "shell_env \<Rightarrow> string \<Rightarrow> string" where
  "gitBashNear e gitPath = git_bash_up e (fp_dir (se_windows e) gitPath)"

section \<open>The choice of the shell\<close>

text \<open>\<open>findGitBash\<close>: next to \<open>git\<close>, then the usual places, then the \<open>PATH\<close>; \<open>""\<close> when there is none.\<close>

definition git_bash_places :: "shell_env \<Rightarrow> string list" where
  "git_bash_places e =
     [envPath e ''ProgramFiles'' [''Git'', ''bin'', ''bash.exe''],
      envPath e ''ProgramFiles'' [''Git'', ''usr'', ''bin'', ''bash.exe''],
      envPath e ''ProgramFiles(x86)'' [''Git'', ''bin'', ''bash.exe''],
      envPath e ''LOCALAPPDATA'' [''Programs'', ''Git'', ''bin'', ''bash.exe'']]"

definition findGitBash :: "shell_env \<Rightarrow> string" where
  "findGitBash e =
     (let near = (case se_lookPath e ''git'' of None \<Rightarrow> '''' | Some git \<Rightarrow> gitBashNear e git)
      in if near \<noteq> '''' then near
         else case find (\<lambda>p. p \<noteq> '''' \<and> isFile e p) (git_bash_places e) of
                Some p \<Rightarrow> p
              | None \<Rightarrow>
                  (case se_lookPath e ''bash.exe'' of
                     Some bash \<Rightarrow> if \<not> isWSLBash bash then bash else ''''
                   | None \<Rightarrow> ''''))"

definition cmd_exe :: string where
  "cmd_exe = ''C:'' @ [bslash] @ ''Windows'' @ [bslash] @ ''System32'' @ [bslash] @ ''cmd.exe''"

definition resolveShell :: "shell_env \<Rightarrow> string \<times> string list" where
  "resolveShell e =
     (let win = se_windows e; custom = trim_space (se_getenv e ''GOSSH_LOCAL_SHELL'')
      in if custom \<noteq> '''' then (custom, shellArgs win custom)
         else if win then
           (let bash = findGitBash e
            in if bash \<noteq> '''' then (bash, shellArgs win bash)
               else case List.map_filter (se_lookPath e) [''pwsh.exe'', ''powershell.exe''] of
                      path # _ \<Rightarrow> (path, shellArgs win path)
                    | [] \<Rightarrow> (let comspec = trim_space (se_getenv e ''COMSPEC'')
                             in (if comspec \<noteq> '''' then comspec else cmd_exe, [])))
         else (let sh = trim_space (se_getenv e ''SHELL'')
               in (if sh \<noteq> '''' then sh else ''/bin/sh'', [])))"

section \<open>The surroundings of the shell\<close>

definition startDir :: "shell_env \<Rightarrow> string" where
  "startDir e =
     (case se_home e of
        Some home \<Rightarrow> if se_stat e home = Some True then home
                     else (case se_cwd e of Some wd \<Rightarrow> wd | None \<Rightarrow> '''')
      | None \<Rightarrow> (case se_cwd e of Some wd \<Rightarrow> wd | None \<Rightarrow> ''''))"

definition withEnv :: "string list \<Rightarrow> string \<Rightarrow> string \<Rightarrow> string list" where
  "withEnv env key val =
     (let prefix = key @ ''='' in filter (\<lambda>e. \<not> has_prefix prefix e) env @ [prefix @ val])"

definition shellEnv :: "shell_env \<Rightarrow> string \<Rightarrow> string \<Rightarrow> string list" where
  "shellEnv e term shell =
     (if se_windows e \<and> \<not> isUnixShell shell then se_environ e
      else withEnv (se_environ e) ''TERM'' (if term = '''' then ''xterm-256color'' else term))"

text \<open>The spawn request that \<open>New\<close> makes.\<close>

record pty_config =
  pc_shell :: string
  pc_args :: "string list"
  pc_dir :: string
  pc_env :: "string list"
  pc_cols :: int
  pc_rows :: int

definition default_cols :: int where "default_cols = 80"
definition default_rows :: int where "default_rows = 24"

definition local_config :: "shell_env \<Rightarrow> term_options \<Rightarrow> pty_config" where
  "local_config e opt =
     (let (shell, args) = resolveShell e
      in \<lparr>pc_shell = shell, pc_args = args, pc_dir = startDir e, pc_env = shellEnv e (to_term opt) shell,
          pc_cols = default_cols, pc_rows = default_rows\<rparr>)"

section \<open>What is chosen\<close>

lemma git_bash_up_stop:
  "(\<And>n. bash_in e ((fp_dir (se_windows e) ^^ n) dir) = None) \<Longrightarrow> git_bash_up e dir = ''''"
proof (induction e dir rule: git_bash_up.induct)
  case (1 e dir)
  have "bash_in e dir = None" using 1(2) [of 0] by simp
  moreover have "bash_in e ((fp_dir (se_windows e) ^^ n) (fp_dir (se_windows e) dir)) = None" for n
    using 1(2) [of "Suc n"] by (simp add: funpow_swap1)
  ultimately show ?case using 1(1) by (subst git_bash_up.simps) (auto simp: Let_def)
qed

lemma git_bash_up_found:
  "bash_in e ((fp_dir (se_windows e) ^^ n) dir) = Some p \<Longrightarrow>
   (\<And>k. k < n \<Longrightarrow> bash_in e ((fp_dir (se_windows e) ^^ k) dir) = None) \<Longrightarrow> git_bash_up e dir = p"
proof (induction n arbitrary: dir)
  case 0
  then show ?case by (subst git_bash_up.simps) simp
next
  case (Suc n)
  let ?parent = "fp_dir (se_windows e) dir"
  have none: "bash_in e dir = None" using Suc(3) [of 0] by simp
  have "bash_in e ((fp_dir (se_windows e) ^^ k) ?parent) = None" if "k < n" for k
    using Suc(3) [of "Suc k"] that by (simp add: funpow_swap1)
  then have "git_bash_up e ?parent = p" using Suc(1) [of ?parent] Suc(2) by (simp add: funpow_swap1)
  moreover have "?parent \<noteq> dir"
  proof
    assume "?parent = dir"
    then have "(fp_dir (se_windows e) ^^ m) dir = dir" for m by (induction m) simp_all
    then show False using Suc(2) none by (metis option.distinct(1))
  qed
  ultimately show ?case using none by (subst git_bash_up.simps) (simp add: Let_def)
qed

text \<open>The directories above a program, nearest first.\<close>

definition dirs_above :: "shell_env \<Rightarrow> string \<Rightarrow> nat \<Rightarrow> string" where
  "dirs_above e prog n = (fp_dir (se_windows e) ^^ Suc n) prog"

text \<open>
  The search for the bash of Git goes through all directories above \<open>git.exe\<close>, ends,
  and gives the bash of the nearest one that has any; it gives none only if no directory has one.
\<close>

lemma git_bash_nearest:
  "(\<exists>n p. bash_in e (dirs_above e git n) = Some p \<and> (\<forall>k<n. bash_in e (dirs_above e git k) = None)
      \<and> gitBashNear e git = p)
   \<or> (\<forall>n. bash_in e (dirs_above e git n) = None) \<and> gitBashNear e git = ''''"
proof (cases "\<forall>n. bash_in e (dirs_above e git n) = None")
  case True
  then show ?thesis
    using git_bash_up_stop [of e "fp_dir (se_windows e) git"]
    by (simp add: gitBashNear_def dirs_above_def funpow_swap1)
next
  case False
  define n where "n = (LEAST n. bash_in e (dirs_above e git n) \<noteq> None)"
  have "bash_in e (dirs_above e git n) \<noteq> None"
    using False unfolding n_def by (metis (mono_tags, lifting) LeastI)
  moreover have least: "bash_in e (dirs_above e git k) = None" if "k < n" for k
    using not_less_Least that unfolding n_def by blast
  ultimately obtain p where "bash_in e (dirs_above e git n) = Some p" by auto
  moreover have "gitBashNear e git = p"
    using git_bash_up_found [of e n "fp_dir (se_windows e) git" p] least calculation
    by (simp add: gitBashNear_def dirs_above_def funpow_swap1)
  ultimately show ?thesis using least by blast
qed

definition windows_path :: "string list \<Rightarrow> string" where
  "windows_path ps = str_join [bslash] ps"

definition demo_shell :: shell_env where
  "demo_shell = \<lparr>se_windows = True, se_getenv = (\<lambda>_. ''''), se_environ = [], se_lookPath = (\<lambda>_. None),
     se_stat = [windows_path [''C:'', ''Git'', ''bin'', ''bash.exe''] \<mapsto> False], se_home = None, se_cwd = None\<rparr>"

lemma withEnv_entry: "filter (has_prefix (key @ ''='')) (withEnv env key val) = [key @ ''='' @ val]"
  by (simp add: withEnv_def Let_def has_prefix_def comp_def)

lemma withEnv_others:
  "filter (\<lambda>x. \<not> has_prefix (key @ ''='') x) (withEnv env key val) = filter (\<lambda>x. \<not> has_prefix (key @ ''='') x) env"
  by (simp add: withEnv_def Let_def has_prefix_def)

text \<open>A shell is always named, and on Windows never the launcher of WSL unless the user asks for it.\<close>

lemma findGitBash_not_wsl:
  assumes "findGitBash e \<noteq> ''''" "isWSLBash (findGitBash e)"
  shows "\<exists>git. se_lookPath e ''git'' = Some git \<and> findGitBash e = gitBashNear e git
    \<or> findGitBash e \<in> set (git_bash_places e)"
  using assms
  by (auto simp: findGitBash_def Let_def split: option.splits if_splits dest!: find_Some_iff [THEN iffD1])

lemma resolveShell_nonempty:
  assumes "\<And>n p. se_lookPath e n = Some p \<Longrightarrow> p \<noteq> ''''"
  shows "fst (resolveShell e) \<noteq> ''''"
proof -
  have "path \<noteq> ''''" if "List.map_filter (se_lookPath e) xs = path # ps" for path ps xs
    using that assms by (induction xs) (auto simp: List.map_filter_simps split: option.splits)
  then show ?thesis
    by (auto simp: resolveShell_def Let_def cmd_exe_def simp del: List.map_filter_simps split: list.splits)
qed

end
