(* ===== verification/Pty.thy ===== *)
theory Pty
  imports Local_Shell
begin

text \<open>
  The pseudo terminals of a local session: \<open>pty_unix.go\<close> with \<open>pty_linux.go\<close> and \<open>pty_darwin.go\<close>, and
  \<open>pty_windows.go\<close>.  First how each is started, with an account of the handles that are open after
  every return; then the operations of the Unix one; then the Windows one, whose handles are shared
  by several threads, as a step relation.

  The system calls are parameters: each fails with a message or succeeds.  A handle is opened by
  \<open>hopen\<close> and closed by \<open>hclose\<close> on the list of the handles the process has.
\<close>

section \<open>Handles\<close>

datatype os_handle =
    PtyMaster | PtySlave
  | InRead | InWrite | OutRead | OutWrite | PseudoConsole | AttrList | ProcessHandle | ThreadHandle

type_synonym handles = "os_handle list"

definition hopen :: "os_handle \<Rightarrow> handles \<Rightarrow> handles" where
  "hopen h hs = h # hs"

definition hclose :: "os_handle \<Rightarrow> handles \<Rightarrow> handles" where
  "hclose h hs = remove1 h hs"

text \<open>A start fails with an error or, in one place of the Darwin code, with a panic.\<close>

datatype start_error = StartError string | StartPanic

definition wrapStartError :: "string \<Rightarrow> string \<Rightarrow> start_error" where
  "wrapStartError shell err = StartError (''failed to start local shell `'' @ shell @ ''`: '' @ err)"

section \<open>Starting a shell on Unix\<close>

text \<open>What the calls on \<open>/dev/ptmx\<close> answer: \<open>None\<close> is success.\<close>

record ptmx_env =
  px_open :: "string option"
  px_grant :: "string option"
  px_unlock :: "string option"
  px_number :: "string + int"
  px_name :: "string + bytes"

definition openPTY_linux :: "ptmx_env \<Rightarrow> handles \<Rightarrow> (start_error + string) \<times> handles" where
  "openPTY_linux e hs =
     (case px_open e of
        Some err \<Rightarrow> (Inl (StartError (''failed to open /dev/ptmx: '' @ err)), hs)
      | None \<Rightarrow>
          let hs = hopen PtyMaster hs
          in case px_unlock e of
               Some err \<Rightarrow> (Inl (StartError (''failed to unlock pty: '' @ err)), hclose PtyMaster hs)
             | None \<Rightarrow>
                 (case px_number e of
                    Inl err \<Rightarrow> (Inl (StartError (''failed to resolve pty slave number: '' @ err)), hclose PtyMaster hs)
                  | Inr n \<Rightarrow> (Inr (''/dev/pts/'' @ itoa n), hs)))"

text \<open>
  On Darwin the name comes back in a buffer of 128 bytes and ends at its first zero; without a zero
  the slice expression panics.
\<close>

definition zero_index :: "bytes \<Rightarrow> nat option" where
  "zero_index b = (if 0 \<in> set b then Some (length (takeWhile (\<lambda>x. x \<noteq> 0) b)) else None)"

definition openPTY_darwin :: "ptmx_env \<Rightarrow> handles \<Rightarrow> (start_error + string) \<times> handles" where
  "openPTY_darwin e hs =
     (case px_open e of
        Some err \<Rightarrow> (Inl (StartError (''failed to open /dev/ptmx: '' @ err)), hs)
      | None \<Rightarrow>
          let hs = hopen PtyMaster hs
          in case px_grant e of
               Some err \<Rightarrow> (Inl (StartError (''failed to grant pty: '' @ err)), hclose PtyMaster hs)
             | None \<Rightarrow>
                 (case px_unlock e of
                    Some err \<Rightarrow> (Inl (StartError (''failed to unlock pty: '' @ err)), hclose PtyMaster hs)
                  | None \<Rightarrow>
                      (case px_name e of
                         Inl err \<Rightarrow> (Inl (StartError (''failed to resolve pty slave name: '' @ err)), hclose PtyMaster hs)
                       | Inr buf \<Rightarrow>
                           (case zero_index buf of
                              None \<Rightarrow> (Inl StartPanic, hs)
                            | Some n \<Rightarrow>
                                let name = string_of_bytes (take n buf)
                                in if name = '''' then (Inl (StartError ''pty slave name is empty''), hclose PtyMaster hs)
                                   else (Inr name, hs)))))"

text \<open>The size as \<open>TIOCSWINSZ\<close> takes it: the conversion to \<open>uint16\<close> keeps the low 16 bits.\<close>

type_synonym winsize = "16 word \<times> 16 word"

definition unix_winsize :: "int \<Rightarrow> int \<Rightarrow> winsize" where
  "unix_winsize cols rows = (word_of_int cols, word_of_int rows)"

record unix_env =
  ue_ptmx :: ptmx_env
  ue_slave :: "string \<Rightarrow> string option"
  ue_start :: "pty_config \<Rightarrow> string option"

text \<open>\<open>startPTY\<close>: the terminal's first size is set on the slave; only the master is kept.\<close>

definition unix_startPTY ::
  "(ptmx_env \<Rightarrow> handles \<Rightarrow> (start_error + string) \<times> handles) \<Rightarrow> unix_env \<Rightarrow> pty_config \<Rightarrow> handles
     \<Rightarrow> (start_error + winsize option) \<times> handles" where
  "unix_startPTY openPTY e cfg hs =
     (case openPTY (ue_ptmx e) hs of
        (Inl err, hs) \<Rightarrow> (Inl err, hs)
      | (Inr slavePath, hs) \<Rightarrow>
          (case ue_slave e slavePath of
             Some err \<Rightarrow> (Inl (StartError (''failed to open pty slave `'' @ slavePath @ ''`: '' @ err)), hclose PtyMaster hs)
           | None \<Rightarrow>
               let hs = hopen PtySlave hs;
                   ws = (if 0 < pc_cols cfg \<and> 0 < pc_rows cfg
                         then Some (unix_winsize (pc_cols cfg) (pc_rows cfg)) else None)
               in case ue_start e cfg of
                    Some err \<Rightarrow> (Inl (wrapStartError (pc_shell cfg) err), hclose PtyMaster (hclose PtySlave hs))
                  | None \<Rightarrow> (Inr ws, hclose PtySlave hs)))"

section \<open>Starting a shell on Windows\<close>

text \<open>A size as a \<open>COORD\<close>: what does not fit in 15 bits falls back to the default.\<close>

definition ptySize :: "int \<Rightarrow> int \<Rightarrow> 16 word \<times> 16 word" where
  "ptySize cols rows =
     (word_of_int (if cols \<le> 0 \<or> cols > 0x7fff then default_cols else cols),
      word_of_int (if rows \<le> 0 \<or> rows > 0x7fff then default_rows else rows))"

text \<open>
  \<open>envBlock\<close>: the entries with an equals sign, each in UTF-16 and ended by a zero (\<open>utf16\<close> is
  \<open>windows.UTF16FromString\<close>, which refuses a zero inside), and a zero after the last.
\<close>

type_synonym utf16 = "string \<Rightarrow> string + 16 word list"

fun env_entries :: "utf16 \<Rightarrow> string list \<Rightarrow> string + 16 word list" where
  "env_entries enc [] = Inr []"
| "env_entries enc (kv # kvs) =
     (if CHR ''='' \<notin> set kv then env_entries enc kvs
      else case enc kv of
             Inl err \<Rightarrow> Inl (''invalid environment entry '' @ kv @ '': '' @ err)
           | Inr w \<Rightarrow> (case env_entries enc kvs of Inl err \<Rightarrow> Inl err | Inr ws \<Rightarrow> Inr (w @ ws)))"

definition envBlock :: "utf16 \<Rightarrow> string list \<Rightarrow> string + 16 word list option" where
  "envBlock enc env =
     (case env_entries enc env of
        Inl err \<Rightarrow> Inl err
      | Inr ws \<Rightarrow> Inr (if ws = [] then None else Some (ws @ [0])))"

record win_env =
  we_utf16 :: utf16
  we_in :: "string option"
  we_out :: "string option"
  we_console :: "string option"
  we_attrs :: "string option"
  we_update :: "string option"
  we_compose :: "string list \<Rightarrow> string"
  we_create :: "string option"

definition closePipes :: "handles \<Rightarrow> handles" where
  "closePipes hs = hclose OutWrite (hclose OutRead (hclose InWrite (hclose InRead hs)))"

definition start_abort :: "handles \<Rightarrow> handles" where
  "start_abort hs = closePipes (hclose PseudoConsole hs)"

text \<open>The strings that \<open>CreateProcess\<close> gets: the program, the command line, the environment, the directory.\<close>

definition process_strings ::
  "win_env \<Rightarrow> pty_config \<Rightarrow> start_error + (16 word list \<times> 16 word list \<times> 16 word list option \<times> 16 word list option)" where
  "process_strings e cfg =
     (let fail = (\<lambda>err. Inl (wrapStartError (pc_shell cfg) err))
      in case we_utf16 e (pc_shell cfg) of Inl err \<Rightarrow> fail err
       | Inr app \<Rightarrow>
           (case we_utf16 e (we_compose e (pc_shell cfg # pc_args cfg)) of Inl err \<Rightarrow> fail err
            | Inr cmdline \<Rightarrow>
                (case envBlock (we_utf16 e) (pc_env cfg) of Inl err \<Rightarrow> fail err
                 | Inr env \<Rightarrow>
                     if pc_dir cfg = '''' then Inr (app, cmdline, env, None)
                     else case we_utf16 e (pc_dir cfg) of Inl err \<Rightarrow> fail err
                          | Inr cwd \<Rightarrow> Inr (app, cmdline, env, Some cwd))))"

text \<open>The attribute list is deleted on every return after it was made (\<open>defer attrs.Delete()\<close>).\<close>

definition win_startPTY :: "win_env \<Rightarrow> pty_config \<Rightarrow> handles \<Rightarrow> (start_error + unit) \<times> handles" where
  "win_startPTY e cfg hs =
     (case we_in e of
        Some err \<Rightarrow> (Inl (StartError (''failed to create local shell input pipe: '' @ err)), hs)
      | None \<Rightarrow>
      let hs = hopen InWrite (hopen InRead hs) in
      case we_out e of
        Some err \<Rightarrow> (Inl (StartError (''failed to create local shell output pipe: '' @ err)),
                     hclose InWrite (hclose InRead hs))
      | None \<Rightarrow>
      let hs = hopen OutWrite (hopen OutRead hs) in
      case we_console e of
        Some err \<Rightarrow> (Inl (StartError (''failed to create pseudo console: '' @ err)), closePipes hs)
      | None \<Rightarrow>
      let hs = hopen PseudoConsole hs in
      case we_attrs e of
        Some err \<Rightarrow> (Inl (StartError (''failed to allocate proc thread attribute list: '' @ err)), start_abort hs)
      | None \<Rightarrow>
      let hs = hopen AttrList hs in
      case we_update e of
        Some err \<Rightarrow> (Inl (StartError (''failed to set pseudo console attribute: '' @ err)),
                     hclose AttrList (start_abort hs))
      | None \<Rightarrow>
      case process_strings e cfg of
        Inl err \<Rightarrow> (Inl err, hclose AttrList (start_abort hs))
      | Inr _ \<Rightarrow>
      case we_create e of
        Some err \<Rightarrow> (Inl (wrapStartError (pc_shell cfg) err), hclose AttrList (start_abort hs))
      | None \<Rightarrow>
      let hs = hopen ThreadHandle (hopen ProcessHandle hs);
          hs = hclose ThreadHandle (hclose OutWrite (hclose InRead hs))
      in (Inr (), hclose AttrList hs))"

section \<open>No handle is lost\<close>

named_theorems pty_simps \<open>the definitions that the accounts of handles unfold\<close>

lemmas [pty_simps] = hopen_def hclose_def Let_def openPTY_linux_def openPTY_darwin_def unix_startPTY_def
  closePipes_def start_abort_def win_startPTY_def wrapStartError_def

text \<open>What an opener of \<open>/dev/ptmx\<close> promises: an error leaves no handle, success the master.\<close>

locale ptmx_opener =
  fixes openPTY :: "ptmx_env \<Rightarrow> handles \<Rightarrow> (start_error + string) \<times> handles"
  assumes open_error: "openPTY e hs = (Inl (StartError m), hs') \<Longrightarrow> hs' = hs"
    and open_ok: "openPTY e hs = (Inr path, hs') \<Longrightarrow> hs' = PtyMaster # hs"
begin

lemma start_error_clean: "unix_startPTY openPTY e cfg hs = (Inl (StartError m), hs') \<Longrightarrow> hs' = hs"
  by (auto simp: unix_startPTY_def hopen_def hclose_def Let_def split: prod.splits sum.splits option.splits
      dest: open_error open_ok)

lemma start_ok_master: "unix_startPTY openPTY e cfg hs = (Inr ws, hs') \<Longrightarrow> hs' = PtyMaster # hs"
  by (auto simp: unix_startPTY_def hopen_def hclose_def Let_def split: prod.splits sum.splits option.splits
      dest: open_ok)

end

interpretation linux_ptmx: ptmx_opener openPTY_linux
  by unfold_locales (auto simp: pty_simps split: option.splits sum.splits)

interpretation darwin_ptmx: ptmx_opener openPTY_darwin
  by unfold_locales (auto simp: pty_simps split: option.splits sum.splits if_splits)

lemma linux_start_no_panic: "unix_startPTY openPTY_linux e cfg hs \<noteq> (Inl StartPanic, hs')"
  by (auto simp: pty_simps split: option.splits sum.splits)

text \<open>The panic leaves the master open (the process dies of it).\<close>

lemma darwin_panic_master:
  "unix_startPTY openPTY_darwin e cfg hs = (Inl StartPanic, hs') \<Longrightarrow> hs' = PtyMaster # hs"
  by (auto simp: pty_simps split: option.splits sum.splits if_splits)

lemma win_start_error: "win_startPTY e cfg [] = (Inl err, hs) \<Longrightarrow> hs = []"
  by (auto simp: pty_simps split: option.splits sum.splits)

lemma win_start_ok: "win_startPTY e cfg [] = (Inr u, hs) \<Longrightarrow> hs = [ProcessHandle, PseudoConsole, OutRead, InWrite]"
  by (auto simp: pty_simps split: option.splits sum.splits)


section \<open>The operations of a started terminal\<close>

datatype pty_error = PtyExited | PtyErr string

datatype errno = ESRCH | EIO | Errno string

definition errno_text :: "errno \<Rightarrow> string" where
  "errno_text e = (case e of ESRCH \<Rightarrow> ''no such process'' | EIO \<Rightarrow> ''input/output error'' | Errno s \<Rightarrow> s)"

text \<open>
  The interface \<open>ptyHandle\<close> over a state of any type.  \<open>po_exit\<close> is not one of its methods: it is the
  end of the shell, as far as the terminal's own \<open>waitLoop\<close> records it.
\<close>

record 's pty_ops =
  po_write :: "bytes \<Rightarrow> 's \<Rightarrow> pty_error option \<times> 's"
  po_resize :: "int \<Rightarrow> int \<Rightarrow> 's \<Rightarrow> pty_error option \<times> 's"
  po_signal :: "int \<Rightarrow> 's \<Rightarrow> pty_error option \<times> 's"
  po_kill :: "'s \<Rightarrow> pty_error option \<times> 's"
  po_close :: "'s \<Rightarrow> pty_error option \<times> 's"
  po_exited :: "'s \<Rightarrow> bool"
  po_exit :: "'s \<Rightarrow> 's"

subsection \<open>Unix\<close>

datatype unix_call = UWrite bytes | UWinsize winsize | UKillGroup int | UCloseMaster

record unix_pty =
  up_calls :: "unix_call list"
  up_exited :: bool

text \<open>The system's answer to the next call, from the calls before it.\<close>

type_synonym unix_sys = "unix_call list \<Rightarrow> unix_call \<Rightarrow> errno option"

definition unix_do :: "unix_sys \<Rightarrow> unix_call \<Rightarrow> unix_pty \<Rightarrow> errno option \<times> unix_pty" where
  "unix_do sys c p = (sys (up_calls p) c, p\<lparr>up_calls := up_calls p @ [c]\<rparr>)"

definition pty_result :: "errno option \<Rightarrow> pty_error option" where
  "pty_result r = map_option (\<lambda>e. PtyErr (errno_text e)) r"

text \<open>\<open>unixPTY.Read\<close>: the error that Linux reports after the end of the shell is the end of the stream.\<close>

datatype read_end = ReadEOF | ReadErr errno

definition unix_read :: "nat \<times> errno option \<Rightarrow> nat \<times> read_end option" where
  "unix_read r = (case r of (n, Some EIO) \<Rightarrow> (n, Some ReadEOF) | (n, Some e) \<Rightarrow> (n, Some (ReadErr e)) | (n, None) \<Rightarrow> (n, None))"

definition unix_write :: "unix_sys \<Rightarrow> bytes \<Rightarrow> unix_pty \<Rightarrow> pty_error option \<times> unix_pty" where
  "unix_write sys b p = (case unix_do sys (UWrite b) p of (r, p) \<Rightarrow> (pty_result r, p))"

definition unix_resize :: "unix_sys \<Rightarrow> int \<Rightarrow> int \<Rightarrow> unix_pty \<Rightarrow> pty_error option \<times> unix_pty" where
  "unix_resize sys cols rows p =
     (if cols \<le> 0 \<or> rows \<le> 0 then (None, p)
      else case unix_do sys (UWinsize (unix_winsize cols rows)) p of (r, p) \<Rightarrow> (pty_result r, p))"

definition unix_signal :: "unix_sys \<Rightarrow> int \<Rightarrow> unix_pty \<Rightarrow> pty_error option \<times> unix_pty" where
  "unix_signal sys sig p =
     (if up_exited p then (Some PtyExited, p)
      else case unix_do sys (UKillGroup sig) p of
             (Some ESRCH, p) \<Rightarrow> (Some PtyExited, p)
           | (r, p) \<Rightarrow> (pty_result r, p))"

definition unix_kill :: "unix_sys \<Rightarrow> unix_pty \<Rightarrow> pty_error option \<times> unix_pty" where
  "unix_kill sys p =
     (if up_exited p then (None, p)
      else case unix_do sys (UKillGroup 9) p of
             (Some ESRCH, p) \<Rightarrow> (None, p)
           | (r, p) \<Rightarrow> (pty_result r, p))"

definition unix_close :: "unix_sys \<Rightarrow> unix_pty \<Rightarrow> pty_error option \<times> unix_pty" where
  "unix_close sys p = (case unix_do sys UCloseMaster p of (r, p) \<Rightarrow> (pty_result r, p))"

definition unix_waitLoop :: "unix_pty \<Rightarrow> unix_pty" where
  "unix_waitLoop p = p\<lparr>up_exited := True\<rparr>"

definition unix_ops :: "unix_sys \<Rightarrow> unix_pty pty_ops" where
  "unix_ops sys = \<lparr>po_write = unix_write sys, po_resize = unix_resize sys, po_signal = unix_signal sys,
     po_kill = unix_kill sys, po_close = unix_close sys, po_exited = up_exited, po_exit = unix_waitLoop\<rparr>"

subsection \<open>Windows\<close>

datatype win_call = WWrite bytes | WResizeConsole "16 word \<times> 16 word" | WTerminate | WRelease

datatype win_error = AccessDenied | WinErr string

record win_pty =
  wy_calls :: "win_call list"
  wy_closed :: bool
  wy_closeErr :: "pty_error option"
  wy_exited :: bool

type_synonym win_sys = "win_call list \<Rightarrow> win_call \<Rightarrow> win_error option"

definition win_result :: "win_error option \<Rightarrow> pty_error option" where
  "win_result r = map_option (\<lambda>e. PtyErr (case e of AccessDenied \<Rightarrow> ''access denied'' | WinErr s \<Rightarrow> s)) r"

definition win_do :: "win_sys \<Rightarrow> win_call \<Rightarrow> win_pty \<Rightarrow> win_error option \<times> win_pty" where
  "win_do sys c p = (sys (wy_calls p) c, p\<lparr>wy_calls := wy_calls p @ [c]\<rparr>)"

text \<open>\<open>isPTYGone\<close>: the errors that \<open>Read\<close> reports as the end of the stream.\<close>

datatype win_read_error = BrokenPipe | OperationAborted | InvalidHandle | HandleEOF | FileClosed | OtherRead string

definition isPTYGone :: "win_read_error \<Rightarrow> bool" where
  "isPTYGone e \<longleftrightarrow> e \<in> {BrokenPipe, OperationAborted, InvalidHandle, HandleEOF, FileClosed}"

definition win_write :: "win_sys \<Rightarrow> bytes \<Rightarrow> win_pty \<Rightarrow> pty_error option \<times> win_pty" where
  "win_write sys b p = (case win_do sys (WWrite b) p of (r, p) \<Rightarrow> (win_result r, p))"

definition win_resize :: "win_sys \<Rightarrow> int \<Rightarrow> int \<Rightarrow> win_pty \<Rightarrow> pty_error option \<times> win_pty" where
  "win_resize sys cols rows p =
     (if cols \<le> 0 \<or> rows \<le> 0 then (None, p)
      else if wy_closed p then (Some PtyExited, p)
      else case win_do sys (WResizeConsole (ptySize cols rows)) p of (r, p) \<Rightarrow> (win_result r, p))"

definition win_kill :: "win_sys \<Rightarrow> win_pty \<Rightarrow> pty_error option \<times> win_pty" where
  "win_kill sys p =
     (if wy_exited p \<or> wy_closed p then (None, p)
      else case win_do sys WTerminate p of
             (Some AccessDenied, p) \<Rightarrow> (None, p)
           | (r, p) \<Rightarrow> (win_result r, p))"

text \<open>Only \<open>SIGHUP\<close>, \<open>SIGINT\<close>, \<open>SIGTERM\<close> and \<open>SIGKILL\<close> have an effect: all of them kill.\<close>

definition win_signal :: "win_sys \<Rightarrow> int \<Rightarrow> win_pty \<Rightarrow> pty_error option \<times> win_pty" where
  "win_signal sys sig p =
     (if wy_exited p then (Some PtyExited, p)
      else if sig \<in> {1, 2, 15, 9} then win_kill sys p
      else (None, p))"

definition win_close :: "win_sys \<Rightarrow> win_pty \<Rightarrow> pty_error option \<times> win_pty" where
  "win_close sys p =
     (if wy_closed p then (wy_closeErr p, p)
      else case win_do sys WRelease p of
             (r, p) \<Rightarrow> (win_result r, p\<lparr>wy_closed := True, wy_closeErr := win_result r\<rparr>))"

text \<open>\<open>waitLoop\<close> closes the terminal before it lets the exit be seen.\<close>

definition win_waitLoop :: "win_sys \<Rightarrow> win_pty \<Rightarrow> win_pty" where
  "win_waitLoop sys p = (snd (win_close sys p))\<lparr>wy_exited := True\<rparr>"

definition win_ops :: "win_sys \<Rightarrow> win_pty pty_ops" where
  "win_ops sys = \<lparr>po_write = win_write sys, po_resize = win_resize sys, po_signal = win_signal sys,
     po_kill = win_kill sys, po_close = win_close sys, po_exited = wy_exited, po_exit = win_waitLoop sys\<rparr>"

subsection \<open>The contract of ptyHandle\<close>

locale pty_handle =
  fixes ops :: "'s pty_ops"
  assumes resize_nonpos: "c \<le> 0 \<or> r \<le> 0 \<Longrightarrow> po_resize ops c r s = (None, s)"
    and signal_exited: "po_exited ops s \<Longrightarrow> po_signal ops n s = (Some PtyExited, s)"
    and kill_exited: "po_exited ops s \<Longrightarrow> po_kill ops s = (None, s)"
    and exit_exited: "po_exited ops (po_exit ops s)"
    and signal_stays: "po_exited ops (snd (po_signal ops n s)) = po_exited ops s"
    and kill_stays: "po_exited ops (snd (po_kill ops s)) = po_exited ops s"
    and write_stays: "po_exited ops (snd (po_write ops b s)) = po_exited ops s"
    and resize_stays: "po_exited ops (snd (po_resize ops c r s)) = po_exited ops s"
    and close_stays: "po_exited ops (snd (po_close ops s)) = po_exited ops s"

lemmas unix_op_defs = unix_ops_def unix_write_def unix_resize_def unix_signal_def unix_kill_def
  unix_close_def unix_waitLoop_def unix_do_def

lemmas win_op_defs = win_ops_def win_write_def win_resize_def win_signal_def win_kill_def
  win_close_def win_waitLoop_def win_do_def

interpretation unix: pty_handle "unix_ops sys"
  by unfold_locales (auto simp: unix_op_defs split: option.splits errno.splits)

interpretation windows: pty_handle "win_ops sys"
  by unfold_locales (auto simp: win_op_defs split: option.splits win_error.splits)

text \<open>
  A size that does not fit: Unix applies its low 16 bits, Windows the default.  Both report success, so
  the size that \<open>Tty.Resize\<close> has recorded is not the terminal's.
\<close>

lemma unix_winsize_wraps: "unix_winsize 65616 24 = (80, 24)"
  by (simp add: unix_winsize_def)

lemma unix_winsize_exact: "0 \<le> c \<Longrightarrow> c < 65536 \<Longrightarrow> uint (fst (unix_winsize c r)) = c"
  by (simp add: unix_winsize_def unsigned_of_int take_bit_int_eq_self)

lemma ptySize_falls_back: "ptySize 32768 24 = ptySize 80 24"
  by (simp add: ptySize_def default_cols_def)

end
