(* ===== verification/Win_Handles.thy ===== *)
theory Win_Handles
  imports Pty
begin

text \<open>
  The handles of \<open>windowsPTY\<close> under concurrency.  \<open>Resize\<close> and \<open>Kill\<close> run under the mutex; \<open>release\<close>
  (once, from whichever of \<open>waitLoop\<close> and \<open>Close\<close> comes first) takes the handles under the mutex and
  closes them without it; \<open>waitLoop\<close> waits for the process without it.  A step is one critical
  section or one system call.
\<close>

datatype win_handle = HConsole | HProcess

datatype release_pc = RelIdle | RelTaken | RelConsoleClosed | RelDone

datatype waiter_pc = WtWaiting | WtSignaled | WtCode | WtClosing | WtDone

text \<open>
  \<open>wh_uses\<close> lists the uses under the mutex, \<open>wh_waits\<close> those of \<open>waitLoop\<close>, each with whether the
  handle was open then; \<open>wh_closes\<close> the handles that were closed.
\<close>

record win_shared =
  wh_closed :: bool
  wh_release :: release_pc
  wh_waiter :: waiter_pc
  wh_ended :: bool
  wh_open :: "win_handle list"
  wh_uses :: "(win_handle \<times> bool) list"
  wh_waits :: "(win_handle \<times> bool) list"
  wh_closes :: "win_handle list"

definition win_shared_started :: win_shared where
  "win_shared_started = \<lparr>wh_closed = False, wh_release = RelIdle, wh_waiter = WtWaiting, wh_ended = False,
     wh_open = [HConsole, HProcess], wh_uses = [], wh_waits = [], wh_closes = []\<rparr>"

definition locked_use :: "win_handle \<Rightarrow> win_shared \<Rightarrow> win_shared" where
  "locked_use h s = s\<lparr>wh_uses := wh_uses s @ [(h, h \<in> set (wh_open s))]\<rparr>"

definition close_handle :: "win_handle \<Rightarrow> win_shared \<Rightarrow> win_shared" where
  "close_handle h s = s\<lparr>wh_open := remove1 h (wh_open s), wh_closes := wh_closes s @ [h]\<rparr>"

text \<open>The methods that callers run under the mutex, and the end of the process.\<close>

inductive caller_step :: "win_shared \<Rightarrow> win_shared \<Rightarrow> bool" where
  caller_resize: "\<not> wh_closed s \<Longrightarrow> caller_step s (locked_use HConsole s)"
| caller_kill: "\<not> wh_closed s \<Longrightarrow> caller_step s ((locked_use HProcess s)\<lparr>wh_ended := True\<rparr>)"
| caller_close: "wh_release s = RelIdle \<Longrightarrow> caller_step s (s\<lparr>wh_closed := True, wh_release := RelTaken\<rparr>)"
| process_ends: "caller_step s (s\<lparr>wh_ended := True\<rparr>)"

text \<open>The rest of \<open>release\<close>, after its first critical section.\<close>

inductive release_step :: "win_shared \<Rightarrow> win_shared \<Rightarrow> bool" where
  release_console: "wh_release s = RelTaken \<Longrightarrow>
     release_step s ((close_handle HConsole s)\<lparr>wh_release := RelConsoleClosed\<rparr>)"
| release_process: "wh_release s = RelConsoleClosed \<Longrightarrow>
     release_step s ((close_handle HProcess s)\<lparr>wh_release := RelDone\<rparr>)"

text \<open>\<open>waitLoop\<close>: wait, read the exit code, \<open>Close\<close> (which waits for a release under way), publish.\<close>

inductive waiter_step :: "win_shared \<Rightarrow> win_shared \<Rightarrow> bool" where
  waiter_signaled: "wh_waiter s = WtWaiting \<Longrightarrow> wh_ended s \<Longrightarrow>
     waiter_step s (s\<lparr>wh_waits := wh_waits s @ [(HProcess, HProcess \<in> set (wh_open s))], wh_waiter := WtSignaled\<rparr>)"
| waiter_code: "wh_waiter s = WtSignaled \<Longrightarrow>
     waiter_step s (s\<lparr>wh_waits := wh_waits s @ [(HProcess, HProcess \<in> set (wh_open s))], wh_waiter := WtCode\<rparr>)"
| waiter_close: "wh_waiter s = WtCode \<Longrightarrow> wh_release s = RelIdle \<Longrightarrow>
     waiter_step s (s\<lparr>wh_closed := True, wh_release := RelTaken, wh_waiter := WtClosing\<rparr>)"
| waiter_join: "wh_waiter s = WtCode \<Longrightarrow> wh_release s \<noteq> RelIdle \<Longrightarrow>
     waiter_step s (s\<lparr>wh_waiter := WtClosing\<rparr>)"
| waiter_done: "wh_waiter s = WtClosing \<Longrightarrow> wh_release s = RelDone \<Longrightarrow>
     waiter_step s (s\<lparr>wh_waiter := WtDone\<rparr>)"

inductive_cases caller_stepE: "caller_step s s'"
inductive_cases release_stepE: "release_step s s'"
inductive_cases waiter_stepE: "waiter_step s s'"

inductive win_reach :: "win_shared \<Rightarrow> bool" where
  win_reach_start: "win_reach win_shared_started"
| win_reach_step: "win_reach s \<Longrightarrow> caller_step s s' \<or> release_step s s' \<or> waiter_step s s' \<Longrightarrow> win_reach s'"

text \<open>Which handles are open at each place of \<open>release\<close>.\<close>

fun handles_at :: "release_pc \<Rightarrow> win_handle list" where
  "handles_at RelIdle = [HConsole, HProcess]"
| "handles_at RelTaken = [HConsole, HProcess]"
| "handles_at RelConsoleClosed = [HProcess]"
| "handles_at RelDone = []"

fun closed_at :: "release_pc \<Rightarrow> win_handle list" where
  "closed_at RelIdle = []"
| "closed_at RelTaken = []"
| "closed_at RelConsoleClosed = [HConsole]"
| "closed_at RelDone = [HConsole, HProcess]"

definition win_inv :: "win_shared \<Rightarrow> bool" where
  "win_inv s \<longleftrightarrow> wh_open s = handles_at (wh_release s) \<and> wh_closes s = closed_at (wh_release s)
     \<and> (wh_closed s \<longleftrightarrow> wh_release s \<noteq> RelIdle)
     \<and> (wh_waiter s = WtDone \<longrightarrow> wh_release s = RelDone)
     \<and> (\<forall>u \<in> set (wh_uses s). snd u)"

lemma win_inv_caller: "win_inv s \<Longrightarrow> caller_step s s' \<Longrightarrow> win_inv s'"
  by (erule caller_stepE) (auto simp: win_inv_def locked_use_def)

lemma win_inv_release: "win_inv s \<Longrightarrow> release_step s s' \<Longrightarrow> win_inv s'"
  by (erule release_stepE) (auto simp: win_inv_def close_handle_def)

lemma win_inv_waiter: "win_inv s \<Longrightarrow> waiter_step s s' \<Longrightarrow> win_inv s'"
  by (erule waiter_stepE) (auto simp: win_inv_def)

lemma win_inv_reach: "win_reach s \<Longrightarrow> win_inv s"
proof (induction rule: win_reach.induct)
  case win_reach_start
  then show ?case by (simp add: win_inv_def win_shared_started_def)
next
  case (win_reach_step s s')
  then show ?case by (blast intro: win_inv_caller win_inv_release win_inv_waiter)
qed

text \<open>
  Property C36.  However \<open>Resize\<close>, \<open>Signal\<close>, \<open>Kill\<close>, \<open>Close\<close> and the end of the shell interleave, the
  methods that hold the mutex never use a handle that was closed, no handle is closed twice, and
  when the exit is announced both handles are closed.
\<close>

theorem windows_handles_safe:
  assumes "win_reach s"
  shows "list_all snd (wh_uses s) \<and> distinct (wh_closes s)
    \<and> (wh_waiter s = WtDone \<longrightarrow> wh_open s = [] \<and> set (wh_closes s) = {HConsole, HProcess})"
  using win_inv_reach [OF assms]
  by (cases "wh_release s") (auto simp: win_inv_def list_all_iff)

definition demo_released :: win_shared where
  "demo_released = \<lparr>wh_closed = True, wh_release = RelDone, wh_waiter = WtWaiting, wh_ended = True,
     wh_open = [], wh_uses = [(HConsole, True), (HProcess, True)], wh_waits = [], wh_closes = [HConsole, HProcess]\<rparr>"

text \<open>
  The waiting thread is not protected: when \<open>Tty.Close\<close> gives up after its last two seconds, the process
  handle is closed while \<open>WaitForSingleObject\<close> still waits on it.
\<close>

lemma demo_released_reached: "win_reach demo_released"
proof -
  define s0 where "s0 = win_shared_started"
  define s1 where "s1 = locked_use HConsole s0"
  define s2 where "s2 = (locked_use HProcess s1)\<lparr>wh_ended := True\<rparr>"
  define s3 where "s3 = s2\<lparr>wh_closed := True, wh_release := RelTaken\<rparr>"
  define s4 where "s4 = (close_handle HConsole s3)\<lparr>wh_release := RelConsoleClosed\<rparr>"
  define s5 where "s5 = (close_handle HProcess s4)\<lparr>wh_release := RelDone\<rparr>"
  note defs = s0_def s1_def s2_def s3_def s4_def s5_def win_shared_started_def locked_use_def close_handle_def
  have "win_reach s0" unfolding s0_def by (rule win_reach_start)
  moreover have "caller_step s0 s1" unfolding s1_def by (rule caller_resize) (simp add: defs)
  moreover have "caller_step s1 s2" unfolding s2_def by (rule caller_kill) (simp add: defs)
  moreover have "caller_step s2 s3" unfolding s3_def by (rule caller_close) (simp add: defs)
  moreover have "release_step s3 s4" unfolding s4_def by (rule release_console) (simp add: s3_def)
  moreover have "release_step s4 s5" unfolding s5_def by (rule release_process) (simp add: s4_def)
  ultimately have "win_reach s5" using win_reach_step by metis
  moreover have "s5 = demo_released" by (simp add: defs demo_released_def)
  ultimately show ?thesis by simp
qed

lemma waiter_uses_closed_handle:
  "\<exists>s. win_reach s \<and> (HProcess, False) \<in> set (wh_waits s)"
proof -
  have "waiter_step demo_released (demo_released\<lparr>wh_waits := [(HProcess, False)], wh_waiter := WtSignaled\<rparr>)"
    using waiter_signaled [of demo_released] by (simp add: demo_released_def)
  then have "win_reach (demo_released\<lparr>wh_waits := [(HProcess, False)], wh_waiter := WtSignaled\<rparr>)"
    using demo_released_reached win_reach_step by blast
  moreover have "(HProcess, False) \<in> set (wh_waits (demo_released\<lparr>wh_waits := [(HProcess, False)], wh_waiter := WtSignaled\<rparr>))"
    by simp
  ultimately show ?thesis by blast
qed

theorem windows_handles_safe_witness:
  "win_reach demo_released \<and> wh_uses demo_released \<noteq> [] \<and> distinct (wh_closes demo_released)"
  using windows_handles_safe [OF demo_released_reached] demo_released_reached by (simp add: demo_released_def)

end
