(* ===== verification/Terminals.thy ===== *)
theory Terminals
  imports Pty Session Hosts
begin

text \<open>
  The two kinds of terminal a session can own: \<open>internal/sshtty\<close>, a shell on an SSH connection, and
  \<open>internal/localtty\<close>, a shell on a pseudo terminal of \<open>Pty\<close>.  Each is a record with its operations.
  What a session relies on (\<open>session.Terminal\<close>) is the locale \<open>session_terminal\<close>, interpreted on both.

  Time is in nanoseconds.  When the shell ends is a parameter: from the calls made so far (or the
  state of the pseudo terminal), the time it still takes, if it ever ends by itself.
\<close>

section \<open>Waiting for the shell to end\<close>

datatype tty_error = TtyExited | TtyFailed string

definition seconds :: "int \<Rightarrow> int" where
  "seconds n = n * 1000000000"

text \<open>
  \<open>select\<close> between the exit and \<open>time.After(d)\<close>: whether the exit came first, and the time it took.
  A timer with a duration that is not positive fires at once.
\<close>

definition await :: "bool \<Rightarrow> int option \<Rightarrow> int \<Rightarrow> bool \<times> int" where
  "await exited ends d =
     (if exited then (True, 0)
      else case ends of
             Some t \<Rightarrow> if max 0 t \<le> max 0 d then (True, max 0 t) else (False, max 0 d)
           | None \<Rightarrow> (False, max 0 d))"

lemma await_bounds: "await x e d = (b, t) \<Longrightarrow> 0 \<le> t \<and> t \<le> max 0 d"
  by (auto simp: await_def split: if_splits option.splits)

section \<open>The local terminal\<close>

text \<open>What \<open>Tty\<close> calls on its \<open>ptyHandle\<close> is kept in \<open>lt_calls\<close>.\<close>

datatype pty_call = PWrite bytes | PResize int int | PSignal int | PKill | PClose

record 's local_tty =
  lt_pty :: 's
  lt_calls :: "pty_call list"
  lt_command :: string
  lt_args :: "string list"
  lt_closeSignal :: int
  lt_closeTimeout :: int
  lt_exited :: bool
  lt_cols :: int
  lt_rows :: int
  lt_closed :: bool
  lt_closeErr :: "tty_error option"

definition tty_error_of :: "pty_error option \<Rightarrow> tty_error option" where
  "tty_error_of e = map_option (\<lambda>e. case e of PtyExited \<Rightarrow> TtyExited | PtyErr m \<Rightarrow> TtyFailed m) e"

text \<open>\<open>New\<close>: the shell and its surroundings are chosen, the pseudo terminal is started.\<close>

definition local_New ::
  "shell_env \<Rightarrow> (pty_config \<Rightarrow> start_error + 's) \<Rightarrow> term_option list \<Rightarrow> start_error + 's local_tty" where
  "local_New e start opts =
     (let o' = apply_options opts; cfg = local_config e o'
      in case start cfg of
           Inl err \<Rightarrow> Inl err
         | Inr p \<Rightarrow> Inr \<lparr>lt_pty = p, lt_calls = [], lt_command = pc_shell cfg, lt_args = pc_args cfg,
             lt_closeSignal = to_closeSignal o', lt_closeTimeout = seconds (to_closeTimeout o'),
             lt_exited = False, lt_cols = default_cols, lt_rows = default_rows,
             lt_closed = False, lt_closeErr = None\<rparr>)"

definition pty_do :: "pty_call \<Rightarrow> ('s \<Rightarrow> pty_error option \<times> 's) \<Rightarrow> 's local_tty \<Rightarrow> tty_error option \<times> 's local_tty" where
  "pty_do c f t =
     (case f (lt_pty t) of
        (err, p) \<Rightarrow> (tty_error_of err, t\<lparr>lt_pty := p, lt_calls := lt_calls t @ [c]\<rparr>))"

definition local_write :: "'s pty_ops \<Rightarrow> bytes \<Rightarrow> 's local_tty \<Rightarrow> tty_error option \<times> 's local_tty" where
  "local_write ops b t =
     (if lt_exited t then (Some TtyExited, t) else pty_do (PWrite b) (po_write ops b) t)"

definition local_resize :: "'s pty_ops \<Rightarrow> int \<Rightarrow> int \<Rightarrow> 's local_tty \<Rightarrow> tty_error option \<times> 's local_tty" where
  "local_resize ops cols rows t =
     (if cols \<le> 0 \<or> rows \<le> 0 then (None, t)
      else pty_do (PResize cols rows) (po_resize ops cols rows) (t\<lparr>lt_cols := cols, lt_rows := rows\<rparr>))"

definition local_size :: "'s local_tty \<Rightarrow> int \<times> int" where
  "local_size t = (lt_cols t, lt_rows t)"

definition local_signal :: "'s pty_ops \<Rightarrow> int \<Rightarrow> 's local_tty \<Rightarrow> tty_error option \<times> 's local_tty" where
  "local_signal ops sig t =
     (if lt_exited t then (Some TtyExited, t) else pty_do (PSignal sig) (po_signal ops sig) t)"

text \<open>\<open>waitLoop\<close>: the end of the shell.\<close>

definition local_waitLoop :: "'s pty_ops \<Rightarrow> 's local_tty \<Rightarrow> 's local_tty" where
  "local_waitLoop ops t = t\<lparr>lt_pty := po_exit ops (lt_pty t), lt_exited := True\<rparr>"

definition local_await ::
  "'s pty_ops \<Rightarrow> ('s \<Rightarrow> int option) \<Rightarrow> int \<Rightarrow> 's local_tty \<Rightarrow> bool \<times> int \<times> 's local_tty" where
  "local_await ops ends d t =
     (case await (lt_exited t) (ends (lt_pty t)) d of
        (b, n) \<Rightarrow> (b, n, if b \<and> \<not> lt_exited t then local_waitLoop ops t else t))"

text \<open>\<open>Close\<close>, with the time it takes.\<close>

definition local_close ::
  "'s pty_ops \<Rightarrow> ('s \<Rightarrow> int option) \<Rightarrow> 's local_tty \<Rightarrow> tty_error option \<times> 's local_tty \<times> int" where
  "local_close ops ends t =
     (if lt_closed t then (lt_closeErr t, t, 0)
      else
        let t = snd (pty_do (PSignal (lt_closeSignal t)) (po_signal ops (lt_closeSignal t)) t);
            (done, n, t) = local_await ops ends (lt_closeTimeout t) t;
            (n, t) = (if done then (n, t)
                      else let t = snd (pty_do PKill (po_kill ops) t);
                               (_, m, t) = local_await ops ends (seconds 2) t
                           in (n + m, t));
            (err, t) = pty_do PClose (po_close ops) t
        in (err, t\<lparr>lt_closed := True, lt_closeErr := err\<rparr>, n))"

section \<open>The terminal on an SSH connection\<close>

text \<open>\<open>signalToSSH\<close> with the Unix version of \<open>sigusrExtra\<close> (on Windows the last two do not exist).\<close>

definition sigusrExtra :: "int \<Rightarrow> string \<times> bool" where
  "sigusrExtra sig =
     (if sig = 10 then (''USR1'', True) else if sig = 12 then (''USR2'', True) else (''HUP'', False))"

definition signalToSSH :: "int \<Rightarrow> string" where
  "signalToSSH sig =
     (if sig = 1 then ''HUP'' else if sig = 2 then ''INT'' else if sig = 3 then ''QUIT''
      else if sig = 15 then ''TERM'' else if sig = 9 then ''KILL''
      else case sigusrExtra sig of (s, ok) \<Rightarrow> if ok then s else ''HUP'')"

datatype ssh_call =
    SRequestPty string int int | SStdin | SStdout | SShell
  | SWrite bytes | SWindowChange int int | SSignal string | SKeepalive | SSessionClose | SConnClose

type_synonym ssh_sys = "ssh_call list \<Rightarrow> ssh_call \<Rightarrow> string option"

record ssh_tty =
  st_host :: host
  st_calls :: "ssh_call list"
  st_closeSignal :: int
  st_closeTimeout :: int
  st_exited :: bool
  st_cols :: int
  st_rows :: int
  st_stopKA :: bool
  st_closed :: bool
  st_closeErr :: "tty_error option"

definition ssh_do :: "ssh_sys \<Rightarrow> ssh_call \<Rightarrow> ssh_tty \<Rightarrow> tty_error option \<times> ssh_tty" where
  "ssh_do sys c t = (map_option TtyFailed (sys (st_calls t) c), t\<lparr>st_calls := st_calls t @ [c]\<rparr>)"

text \<open>
  \<open>New\<close> on an open session channel: the requests in order; the first that fails closes the session.
  \<open>None\<close> is the failure to open the channel itself.
\<close>

fun ssh_setup :: "ssh_sys \<Rightarrow> (ssh_call \<times> string) list \<Rightarrow> ssh_call list \<Rightarrow> string option \<times> ssh_call list" where
  "ssh_setup sys [] done = (None, done)"
| "ssh_setup sys ((c, what) # cs) done =
     (case sys done c of
        Some err \<Rightarrow> (Some (what @ '': '' @ err), done @ [c, SSessionClose])
      | None \<Rightarrow> ssh_setup sys cs (done @ [c]))"

definition ssh_requests :: "string \<Rightarrow> (ssh_call \<times> string) list" where
  "ssh_requests term =
     [(SRequestPty term 24 80, ''failed to request pty''),
      (SStdin, ''failed to open stdin pipe''),
      (SStdout, ''failed to open stdout pipe''),
      (SShell, ''failed to start remote shell'')]"

definition ssh_New ::
  "ssh_sys \<Rightarrow> string option \<Rightarrow> host \<Rightarrow> term_option list \<Rightarrow> (string + ssh_tty) \<times> ssh_call list" where
  "ssh_New sys session h opts =
     (let o' = apply_options opts; term = (if to_term o' = '''' then ''xterm-256color'' else to_term o')
      in case session of
           Some err \<Rightarrow> (Inl (''failed to open ssh session: '' @ err), [])
         | None \<Rightarrow>
             (case ssh_setup sys (ssh_requests term) [] of
                (Some err, cs) \<Rightarrow> (Inl err, cs)
              | (None, cs) \<Rightarrow>
                  (Inr \<lparr>st_host = h, st_calls = cs, st_closeSignal = to_closeSignal o',
                     st_closeTimeout = seconds (to_closeTimeout o'), st_exited = False, st_cols = 80, st_rows = 24,
                     st_stopKA = False, st_closed = False, st_closeErr = None\<rparr>, cs)))"

text \<open>\<open>keepalive\<close>: a request at every tick until the terminal is closed or the shell ended.\<close>

datatype keepalive_event = KATick | KAStop | KAExited

fun keepalive :: "keepalive_event list \<Rightarrow> ssh_call list" where
  "keepalive [] = []"
| "keepalive (KATick # es) = SKeepalive # keepalive es"
| "keepalive (KAStop # es) = []"
| "keepalive (KAExited # es) = []"

definition ssh_write :: "ssh_sys \<Rightarrow> bytes \<Rightarrow> ssh_tty \<Rightarrow> tty_error option \<times> ssh_tty" where
  "ssh_write sys b t = (if st_exited t then (Some TtyExited, t) else ssh_do sys (SWrite b) t)"

definition ssh_resize :: "ssh_sys \<Rightarrow> int \<Rightarrow> int \<Rightarrow> ssh_tty \<Rightarrow> tty_error option \<times> ssh_tty" where
  "ssh_resize sys cols rows t =
     (if cols \<le> 0 \<or> rows \<le> 0 then (None, t)
      else ssh_do sys (SWindowChange rows cols) (t\<lparr>st_cols := cols, st_rows := rows\<rparr>))"

definition ssh_size :: "ssh_tty \<Rightarrow> int \<times> int" where
  "ssh_size t = (st_cols t, st_rows t)"

definition ssh_signal :: "ssh_sys \<Rightarrow> int \<Rightarrow> ssh_tty \<Rightarrow> tty_error option \<times> ssh_tty" where
  "ssh_signal sys sig t = ssh_do sys (SSignal (signalToSSH sig)) t"

definition ssh_waitLoop :: "ssh_tty \<Rightarrow> ssh_tty" where
  "ssh_waitLoop t = t\<lparr>st_exited := True\<rparr>"

definition ssh_await :: "(ssh_call list \<Rightarrow> int option) \<Rightarrow> int \<Rightarrow> ssh_tty \<Rightarrow> bool \<times> int \<times> ssh_tty" where
  "ssh_await ends d t =
     (case await (st_exited t) (ends (st_calls t)) d of
        (b, n) \<Rightarrow> (b, n, if b \<and> \<not> st_exited t then ssh_waitLoop t else t))"

definition ssh_close ::
  "ssh_sys \<Rightarrow> (ssh_call list \<Rightarrow> int option) \<Rightarrow> ssh_tty \<Rightarrow> tty_error option \<times> ssh_tty \<times> int" where
  "ssh_close sys ends t =
     (if st_closed t then (st_closeErr t, t, 0)
      else
        let t = t\<lparr>st_stopKA := True\<rparr>;
            t = snd (ssh_do sys (SSignal (signalToSSH (st_closeSignal t))) t);
            (done, n, t) = ssh_await ends (st_closeTimeout t) t;
            (n, t) = (if done then (n, t)
                      else let t = snd (ssh_do sys (SSignal ''KILL'') t);
                               (_, m, t) = ssh_await ends (seconds 2) t
                           in (n + m, t));
            t = snd (ssh_do sys SSessionClose t);
            (err, t) = ssh_do sys SConnClose t
        in (err, t\<lparr>st_closed := True, st_closeErr := err\<rparr>, n))"

section \<open>What a session relies on\<close>

text \<open>One call of a session on a terminal, and all of them.\<close>

definition apply_call ::
  "(bytes \<Rightarrow> 't \<Rightarrow> tty_error option \<times> 't) \<Rightarrow> (int \<Rightarrow> int \<Rightarrow> 't \<Rightarrow> tty_error option \<times> 't)
     \<Rightarrow> (int \<Rightarrow> 't \<Rightarrow> tty_error option \<times> 't) \<Rightarrow> ('t \<Rightarrow> tty_error option \<times> 't \<times> int) \<Rightarrow> term_call \<Rightarrow> 't \<Rightarrow> 't" where
  "apply_call write resize signal close c t =
     (case c of
        TWrite b \<Rightarrow> snd (write b t)
      | TResize cols rows \<Rightarrow> snd (resize cols rows t)
      | TSignal n \<Rightarrow> snd (signal n t)
      | TClose \<Rightarrow> fst (snd (close t)))"

text \<open>The size that a list of calls asks for last.\<close>

fun last_size :: "term_call list \<Rightarrow> int \<times> int \<Rightarrow> int \<times> int" where
  "last_size [] sz = sz"
| "last_size (TResize c r # cs) sz = last_size cs (if c \<le> 0 \<or> r \<le> 0 then sz else (c, r))"
| "last_size (c # cs) sz = last_size cs sz"

locale session_terminal =
  fixes input :: "bytes \<Rightarrow> 't \<Rightarrow> tty_error option \<times> 't"
    and resize :: "int \<Rightarrow> int \<Rightarrow> 't \<Rightarrow> tty_error option \<times> 't"
    and signal :: "int \<Rightarrow> 't \<Rightarrow> tty_error option \<times> 't"
    and close :: "'t \<Rightarrow> tty_error option \<times> 't \<times> int"
    and size :: "'t \<Rightarrow> int \<times> int"
    and exited :: "'t \<Rightarrow> bool"
    and grace :: "'t \<Rightarrow> int"
  assumes input_exited: "exited t \<Longrightarrow> input b t = (Some TtyExited, t)"
    and resize_nonpos: "c \<le> 0 \<or> r \<le> 0 \<Longrightarrow> resize c r t = (None, t)"
    and resize_size: "0 < c \<Longrightarrow> 0 < r \<Longrightarrow> size (snd (resize c r t)) = (c, r)"
    and input_size: "size (snd (input b t)) = size t"
    and signal_size: "size (snd (signal n t)) = size t"
    and close_size: "close t = (e, t', d) \<Longrightarrow> size t' = size t"
    and close_again: "close t = (e, t', d) \<Longrightarrow> close t' = (e, t', 0)"
    and close_time: "close t = (e, t', d) \<Longrightarrow> 0 \<le> d \<and> d \<le> max 0 (grace t) + seconds 2"
begin

lemma size_after_calls:
  "size (fold (apply_call input resize signal close) cs t) = last_size cs (size t)"
proof (induction cs arbitrary: t)
  case (Cons c cs)
  have "size (apply_call input resize signal close c t) = last_size [c] (size t)"
    by (cases c) (auto simp: apply_call_def input_size signal_size resize_nonpos resize_size
        close_size [of t "fst (close t)" "fst (snd (close t))" "snd (snd (close t))"] not_le)
  then show ?case using Cons by (cases c) simp_all
qed simp

lemma closed_for_good:
  assumes "close t = (e, t', d)"
  shows "fold (apply_call input resize signal close) (replicate n TClose) t' = t'"
  using close_again [OF assms] by (induction n) (simp_all add: apply_call_def)

end

lemmas local_defs = local_write_def local_resize_def local_signal_def local_size_def pty_do_def

lemma pty_do_frame:
  "pty_do c f t = (e, t') \<Longrightarrow> lt_cols t' = lt_cols t \<and> lt_rows t' = lt_rows t \<and> lt_exited t' = lt_exited t
     \<and> lt_closeSignal t' = lt_closeSignal t \<and> lt_closeTimeout t' = lt_closeTimeout t
     \<and> lt_calls t' = lt_calls t @ [c] \<and> lt_pty t' = snd (f (lt_pty t)) \<and> lt_closed t' = lt_closed t"
  by (auto simp: pty_do_def split: prod.splits)

lemma local_await_frame:
  "local_await ops ends d t = (b, n, t') \<Longrightarrow> lt_cols t' = lt_cols t \<and> lt_rows t' = lt_rows t
     \<and> lt_calls t' = lt_calls t \<and> lt_closeTimeout t' = lt_closeTimeout t
     \<and> await (lt_exited t) (ends (lt_pty t)) d = (b, n) \<and> (\<not> b \<longrightarrow> t' = t)"
  by (auto simp: local_await_def local_waitLoop_def split: prod.splits if_splits)

text \<open>\<open>Close\<close> as a plan of three kinds of calls.\<close>

datatype close_call = Polite | Kill | Release

definition close_plan :: "bool \<Rightarrow> close_call list" where
  "close_plan done = [Polite] @ (if done then [] else [Kill]) @ [Release]"

fun local_calls :: "int \<Rightarrow> close_call \<Rightarrow> pty_call list" where
  "local_calls sig Polite = [PSignal sig]"
| "local_calls sig Kill = [PKill]"
| "local_calls sig Release = [PClose]"

fun ssh_calls :: "int \<Rightarrow> close_call \<Rightarrow> ssh_call list" where
  "ssh_calls sig Polite = [SSignal (signalToSSH sig)]"
| "ssh_calls sig Kill = [SSignal ''KILL'']"
| "ssh_calls sig Release = [SSessionClose, SConnClose]"

text \<open>Whether the shell ends in its grace, and the time that \<open>Close\<close> waits.\<close>

definition close_wait :: "bool \<Rightarrow> int option \<Rightarrow> int \<Rightarrow> int option \<Rightarrow> bool \<times> int" where
  "close_wait exited polite d hard =
     (let (b, n) = await exited polite d
      in if b then (True, n) else (False, n + snd (await False hard (seconds 2))))"

lemma close_wait_time: "0 \<le> snd (close_wait x p d h) \<and> snd (close_wait x p d h) \<le> max 0 d + seconds 2"
proof -
  obtain b n m c where "await x p d = (b, n)" "await False h (seconds 2) = (c, m)" by (metis surj_pair)
  then show ?thesis using await_bounds [of x p d b n] await_bounds [of False h "seconds 2" c m]
    by (auto simp: close_wait_def seconds_def)
qed

lemma await_False: "await x e d = (False, n) \<Longrightarrow> \<not> x"
  by (auto simp: await_def split: if_splits)

lemma local_close_plan:
  fixes t :: "'s local_tty" and ops :: "'s pty_ops" and ends :: "'s \<Rightarrow> int option"
  defines "p1 \<equiv> snd (po_signal ops (lt_closeSignal t) (lt_pty t))"
  defines "w \<equiv> close_wait (lt_exited t) (ends p1) (lt_closeTimeout t) (ends (snd (po_kill ops p1)))"
  assumes "\<not> lt_closed t" "local_close ops ends t = (e, t', n)"
  shows "lt_calls t' = lt_calls t @ concat (map (local_calls (lt_closeSignal t)) (close_plan (fst w)))"
    and "n = snd w" and "local_size t' = local_size t" and "lt_closed t' \<and> lt_closeErr t' = e"
proof -
  obtain e1 t1 where t1: "pty_do (PSignal (lt_closeSignal t)) (po_signal ops (lt_closeSignal t)) t = (e1, t1)"
    by (metis surj_pair)
  obtain b n1 t2 where t2: "local_await ops ends (lt_closeTimeout t1) t1 = (b, n1, t2)" by (metis surj_pair)
  obtain e3 t3 where t3: "pty_do PKill (po_kill ops) t2 = (e3, t3)" by (metis surj_pair)
  obtain b4 n4 t4 where t4: "local_await ops ends (seconds 2) t3 = (b4, n4, t4)" by (metis surj_pair)
  obtain e5 t5 where t5: "pty_do PClose (po_close ops) (if b then t2 else t4) = (e5, t5)" by (metis surj_pair)
  have res: "e = e5 \<and> t' = t5\<lparr>lt_closed := True, lt_closeErr := e5\<rparr> \<and> n = (if b then n1 else n1 + n4)"
    using assms(3,4) t1 t2 t3 t4 t5 by (auto simp: local_close_def Let_def split: if_splits)
  note f1 = pty_do_frame [OF t1] and f2 = local_await_frame [OF t2] and f3 = pty_do_frame [OF t3]
    and f4 = local_await_frame [OF t4] and f5 = pty_do_frame [OF t5]
  have p1: "lt_pty t1 = p1" using f1 by (simp add: p1_def)
  have w: "w = (b, if b then n1 else n1 + n4)"
  proof (cases b)
    case True
    then show ?thesis using f1 f2 p1 by (simp add: w_def close_wait_def)
  next
    case False
    then have "t2 = t1" "\<not> lt_exited t1" using f1 f2 await_False [of "lt_exited t1" _ _ n1] by auto
    then have "lt_pty t3 = snd (po_kill ops p1)" "\<not> lt_exited t3" using f3 p1 by auto
    then have "await False (ends (snd (po_kill ops p1))) (seconds 2) = (b4, n4)" using f4 by simp
    then show ?thesis using False f1 f2 p1 by (simp add: w_def close_wait_def)
  qed
  show "n = snd w" using res w by simp
  show "local_size t' = local_size t" using res f1 f2 f3 f4 f5 by (cases b) (simp_all add: local_size_def)
  show "lt_closed t' \<and> lt_closeErr t' = e" using res by simp
  show "lt_calls t' = lt_calls t @ concat (map (local_calls (lt_closeSignal t)) (close_plan (fst w)))"
    using res w f1 f2 f3 f4 f5 by (cases b) (simp_all add: close_plan_def)
qed

lemma local_close_closed: "lt_closed t \<Longrightarrow> local_close ops ends t = (lt_closeErr t, t, 0)"
  by (simp add: local_close_def)

lemma local_close_laws:
  assumes "local_close ops ends t = (e, t', d)"
  shows "local_size t' = local_size t" "local_close ops ends t' = (e, t', 0)"
    "0 \<le> d \<and> d \<le> max 0 (lt_closeTimeout t) + seconds 2"
proof (atomize (full), cases "lt_closed t")
  case True
  then show "local_size t' = local_size t \<and> local_close ops ends t' = (e, t', 0)
      \<and> 0 \<le> d \<and> d \<le> max 0 (lt_closeTimeout t) + seconds 2"
    using assms by (auto simp: local_close_closed seconds_def)
next
  case False
  note plan = local_close_plan [OF False assms]
  show "local_size t' = local_size t \<and> local_close ops ends t' = (e, t', 0)
      \<and> 0 \<le> d \<and> d \<le> max 0 (lt_closeTimeout t) + seconds 2"
    using plan(2,3,4) close_wait_time by (simp add: local_close_closed)
qed

interpretation local: session_terminal "local_write ops" "local_resize ops" "local_signal ops"
  "local_close ops ends" local_size lt_exited lt_closeTimeout
  by unfold_locales
     (simp_all add: local_close_laws local_close_laws(1) [unfolded local_size_def, simplified] local_defs
       split: prod.splits)

text \<open>The same for the terminal on SSH.\<close>

lemmas ssh_defs = ssh_write_def ssh_resize_def ssh_signal_def ssh_size_def ssh_do_def

lemma ssh_await_frame:
  "ssh_await ends d t = (b, n, t') \<Longrightarrow> ssh_size t' = ssh_size t
     \<and> st_calls t' = st_calls t \<and> st_closeTimeout t' = st_closeTimeout t
     \<and> await (st_exited t) (ends (st_calls t)) d = (b, n) \<and> (\<not> b \<longrightarrow> t' = t)"
  by (auto simp: ssh_await_def ssh_waitLoop_def ssh_size_def split: prod.splits if_splits)

lemma ssh_do_frame:
  "ssh_do sys c t = (e, t') \<Longrightarrow> ssh_size t' = ssh_size t \<and> st_exited t' = st_exited t
     \<and> st_closeTimeout t' = st_closeTimeout t \<and> st_calls t' = st_calls t @ [c]"
  by (auto simp: ssh_do_def ssh_size_def)

lemma ssh_close_plan:
  fixes t :: ssh_tty and ends :: "ssh_call list \<Rightarrow> int option"
  defines "c1 \<equiv> st_calls t @ [SSignal (signalToSSH (st_closeSignal t))]"
  defines "w \<equiv> close_wait (st_exited t) (ends c1) (st_closeTimeout t) (ends (c1 @ [SSignal ''KILL'']))"
  assumes "\<not> st_closed t" "ssh_close sys ends t = (e, t', n)"
  shows "st_calls t' = st_calls t @ concat (map (ssh_calls (st_closeSignal t)) (close_plan (fst w)))"
    and "n = snd w" and "ssh_size t' = ssh_size t" and "st_closed t' \<and> st_closeErr t' = e"
proof -
  obtain e1 t1 where t1: "ssh_do sys (SSignal (signalToSSH (st_closeSignal t))) (t\<lparr>st_stopKA := True\<rparr>) = (e1, t1)"
    by (metis surj_pair)
  obtain b n1 t2 where t2: "ssh_await ends (st_closeTimeout t1) t1 = (b, n1, t2)" by (metis surj_pair)
  obtain e3 t3 where t3: "ssh_do sys (SSignal ''KILL'') t2 = (e3, t3)" by (metis surj_pair)
  obtain b4 n4 t4 where t4: "ssh_await ends (seconds 2) t3 = (b4, n4, t4)" by (metis surj_pair)
  obtain e5 t5 where t5: "ssh_do sys SSessionClose (if b then t2 else t4) = (e5, t5)" by (metis surj_pair)
  obtain e6 t6 where t6: "ssh_do sys SConnClose t5 = (e6, t6)" by (metis surj_pair)
  have res: "e = e6 \<and> t' = t6\<lparr>st_closed := True, st_closeErr := e6\<rparr> \<and> n = (if b then n1 else n1 + n4)"
    using assms(3,4) t1 t2 t3 t4 t5 t6 by (auto simp: ssh_close_def Let_def split: if_splits)
  note f1 = ssh_do_frame [OF t1] and f2 = ssh_await_frame [OF t2] and f3 = ssh_do_frame [OF t3]
    and f4 = ssh_await_frame [OF t4] and f5 = ssh_do_frame [OF t5] and f6 = ssh_do_frame [OF t6]
  have c1: "st_calls t1 = c1" using f1 by (simp add: c1_def)
  have w: "w = (b, if b then n1 else n1 + n4)"
  proof (cases b)
    case True
    then show ?thesis using f1 f2 c1 by (simp add: w_def close_wait_def)
  next
    case False
    then have "t2 = t1" "\<not> st_exited t1" using f1 f2 await_False [of "st_exited t1" _ _ n1] by auto
    then have "st_calls t3 = c1 @ [SSignal ''KILL'']" "\<not> st_exited t3" using f3 c1 by auto
    then have "await False (ends (c1 @ [SSignal ''KILL''])) (seconds 2) = (b4, n4)" using f4 by simp
    then show ?thesis using False f1 f2 c1 by (simp add: w_def close_wait_def)
  qed
  show "n = snd w" using res w by simp
  show "ssh_size t' = ssh_size t"
    using res f1 f2 f3 f4 f5 f6 by (cases b) (simp_all add: ssh_size_def)
  show "st_closed t' \<and> st_closeErr t' = e" using res by simp
  show "st_calls t' = st_calls t @ concat (map (ssh_calls (st_closeSignal t)) (close_plan (fst w)))"
    using res w f1 f2 f3 f4 f5 f6 by (cases b) (simp_all add: close_plan_def)
qed

lemma ssh_close_closed: "st_closed t \<Longrightarrow> ssh_close sys ends t = (st_closeErr t, t, 0)"
  by (simp add: ssh_close_def)

lemma ssh_close_laws:
  assumes "ssh_close sys ends t = (e, t', d)"
  shows "ssh_size t' = ssh_size t" "ssh_close sys ends t' = (e, t', 0)"
    "0 \<le> d \<and> d \<le> max 0 (st_closeTimeout t) + seconds 2"
proof (atomize (full), cases "st_closed t")
  case True
  then show "ssh_size t' = ssh_size t \<and> ssh_close sys ends t' = (e, t', 0)
      \<and> 0 \<le> d \<and> d \<le> max 0 (st_closeTimeout t) + seconds 2"
    using assms by (auto simp: ssh_close_closed seconds_def)
next
  case False
  note plan = ssh_close_plan [OF False assms]
  show "ssh_size t' = ssh_size t \<and> ssh_close sys ends t' = (e, t', 0)
      \<and> 0 \<le> d \<and> d \<le> max 0 (st_closeTimeout t) + seconds 2"
    using plan(2,3,4) close_wait_time by (simp add: ssh_close_closed)
qed

interpretation ssh: session_terminal "ssh_write sys" "ssh_resize sys" "ssh_signal sys"
  "ssh_close sys ends" ssh_size st_exited st_closeTimeout
  by unfold_locales
     (simp_all add: ssh_close_laws ssh_close_laws(1) [unfolded ssh_size_def, simplified] ssh_defs split: prod.splits)

section \<open>Findings\<close>

text \<open>
  The comments of \<open>WithCloseTimeout\<close> and of the option say that a negative timeout disables the
  escalation.  A timer with a negative duration fires at once: a shell that would have ended a moment
  later is killed.
\<close>

lemma negative_timeout_kills:
  assumes "\<not> lt_closed t" "\<not> lt_exited t" "lt_closeTimeout t < 0" "\<And>p. ends p = Some 1"
  shows "PKill \<in> set (lt_calls (fst (snd (local_close ops ends t))))"
proof -
  obtain e t' n where close: "local_close ops ends t = (e, t', n)" by (metis surj_pair)
  have "\<not> fst (close_wait False (Some 1) (lt_closeTimeout t) h)" for h
    using assms(3) by (simp add: close_wait_def await_def)
  then have "lt_calls t' = lt_calls t @ [PSignal (lt_closeSignal t), PKill, PClose]"
    using local_close_plan(1) [OF assms(1) close] assms(2,4) by (simp add: close_plan_def)
  then show ?thesis by (simp add: close)
qed

text \<open>A timeout below a second is rounded to none.\<close>

lemma short_timeout_lost: "to_closeTimeout (withCloseTimeout 900000000 o') = 0"
  by (simp add: withCloseTimeout_def)

section \<open>The properties\<close>

text \<open>The states after the close signal and after the kill, on which the end of the shell depends.\<close>

definition local_polite :: "'s pty_ops \<Rightarrow> 's local_tty \<Rightarrow> 's" where
  "local_polite ops l = snd (po_signal ops (lt_closeSignal l) (lt_pty l))"

definition ssh_polite :: "ssh_tty \<Rightarrow> ssh_call list" where
  "ssh_polite s = st_calls s @ [SSignal (signalToSSH (st_closeSignal s))]"

text \<open>
  Property C37.  Both kinds of terminal close in the same way, as the comment of the local one says:
  with the same settings and a shell that ends at the same times, both send the close signal, kill
  exactly when the grace is over before the shell ended, release what they hold, and take the same
  time, which is at most the grace and two seconds.
\<close>

theorem terminals_close_alike:
  assumes open_both: "\<not> lt_closed l" "\<not> st_closed s"
    and same: "lt_exited l = st_exited s" "lt_closeTimeout l = st_closeTimeout s"
    and ends: "lends (local_polite ops l) = sends (ssh_polite s)"
      "lends (snd (po_kill ops (local_polite ops l))) = sends (ssh_polite s @ [SSignal ''KILL''])"
    and close: "local_close ops lends l = (e, l', n)" "ssh_close sys sends s = (e', s', n')"
  shows "\<exists>done. lt_calls l' = lt_calls l @ concat (map (local_calls (lt_closeSignal l)) (close_plan done))
      \<and> st_calls s' = st_calls s @ concat (map (ssh_calls (st_closeSignal s)) (close_plan done))
      \<and> (done \<longleftrightarrow> fst (await (st_exited s) (sends (ssh_polite s)) (st_closeTimeout s)))
      \<and> n = n' \<and> n \<le> max 0 (lt_closeTimeout l) + seconds 2"
proof -
  define w where "w = close_wait (st_exited s) (sends (ssh_polite s)) (st_closeTimeout s)
    (sends (ssh_polite s @ [SSignal ''KILL'']))"
  have l: "lt_calls l' = lt_calls l @ concat (map (local_calls (lt_closeSignal l)) (close_plan (fst w)))" "n = snd w"
    using local_close_plan(1,2) [OF open_both(1) close(1)] same ends by (simp_all add: w_def local_polite_def)
  have s: "st_calls s' = st_calls s @ concat (map (ssh_calls (st_closeSignal s)) (close_plan (fst w)))" "n' = snd w"
    using ssh_close_plan(1,2) [OF open_both(2) close(2)] by (simp_all add: w_def ssh_polite_def)
  have "fst w = fst (await (st_exited s) (sends (ssh_polite s)) (st_closeTimeout s))"
    by (simp add: w_def close_wait_def split: prod.splits)
  then show ?thesis using l s local_close_laws(3) [OF close(1)] by auto
qed

definition demo_unix :: "unix_pty pty_ops" where
  "demo_unix = unix_ops (\<lambda>_ _. None)"

definition demo_local :: "unix_pty local_tty" where
  "demo_local = \<lparr>lt_pty = \<lparr>up_calls = [], up_exited = False\<rparr>, lt_calls = [], lt_command = ''/bin/sh'', lt_args = [],
     lt_closeSignal = 1, lt_closeTimeout = seconds 3, lt_exited = False, lt_cols = 80, lt_rows = 24,
     lt_closed = False, lt_closeErr = None\<rparr>"

definition demo_ssh :: ssh_tty where
  "demo_ssh = \<lparr>st_host = zero_host, st_calls = [], st_closeSignal = 1, st_closeTimeout = seconds 3, st_exited = False,
     st_cols = 80, st_rows = 24, st_stopKA = False, st_closed = False, st_closeErr = None\<rparr>"

text \<open>A shell that ignores the close signal: both are killed after three seconds.\<close>

theorem terminals_close_alike_witness:
  "\<exists>l' s' n. local_close demo_unix (\<lambda>_. None) demo_local = (None, l', n)
     \<and> ssh_close (\<lambda>_ _. None) (\<lambda>_. None) demo_ssh = (None, s', n)
     \<and> lt_calls l' = [PSignal 1, PKill, PClose]
     \<and> st_calls s' = [SSignal ''HUP'', SSignal ''KILL'', SSessionClose, SConnClose]"
proof -
  obtain e l' n where l: "local_close demo_unix (\<lambda>_. None) demo_local = (e, l', n)" by (metis surj_pair)
  obtain e' s' n' where s: "ssh_close (\<lambda>_ _. None) (\<lambda>_. None) demo_ssh = (e', s', n')" by (metis surj_pair)
  have errs: "e = None" "e' = None"
    using l s by (auto simp: local_close_def ssh_close_def demo_local_def demo_ssh_def demo_unix_def unix_op_defs
        pty_do_def local_await_def ssh_await_def ssh_do_def await_def tty_error_of_def pty_result_def seconds_def)
  have "fst (await (st_exited demo_ssh) None (st_closeTimeout demo_ssh)) = False"
    by (simp add: await_def demo_ssh_def seconds_def)
  then have "lt_calls l' = lt_calls demo_local @ concat (map (local_calls 1) (close_plan False))
      \<and> st_calls s' = st_calls demo_ssh @ concat (map (ssh_calls 1) (close_plan False)) \<and> n = n'"
    using terminals_close_alike [OF _ _ _ _ _ _ l s] by (auto simp: demo_local_def demo_ssh_def)
  then show ?thesis using l s errs
    by (intro exI [of _ l'] exI [of _ s'] exI [of _ n])
       (simp add: close_plan_def demo_local_def demo_ssh_def signalToSSH_def)
qed

text \<open>
  A terminal of either kind shows, after any calls of the session, the size that was
  asked for last; sizes that are not positive ask for nothing.  Once it was closed, closing it again
  does nothing.
\<close>

lemma terminal_keeps_size:
  "local_size (fold (apply_call (local_write ops) (local_resize ops) (local_signal ops) (local_close ops lends)) cs l)
     = last_size cs (local_size l)
   \<and> ssh_size (fold (apply_call (ssh_write sys) (ssh_resize sys) (ssh_signal sys) (ssh_close sys sends)) cs s)
     = last_size cs (ssh_size s)
   \<and> local_close ops lends (fst (snd (local_close ops lends l)))
       = (fst (local_close ops lends l), fst (snd (local_close ops lends l)), 0)
   \<and> ssh_close sys sends (fst (snd (ssh_close sys sends s)))
       = (fst (ssh_close sys sends s), fst (snd (ssh_close sys sends s)), 0)"
proof -
  obtain e l' n where l: "local_close ops lends l = (e, l', n)" by (metis surj_pair)
  obtain e' s' n' where s: "ssh_close sys sends s = (e', s', n')" by (metis surj_pair)
  show ?thesis
    using local.close_again [OF l] ssh.close_again [OF s]
    by (simp add: local.size_after_calls ssh.size_after_calls l s)
qed

end
