(* ===== verification/Ws_Entry.thy ===== *)
theory Ws_Entry
  imports Session_Props Ws_Router Api Terminals
begin

text \<open>
  From a WebSocket request to an attached session: the gate and the two protocols of \<open>handleWS\<close>, the
  options and the window title an attach gets (\<open>ws_handler.go\<close>, \<open>server.go\<close>), and \<open>Session.Attach\<close> as a
  whole, when nobody interferes (\<open>Session_Steps\<close> has the interleavings).  The last section puts a
  session on a terminal of \<open>Terminals\<close>.
\<close>

section \<open>The window title\<close>

text \<open>The variables of a title template: strings, and under the name of each group the group.\<close>

datatype title_value = TStr string | TGroup "(string \<times> title_value) list"

type_synonym title_vars = "(string \<times> title_value) list"

text \<open>
  \<open>titleVariables\<close>: the groups merged in order, then each group under its own name.  \<open>None\<close> is the
  panic for a group that does not exist.
\<close>

fun merge_groups :: "string list \<Rightarrow> (string \<times> title_vars) list \<Rightarrow> title_vars \<Rightarrow> title_vars option" where
  "merge_groups [] units acc = Some acc"
| "merge_groups (n # ns) units acc =
     (case map_of units n of
        None \<Rightarrow> None
      | Some vars \<Rightarrow> merge_groups ns units (fold (\<lambda>(k, v). map_put k v) vars acc))"

definition titleVariables :: "string list \<Rightarrow> (string \<times> title_vars) list \<Rightarrow> title_vars option" where
  "titleVariables order units =
     map_option (fold (\<lambda>n. map_put n (TGroup (case map_of units n of Some g \<Rightarrow> g | None \<Rightarrow> []))) order)
       (merge_groups order units [])"

section \<open>The settings of an attach\<close>

record 'p ws_server =
  wv_token :: string
  wv_origin :: "(string \<Rightarrow> bool) option"
  wv_permitWrite :: bool
  wv_width :: int
  wv_height :: int
  wv_template :: "title_vars \<Rightarrow> bytes option"
  wv_titleVars :: title_vars
  wv_reconnect :: bool
  wv_reconnectTime :: int
  wv_prefs :: "'p option"
  wv_marshal :: "'p \<Rightarrow> bytes option"

definition attachWindowTitle :: "'p ws_server \<Rightarrow> 'm session \<Rightarrow> string \<Rightarrow> bytes" where
  "attachWindowTitle sv s remote =
     (case titleVariables [''server'', ''master'', ''session'']
             [(''server'', wv_titleVars sv),
              (''master'', [(''remote_addr'', TStr remote)]),
              (''session'', [(''id'', TStr (s_id s)), (''name'', TStr (cs_name (s_spec s))),
                             (''addr'', TStr (cs_addr (s_spec s))), (''user'', TStr (cs_user (s_spec s))),
                             (''host'', TStr (cs_name (s_spec s)))])] of
        None \<Rightarrow> []
      | Some vars \<Rightarrow> (case wv_template sv vars of None \<Rightarrow> [] | Some b \<Rightarrow> b))"

definition attachOptions :: "'p ws_server \<Rightarrow> 'm session \<Rightarrow> string \<Rightarrow> attach_options" where
  "attachOptions sv s remote =
     \<lparr>ao_permitWrite = wv_permitWrite sv, ao_fixedCols = wv_width sv, ao_fixedRows = wv_height sv,
      ao_windowTitle = attachWindowTitle sv s remote,
      ao_reconnectSeconds = reconnectSeconds (wv_reconnect sv) (wv_reconnectTime sv),
      ao_preferences = preferencesJSON (wv_marshal sv) (wv_prefs sv)\<rparr>"

section \<open>The gate\<close>

record ws_request =
  wr_token :: token_request
  wr_origin :: string
  wr_remote :: string
  wr_session :: string
  wr_accepted :: bool

datatype ws_outcome = WsUnauthorized | WsForbidden | WsRefused | WsSingle string | WsMultiplexed

text \<open>
  The route \<open>GET /ws\<close>: the token, then in \<open>handleWS\<close> the origin, the handshake and the choice of the
  protocol.
\<close>

definition handleWS :: "'p ws_server \<Rightarrow> ws_request \<Rightarrow> ws_outcome" where
  "handleWS sv r =
     (if \<not> (case wv_origin sv of None \<Rightarrow> True | Some ok \<Rightarrow> ok (wr_origin r)) then WsForbidden
      else if \<not> wr_accepted r then WsRefused
      else if wr_session r \<noteq> '''' then WsSingle (wr_session r)
      else WsMultiplexed)"

definition ws_route :: "'p ws_server \<Rightarrow> ws_request \<Rightarrow> ws_outcome" where
  "ws_route sv r = (if requireToken (wv_token sv) (wr_token r) then handleWS sv r else WsUnauthorized)"

section \<open>Attach as a whole\<close>

text \<open>
  \<open>Session.Attach\<close>: its two critical sections around the bridge.  The result has the connection that
  was evicted, which is closed before the bridge begins.
\<close>

definition session_attach ::
  "int \<Rightarrow> int \<Rightarrow> conn_id \<Rightarrow> term_oracle \<Rightarrow> conn_oracle \<Rightarrow> 'm mirror_ops \<Rightarrow> json_parser \<Rightarrow> attach_options
     \<Rightarrow> relay_input list \<Rightarrow> bridge_end \<Rightarrow> 'm session \<Rightarrow> term_log \<Rightarrow> conn_log
     \<Rightarrow> sess_error option \<times> conn_id option \<times> 'm session \<times> term_log \<times> conn_log" where
  "session_attach now now' c tok cok mo unmarshal opts ins fin s tlog clog =
     (case attach_begin now c s of
        Inl e \<Rightarrow> (Some e, None, s, tlog, clog)
      | Inr (myEpoch, old, s1) \<Rightarrow>
          (case session_bridge tok cok mo unmarshal opts ins fin s1 tlog clog of
             (err, s2, tlog2, clog2) \<Rightarrow>
               (case attach_end now' myEpoch c err s2 of
                  (err', s3) \<Rightarrow> (err', old, s3, tlog2, clog2))))"

text \<open>
  \<open>handleWSSingle\<close>: the session is looked up; if it does not exist the socket is closed with the
  status 1008, otherwise it is attached, and the reason of the end is logged.
\<close>

datatype single_end = NoSession int string | SingleEnd string

definition statusPolicyViolation :: int where "statusPolicyViolation = 1008"

text \<open>The status of \<open>wsConn.Close\<close>, by which a preempted client learns of it.\<close>

definition statusTryAgainLater :: int where "statusTryAgainLater = 1013"

definition preempted_close :: "int \<times> string" where
  "preempted_close = (statusTryAgainLater, ''session preempted by another client'')"

definition handleWSSingle ::
  "'p ws_server \<Rightarrow> int \<Rightarrow> int \<Rightarrow> conn_id \<Rightarrow> term_oracle \<Rightarrow> conn_oracle \<Rightarrow> 'm mirror_ops \<Rightarrow> json_parser
     \<Rightarrow> relay_input list \<Rightarrow> bridge_end \<Rightarrow> string \<Rightarrow> string \<Rightarrow> ('m, 't, 's) manager
     \<Rightarrow> single_end \<times> conn_id option \<times> ('m, 't, 's) manager \<times> conn_log" where
  "handleWSSingle sv now now' c tok cok mo unmarshal ins fin remote sid m =
     (case mgr_get sid m of
        Inl _ \<Rightarrow> (NoSession statusPolicyViolation ''session not found'', None, m, [])
      | Inr e \<Rightarrow>
          (case session_attach now now' c tok cok mo unmarshal (attachOptions sv (en_sess e) remote) ins fin
                  (en_sess e) (en_log e) [] of
             (err, old, s, tlog, clog) \<Rightarrow>
               (SingleEnd (close_reason err), old,
                m\<lparr>mg_sessions := map_put sid (e\<lparr>en_sess := s, en_log := tlog\<rparr>) (mg_sessions m)\<rparr>, clog)))"

section \<open>What the entry does\<close>

lemma map_of_fold_put:
  "distinct (map fst vars) \<Longrightarrow> map_of (fold (\<lambda>(k, v). map_put k v) vars acc) k
     = (case map_of vars k of Some v \<Rightarrow> Some v | None \<Rightarrow> map_of acc k)"
proof (induction vars arbitrary: acc)
  case (Cons p vars)
  obtain a b where p: "p = (a, b)" by (cases p)
  then have "map_of vars a = None" using Cons.prems by (simp add: map_of_eq_None_iff)
  then show ?case using Cons p by (simp split: option.splits)
qed simp

text \<open>A name that is no group has the value of the last group that has it; a group's name is the group.\<close>

fun last_value :: "string list \<Rightarrow> (string \<times> title_vars) list \<Rightarrow> string \<Rightarrow> title_value option \<Rightarrow> title_value option" where
  "last_value [] units k acc = acc"
| "last_value (n # ns) units k acc =
     last_value ns units k
       (case map_of units n of None \<Rightarrow> acc
        | Some vars \<Rightarrow> (case map_of vars k of Some v \<Rightarrow> Some v | None \<Rightarrow> acc))"

lemma merge_groups_lookup:
  assumes "\<forall>vars \<in> snd ` set units. distinct (map fst vars)" "merge_groups order units acc = Some r"
  shows "map_of r k = last_value order units k (map_of acc k)"
  using assms(2)
proof (induction order arbitrary: acc)
  case (Cons n ns)
  then obtain vars where vars: "map_of units n = Some vars" by (auto split: option.splits)
  then have "distinct (map fst vars)" using assms(1) by (force dest: map_of_SomeD)
  then show ?case using Cons vars by (simp add: map_of_fold_put)
qed simp

lemma map_of_fold_groups:
  "map_of (fold (\<lambda>n. map_put n (g n)) order acc) k = (if k \<in> set order then Some (g k) else map_of acc k)"
  by (induction order arbitrary: acc) auto

lemma titleVariables_lookup:
  assumes "\<forall>vars \<in> snd ` set units. distinct (map fst vars)" "titleVariables order units = Some r"
  shows "map_of r k = (if k \<in> set order
     then Some (TGroup (case map_of units k of Some g \<Rightarrow> g | None \<Rightarrow> []))
     else last_value order units k None)"
proof -
  obtain m where m: "merge_groups order units [] = Some m"
    "r = fold (\<lambda>n. map_put n (TGroup (case map_of units n of Some g \<Rightarrow> g | None \<Rightarrow> []))) order m"
    using assms(2) by (auto simp: titleVariables_def)
  then show ?thesis using merge_groups_lookup [OF assms(1) m(1), of k] by (simp add: map_of_fold_groups)
qed

text \<open>The relay leaves alone what decides who owns the session.\<close>

definition ownership :: "'m session \<Rightarrow> state \<times> nat \<times> conn_id option" where
  "ownership s = (s_state s, s_epoch s, s_conn s)"

lemma dispatch_ownership:
  "ownership (re_session (snd (dispatch tok cok mo unmarshal opts m r))) = ownership (re_session r)"
  by (auto simp: dispatch_def relay_resize_def syncMirrorSize_def ownership_def term_do_def conn_write_def Let_def
      split: sum.splits)

lemma masterToSlave_ownership:
  "ownership (re_session (snd (masterToSlave tok cok mo unmarshal opts ins r))) = ownership (re_session r)"
proof (induction tok cok mo unmarshal opts ins r rule: masterToSlave.induct)
  case (4 tok cok mo unmarshal opts message ins r)
  then show ?case
    using dispatch_ownership [of tok cok mo unmarshal opts _ r]
    by (auto split: sum.splits prod.splits option.splits) (metis snd_conv)+
qed auto

lemma session_bridge_ownership:
  assumes "session_bridge tok cok mo unmarshal opts ins fin s tlog clog = (err, s', tlog', clog')"
  shows "ownership s' = ownership s"
proof -
  obtain e1 s1 tl cl where h: "bridge_handshake tok cok opts s tlog clog = (e1, s1, tl, cl)" by (metis prod_cases4)
  have "ownership s1 = ownership s"
    using h by (auto simp: bridge_handshake_def take_snapshot_def ownership_def split: prod.splits if_splits)
  then show ?thesis
    using assms h masterToSlave_ownership
      [of tok cok mo unmarshal opts ins "\<lparr>re_session = s1, re_term = tl, re_conn = cl, re_firstResize = True\<rparr>"]
    by (auto simp: session_bridge_def split: option.splits prod.splits)
qed

text \<open>
  An attach that nobody interferes with: it evicts the connection before it, owns the session under
  a new epoch, returns what ended the bridge and leaves the session idle without a connection.
\<close>

lemma attach_uninterrupted:
  assumes "s_state s \<noteq> StateDestroyed"
    and "session_attach now now' c tok cok mo unmarshal opts ins fin s tlog clog = (err, old, s', tlog', clog')"
  shows "old = s_conn s \<and> ownership s' = (StateIdle, s_epoch s + 1, None) \<and> s_touched s' = now' \<and> err \<noteq> None"
proof -
  define s1 where "s1 = s\<lparr>s_epoch := s_epoch s + 1, s_conn := Some c, s_state := StateRunning, s_touched := now\<rparr>"
  obtain e2 s2 tl cl where b: "session_bridge tok cok mo unmarshal opts ins fin s1 tlog clog = (e2, s2, tl, cl)"
    by (metis prod_cases4)
  have own: "ownership s2 = (StateRunning, s_epoch s + 1, Some c)"
    using session_bridge_ownership [OF b] by (simp add: ownership_def s1_def)
  have "e2 \<noteq> None"
    using b by (auto simp: session_bridge_def split: prod.splits option.splits bridge_end.splits)
  then show ?thesis
    using assms b own
    by (auto simp: session_attach_def attach_begin_def attach_end_def s1_def ownership_def Let_def)
qed

section \<open>A session on its terminal\<close>

text \<open>The size the session has on record.\<close>

definition recorded_size :: "'m session \<Rightarrow> int \<times> int" where
  "recorded_size s = (s_lastCols s, s_lastRows s)"

lemma last_size_append [simp]: "last_size (cs @ ds) sz = last_size ds (last_size cs sz)"
  by (induction cs sz rule: last_size.induct) simp_all

definition accepts_resizes :: "term_oracle \<Rightarrow> bool" where
  "accepts_resizes tok \<longleftrightarrow> (\<forall>l c r. tok l (TResize c r))"

lemma jitter_size:
  assumes "accepts_resizes tok" "1 < c" "1 < d"
  shows "\<exists>cs. jitter tok c d l = l @ cs \<and> last_size cs sz = (c, d)"
  using assms by (simp add: jitter_def term_do_def accepts_resizes_def)

lemma dispatch_size:
  assumes "accepts_resizes tok"
  shows "\<exists>cs. re_term (snd (dispatch tok cok mo unmarshal opts m r)) = re_term r @ cs
     \<and> last_size cs (recorded_size (re_session r))
       = recorded_size (re_session (snd (dispatch tok cok mo unmarshal opts m r)))"
proof -
  have "\<exists>cs. re_term (snd (relay_resize tok mo c d r)) = re_term r @ cs
     \<and> last_size cs (recorded_size (re_session r)) = recorded_size (re_session (snd (relay_resize tok mo c d r)))"
    if "2 \<le> c" "2 \<le> d" for c d
    using assms that jitter_size [OF assms, of c d "re_term r @ [TResize c d]" "(c, d)"]
    by (auto simp: relay_resize_def term_do_def Let_def recorded_size_def accepts_resizes_def syncMirrorSize_def)
  then show ?thesis
    by (auto simp: dispatch_def term_do_def conn_write_def not_less recorded_size_def split: sum.splits)
qed

lemma masterToSlave_size:
  assumes "accepts_resizes tok"
  shows "\<exists>cs. re_term (snd (masterToSlave tok cok mo unmarshal opts ins r)) = re_term r @ cs
     \<and> last_size cs (recorded_size (re_session r))
       = recorded_size (re_session (snd (masterToSlave tok cok mo unmarshal opts ins r)))"
  using assms
proof (induction tok cok mo unmarshal opts ins r rule: masterToSlave.induct)
  case (4 tok cok mo unmarshal opts message ins r)
  show ?case
  proof (cases "message = []")
    case True
    then show ?thesis using 4 by simp
  next
    case False
    show ?thesis
    proof (cases "decodeClientFrame message")
      case (Inl e)
      then show ?thesis using False by simp
    next
      case (Inr m)
      obtain e r1 where d: "dispatch tok cok mo unmarshal opts m r = (e, r1)" by (metis surj_pair)
      obtain cs where cs: "re_term r1 = re_term r @ cs"
        "last_size cs (recorded_size (re_session r)) = recorded_size (re_session r1)"
        using dispatch_size [OF 4(3), of cok mo unmarshal opts m r] d by auto
      show ?thesis
      proof (cases e)
        case None
        then obtain ds where "re_term (snd (masterToSlave tok cok mo unmarshal opts ins r1)) = re_term r1 @ ds"
          "last_size ds (recorded_size (re_session r1))
             = recorded_size (re_session (snd (masterToSlave tok cok mo unmarshal opts ins r1)))"
          using 4(2) [OF False Inr] d 4(3) by auto
        then show ?thesis using False Inr d None cs by (intro exI [of _ "cs @ ds"]) simp
      next
        case (Some e')
        then show ?thesis using False Inr d cs by (intro exI [of _ cs]) simp
      qed
    qed
  qed
qed (auto intro: exI [of _ "[]"])

lemma handshake_size:
  assumes "accepts_resizes tok" "bridge_handshake tok cok opts s l clog = (e, s', l', clog')"
  shows "recorded_size s' = recorded_size s \<and> (\<exists>cs. l' = l @ cs \<and> last_size cs (recorded_size s) = recorded_size s)"
proof -
  have "\<exists>cs. jitterSize tok s1 l = l @ cs \<and> last_size cs (recorded_size s) = recorded_size s"
    if "recorded_size s1 = recorded_size s" for s1
    using that jitter_size [OF assms(1), of "s_lastCols s1" "s_lastRows s1" l "recorded_size s"]
    by (auto simp: jitterSize_def recorded_size_def intro: exI [of _ "[]"])
  moreover have "recorded_size (snd (take_snapshot s)) = recorded_size s"
    by (simp add: take_snapshot_def recorded_size_def)
  ultimately show ?thesis
    using assms(2) by (auto simp: bridge_handshake_def split: prod.splits if_splits intro: exI [of _ "[]"])
qed

lemma bridge_size:
  assumes "accepts_resizes tok"
    "session_bridge tok cok mo unmarshal opts ins fin s l clog = (err, s', l', clog')"
  shows "\<exists>cs. l' = l @ cs \<and> last_size cs (recorded_size s) = recorded_size s'"
proof -
  obtain e1 s1 l1 cl1 where h: "bridge_handshake tok cok opts s l clog = (e1, s1, l1, cl1)" by (metis prod_cases4)
  then obtain cs where cs: "l1 = l @ cs" "last_size cs (recorded_size s) = recorded_size s"
    "recorded_size s1 = recorded_size s"
    using handshake_size [OF assms(1) h] by auto
  show ?thesis
  proof (cases e1)
    case (Some e)
    then show ?thesis using assms(2) h cs by (auto simp: session_bridge_def)
  next
    case None
    define r where "r = \<lparr>re_session = s1, re_term = l1, re_conn = cl1, re_firstResize = True\<rparr>"
    obtain e2 r2 where m: "masterToSlave tok cok mo unmarshal opts ins r = (e2, r2)" by (metis surj_pair)
    have "l' = re_term r2" "s' = re_session r2"
      using assms(2) h None m by (auto simp: session_bridge_def r_def)
    moreover obtain ds where "re_term r2 = l1 @ ds" "last_size ds (recorded_size s1) = recorded_size (re_session r2)"
      using masterToSlave_size [OF assms(1), of cok mo unmarshal opts ins r] m by (auto simp: r_def)
    ultimately show ?thesis using cs by (intro exI [of _ "cs @ ds"]) simp
  qed
qed


text \<open>
  \<open>Session.Resize\<close>, the resize of the interface for programs, does not record its size: the
  comment on \<open>lastCols\<close> calls it the most recent successful resize.  An attach that replays output
  then sets the terminal back, while the mirror keeps the new size.
\<close>

lemma api_resize_undone_by_attach:
  fixes mo :: "'m mirror_ops"
  assumes "accepts_resizes tok" "s_lastCols s = 80" "s_lastRows s = 24"
    "session_resize tok mo 100 30 s [] = (None, s1, l1)"
  shows "last_size l1 (80, 24) = (100, 30)
     \<and> last_size (l1 @ drop (length l1) (jitterSize tok s1 l1)) (80, 24) = (80, 24)
     \<and> s_mirror s1 = map_option (mo_resize mo 100 30) (s_mirror s)"
  using assms
  by (auto simp: session_resize_def term_do_def syncMirrorSize_def jitterSize_def jitter_def accepts_resizes_def)

text \<open>A session of 80 columns that a client resizes to 100 columns and 30 rows.\<close>

definition demo_sized :: "unit session" where
  "demo_sized = (new_session ''s'' \<lparr>cs_hostID = '''', cs_name = '''', cs_addr = '''', cs_user = ''''\<rparr> None True 0)
     \<lparr>s_lastCols := 80, s_lastRows := 24\<rparr>"

definition demo_sized_opts :: attach_options where
  "demo_sized_opts = \<lparr>ao_permitWrite = True, ao_fixedCols = 0, ao_fixedRows = 0, ao_windowTitle = [],
     ao_reconnectSeconds = 0, ao_preferences = []\<rparr>"

definition demo_mirror_ops :: "unit mirror_ops" where
  "demo_mirror_ops = \<lparr>mo_write = (\<lambda>_ m. m), mo_resize = (\<lambda>_ _ m. m), mo_drain = (\<lambda>m. ([], m)), mo_text = (\<lambda>_. '''')\<rparr>"

definition demo_resize_json :: json_parser where
  "demo_resize_json = (\<lambda>_. Some (JObj [(''columns'', JNum 100), (''rows'', JNum 30)]))"


end
