(* ===== verification/Desktop.thy ===== *)
theory Desktop
  imports Server_Run Local_Shell
begin

text \<open>
  The desktop form, \<open>gossh app\<close>: \<open>internal/desktop\<close> (the lock that makes it a single instance, starting
  at login, the loop of the tray menu) on Linux and Windows, and \<open>runApp\<close> of \<open>cmd/app.go\<close>, which puts
  them around the server.  Opening a browser and drawing the tray are calls to the outside; they
  appear as effects.
\<close>

section \<open>Paths\<close>

definition desktopHome :: "string option \<Rightarrow> string" where
  "desktopHome home = (case home of None \<Rightarrow> ''/tmp/gossh-desktop''
     | Some h \<Rightarrow> if h = '''' then ''/tmp/gossh-desktop'' else h @ ''/.gossh'')"

definition desktopLockPath :: "string option \<Rightarrow> string" where
  "desktopLockPath home = desktopHome home @ ''/app.lock''"

definition sanitizeMutexUser :: "string \<Rightarrow> string" where
  "sanitizeMutexUser user =
     (let u = map (\<lambda>c. if c = bslash \<or> c = CHR ''/'' then CHR ''_'' else c) user
      in if u = '''' then ''default'' else u)"

definition mutexName :: "(string \<Rightarrow> string) \<Rightarrow> string" where
  "mutexName getenv = ''Local'' @ [bslash] @ ''gossh-app-'' @ sanitizeMutexUser (getenv ''USERNAME'')"

section \<open>The lock of the single instance\<close>

text \<open>
  What the system knows of the lock: the instances that hold the \<open>flock\<close>, or that have a handle of the
  named mutex open.  \<open>Inr True\<close> is a lock that is held.
\<close>

type_synonym lock_state = "nat list"

record lock_env =
  le_mkdir :: "string option"
  le_open :: "string option"
  le_flock :: "string option"

definition tryLock_linux :: "lock_env \<Rightarrow> nat \<Rightarrow> lock_state \<Rightarrow> (string + bool) \<times> lock_state" where
  "tryLock_linux e i ls =
     (case le_mkdir e of
        Some err \<Rightarrow> (Inl (''failed to create lock directory: '' @ err), ls)
      | None \<Rightarrow>
          (case le_open e of
             Some err \<Rightarrow> (Inl (''failed to open lock file: '' @ err), ls)
           | None \<Rightarrow>
               (case le_flock e of
                  Some err \<Rightarrow> (Inl (''failed to lock: '' @ err), ls)
                | None \<Rightarrow> if ls \<noteq> [] then (Inr False, ls) else (Inr True, i # ls))))"

text \<open>
  \<open>CreateMutex\<close> gives a handle in either case; when the mutex existed the second handle is closed.
\<close>

definition tryLock_windows :: "string option \<Rightarrow> nat \<Rightarrow> lock_state \<Rightarrow> (string + bool) \<times> lock_state" where
  "tryLock_windows create i ls =
     (case create of
        Some err \<Rightarrow> (Inl (''failed to create single-instance mutex: '' @ err), ls)
      | None \<Rightarrow>
          let existed = (ls \<noteq> []); ls' = i # ls
          in if existed then (Inr False, remove1 i ls') else (Inr True, ls'))"

text \<open>The release function, and the end of a process: the system drops what it held.\<close>

definition lock_release :: "nat \<Rightarrow> lock_state \<Rightarrow> lock_state" where
  "lock_release i ls = filter (\<lambda>j. j \<noteq> i) ls"

text \<open>A history of attempts and releases, with the instances that believe they hold the lock.\<close>

datatype lock_event = LockTry nat | LockRelease nat

fun lock_run ::
  "(nat \<Rightarrow> lock_state \<Rightarrow> (string + bool) \<times> lock_state) \<Rightarrow> lock_event list \<Rightarrow> lock_state \<times> nat list
     \<Rightarrow> lock_state \<times> nat list" where
  "lock_run attempt [] (ls, held) = (ls, held)"
| "lock_run attempt (LockTry i # es) (ls, held) =
     (case attempt i ls of
        (Inr True, ls') \<Rightarrow> lock_run attempt es (ls', i # held)
      | (_, ls') \<Rightarrow> lock_run attempt es (ls', held))"
| "lock_run attempt (LockRelease i # es) (ls, held) =
     lock_run attempt es (lock_release i ls, filter (\<lambda>j. j \<noteq> i) held)"

locale single_lock =
  fixes attempt :: "nat \<Rightarrow> lock_state \<Rightarrow> (string + bool) \<times> lock_state"
  assumes held_alone: "attempt i ls = (Inr True, ls') \<Longrightarrow> ls = [] \<and> ls' = [i]"
    and not_held_same: "attempt i ls = (r, ls') \<Longrightarrow> r \<noteq> Inr True \<Longrightarrow> ls' = ls"
begin

lemma one_holder:
  "length ls \<le> 1 \<Longrightarrow> lock_run attempt es (ls, ls) = (ls', held') \<Longrightarrow> held' = ls' \<and> length ls' \<le> 1"
proof (induction es arbitrary: ls)
  case (Cons e es)
  show ?case
  proof (cases e)
    case (LockTry i)
    obtain r ls1 where att: "attempt i ls = (r, ls1)" by (metis surj_pair)
    show ?thesis
    proof (cases "r = Inr True")
      case True
      then show ?thesis using Cons LockTry att held_alone [of i ls ls1] Cons.IH [of "[i]"] by simp
    next
      case False
      then have "lock_run attempt es (ls, ls) = (ls', held')"
        using Cons(3) LockTry att not_held_same [OF att] by (auto split: sum.splits bool.splits)
      then show ?thesis using Cons by blast
    qed
  next
    case (LockRelease i)
    have "length (lock_release i ls) \<le> 1"
      unfolding lock_release_def using Cons(2) by (rule le_trans [OF length_filter_le])
    then show ?thesis using Cons LockRelease by (simp add: lock_release_def)
  qed
qed simp

end

interpretation flock: single_lock "tryLock_linux e"
  by unfold_locales (auto simp: tryLock_linux_def split: option.splits if_splits)

interpretation mutex: single_lock "tryLock_windows create"
  by unfold_locales (auto simp: tryLock_windows_def Let_def split: option.splits if_splits)

section \<open>Starting at login\<close>

text \<open>On Linux the autostart entry is a file under the home directory.\<close>

definition autostartPath :: "string option \<Rightarrow> string" where
  "autostartPath home =
     (case home of
        None \<Rightarrow> ''''
      | Some h \<Rightarrow> if h = '''' then '''' else path_join [h, ''.config'', ''autostart'', ''gossh.desktop''])"

text \<open>\<open>execLine\<close>: an AppImage names itself, otherwise \<open>os.Executable\<close>.\<close>

definition execLine :: "string \<Rightarrow> string + string \<Rightarrow> string + string" where
  "execLine appImage executable = (if appImage \<noteq> '''' then Inr appImage else executable)"

definition escape_quotes :: "string \<Rightarrow> string" where
  "escape_quotes s = concat (map (\<lambda>c. if c = CHR 0x22 then [bslash, CHR 0x22] else [c]) s)"

definition quoted :: "string \<Rightarrow> string" where
  "quoted s = [CHR 0x22] @ escape_quotes s @ [CHR 0x22]"

definition desktop_entry :: "string \<Rightarrow> string" where
  "desktop_entry exec =
     (let nl = [CHR 0x0A]
      in ''[Desktop Entry]'' @ nl @ ''Type=Application'' @ nl @ ''Name=GoSSH'' @ nl
         @ ''Comment=SSH client with a browser UI'' @ nl
         @ ''Exec='' @ quoted exec @ '' app --no-browser'' @ nl
         @ ''Terminal=false'' @ nl @ ''X-GNOME-Autostart-enabled=true'' @ nl)"

record autostart_env =
  as_home :: "string option"
  as_appImage :: string
  as_executable :: "string + string"
  as_remove :: "string option"
  as_mkdir :: "string option"
  as_write :: "string option"

text \<open>A write that fails may have made the file: it leaves the empty file here.\<close>

definition isAutostart_linux :: "autostart_env \<Rightarrow> disk \<Rightarrow> bool" where
  "isAutostart_linux e d = (autostartPath (as_home e) \<noteq> '''' \<and> d (autostartPath (as_home e)) \<noteq> None)"

definition setAutostart_linux :: "autostart_env \<Rightarrow> bool \<Rightarrow> disk \<Rightarrow> string option \<times> disk" where
  "setAutostart_linux e enabled d =
     (let p = autostartPath (as_home e)
      in if p = '''' then (Some ''cannot resolve the user home directory'', d)
         else if \<not> enabled then
           (case as_remove e of
              Some err \<Rightarrow> if d p = None then (None, d) else (Some (''failed to remove autostart entry: '' @ err), d)
            | None \<Rightarrow> (None, d(p := None)))
         else case execLine (as_appImage e) (as_executable e) of
                Inl err \<Rightarrow> (Some (''failed to resolve the executable path: '' @ err), d)
              | Inr exec \<Rightarrow>
                  (case as_mkdir e of
                     Some err \<Rightarrow> (Some (''failed to create autostart directory: '' @ err), d)
                   | None \<Rightarrow>
                       (case as_write e of
                          Some err \<Rightarrow> (Some (''failed to write autostart entry: '' @ err), d(p \<mapsto> ''''))
                        | None \<Rightarrow> (None, d(p \<mapsto> desktop_entry exec)))))"

text \<open>On Windows it is a value of a registry key: \<open>rg_key\<close> is the failure to open the key.\<close>

type_synonym registry = "string option"

record registry_env =
  rg_open :: "string option"
  rg_key :: "string option"
  rg_delete :: "string option"
  rg_executable :: "string + string"
  rg_set :: "string option"

definition isAutostart_windows :: "registry_env \<Rightarrow> registry \<Rightarrow> bool" where
  "isAutostart_windows e k = (rg_open e = None \<and> k \<noteq> None)"

definition setAutostart_windows :: "registry_env \<Rightarrow> bool \<Rightarrow> registry \<Rightarrow> string option \<times> registry" where
  "setAutostart_windows e enabled k =
     (case rg_key e of
        Some err \<Rightarrow> (Some (''failed to open autostart registry key: '' @ err), k)
      | None \<Rightarrow>
          if \<not> enabled then
            (if k = None then (None, k)
             else case rg_delete e of
                    Some err \<Rightarrow> (Some (''failed to remove autostart value: '' @ err), k)
                  | None \<Rightarrow> (None, None))
          else case rg_executable e of
                 Inl err \<Rightarrow> (Some (''failed to resolve the executable path: '' @ err), k)
               | Inr exe \<Rightarrow>
                   (case rg_set e of
                      Some err \<Rightarrow> (Some (''failed to write autostart value: '' @ err), k)
                    | None \<Rightarrow> (None, Some (quoted exe @ '' app --no-browser''))))"

section \<open>The tray\<close>

text \<open>
  The loop of \<open>RunTray\<close>, over the clicks and the end of the server.  The effects: the browser opened,
  the server stopped, the tray closed.  After the menu item "quit" the loop goes on until the server
  has ended.
\<close>

datatype tray_event = TrayOpen | TrayAutostart | TrayQuit | TrayServerEnded

datatype tray_effect = OpenBrowser string | StopServer | QuitTray

record 's tray =
  ty_checked :: bool
  ty_system :: 's
  ty_effects :: "tray_effect list"

fun tray_loop ::
  "string \<Rightarrow> (bool \<Rightarrow> 's \<Rightarrow> string option \<times> 's) \<Rightarrow> tray_event list \<Rightarrow> 's tray \<Rightarrow> 's tray" where
  "tray_loop url change [] t = t"
| "tray_loop url change (TrayOpen # es) t =
     tray_loop url change es (t\<lparr>ty_effects := ty_effects t @ [OpenBrowser url]\<rparr>)"
| "tray_loop url change (TrayAutostart # es) t =
     (let next = \<not> ty_checked t
      in case change next (ty_system t) of
           (Some err, s) \<Rightarrow> tray_loop url change es (t\<lparr>ty_system := s\<rparr>)
         | (None, s) \<Rightarrow> tray_loop url change es (t\<lparr>ty_system := s, ty_checked := next\<rparr>))"
| "tray_loop url change (TrayQuit # es) t =
     tray_loop url change es (t\<lparr>ty_effects := ty_effects t @ [StopServer, QuitTray]\<rparr>)"
| "tray_loop url change (TrayServerEnded # es) t = t\<lparr>ty_effects := ty_effects t @ [QuitTray]\<rparr>"

text \<open>What the menu relies on: a change that succeeds is what the system shows afterwards.\<close>

locale autostart_switch =
  fixes shown :: "'s \<Rightarrow> bool" and change :: "bool \<Rightarrow> 's \<Rightarrow> string option \<times> 's"
  assumes change_shown: "change b s = (None, s') \<Longrightarrow> shown s' = b"
begin

lemma checkbox_follows:
  assumes "ty_checked t = shown (ty_system t)" "\<And>b s. fst (change b s) = None"
  shows "ty_checked (tray_loop url change es t) = shown (ty_system (tray_loop url change es t))"
  using assms(1)
proof (induction es arbitrary: t)
  case (Cons e es)
  show ?case
  proof (cases e)
    case TrayAutostart
    obtain r s' where ch: "change (\<not> ty_checked t) (ty_system t) = (r, s')" by (metis surj_pair)
    then have "r = None" using assms(2) by (metis fst_conv)
    then have "shown s' = (\<not> ty_checked t)" using ch change_shown by blast
    then show ?thesis using Cons ch TrayAutostart \<open>r = None\<close> by (simp add: Let_def)
  qed (use Cons in simp_all)
qed simp

end

interpretation linux_autostart: autostart_switch "isAutostart_linux e" "setAutostart_linux e"
  by unfold_locales
     (auto simp: isAutostart_linux_def setAutostart_linux_def Let_def split: if_splits option.splits sum.splits)

interpretation windows_autostart: autostart_switch "isAutostart_windows (e\<lparr>rg_open := None\<rparr>)" "setAutostart_windows e"
  by unfold_locales
     (auto simp: isAutostart_windows_def setAutostart_windows_def split: if_splits option.splits sum.splits)

text \<open>A write that fails leaves an entry that the system shows, while the menu does not.\<close>

lemma failed_autostart_shown:
  assumes "autostartPath (as_home e) = p" "p \<noteq> []" "as_mkdir e = None" "as_write e = Some err"
    "execLine (as_appImage e) (as_executable e) = Inr exec" "d p = None"
  shows "\<not> isAutostart_linux e d \<and> fst (setAutostart_linux e True d) \<noteq> None
    \<and> isAutostart_linux e (snd (setAutostart_linux e True d))"
  using assms by (simp add: isAutostart_linux_def setAutostart_linux_def Let_def)

section \<open>The command\<close>

text \<open>
  \<open>runApp\<close> as a function of what its parts return: the lock, the address for a second instance, the
  assembly of the server, whichever of the address and the end of \<open>Run\<close> comes first, the browser,
  the tray and the result of \<open>Run\<close>.  \<open>AppUnlock\<close> and \<open>AppCancel\<close> are its deferred calls.
\<close>

datatype app_effect = AppBrowser string | AppTray string | AppCancel | AppUnlock

datatype app_error = AppFailed string | AppRun run_error

record app_env =
  ap_lock :: "string + bool"
  ap_noBrowser :: bool
  ap_secondURL :: "string + string"
  ap_assemble :: "string option"
  ap_ready :: "run_error option + string"
  ap_tray :: "string option"
  ap_result :: "run_error option"

definition runApp :: "app_env \<Rightarrow> app_effect list \<times> app_error option" where
  "runApp e =
     (case ap_lock e of
        Inl err \<Rightarrow> ([], Some (AppFailed err))
      | Inr held \<Rightarrow>
          if \<not> held then
            ((if \<not> ap_noBrowser e then (case ap_secondURL e of Inr u \<Rightarrow> [AppBrowser u] | Inl _ \<Rightarrow> []) else []), None)
          else
          (case ap_assemble e of
             Some err \<Rightarrow> ([AppUnlock], Some (AppFailed err))
           | None \<Rightarrow>
               (case ap_ready e of
                  Inl r \<Rightarrow> ([AppCancel, AppUnlock], map_option AppRun r)
                | Inr url \<Rightarrow>
                    let begun = (if \<not> ap_noBrowser e then [AppBrowser url] else []) @ [AppTray url]
                    in (case ap_tray e of
                          Some err \<Rightarrow> (begun @ [AppCancel, AppUnlock], Some (AppFailed err))
                        | None \<Rightarrow> (begun @ [AppCancel, AppUnlock],
                            map_option AppRun (runServe_result (ap_result e)))))))"

lemma app_releases_lock:
  "ap_lock e = Inr True \<Longrightarrow> last (fst (runApp e)) = AppUnlock"
  by (auto simp: runApp_def Let_def split: sum.splits option.splits)

section \<open>The property\<close>

text \<open>
  There is one desktop instance: whatever sequence of starts and ends happens, at
  most one instance holds the lock, on Linux and on Windows, and exactly that one holds the lock of the
  system.  An instance without the lock starts no server and no tray.
\<close>

lemma single_desktop_instance:
  "(case lock_run (tryLock_linux le) es ([], []) of (ls, held) \<Rightarrow> held = ls \<and> length held \<le> 1)
   \<and> (case lock_run (tryLock_windows create) es ([], []) of (ls, held) \<Rightarrow> held = ls \<and> length held \<le> 1)
   \<and> (if ap_lock e = Inr True then last (fst (runApp e)) = AppUnlock
      else set (fst (runApp e)) \<subseteq> range AppBrowser)"
proof (intro conjI)
  obtain ls held where "lock_run (tryLock_linux le) es ([], []) = (ls, held)" by (metis surj_pair)
  then show "case lock_run (tryLock_linux le) es ([], []) of (ls, held) \<Rightarrow> held = ls \<and> length held \<le> 1"
    using flock.one_holder [of "[]"] by fastforce
  obtain ls held where "lock_run (tryLock_windows create) es ([], []) = (ls, held)" by (metis surj_pair)
  then show "case lock_run (tryLock_windows create) es ([], []) of (ls, held) \<Rightarrow> held = ls \<and> length held \<le> 1"
    using mutex.one_holder [of "[]"] by fastforce
  show "if ap_lock e = Inr True then last (fst (runApp e)) = AppUnlock
      else set (fst (runApp e)) \<subseteq> range AppBrowser"
    using app_releases_lock [of e] by (auto simp: runApp_def split: sum.splits)
qed

end
