(* ===== verification/Assembly.thy ===== *)
theory Assembly
  imports Api Config Api_Screen Desktop
begin

text \<open>
  How the server is put together: \<open>setupLogFile\<close> and the second half of \<open>assembleServer\<close> of \<open>cmd/serve.go\<close>
  (the first half, the options, is \<open>Config\<close>), \<open>api.New\<close> of \<open>internal/api/server.go\<close>, and the maintenance
  loop of the manager.
\<close>

section \<open>The log file\<close>

record log_env =
  lg_mkdir :: "string option"
  lg_open :: "string option"

definition setupLogFile :: "log_env \<Rightarrow> string \<Rightarrow> string \<Rightarrow> disk \<Rightarrow> string option \<times> disk" where
  "setupLogFile e home path d =
     (if path = '''' then (None, d)
      else
        let logPath = expand_path home path
        in case lg_mkdir e of
             Some err \<Rightarrow> (Some (''failed to create log directory: '' @ err), d)
           | None \<Rightarrow>
               (case lg_open e of
                  Some err \<Rightarrow> (Some (''failed to open log file `'' @ logPath @ ''`: '' @ err), d)
                | None \<Rightarrow> (None, d(logPath \<mapsto> (case d logPath of Some t \<Rightarrow> t | None \<Rightarrow> '''')))))"

definition mustHostname :: "string option \<Rightarrow> string" where
  "mustHostname h = (case h of Some n \<Rightarrow> n | None \<Rightarrow> ''unknown'')"

section \<open>The server\<close>

text \<open>
  What \<open>New\<close> makes of the options: the checks in order (the page, the title template, the origin
  pattern, the token).  The factories it installs are \<open>dialFactory\<close> and \<open>dialHostForward\<close> of
  \<open>Api_Sessions\<close> and \<open>inv_specs\<close> of \<open>Api\<close>.
\<close>

record server_parts =
  sp_token :: string
  sp_origin :: "(string \<Rightarrow> bool) option"
  sp_title :: title_store

record new_env =
  ne_home :: string
  ne_index :: bool
  ne_template :: "string \<Rightarrow> string option"
  ne_regexp :: "string \<Rightarrow> string + (string \<Rightarrow> bool)"
  ne_parse :: json_parser
  ne_os :: os_env
  ne_random :: "bytes option"

definition token_error_text :: "token_error \<Rightarrow> string" where
  "token_error_text e = (case e of
       RandomFailed \<Rightarrow> ''failed to generate access token''
     | TokenMkdir \<Rightarrow> ''failed to create token directory''
     | TokenWrite \<Rightarrow> ''failed to write access token'')"

definition newServer :: "new_env \<Rightarrow> struct_values \<Rightarrow> disk \<Rightarrow> (string + server_parts) \<times> disk" where
  "newServer e opts d =
     (if \<not> ne_index e then (Inl ''index page not found in embedded static files'', d)
      else case ne_template e (str_value opts ''TitleFormat'') of
        Some err \<Rightarrow> (Inl (''failed to parse window title format: '' @ err), d)
      | None \<Rightarrow>
        (case (if str_value opts ''WSOrigin'' = '''' then Inr None
               else case ne_regexp e (str_value opts ''WSOrigin'') of Inl err \<Rightarrow> Inl err | Inr f \<Rightarrow> Inr (Some f)) of
           Inl err \<Rightarrow> (Inl (''failed to compile regular expression of Websocket Origin: '' @ err), d)
         | Inr origin \<Rightarrow>
             (case resolveToken (ne_home e) (ne_os e) (ne_random e) (str_value opts ''Token'')
                     (str_value opts ''TokenFile'') d of
                (Inl err, d') \<Rightarrow> (Inl (token_error_text err), d')
              | (Inr token, d') \<Rightarrow>
                  (Inr \<lparr>sp_token = token, sp_origin = origin,
                      sp_title = newTitleStore (ne_parse e) (ne_home e) (str_value opts ''TitleFile'') d'\<rparr>, d'))))"

section \<open>assembleServer\<close>

definition int_value :: "struct_values \<Rightarrow> string \<Rightarrow> int" where
  "int_value s n = (case s n of FInt i \<Rightarrow> i | _ \<Rightarrow> 0)"

text \<open>The terminal options of the second struct; credentials are never configured.\<close>

definition struct_term_options :: "struct_values \<Rightarrow> term_options" where
  "struct_term_options s =
     \<lparr>to_closeSignal = int_value s ''CloseSignal'', to_closeTimeout = int_value s ''CloseTimeout'',
      to_term = str_value s ''Term'', to_dialCredentials = None\<rparr>"

text \<open>The manager keeps its records in a file store, or in memory when no session file is set.\<close>

record ('m, 't) assembled =
  ab_inventory :: inventory
  ab_known :: known_hosts
  ab_secrets :: secrets
  ab_manager :: "('m, 't, file_store option) manager"
  ab_server :: server_parts

record assemble_env =
  ae_new :: new_env
  ae_log :: log_env
  ae_marshal :: marshal
  ae_readable :: "string \<Rightarrow> bool"
  ae_keyring :: "(string \<times> string) list option"

definition assemble_store :: "assemble_env \<Rightarrow> string \<Rightarrow> disk \<Rightarrow> (string + file_store option) \<times> disk" where
  "assemble_store e sessionFile d =
     (if sessionFile = '''' then (Inr None, d)
      else
        let path = expand_path (ne_home (ae_new e)) sessionFile
        in case newFileStore (ne_parse (ae_new e)) (ae_marshal e) (ne_os (ae_new e)) (ae_readable e path) path d of
             Inl _ \<Rightarrow> (Inl ''failed to load session history'', d)
           | Inr (s, d') \<Rightarrow> (Inr (Some s), d'))"

text \<open>The part of \<open>assembleServer\<close> after the options: \<open>app\<close> and \<open>term\<close> are the two structs.\<close>

definition assembleParts ::
  "assemble_env \<Rightarrow> struct_values \<Rightarrow> struct_values \<Rightarrow> disk \<Rightarrow> (string + ('m, 't) assembled) \<times> disk" where
  "assembleParts e app term d =
     (let home = ne_home (ae_new e); hosts = expand_path home (str_value app ''HostsFile'');
          known = expand_path home (str_value app ''KnownHostsFile'')
      in case setupLogFile (ae_log e) home (str_value app ''LogFile'') d of
           (Some err, d1) \<Rightarrow> (Inl err, d1)
         | (None, d1) \<Rightarrow>
         (case loadInventory (ne_parse (ae_new e)) (ae_readable e hosts) hosts d1 of
            Inl _ \<Rightarrow> (Inl ''failed to load the host inventory'', d1)
          | Inr iv \<Rightarrow>
         (case loadKnownHosts (ne_parse (ae_new e)) (ae_readable e known) known d1 of
            Inl _ \<Rightarrow> (Inl ''failed to load the known hosts'', d1)
          | Inr kh \<Rightarrow>
         (case assemble_store e (str_value app ''SessionFile'') d1 of
            (Inl err, d2) \<Rightarrow> (Inl err, d2)
          | (Inr store, d2) \<Rightarrow>
         (case newServer (ae_new e) app d2 of
            (Inl err, d3) \<Rightarrow> (Inl err, d3)
          | (Inr parts, d3) \<Rightarrow>
              (Inr \<lparr>ab_inventory = iv, ab_known = kh, ab_secrets = newSecrets (ae_keyring e),
                 ab_manager = newManager store (int_value app ''MaxSession'') (int_value app ''Timeout'' * 1000000000)
                   (withTerminalOptions (struct_term_options term)) (bool_value app ''AnswerQueries''),
                 ab_server = parts\<rparr>, d3))))))"

definition assembleServer ::
  "assemble_env \<Rightarrow> (string \<Rightarrow> string option) \<Rightarrow> cli_flags \<Rightarrow> (string \<times> string) list \<Rightarrow> struct list \<Rightarrow> disk
     \<Rightarrow> (string + ('m, 't) assembled) \<times> disk" where
  "assembleServer e getenv cf m structs d =
     (case assembleOptions (ne_parse (ae_new e)) (ne_home (ae_new e)) getenv d cf m structs of
        Inl err \<Rightarrow> (Inl err, d)
      | Inr ss \<Rightarrow>
          (case map snd ss of
             app # term # _ \<Rightarrow> assembleParts e app term d
           | _ \<Rightarrow> (Inl '''', d)))"

section \<open>The maintenance loop\<close>

text \<open>\<open>Manager.Start\<close>: \<open>DestroyExpired\<close> at every tick until the context is done.\<close>

datatype sweep_event = SweepTick int | SweepDone

fun mgr_start ::
  "term_oracle \<Rightarrow> sweep_event list \<Rightarrow> ('m, 't, 's) manager \<Rightarrow> ('m, 't, 's) manager" where
  "mgr_start tok [] m = m"
| "mgr_start tok (SweepTick now # es) m = mgr_start tok es (snd (destroyExpired tok now m))"
| "mgr_start tok (SweepDone # es) m = m"

lemma mgr_start_keeps_store: "mg_store (mgr_start tok es m) = mg_store m"
  by (induction tok es m rule: mgr_start.induct) (simp_all add: destroyExpired_def Let_def)

lemma mgr_start_shrinks: "set (mg_sessions (mgr_start tok es m)) \<subseteq> set (mg_sessions m)"
  by (induction tok es m rule: mgr_start.induct) (auto simp: destroyExpired_def Let_def)

section \<open>What starting the server changes\<close>

text \<open>The files that the assembly may write: the log, the token, and the session file with its temporary.\<close>

definition assembly_files :: "string \<Rightarrow> struct_values \<Rightarrow> string set" where
  "assembly_files home app =
     {expand_path home (str_value app ''LogFile''), expand_path home (str_value app ''TokenFile''),
      expand_path home (str_value app ''SessionFile''), tmp_path (expand_path home (str_value app ''SessionFile''))}"

lemma setupLogFile_frame:
  "setupLogFile e home path d = (r, d') \<Longrightarrow> q \<noteq> expand_path home path \<Longrightarrow> d' q = d q"
  by (auto simp: setupLogFile_def Let_def split: if_splits option.splits)

lemma resolveToken_frame:
  "resolveToken home e rnd t f d = (r, d') \<Longrightarrow> q \<noteq> expand_path home f \<Longrightarrow> d' q = d q"
  by (auto simp: resolveToken_def expand_path_def Let_def split: if_splits option.splits)

lemma newServer_frame:
  "newServer e opts d = (r, d') \<Longrightarrow> q \<noteq> expand_path (ne_home e) (str_value opts ''TokenFile'') \<Longrightarrow> d' q = d q"
  by (auto simp: newServer_def split: if_splits option.splits sum.splits prod.splits dest: resolveToken_frame)

lemma newFileStore_frame:
  assumes "newFileStore parse marshal e readable path d = Inr (s, d')" "q \<noteq> path" "q \<noteq> tmp_path path"
  shows "d' q = d q"
proof -
  have "d2 q = d q" if "fst_commit marshal e \<lparr>fst_path = path, fst_items = its\<rparr> d = (r, s2, d2)" for its r s2 d2
  proof -
    have "d2 = last (snd (fst_persist marshal e \<lparr>fst_path = path, fst_items = its\<rparr> d))"
      using that by (auto simp: fst_commit_def split: prod.splits)
    then show ?thesis
      using fst_persist.trace_frame [OF fst_persist.save_last, where s = "\<lparr>fst_path = path, fst_items = its\<rparr>"]
        assms(2,3) by simp
  qed
  then show ?thesis
    using assms(1) by (auto simp: newFileStore_def Let_def split: option.splits if_splits prod.splits)
qed

lemma assemble_store_frame:
  "assemble_store e f d = (r, d') \<Longrightarrow> q \<noteq> expand_path (ne_home (ae_new e)) f
     \<Longrightarrow> q \<noteq> tmp_path (expand_path (ne_home (ae_new e)) f) \<Longrightarrow> d' q = d q"
  by (auto simp: assemble_store_def Let_def split: if_splits sum.splits dest: newFileStore_frame)

text \<open>
  Starting the server changes no file but its log, its token and, when an old format is migrated,
  the session history; in particular not the inventory and not the pinned keys.
\<close>

lemma assembly_writes_little:
  assumes "assembleParts e app term d = (r, d')" "q \<notin> assembly_files (ne_home (ae_new e)) app"
  shows "d' q = d q"
proof -
  let ?home = "ne_home (ae_new e)"
  obtain r1 d1 where log: "setupLogFile (ae_log e) ?home (str_value app ''LogFile'') d = (r1, d1)" by (metis surj_pair)
  have d1: "d1 q = d q" using setupLogFile_frame [OF log] assms(2) by (simp add: assembly_files_def)
  obtain r2 d2 where store: "assemble_store e (str_value app ''SessionFile'') d1 = (r2, d2)" by (metis surj_pair)
  have d2: "d2 q = d q" using assemble_store_frame [OF store] assms(2) d1 by (simp add: assembly_files_def)
  obtain r3 d3 where new: "newServer (ae_new e) app d2 = (r3, d3)" by (metis surj_pair)
  have d3: "d3 q = d q" using newServer_frame [OF new] assms(2) d2 by (simp add: assembly_files_def)
  show ?thesis
    using assms(1) log store new d1 d2 d3
    by (auto simp: assembleParts_def Let_def split: option.splits sum.splits)
qed

text \<open>
  A server that starts has the token that the requests are checked against: not the empty one, unless
  the random source gave no bytes.
\<close>

lemma assembled_token:
  assumes "assembleParts e app term d = (Inr a, d')"
  shows "\<exists>d2. fst (resolveToken (ne_home (ae_new e)) (ne_os (ae_new e)) (ne_random (ae_new e)) (str_value app ''Token'')
      (str_value app ''TokenFile'') d2) = Inr (sp_token (ab_server a))"
  using assms
  by (auto simp: assembleParts_def newServer_def Let_def split: option.splits sum.splits prod.splits if_splits)
     (metis fst_conv)+

end
