(* ===== verification/Commands.thy ===== *)
theory Commands
  imports Cli_Hosts
begin

text \<open>
  The tree of commands of \<open>gossh\<close>: \<open>cmd/root.go\<close> and the builders \<open>build...Cmd\<close> of the other files
  of \<open>cmd\<close>, with the names, aliases, flags and rules for arguments each declares, and how its
  \<open>RunE\<close> reads its flags.  The command-line library is a parameter: what it has parsed is a record of
  the answers of its getters.  The commands ignore the error of a getter, so a flag that is read
  but not declared, or declared with another type, would silently be empty; that this never happens
  is shown here, and that the declarations do not collide, which the library answers by a panic.
\<close>

section \<open>Flags\<close>

definition string_flag :: "string \<Rightarrow> string \<Rightarrow> string \<Rightarrow> flag_def" where
  "string_flag n sh d = \<lparr>gd_name = n, gd_short = sh, gd_default = FString d\<rparr>"

definition bool_flag :: "string \<Rightarrow> flag_def" where
  "bool_flag n = \<lparr>gd_name = n, gd_short = '''', gd_default = FBool False\<rparr>"

definition int_flag :: "string \<Rightarrow> int \<Rightarrow> flag_def" where
  "int_flag n d = \<lparr>gd_name = n, gd_short = '''', gd_default = FInt d\<rparr>"

text \<open>
  What the library has parsed: the getters of the three types (\<open>None\<close> is an error: no such flag, or
  one of another type), the printed value, and whether the flag was given.
\<close>

record parsed =
  pf_string :: "string \<Rightarrow> string option"
  pf_bool :: "string \<Rightarrow> bool option"
  pf_int :: "string \<Rightarrow> int option"
  pf_text :: "string \<Rightarrow> string"
  pf_changed :: "string \<Rightarrow> bool"

text \<open>The error of a getter is dropped: the value is then the zero value.\<close>

definition get_string :: "parsed \<Rightarrow> string \<Rightarrow> string" where
  "get_string p n = (case pf_string p n of None \<Rightarrow> '''' | Some v \<Rightarrow> v)"

definition get_bool :: "parsed \<Rightarrow> string \<Rightarrow> bool" where
  "get_bool p n = (case pf_bool p n of None \<Rightarrow> False | Some v \<Rightarrow> v)"

definition get_int :: "parsed \<Rightarrow> string \<Rightarrow> int" where
  "get_int p n = (case pf_int p n of None \<Rightarrow> 0 | Some v \<Rightarrow> v)"

definition given :: "parsed \<Rightarrow> string \<Rightarrow> (parsed \<Rightarrow> string \<Rightarrow> 'v) \<Rightarrow> 'v option" where
  "given p n get = (if pf_changed p n then Some (get p n) else None)"

section \<open>Groups of flags\<close>

definition addAPIFlags :: "flag_def list" where
  "addAPIFlags = [string_flag ''server'' '''' '''', string_flag ''token'' '''' '''',
                  string_flag ''token-file'' '''' '''', bool_flag ''json'']"

definition read_api_flags :: "parsed \<Rightarrow> api_flags" where
  "read_api_flags p =
     \<lparr>af_config = get_string p ''config'', af_server = get_string p ''server'', af_token = get_string p ''token'',
      af_tokenFile = get_string p ''token-file'', af_json = given p ''json'' get_bool\<rparr>"

definition addCredentialFlags :: "flag_def list" where
  "addCredentialFlags = [string_flag ''key'' '''' '''', bool_flag ''agent'', bool_flag ''password'']"

definition read_credential_flags :: "parsed \<Rightarrow> credential_flags" where
  "read_credential_flags p =
     \<lparr>kf_key = given p ''key'' get_string, kf_agent = get_bool p ''agent'', kf_password = get_bool p ''password''\<rparr>"

definition addSecretFlag :: "flag_def list" where
  "addSecretFlag = [string_flag ''secret'' '''' '''']"

definition addForwardFlags :: "flag_def list" where
  "addForwardFlags = [string_flag ''kind'' '''' ''local'', string_flag ''bind'' '''' '''', string_flag ''target'' '''' '''']"

definition read_forward_flags :: "parsed \<Rightarrow> forward_flags" where
  "read_forward_flags p =
     \<lparr>ff_kind = get_string p ''kind'', ff_bind = get_string p ''bind'', ff_target = get_string p ''target''\<rparr>"

definition addSecretSelectorFlags :: "flag_def list" where
  "addSecretSelectorFlags = [string_flag ''kind'' '''' '''', string_flag ''addr'' '''' '''',
                             string_flag ''user'' '''' '''', string_flag ''key'' '''' '''']"

definition read_secret_flags :: "parsed \<Rightarrow> secret_flags" where
  "read_secret_flags p =
     \<lparr>xf_kind = get_string p ''kind'', xf_addr = get_string p ''addr'', xf_user = get_string p ''user'',
      xf_key = get_string p ''key''\<rparr>"

section \<open>Commands\<close>

datatype arg_rule = AnyArgs | NoArgs | ExactArgs nat | MinimumNArgs nat

text \<open>
  The outside of the commands: of the client commands \<open>cli_env\<close>, \<open>strings.ToUpper\<close>,
  \<open>url.Values.Encode\<close> and \<open>url.PathEscape\<close>; the record that \<open>version\<close> prints; for the server the home
  directory it expands paths with, and how it ends once its options are assembled (or failed to be),
  which is the subject of \<open>Assembly\<close>, \<open>Server_Run\<close> and \<open>Desktop\<close>.
\<close>

record version_info =
  vi_version :: string
  vi_commit :: string
  vi_goVersion :: string
  vi_os :: string
  vi_arch :: string

record cmd_world =
  cw_cli :: cli_env
  cw_upper :: "string \<Rightarrow> string"
  cw_encode :: "(string \<times> string) list \<Rightarrow> string"
  cw_escape :: "string \<Rightarrow> string"
  cw_info :: version_info
  cw_home :: string
  cw_serve :: "string + struct list \<Rightarrow> string option"
  cw_app :: "bool \<Rightarrow> string + struct list \<Rightarrow> string option"

text \<open>\<open>RunE\<close>; \<open>None\<close> is a panic: the index of an argument that is not there.\<close>

type_synonym runner = "cmd_world \<Rightarrow> parsed \<Rightarrow> string list \<Rightarrow> outcome cli option"

datatype command =
  Command (cm_use: string) (cm_aliases: "string list") (cm_args: arg_rule)
    (cm_persistent: "flag_def list") (cm_flags: "flag_def list") (cm_run: "runner option") (cm_subs: "command list")

text \<open>The name of a command is the first word of its usage line.\<close>

definition cm_name :: "command \<Rightarrow> string" where
  "cm_name c = takeWhile (\<lambda>ch. ch \<noteq> CHR '' '') (cm_use c)"

definition group :: "string \<Rightarrow> string list \<Rightarrow> flag_def list \<Rightarrow> command list \<Rightarrow> command" where
  "group use aliases pfs subs = Command use aliases AnyArgs pfs [] None subs"

definition leaf :: "string \<Rightarrow> string list \<Rightarrow> arg_rule \<Rightarrow> flag_def list \<Rightarrow> runner \<Rightarrow> command" where
  "leaf use aliases rule fs r = Command use aliases rule [] fs (Some r) []"

text \<open>
  A command of a client with its environment and shared flags, without an argument it depends on or
  with one (\<open>args[0]\<close>).
\<close>

definition client :: "(cmd_world \<Rightarrow> cli_env \<Rightarrow> api_flags \<Rightarrow> parsed \<Rightarrow> string list \<Rightarrow> outcome cli) \<Rightarrow> runner" where
  "client f cw p args = Some (f cw (cw_cli cw) (read_api_flags p) p args)"

definition client1 :: "(cmd_world \<Rightarrow> cli_env \<Rightarrow> api_flags \<Rightarrow> parsed \<Rightarrow> string \<Rightarrow> outcome cli) \<Rightarrow> runner" where
  "client1 f cw p args = (case args of [] \<Rightarrow> None | a # _ \<Rightarrow> Some (f cw (cw_cli cw) (read_api_flags p) p a))"

definition session_flag :: "parsed \<Rightarrow> string" where
  "session_flag p = get_string p ''session''"

section \<open>\<open>gossh session\<close>\<close>

definition buildSessionLsCmd :: command where
  "buildSessionLsCmd = leaf ''ls'' [] NoArgs [] (client (\<lambda>cw ce af p args. session_ls ce af))"

definition read_create_flags :: "parsed \<Rightarrow> create_flags" where
  "read_create_flags p =
     \<lparr>cr_host = get_string p ''host'', cr_id = get_string p ''id'', cr_password = get_string p ''password'',
      cr_passphrase = get_string p ''passphrase'', cr_save = get_bool p ''save''\<rparr>"

definition buildSessionCreateCmd :: command where
  "buildSessionCreateCmd =
     leaf ''create --host <id|name>'' [] NoArgs
       [string_flag ''host'' '''' '''', string_flag ''id'' '''' '''', string_flag ''password'' '''' '''',
        string_flag ''passphrase'' '''' '''', bool_flag ''save'']
       (client (\<lambda>cw ce af p args. session_create ce af (read_create_flags p)))"

definition buildSessionScreenCmd :: command where
  "buildSessionScreenCmd =
     leaf ''screen'' [] NoArgs [bool_flag ''png'', string_flag ''output'' ''o'' '''', bool_flag ''stdout'']
       (client (\<lambda>cw ce af p args.
          session_screen_cmd ce af (session_flag p) (get_bool p ''png'') (get_bool p ''stdout'') (get_string p ''output'')))"

definition buildSessionWaitCmd :: command where
  "buildSessionWaitCmd =
     leaf ''wait'' [] NoArgs [string_flag ''text'' '''' '''', int_flag ''stable'' 0, int_flag ''timeout'' 30000]
       (client (\<lambda>cw ce af p args.
          session_wait_cmd ce af (session_flag p) (get_string p ''text'') (get_int p ''stable'') (get_int p ''timeout'')))"

definition buildSessionTypeCmd :: command where
  "buildSessionTypeCmd =
     leaf ''type <text>'' [] (MinimumNArgs 1) [bool_flag ''enter'']
       (client (\<lambda>cw ce af p args. session_type ce af (session_flag p) (get_bool p ''enter'') args))"

definition buildSessionPressCmd :: command where
  "buildSessionPressCmd =
     leaf ''press <key>...'' [] (MinimumNArgs 1) []
       (client (\<lambda>cw ce af p args. session_press ce af (session_flag p) args))"

definition buildSessionRenameCmd :: command where
  "buildSessionRenameCmd =
     leaf ''rename <title>'' [] (MinimumNArgs 1) []
       (client (\<lambda>cw ce af p args. session_rename ce af (session_flag p) args))"

definition buildSessionResizeCmd :: command where
  "buildSessionResizeCmd =
     leaf ''resize --cols N --rows M'' [] NoArgs [int_flag ''cols'' 0, int_flag ''rows'' 0]
       (client (\<lambda>cw ce af p args. session_resize_cmd ce af (session_flag p) (get_int p ''cols'') (get_int p ''rows'')))"

definition buildSessionSignalCmd :: command where
  "buildSessionSignalCmd =
     leaf ''signal <SIGTERM|SIGINT|SIGHUP|SIGQUIT|SIGKILL>'' [] (ExactArgs 1) []
       (client1 (\<lambda>cw ce af p a. session_signal_cmd ce af (session_flag p) (cw_upper cw) a))"

definition buildSessionDestroyCmd :: command where
  "buildSessionDestroyCmd =
     leaf ''destroy'' [''kill''] NoArgs [] (client (\<lambda>cw ce af p args. session_destroy_cmd ce af (session_flag p)))"

definition sessionUsageText :: string where
  "sessionUsageText = concat (map (\<lambda>l. l @ nl)
    [''gossh session -- drive the sessions of a running gossh server from the CLI'',
     '''',
     ''A server must already be running (gossh serve / gossh app). This CLI is'',
     ''stateless: every command makes one or two HTTP calls and exits.'',
     '''',
     ''COMMANDS:'',
     ''  ls                                  List the sessions (id, state, host, title)'',
     ''  create --host <id|name>             Create a session, print its id'',
     ''    --id <16 base36 chars>              Client-chosen id (idempotent / resurrects)'',
     ''    --password <pw>                     SSH password for this connect only'',
     ''    --passphrase <pp>                   Key passphrase for this connect only'',
     ''    --save                              Move the secret into the system keyring'',
     ''  screen                              Read the rendered screen'',
     ''    --png                               Render a PNG instead of text'',
     ''    -o/--output <file>                  PNG path (default: temp file, path printed)'',
     ''    --stdout                            PNG bytes to stdout'',
     ''  wait --text <regex>                 Block until the screen matches'',
     ''    --stable <ms>                       ...or until the screen is unchanged this long'',
     ''    --timeout <ms>                      Give up after N ms (default 30000, max 300000)'',
     ''  type <text>                         Type literal text'',
     ''    --enter                             Append Enter'',
     ''  press <key>...                      Send named keys, space separated'',
     ''  rename <title>                      Set the session title (persisted)'',
     ''  resize --cols N --rows M            Resize the session terminal'',
     ''  signal <SIGTERM|SIGINT|...>         Signal the session's process'',
     ''  forwards ls                         List the session's port forwards'',
     ''  forwards add --kind --bind --target Add a forward (needs an SSH session)'',
     ''  forwards rm <forward-id>            Remove one'',
     ''  destroy | kill                      Destroy the session (record kept as history)'',
     ''  usage                               This text'',
     '''',
     ''GLOBAL FLAGS:'',
     ''  -s/--session <id|prefix|title>      Target session; default: the only one alive'',
     ''  --json                              Emit JSON (default: JSON when piped, text on a TTY)'',
     ''  --server <url>                      Default: from the config file (~/.gossh/config.json)'',
     ''  --token <token>                     Default: GOSSH_TOKEN, then the token file'',
     '''',
     ''KEYS:  Enter Tab Escape Space Backspace Delete Insert'',
     ''       Up Down Left Right Home End PageUp PageDown'',
     ''       F1-F12'',
     ''       Ctrl+C   Alt+f   Shift+Tab   Ctrl+Shift+Up'',
     ''       any single character'',
     '''',
     ''EXAMPLES:'',
     ''  gossh session ls'',
     ''  gossh session create --host prod'',
     ''  gossh session type \"ls -la\" --enter'',
     ''  gossh session wait --text 'password:' --timeout 20000'',
     ''  gossh session screen'',
     ''  gossh session screen --png -o shot.png'',
     ''  gossh session press Ctrl+C'',
     ''  gossh session press Escape : w q Enter'',
     ''  gossh session destroy -s prod''])"

definition buildSessionUsageCmd :: command where
  "buildSessionUsageCmd = leaf ''usage'' [] NoArgs [] (\<lambda>cw p args. Some (prints [OutRaw sessionUsageText]))"

definition buildSessionForwardsLsCmd :: command where
  "buildSessionForwardsLsCmd =
     leaf ''ls'' [] NoArgs [] (client (\<lambda>cw ce af p args. session_forwards_ls ce af (session_flag p)))"

definition buildSessionForwardsAddCmd :: command where
  "buildSessionForwardsAddCmd =
     leaf ''add --kind <local|remote|dynamic> --bind <addr> [--target <addr>]'' [] NoArgs addForwardFlags
       (client (\<lambda>cw ce af p args. session_forwards_add ce af (session_flag p) (read_forward_flags p)))"

definition buildSessionForwardsRmCmd :: command where
  "buildSessionForwardsRmCmd =
     leaf ''rm <forward-id>'' [''delete''] (ExactArgs 1) []
       (client1 (\<lambda>cw ce af p a. session_forwards_rm ce af (session_flag p) a))"

definition buildSessionForwardsCmd :: command where
  "buildSessionForwardsCmd =
     group ''forwards'' [] [] [buildSessionForwardsLsCmd, buildSessionForwardsAddCmd, buildSessionForwardsRmCmd]"

definition buildSessionCmd :: command where
  "buildSessionCmd =
     group ''session'' [] (addAPIFlags @ [string_flag ''session'' ''s'' ''''])
       [buildSessionLsCmd, buildSessionCreateCmd, buildSessionScreenCmd, buildSessionWaitCmd, buildSessionTypeCmd,
        buildSessionPressCmd, buildSessionRenameCmd, buildSessionResizeCmd, buildSessionSignalCmd,
        buildSessionForwardsCmd, buildSessionDestroyCmd, buildSessionUsageCmd]"

section \<open>\<open>gossh hosts\<close>\<close>

definition buildHostsLsCmd :: command where
  "buildHostsLsCmd = leaf ''ls'' [''list''] NoArgs [] (client (\<lambda>cw ce af p args. hosts_ls ce af))"

definition read_add_flags :: "parsed \<Rightarrow> add_flags" where
  "read_add_flags p =
     \<lparr>hf_name = get_string p ''name'', hf_address = get_string p ''address'', hf_user = get_string p ''user'',
      hf_port = get_int p ''port''\<rparr>"

definition buildHostsAddCmd :: command where
  "buildHostsAddCmd =
     leaf ''add --name NAME --address ADDR --user USER [flags]'' [] NoArgs
       ([string_flag ''name'' '''' '''', string_flag ''address'' '''' '''', string_flag ''user'' '''' '''',
         int_flag ''port'' 0] @ addCredentialFlags @ addSecretFlag)
       (client (\<lambda>cw ce af p args.
          hosts_add ce af (read_add_flags p) (read_credential_flags p) (get_string p ''secret'')))"

definition buildHostsShowCmd :: command where
  "buildHostsShowCmd = leaf ''show <id|name>'' [] (ExactArgs 1) [] (client1 (\<lambda>cw ce af p a. hosts_show ce af a))"

definition read_edit_flags :: "parsed \<Rightarrow> edit_flags" where
  "read_edit_flags p =
     \<lparr>ef_name = given p ''name'' get_string, ef_address = given p ''address'' get_string,
      ef_user = given p ''user'' get_string, ef_port = given p ''port'' get_int\<rparr>"

definition buildHostsEditCmd :: command where
  "buildHostsEditCmd =
     leaf ''edit <id|name> [flags]'' [] (ExactArgs 1)
       ([string_flag ''name'' '''' '''', string_flag ''address'' '''' '''', string_flag ''user'' '''' '''',
         int_flag ''port'' 0] @ addCredentialFlags @ addSecretFlag)
       (client1 (\<lambda>cw ce af p a.
          hosts_edit ce af a (read_edit_flags p) (read_credential_flags p) (get_string p ''secret'')))"

definition buildHostsRemoveCmd :: command where
  "buildHostsRemoveCmd =
     leaf ''rm <id|name>'' [''remove'', ''delete''] (ExactArgs 1) [] (client1 (\<lambda>cw ce af p a. hosts_rm ce af a))"

definition buildHostForwardsLsCmd :: command where
  "buildHostForwardsLsCmd =
     leaf ''ls <host-id|name>'' [] (ExactArgs 1) [] (client1 (\<lambda>cw ce af p a. host_forwards_ls ce af a))"

definition buildHostForwardsAddCmd :: command where
  "buildHostForwardsAddCmd =
     leaf ''add <host-id|name> --kind <local|remote|dynamic> --bind <addr> [--target <addr>]'' [] (ExactArgs 1)
       addForwardFlags (client1 (\<lambda>cw ce af p a. host_forwards_add ce af a (read_forward_flags p)))"

definition buildHostForwardsRmCmd :: command where
  "buildHostForwardsRmCmd =
     leaf ''rm <host-id|name> --bind <addr> [--kind <kind>]'' [''delete''] (ExactArgs 1)
       [string_flag ''bind'' '''' '''', string_flag ''kind'' '''' '''']
       (client1 (\<lambda>cw ce af p a. host_forwards_rm ce af a (get_string p ''bind'') (get_string p ''kind'')))"

definition buildHostForwardsCmd :: command where
  "buildHostForwardsCmd =
     group ''forwards'' [] [] [buildHostForwardsLsCmd, buildHostForwardsAddCmd, buildHostForwardsRmCmd]"

definition buildHostsCmd :: command where
  "buildHostsCmd =
     group ''hosts'' [] addAPIFlags
       [buildHostsLsCmd, buildHostsAddCmd, buildHostsShowCmd, buildHostsEditCmd, buildHostsRemoveCmd,
        buildHostForwardsCmd]"

section \<open>Secrets, pins, title, version\<close>

definition buildSecretsSetCmd :: command where
  "buildSecretsSetCmd =
     leaf ''set --kind password --addr A --user U [--secret S]'' [] NoArgs (addSecretSelectorFlags @ addSecretFlag)
       (client (\<lambda>cw ce af p args. secrets_set_cmd ce af (read_secret_flags p) (get_string p ''secret'')))"

definition buildSecretsRmCmd :: command where
  "buildSecretsRmCmd =
     leaf ''rm --kind password --addr A --user U'' [''delete''] NoArgs addSecretSelectorFlags
       (client (\<lambda>cw ce af p args. secrets_rm_cmd (cw_encode cw) ce af (read_secret_flags p)))"

definition buildSecretsCmd :: command where
  "buildSecretsCmd = group ''secrets'' [] addAPIFlags [buildSecretsSetCmd, buildSecretsRmCmd]"

definition buildKnownHostsLsCmd :: command where
  "buildKnownHostsLsCmd = leaf ''ls'' [] NoArgs [] (client (\<lambda>cw ce af p args. known_hosts_ls ce af))"

definition buildKnownHostsForgetCmd :: command where
  "buildKnownHostsForgetCmd =
     leaf ''forget <address>'' [''rm'', ''delete''] (ExactArgs 1) []
       (client1 (\<lambda>cw ce af p a. known_hosts_forget (cw_escape cw) ce af a))"

definition buildKnownHostsCmd :: command where
  "buildKnownHostsCmd =
     group ''known-hosts'' [''knownhosts''] addAPIFlags [buildKnownHostsLsCmd, buildKnownHostsForgetCmd]"

definition buildTitleGetCmd :: command where
  "buildTitleGetCmd = leaf ''get'' [] NoArgs [] (client (\<lambda>cw ce af p args. title_get ce af))"

definition buildTitleSetCmd :: command where
  "buildTitleSetCmd = leaf ''set <title>'' [] (MinimumNArgs 1) [] (client (\<lambda>cw ce af p args. title_set ce af args))"

definition buildTitleClearCmd :: command where
  "buildTitleClearCmd = leaf ''clear'' [] NoArgs [] (client (\<lambda>cw ce af p args. title_clear ce af))"

definition buildTitleCmd :: command where
  "buildTitleCmd = group ''title'' [] addAPIFlags [buildTitleGetCmd, buildTitleSetCmd, buildTitleClearCmd]"

definition version_line :: "version_info \<Rightarrow> string" where
  "version_line i = ''gossh version '' @ vi_version i @ '' (commit '' @ vi_commit i @ '', '' @ vi_goVersion i @ '' ''
     @ vi_os i @ ''/'' @ vi_arch i @ '')''"

definition version_json :: "version_info \<Rightarrow> json" where
  "version_json i =
     JObj [(''name'', JStr ''gossh''), (''version'', JStr (vi_version i)), (''commit'', JStr (vi_commit i)),
           (''go_version'', JStr (vi_goVersion i)), (''os'', JStr (vi_os i)), (''arch'', JStr (vi_arch i))]"

definition buildVersionCmd :: command where
  "buildVersionCmd =
     leaf ''version'' [] AnyArgs [bool_flag ''json'']
       (\<lambda>cw p args. Some (prints [if get_bool p ''json'' then OutJson (version_json (cw_info cw))
                                  else OutLine (version_line (cw_info cw))]))"

section \<open>\<open>gossh serve\<close> and \<open>gossh app\<close>\<close>

text \<open>
  Both attach the flags of the option structs, whose fields have their defaults by then (a tag that
  does not parse is a panic while the command is built; there is none).
\<close>

definition default_structs :: "struct list" where
  "default_structs =
     (case apply_all_defaults (server_structs (zero_values app_fields) (zero_values term_fields)) of
        Inl e \<Rightarrow> [] | Inr ss \<Rightarrow> ss)"

definition server_flags :: "flag_def list" where
  "server_flags = fst (attachFlags default_structs)"

definition flags_of :: "parsed \<Rightarrow> cli_flags" where
  "flags_of p =
     \<lparr>cf_changed = pf_changed p, cf_value = (\<lambda>n. if n = ''config'' then get_string p n else pf_text p n)\<rparr>"

definition server_options :: "cmd_world \<Rightarrow> parsed \<Rightarrow> string + struct list" where
  "server_options cw p =
     assembleOptions (ce_parse (cw_cli cw)) (cw_home cw) (ce_env (cw_cli cw)) (ce_disk (cw_cli cw)) (flags_of p)
       (snd (attachFlags default_structs)) default_structs"

definition buildServeCmd :: command where
  "buildServeCmd =
     leaf ''serve [flags]'' [] NoArgs server_flags (\<lambda>cw p args. Some (Done (cw_serve cw (server_options cw p), [])))"

definition buildAppCmd :: command where
  "buildAppCmd =
     leaf ''app [flags]'' [] NoArgs (server_flags @ [bool_flag ''no-browser''])
       (\<lambda>cw p args. Some (Done (cw_app cw (get_bool p ''no-browser'') (server_options cw p), [])))"

section \<open>The root\<close>

text \<open>\<open>env\<close> is the value of \<open>GOSSH_CONFIG\<close>.\<close>

definition config_path :: "string \<Rightarrow> string" where
  "config_path env = (if env = '''' then ''~/.gossh/config.json'' else env)"

definition rootCmd :: "string \<Rightarrow> command" where
  "rootCmd env =
     group ''gossh'' [] [string_flag ''config'' '''' (config_path env)]
       [buildServeCmd, buildAppCmd, buildHostsCmd, buildSessionCmd, buildKnownHostsCmd, buildSecretsCmd,
        buildTitleCmd, buildVersionCmd]"

text \<open>\<open>main\<close>: what is written to the standard error, and the exit status.\<close>

definition main_exit :: "string option \<Rightarrow> string \<times> nat" where
  "main_exit err = (case err of None \<Rightarrow> ('''', 0) | Some e \<Rightarrow> (''Error: '' @ e @ nl, 1))"

text \<open>Every command of a tree with the flags it accepts: its own and the persistent ones on the way to it.\<close>

fun commands_of :: "flag_def list \<Rightarrow> command \<Rightarrow> (flag_def list \<times> command) list" where
  "commands_of inh (Command u al rule pfs fs r subs) =
     (inh @ pfs @ fs, Command u al rule pfs fs r subs) # concat (map (commands_of (inh @ pfs)) subs)"

end
