(* ===== verification/Commands_Props.thy ===== *)
theory Commands_Props
  imports Commands
begin

text \<open>
  The commands of \<open>Commands\<close> and the flags they declare: what a command does depends on no flag but
  those it accepts, an argument it reads is there, and no two of its flags have a name in common.
\<close>

section \<open>Two parsed command lines that agree\<close>

text \<open>On a flag: whether it was given, how its value prints, and the answer of the getter of its type.\<close>

definition flag_agrees :: "parsed \<Rightarrow> parsed \<Rightarrow> flag_def \<Rightarrow> bool" where
  "flag_agrees p q d \<longleftrightarrow>
     pf_changed p (gd_name d) = pf_changed q (gd_name d) \<and> pf_text p (gd_name d) = pf_text q (gd_name d)
     \<and> (case gd_default d of
          FString _ \<Rightarrow> pf_string p (gd_name d) = pf_string q (gd_name d)
        | FBool _ \<Rightarrow> pf_bool p (gd_name d) = pf_bool q (gd_name d)
        | FInt _ \<Rightarrow> pf_int p (gd_name d) = pf_int q (gd_name d)
        | FOther _ \<Rightarrow> True)"

definition flags_agree :: "flag_def list \<Rightarrow> parsed \<Rightarrow> parsed \<Rightarrow> bool" where
  "flags_agree ds p q \<longleftrightarrow> list_all (flag_agrees p q) ds"

lemma flags_agree_simps [simp]:
  "flags_agree [] p q"
  "flags_agree (d # ds) p q \<longleftrightarrow> flag_agrees p q d \<and> flags_agree ds p q"
  "flags_agree (ds @ es) p q \<longleftrightarrow> flags_agree ds p q \<and> flags_agree es p q"
  by (simp_all add: flags_agree_def)

lemma flag_agrees_simps [simp]:
  "flag_agrees p q (string_flag n sh d) \<longleftrightarrow>
     pf_changed p n = pf_changed q n \<and> pf_text p n = pf_text q n \<and> pf_string p n = pf_string q n"
  "flag_agrees p q (bool_flag n) \<longleftrightarrow>
     pf_changed p n = pf_changed q n \<and> pf_text p n = pf_text q n \<and> pf_bool p n = pf_bool q n"
  "flag_agrees p q (int_flag n i) \<longleftrightarrow>
     pf_changed p n = pf_changed q n \<and> pf_text p n = pf_text q n \<and> pf_int p n = pf_int q n"
  by (simp_all add: flag_agrees_def string_flag_def bool_flag_def int_flag_def)

text \<open>The groups of flags, read by their functions.\<close>

lemmas read_simps = get_string_def get_bool_def get_int_def given_def session_flag_def

lemmas read_flags_simps = addAPIFlags_def read_api_flags_def addCredentialFlags_def read_credential_flags_def
  addSecretFlag_def addForwardFlags_def read_forward_flags_def addSecretSelectorFlags_def read_secret_flags_def
  read_create_flags_def read_add_flags_def read_edit_flags_def read_simps

section \<open>The options of the server\<close>

lemma applyEnv_agree:
  "\<forall>(f, n) \<in> set m. cf_changed cf f = cf_changed cf' f \<Longrightarrow> applyEnv env cf m ss = applyEnv env cf' m ss"
  by (induction env cf m ss rule: applyEnv.induct) (auto split: option.split)

lemma applyFlags_agree:
  "\<forall>(f, n) \<in> set m. cf_changed cf f = cf_changed cf' f \<and> cf_value cf f = cf_value cf' f \<Longrightarrow>
     applyFlags cf m ss = applyFlags cf' m ss"
  unfolding applyFlags_def by (rule fold_cong) auto

lemma assembleOptions_agree:
  assumes "\<forall>(f, n) \<in> set m. cf_changed cf f = cf_changed cf' f \<and> cf_value cf f = cf_value cf' f"
    and "cf_changed cf ''config'' = cf_changed cf' ''config''" "cf_value cf ''config'' = cf_value cf' ''config''"
  shows "assembleOptions parse home env d cf m ss = assembleOptions parse home env d cf' m ss"
proof -
  have "applyEnv env cf m s = applyEnv env cf' m s" "applyFlags cf m s = applyFlags cf' m s" for s
    using assms(1) by (intro applyEnv_agree applyFlags_agree; fastforce)+
  then show ?thesis by (simp only: assembleOptions_def assms(2,3))
qed

lemma default_structs_shape: "\<exists>s t. default_structs = server_structs s t"
  using server_defaults [of "zero_values app_fields" "zero_values term_fields"]
  by (auto simp: default_structs_def server_structs_def)

text \<open>The flags of the server, and that every mapped flag is declared.\<close>

lemma flagged_kinds:
  "filter (\<lambda>f. fs_kind f \<noteq> KOther) (flagged app_fields) = flagged app_fields"
  "filter (\<lambda>f. fs_kind f \<noteq> KOther) (flagged term_fields) = flagged term_fields"
  by (simp_all add: flagged_def app_fields_def term_fields_def go_field_def)

lemma server_flag_names:
  "map gd_name server_flags = map fst server_mappings"
  "map gd_short server_flags = map fs_short (flagged app_fields @ flagged term_fields)"
proof -
  obtain s t where d: "default_structs = server_structs s t" using default_structs_shape by blast
  show "map gd_name server_flags = map fst server_mappings"
    "map gd_short server_flags = map fs_short (flagged app_fields @ flagged term_fields)"
    unfolding server_flags_def attachFlags_def d server_structs_def server_mappings_def
    by (simp_all add: flagged_kinds comp_def)
qed

lemma server_options_agree:
  assumes "flags_agree server_flags p q" and "pf_changed p ''config'' = pf_changed q ''config''"
    and "pf_string p ''config'' = pf_string q ''config''"
  shows "server_options cw p = server_options cw q"
proof -
  obtain s t where d: "default_structs = server_structs s t" using default_structs_shape by blast
  have "pf_changed p n = pf_changed q n \<and> pf_text p n = pf_text q n" if "n \<in> gd_name ` set server_flags" for n
    using that assms(1) by (auto simp: flags_agree_def list_all_iff flag_agrees_def)
  moreover have "gd_name ` set server_flags = fst ` set server_mappings"
    using server_flag_names(1) by (metis list.set_map)
  ultimately have "\<forall>(f, n) \<in> set server_mappings. pf_changed p f = pf_changed q f \<and> pf_text p f = pf_text q f"
    by force
  then show ?thesis
    unfolding server_options_def
    by (intro assembleOptions_agree) (use assms(2,3) in \<open>auto simp: flags_of_def d attach_server read_simps\<close>)
qed

section \<open>Every command\<close>

definition reads_declared :: "flag_def list \<times> command \<Rightarrow> bool" where
  "reads_declared = (\<lambda>(ds, c). case cm_run c of
     None \<Rightarrow> True
   | Some r \<Rightarrow> (\<forall>cw p q args. flags_agree ds p q \<longrightarrow> r cw p args = r cw q args))"

lemma commands_of_leaf [simp]: "commands_of inh (leaf u al rule fs r) = [(inh @ fs, leaf u al rule fs r)]"
  by (simp add: leaf_def)

lemma commands_of_group [simp]:
  "commands_of inh (group u al pfs subs) = (inh @ pfs, group u al pfs subs) # concat (map (commands_of (inh @ pfs)) subs)"
  by (simp add: group_def)

lemma reads_declared_group [simp]: "reads_declared (ds, group u al pfs subs)"
  by (simp add: reads_declared_def group_def)

lemma reads_declared_leaf [simp]:
  "reads_declared (ds, leaf u al rule fs r) \<longleftrightarrow>
     (\<forall>cw p q args. flags_agree ds p q \<longrightarrow> r cw p args = r cw q args)"
  by (simp add: reads_declared_def leaf_def)

lemmas session_defs = buildSessionCmd_def buildSessionLsCmd_def buildSessionCreateCmd_def buildSessionScreenCmd_def
  buildSessionWaitCmd_def buildSessionTypeCmd_def buildSessionPressCmd_def buildSessionRenameCmd_def
  buildSessionResizeCmd_def buildSessionSignalCmd_def buildSessionDestroyCmd_def buildSessionUsageCmd_def
  buildSessionForwardsCmd_def buildSessionForwardsLsCmd_def buildSessionForwardsAddCmd_def buildSessionForwardsRmCmd_def

lemmas host_defs = buildHostsCmd_def buildHostsLsCmd_def buildHostsAddCmd_def buildHostsShowCmd_def buildHostsEditCmd_def
  buildHostsRemoveCmd_def buildHostForwardsCmd_def buildHostForwardsLsCmd_def buildHostForwardsAddCmd_def
  buildHostForwardsRmCmd_def

lemmas other_defs = buildSecretsCmd_def buildSecretsSetCmd_def buildSecretsRmCmd_def buildKnownHostsCmd_def
  buildKnownHostsLsCmd_def buildKnownHostsForgetCmd_def buildTitleCmd_def buildTitleGetCmd_def buildTitleSetCmd_def
  buildTitleClearCmd_def buildVersionCmd_def

lemmas client_simps = client_def client1_def read_flags_simps

lemma reads_leafI:
  "(\<And>cw p q args. flags_agree ds p q \<Longrightarrow> r cw p args = r cw q args) \<Longrightarrow> reads_declared (ds, leaf u al rule fs r)"
  by simp

lemmas tree_simps = commands_of_leaf commands_of_group list.map concat.simps append.simps list.pred_inject list_all_append
  reads_declared_group

lemma session_reads_declared:
  "list_all reads_declared (commands_of [string_flag ''config'' '''' d] buildSessionCmd)"
  unfolding session_defs tree_simps
  by (intro conjI TrueI reads_leafI; simp add: client_simps split: list.split)

lemma hosts_read_declared:
  "list_all reads_declared (commands_of [string_flag ''config'' '''' d] buildHostsCmd)"
  unfolding host_defs tree_simps
  by (intro conjI TrueI reads_leafI; simp add: client_simps split: list.split)

lemma others_read_declared:
  "list_all reads_declared (commands_of [string_flag ''config'' '''' d] buildSecretsCmd)"
  "list_all reads_declared (commands_of [string_flag ''config'' '''' d] buildKnownHostsCmd)"
  "list_all reads_declared (commands_of [string_flag ''config'' '''' d] buildTitleCmd)"
  "list_all reads_declared (commands_of [string_flag ''config'' '''' d] buildVersionCmd)"
  by (simp_all add: other_defs client_simps split: list.split)

lemma server_reads_declared:
  "list_all reads_declared (commands_of [string_flag ''config'' '''' d] buildServeCmd)"
  "list_all reads_declared (commands_of [string_flag ''config'' '''' d] buildAppCmd)"
proof -
  have o: "server_options cw p = server_options cw q"
    if "pf_changed p ''config'' = pf_changed q ''config''" "pf_string p ''config'' = pf_string q ''config''"
      "flags_agree server_flags p q" for cw p q
    using that by (intro server_options_agree)
  show "list_all reads_declared (commands_of [string_flag ''config'' '''' d] buildServeCmd)"
    by (simp add: buildServeCmd_def) (metis o)
  show "list_all reads_declared (commands_of [string_flag ''config'' '''' d] buildAppCmd)"
    by (simp add: buildAppCmd_def get_bool_def) (metis o)
qed

lemma root_reads_declared: "list_all reads_declared (commands_of [] (rootCmd env))"
  by (simp add: rootCmd_def session_reads_declared hosts_read_declared others_read_declared
      server_reads_declared)

section \<open>Arguments and collisions\<close>

text \<open>What the library documents of its rules for arguments: \<open>ok\<close> accepts no others.\<close>

definition cobra_args :: "(arg_rule \<Rightarrow> string list \<Rightarrow> bool) \<Rightarrow> bool" where
  "cobra_args ok \<longleftrightarrow>
     (\<forall>args. ok NoArgs args \<longrightarrow> args = []) \<and> (\<forall>n args. ok (ExactArgs n) args \<longrightarrow> length args = n)
     \<and> (\<forall>n args. ok (MinimumNArgs n) args \<longrightarrow> n \<le> length args)"

definition has_arguments :: "(arg_rule \<Rightarrow> string list \<Rightarrow> bool) \<Rightarrow> flag_def list \<times> command \<Rightarrow> bool" where
  "has_arguments ok = (\<lambda>(ds, c). case cm_run c of
     None \<Rightarrow> True
   | Some r \<Rightarrow> (\<forall>cw p args. ok (cm_args c) args \<longrightarrow> r cw p args \<noteq> None))"

lemma has_arguments_simps [simp]:
  "has_arguments ok (ds, group u al pfs subs)"
  "has_arguments ok (ds, leaf u al rule fs (client f))"
  "has_arguments ok (ds, leaf u al rule fs (\<lambda>cw p args. Some (g cw p args)))"
  by (simp_all add: has_arguments_def group_def leaf_def client_def)

lemma has_arguments_one [simp]: "cobra_args ok \<Longrightarrow> has_arguments ok (ds, leaf u al (ExactArgs (Suc n)) fs (client1 f))"
  by (fastforce simp: has_arguments_def leaf_def client1_def cobra_args_def split: list.split)

text \<open>
  The library panics when a flag or a one-letter name is declared twice, or when the letter is not
  one; it adds \<open>help\<close> and \<open>-h\<close> to every command.  Commands under one parent are told apart by
  their names and aliases.
\<close>

definition no_collision :: "flag_def list \<times> command \<Rightarrow> bool" where
  "no_collision = (\<lambda>(ds, c).
     distinct (''help'' # map gd_name ds) \<and> distinct (''h'' # filter (\<lambda>s. s \<noteq> '''') (map gd_short ds))
     \<and> list_all (\<lambda>d. length (gd_short d) \<le> 1) ds
     \<and> distinct (concat (map (\<lambda>s. cm_name s # cm_aliases s) (cm_subs c))))"

lemma no_collision_simps [simp]:
  "no_collision (ds, leaf u al rule fs r) \<longleftrightarrow> no_collision (ds, Command [] [] AnyArgs [] [] None [])"
  "no_collision (ds, group u al pfs subs) \<longleftrightarrow>
     no_collision (ds, Command [] [] AnyArgs [] [] None [])
     \<and> distinct (concat (map (\<lambda>s. cm_name s # cm_aliases s) subs))"
  by (auto simp: no_collision_def leaf_def group_def)

lemma flag_names [simp]:
  "gd_name (string_flag n sh d) = n" "gd_name (bool_flag n) = n" "gd_name (int_flag n i) = n"
  "gd_short (string_flag n sh d) = sh" "gd_short (bool_flag n) = ''''" "gd_short (int_flag n i) = ''''"
  by (simp_all add: string_flag_def bool_flag_def int_flag_def)

lemma command_names [simp]:
  "cm_name (leaf u al rule fs r) = takeWhile (\<lambda>ch. ch \<noteq> CHR '' '') u" "cm_aliases (leaf u al rule fs r) = al"
  "cm_name (group u al pfs subs) = takeWhile (\<lambda>ch. ch \<noteq> CHR '' '') u" "cm_aliases (group u al pfs subs) = al"
  by (simp_all add: cm_name_def leaf_def group_def)

lemma server_flags_short: "list_all (\<lambda>s. length s \<le> 1) (map gd_short server_flags)"
  by (simp add: server_flag_names flagged_def app_fields_def term_fields_def go_field_def)

lemma root_has_arguments: "cobra_args ok \<Longrightarrow> list_all (has_arguments ok) (commands_of [] (rootCmd env))"
  by (simp add: rootCmd_def session_defs host_defs other_defs buildServeCmd_def buildAppCmd_def)

lemma session_no_collision: "list_all no_collision (commands_of [string_flag ''config'' '''' d] buildSessionCmd)"
  by (simp add: session_defs) (simp add: no_collision_def addAPIFlags_def addForwardFlags_def)

lemma hosts_no_collision: "list_all no_collision (commands_of [string_flag ''config'' '''' d] buildHostsCmd)"
  by (simp add: host_defs) (simp add: no_collision_def addAPIFlags_def addForwardFlags_def addCredentialFlags_def addSecretFlag_def)

lemma others_no_collision:
  "list_all no_collision (commands_of [string_flag ''config'' '''' d] buildSecretsCmd)"
  "list_all no_collision (commands_of [string_flag ''config'' '''' d] buildKnownHostsCmd)"
  "list_all no_collision (commands_of [string_flag ''config'' '''' d] buildTitleCmd)"
  "list_all no_collision (commands_of [string_flag ''config'' '''' d] buildVersionCmd)"
  by (simp_all add: other_defs) (simp_all add: no_collision_def addAPIFlags_def addSecretSelectorFlags_def addSecretFlag_def)

lemma server_mapping_names: "map fst server_mappings = map fs_flag (flagged app_fields @ flagged term_fields)"
  by (simp add: server_mappings_def comp_def)

lemma server_name_sets:
  "gd_name ` set server_flags = fs_flag ` set (flagged app_fields @ flagged term_fields)"
  "gd_short ` set server_flags = fs_short ` set (flagged app_fields @ flagged term_fields)"
  using server_flag_names server_mapping_names by (metis list.set_map)+

lemma server_short_lengths: "list_all (\<lambda>d. length (gd_short d) \<le> Suc 0) server_flags"
  using server_flags_short by (simp add: list.pred_map comp_def)

lemma server_no_collision:
  "list_all no_collision (commands_of [string_flag ''config'' '''' d] buildServeCmd)"
  "list_all no_collision (commands_of [string_flag ''config'' '''' d] buildAppCmd)"
  unfolding buildServeCmd_def buildAppCmd_def tree_simps no_collision_simps
  by (simp_all add: no_collision_def server_short_lengths server_name_sets server_flag_names server_mapping_names
      flagged_def app_fields_def term_fields_def go_field_def)

lemma root_no_collision: "list_all no_collision (commands_of [] (rootCmd env))"
  unfolding rootCmd_def tree_simps no_collision_simps
  by (simp add: session_no_collision hosts_no_collision others_no_collision server_no_collision) 
    (simp add: no_collision_def session_defs host_defs other_defs buildServeCmd_def buildAppCmd_def)

text \<open>
  Property C39.  Every command of \<open>gossh\<close> keeps to its declarations.  Its flags, its own and those it
  inherits, have different names and one-letter names, none of them those of the help flag, and its
  subcommands are told apart, so building the tree does not panic; what it does is the same for any two
  parsed command lines that agree on those flags, each with its type, whatever the getters answer
  for other names; and with arguments that its rule accepts it does not index past them.
\<close>

theorem commands_keep_to_declarations:
  assumes "cobra_args ok" and "(ds, c) \<in> set (commands_of [] (rootCmd env))"
  shows "no_collision (ds, c)
    \<and> (\<forall>r cw p q args. cm_run c = Some r \<longrightarrow>
         (flags_agree ds p q \<longrightarrow> r cw p args = r cw q args) \<and> (ok (cm_args c) args \<longrightarrow> r cw p args \<noteq> None))"
proof -
  have "no_collision (ds, c)" "reads_declared (ds, c)" "has_arguments ok (ds, c)"
    using root_no_collision root_reads_declared root_has_arguments [OF assms(1)] assms(2)
    unfolding list_all_iff by blast+
  then show ?thesis by (auto simp: reads_declared_def has_arguments_def)
qed

fun demo_args :: "arg_rule \<Rightarrow> string list \<Rightarrow> bool" where
  "demo_args AnyArgs args = True"
| "demo_args NoArgs args = (args = [])"
| "demo_args (ExactArgs n) args = (length args = n)"
| "demo_args (MinimumNArgs n) args = (n \<le> length args)"

theorem commands_keep_to_declarations_witness:
  "\<exists>ds c r. (ds, c) \<in> set (commands_of [] (rootCmd '''')) \<and> cm_name c = ''edit'' \<and> cm_run c = Some r
     \<and> no_collision (ds, c) \<and> demo_args (cm_args c) [''prod''] \<and> (\<forall>cw p. r cw p [''prod''] \<noteq> None)"
proof -
  let ?ds = "[string_flag ''config'' '''' ''~/.gossh/config.json''] @ addAPIFlags @ cm_flags buildHostsEditCmd"
  have m: "(?ds, buildHostsEditCmd) \<in> set (commands_of [] (rootCmd ''''))"
    by (simp add: rootCmd_def config_path_def buildHostsCmd_def) (simp add: buildHostsEditCmd_def leaf_def)
  have "cobra_args demo_args" by (simp add: cobra_args_def)
  from commands_keep_to_declarations [OF this m] show ?thesis
    using m by (intro exI [of _ ?ds] exI [of _ buildHostsEditCmd]) (auto simp: buildHostsEditCmd_def cm_name_def leaf_def)
qed

end
