(* ===== verification/Cli_Errors.thy ===== *)
theory Cli_Errors
  imports Commands_Props Cli_Props
begin

text \<open>
  The error paths of the commands: what a command does when one of its requests fails, shown once for
  the ways requests are put together and then for every command of the tree.
\<close>

section \<open>Requests that fail\<close>

text \<open>No answer, or one whose status is not a success; what the command then says.\<close>

definition failed_answer :: "response option \<Rightarrow> bool" where
  "failed_answer a = (case a of None \<Rightarrow> True | Some r \<Rightarrow> hr_status r < 200 \<or> hr_status r \<ge> 300)"

definition failure_text :: "string \<Rightarrow> response option \<Rightarrow> string" where
  "failure_text base a = (case a of None \<Rightarrow> ''cannot reach '' @ base | Some r \<Rightarrow> apiError r)"

text \<open>The answers that a command gets when it is run.\<close>

primrec cli_answers :: "('w \<Rightarrow> request \<Rightarrow> response option \<times> 'w) \<Rightarrow> 'r cli \<Rightarrow> 'w \<Rightarrow> response option list" where
  "cli_answers srv (Done r) w = []"
| "cli_answers srv (Call q k) w = (case srv w q of (a, w1) \<Rightarrow> a # cli_answers srv (k a) w1)"

text \<open>
  A command reports failures by \<open>rep\<close>: after a request that failed there is no other, and the result is
  the one that \<open>rep\<close> gives for the answer.
\<close>

primrec reports :: "(response option \<Rightarrow> 'r) \<Rightarrow> 'r cli \<Rightarrow> bool" where
  "reports rep (Done r) \<longleftrightarrow> True"
| "reports rep (Call q k) \<longleftrightarrow> (\<forall>a. (failed_answer a \<longrightarrow> k a = Done (rep a)) \<and> reports rep (k a))"

definition err_report :: "string \<Rightarrow> response option \<Rightarrow> string + 'a" where
  "err_report base a = Inl (failure_text base a)"

definition out_report :: "string \<Rightarrow> response option \<Rightarrow> outcome" where
  "out_report base a = (Some (failure_text base a), [])"

section \<open>The ways requests are put together\<close>

named_theorems reports_rules

lemma reports_call [reports_rules]: "reports (err_report (ac_base c)) (api_call c m path body out)"
  by (auto simp: api_call_def err_report_def failed_answer_def failure_text_def split: option.splits)

lemma reports_Done [reports_rules]: "reports rep (Done r)"
  by simp

lemma reports_fails [reports_rules]: "reports rep (fails e)"
  by (simp add: fails_def)

lemma reports_prints [reports_rules]: "reports rep (prints out)"
  by (simp add: prints_def)

lemma reports_bind:
  "reports rep m \<Longrightarrow> (\<And>a. f (rep a) = Done (rep' a)) \<Longrightarrow> (\<And>r. reports rep' (f r)) \<Longrightarrow> reports rep' (cli_bind m f)"
  by (induction m) auto

lemma reports_try [reports_rules]:
  "reports (err_report b) m \<Longrightarrow> (\<And>x. reports (err_report b) (f x)) \<Longrightarrow> reports (err_report b) (cli_try m f)"
  unfolding cli_try_def by (rule reports_bind [of "err_report b"]) (auto simp: err_report_def split: sum.split)

lemma reports_do [reports_rules]:
  "reports (err_report b) m \<Longrightarrow> (\<And>x. reports (out_report b) (f x)) \<Longrightarrow> reports (out_report b) (cli_do m f)"
  unfolding cli_do_def
  by (rule reports_bind [of "err_report b"]) (auto simp: err_report_def out_report_def split: sum.split)

text \<open>A run of such a command.\<close>

lemma reports_run:
  assumes "reports rep m" "run_cli srv m w = (r, w', qs)"
  shows "length (cli_answers srv m w) = length qs
    \<and> (\<forall>i < length qs. failed_answer (cli_answers srv m w ! i) \<longrightarrow> Suc i = length qs \<and> r = rep (cli_answers srv m w ! i))"
  using assms
proof (induction m arbitrary: w w' qs)
  case (Call q k)
  obtain a w1 where a: "srv w q = (a, w1)" by fastforce
  obtain r1 w2 qs1 where k: "run_cli srv (k a) w1 = (r1, w2, qs1)" by (metis prod_cases3)
  have qs: "qs = q # qs1" "r1 = r" "w2 = w'" using Call.prems(2) a k by auto
  have ih: "length (cli_answers srv (k a) w1) = length qs1
    \<and> (\<forall>i < length qs1. failed_answer (cli_answers srv (k a) w1 ! i) \<longrightarrow>
          Suc i = length qs1 \<and> r = rep (cli_answers srv (k a) w1 ! i))"
    using Call.IH [of "k a" w1 w2 qs1] Call.prems(1) k qs by auto
  have now: "qs1 = [] \<and> r = rep a" if "failed_answer a"
    using that Call.prems(1) k qs(2) by auto
  show ?case
    using ih now by (auto simp: a qs(1) nth_Cons split: nat.splits)
qed simp

section \<open>Every command\<close>

lemma reports_hosts [reports_rules]: "reports (err_report (ac_base c)) (listHosts c)"
  by (simp add: listHosts_def reports_rules)

lemma reports_resolve [reports_rules]: "reports (err_report (ac_base c)) (resolveHost ce c query)"
  by (simp add: resolveHost_def reports_rules)

lemma reports_get_host [reports_rules]: "reports (err_report (ac_base c)) (getHost ce c query)"
  by (simp add: getHost_def reports_rules)

lemma reports_sessions [reports_rules]: "reports (err_report (ac_base c)) (listSessions c)"
  by (simp add: listSessions_def reports_rules)

lemma reports_resolve_session [reports_rules]: "reports (err_report (ac_base c)) (resolveSession ce c query)"
  by (simp add: resolveSession_def reports_rules)

lemma reports_put_host [reports_rules]: "reports (err_report (ac_base c)) (putHost c h)"
  by (simp add: putHost_def reports_rules)

lemma reports_save_secret [reports_rules]: "reports (err_report (ac_base c)) (saveSecret c h s)"
  by (simp add: saveSecret_def reports_rules)

lemma reports_store_passphrase [reports_rules]: "reports (err_report (ac_base c)) (store_passphrase c asked h s)"
  by (simp add: store_passphrase_def reports_rules split: option.split)

text \<open>A client command goes to the server its flags name, and reports with that address.\<close>

definition client_reports :: "cli_env \<Rightarrow> api_flags \<Rightarrow> outcome cli \<Rightarrow> bool" where
  "client_reports ce af m \<longleftrightarrow>
     (case apiEndpoint ce af of Inl e \<Rightarrow> \<exists>r. m = Done r | Inr c \<Rightarrow> reports (out_report (ac_base c)) m)"

lemma client_reports_simple [reports_rules]:
  "client_reports ce af (fails e)" "client_reports ce af (prints out)" "client_reports ce af (Done r)"
  by (auto simp: client_reports_def fails_def prints_def split: sum.split)

lemma client_reports_with [reports_rules]:
  "(\<And>c. reports (out_report (ac_base c)) (f c)) \<Longrightarrow> client_reports ce af (with_client ce af f)"
  by (auto simp: client_reports_def with_client_def fails_def split: sum.split)

lemma client_reports_session [reports_rules]:
  "(\<And>c s. reports (out_report (ac_base c)) (f c s)) \<Longrightarrow> client_reports ce af (with_session ce af query f)"
  by (simp add: with_session_def reports_rules)

text \<open>One lemma for every command: unfold it, and follow how its requests are put together.\<close>

lemma session_commands_report:
  "client_reports ce af (session_ls ce af)"
  "client_reports ce af (session_create ce af cr)"
  "client_reports ce af (session_screen_cmd ce af q png out path)"
  "client_reports ce af (session_wait_cmd ce af q pat qms tms)"
  "client_reports ce af (session_type ce af q enter args)"
  "client_reports ce af (session_press ce af q args)"
  "client_reports ce af (session_rename ce af q args)"
  "client_reports ce af (session_resize_cmd ce af q nc nr)"
  "client_reports ce af (session_signal_cmd ce af q up a)"
  "client_reports ce af (session_destroy_cmd ce af q)"
  "client_reports ce af (session_forwards_ls ce af q)"
  "client_reports ce af (session_forwards_add ce af q ff)"
  "client_reports ce af (session_forwards_rm ce af q a)"
  by (auto simp: session_ls_def session_create_def session_screen_cmd_def session_wait_cmd_def session_type_def
      session_press_def sendBytes_def session_rename_def session_resize_cmd_def session_signal_cmd_def
      session_destroy_cmd_def session_forwards_ls_def session_forwards_add_def session_forwards_rm_def
      reportSessionState_def printForwards_def writeScreenPNG_def Let_def
      intro!: reports_rules split: option.split sum.split)

lemma host_commands_report:
  "client_reports ce af (hosts_ls ce af)"
  "client_reports ce af (hosts_add ce af hf kf sec)"
  "client_reports ce af (hosts_show ce af a)"
  "client_reports ce af (hosts_edit ce af a ef kf sec)"
  "client_reports ce af (hosts_rm ce af a)"
  "client_reports ce af (host_forwards_ls ce af a)"
  "client_reports ce af (host_forwards_add ce af a ff)"
  "client_reports ce af (host_forwards_rm ce af a bind kind)"
  by (auto simp: hosts_ls_def hosts_add_def hosts_show_def hosts_edit_def hosts_rm_def host_forwards_ls_def
      host_forwards_add_def host_forwards_rm_def printForwards_def Let_def
      intro!: reports_rules split: option.split sum.split)

lemma other_commands_report:
  "client_reports ce af (secrets_set_cmd ce af xf sec)"
  "client_reports ce af (secrets_rm_cmd enc ce af xf)"
  "client_reports ce af (known_hosts_ls ce af)"
  "client_reports ce af (known_hosts_forget esc ce af a)"
  "client_reports ce af (title_get ce af)"
  "client_reports ce af (title_set ce af args)"
  "client_reports ce af (title_clear ce af)"
  by (auto simp: secrets_set_cmd_def secrets_rm_cmd_def known_hosts_ls_def known_hosts_forget_def title_get_def
      title_set_def title_clear_def putTitle_def intro!: reports_rules split: option.split sum.split)

lemmas commands_report = session_commands_report host_commands_report other_commands_report

definition command_reports :: "flag_def list \<times> command \<Rightarrow> bool" where
  "command_reports = (\<lambda>(ds, c). case cm_run c of
     None \<Rightarrow> True
   | Some r \<Rightarrow> (\<forall>cw p args m. r cw p args = Some m \<longrightarrow> client_reports (cw_cli cw) (read_api_flags p) m))"

lemma command_reports_simps [simp]:
  "command_reports (ds, group u al pfs subs)"
  "command_reports (ds, leaf u al rule fs (client f)) \<longleftrightarrow>
     (\<forall>cw p args. client_reports (cw_cli cw) (read_api_flags p) (f cw (cw_cli cw) (read_api_flags p) p args))"
  "command_reports (ds, leaf u al rule fs (\<lambda>cw p args. Some (g cw p args))) \<longleftrightarrow>
     (\<forall>cw p args. client_reports (cw_cli cw) (read_api_flags p) (g cw p args))"
  by (simp_all add: command_reports_def group_def leaf_def client_def)

lemma command_reports_one [simp]:
  "(\<And>cw p a. client_reports (cw_cli cw) (read_api_flags p) (f cw (cw_cli cw) (read_api_flags p) p a)) \<Longrightarrow>
     command_reports (ds, leaf u al rule fs (client1 f))"
  by (auto simp: command_reports_def leaf_def client1_def split: list.splits)

lemma root_reports: "list_all command_reports (commands_of [] (rootCmd env))"
  by (simp add: rootCmd_def session_defs host_defs other_defs buildServeCmd_def buildAppCmd_def commands_report
      client_reports_simple)

section \<open>Properties\<close>

text \<open>
  Property C40.  No command hides a failure.  When a request of any command is not answered or answered
  with an error status, the command makes no other request, prints nothing on the standard output and
  ends with the error the server gave (or that it cannot be reached), with exit status 1.
\<close>

theorem failed_command_reports:
  assumes "(ds, c) \<in> set (commands_of [] (rootCmd env))" and "cm_run c = Some r" and "r cw p args = Some m"
    and "run_cli srv m w = ((err, out), w', qs)"
    and "i < length qs" and "failed_answer (cli_answers srv m w ! i)"
  shows "Suc i = length qs \<and> out = [] \<and> snd (main_exit err) = 1
    \<and> (\<exists>cl. apiEndpoint (cw_cli cw) (read_api_flags p) = Inr cl
          \<and> err = Some (failure_text (ac_base cl) (cli_answers srv m w ! i)))"
proof -
  have "command_reports (ds, c)" using root_reports assms(1) unfolding list_all_iff by blast
  then have rep: "client_reports (cw_cli cw) (read_api_flags p) m"
    using assms(2,3) by (simp add: command_reports_def)
  show ?thesis
  proof (cases "apiEndpoint (cw_cli cw) (read_api_flags p)")
    case (Inl e)
    then obtain r where "m = Done r" using rep by (auto simp: client_reports_def)
    then show ?thesis using assms(4,5) by simp
  next
    case (Inr cl)
    then have "reports (out_report (ac_base cl)) m" using rep by (simp add: client_reports_def)
    from reports_run [OF this assms(4)] assms(5,6) Inr show ?thesis
      by (auto simp: out_report_def main_exit_def)
  qed
qed

definition demo_parsed :: parsed where
  "demo_parsed =
     \<lparr>pf_string = (\<lambda>n. Some (if n = ''server'' then ''h'' else if n = ''token'' then ''secret'' else '''')),
      pf_bool = (\<lambda>_. Some False), pf_int = (\<lambda>_. Some 0), pf_text = (\<lambda>_. ''''), pf_changed = (\<lambda>_. False)\<rparr>"

definition demo_world :: cmd_world where
  "demo_world =
     \<lparr>cw_cli = demo_cli, cw_upper = id, cw_encode = (\<lambda>_. ''''), cw_escape = id,
      cw_info = \<lparr>vi_version = '''', vi_commit = '''', vi_goVersion = '''', vi_os = '''', vi_arch = ''''\<rparr>,
      cw_home = '''', cw_serve = (\<lambda>_. None), cw_app = (\<lambda>_ _. None)\<rparr>"

lemma demo_parsed_flags: "read_api_flags demo_parsed = demo_flags"
  by (simp add: read_api_flags_def demo_parsed_def demo_flags_def get_string_def given_def)

theorem failed_command_reports_witness:
  "\<exists>ds c r m. (ds, c) \<in> set (commands_of [] (rootCmd '''')) \<and> cm_name c = ''get''
     \<and> cm_run c = Some r \<and> r demo_world demo_parsed [] = Some m
     \<and> (case run_cli (\<lambda>w q. (None, Suc w)) m 0 of ((err, out), w', qs) \<Rightarrow>
          w' = 1 \<and> length qs = 1 \<and> out = [] \<and> err = Some ''cannot reach http://h'' \<and> snd (main_exit err) = 1)"
proof -
  let ?ds = "[string_flag ''config'' '''' ''~/.gossh/config.json''] @ addAPIFlags"
  let ?r = "client (\<lambda>cw ce af p args. title_get ce af)"
  let ?m = "title_get demo_cli demo_flags"
  let ?srv = "\<lambda>w q. (None, Suc w)"
  have m: "(?ds, buildTitleGetCmd) \<in> set (commands_of [] (rootCmd ''''))"
    by (simp add: rootCmd_def config_path_def buildTitleCmd_def) (simp add: buildTitleGetCmd_def)
  have r: "cm_run buildTitleGetCmd = Some ?r" by (simp add: buildTitleGetCmd_def leaf_def)
  have run: "?r demo_world demo_parsed [] = Some ?m"
    by (simp add: client_def demo_world_def demo_parsed_flags)
  obtain err out w' qs where go: "run_cli ?srv ?m 0 = ((err, out), w', qs)" by (metis prod_cases4 prod.collapse)
  have one: "w' = 1 \<and> length qs = 1 \<and> cli_answers ?srv ?m 0 = [None]"
    using go by (auto simp: title_get_def with_client_def demo_endpoint run_do run_call call_result_def)
      (simp add: cli_do_def api_call_def)
  with failed_command_reports [OF m r run go, of 0] demo_endpoint
  have "out = [] \<and> err = Some ''cannot reach http://h'' \<and> snd (main_exit err) = 1"
    by (auto simp: failed_answer_def failure_text_def demo_client_def demo_parsed_flags demo_world_def)
  with go one show ?thesis
    using m r run by (intro exI [of _ ?ds] exI [of _ buildTitleGetCmd] exI [of _ ?r] exI [of _ ?m])
      (simp add: buildTitleGetCmd_def main_exit_def)
qed

end
