(* ===== verification/Middleware.thy ===== *)
theory Middleware
  imports Api_Routes
begin

text \<open>
  \<open>internal/api/middleware.go\<close>: the options of \<open>Server.Run\<close>, the constant header, and the access log,
  which wraps the response writer to learn the status.  A handler is the list of the calls it makes
  on its writer; the writer of \<open>net/http\<close> is modelled as far as it is documented: the first status
  is sent, a body without one sends 200, after a hijack nothing more is sent.
\<close>

section \<open>Options of a run\<close>

record 'ctx run_options =
  ro_gracefullCtx :: "'ctx option"
  ro_urlHook :: "(string \<Rightarrow> unit) option"

type_synonym 'ctx run_option = "'ctx run_options \<Rightarrow> 'ctx run_options"

definition withGracefullContext :: "'ctx \<Rightarrow> 'ctx run_option" where
  "withGracefullContext ctx o1 = o1\<lparr>ro_gracefullCtx := Some ctx\<rparr>"

definition withURLHook :: "(string \<Rightarrow> unit) \<Rightarrow> 'ctx run_option" where
  "withURLHook fn o1 = o1\<lparr>ro_urlHook := Some fn\<rparr>"

text \<open>The options are applied in order to those without a hook, with the background context.\<close>

definition run_opts :: "'ctx \<Rightarrow> 'ctx run_option list \<Rightarrow> 'ctx run_options" where
  "run_opts background opts = fold (\<lambda>opt o1. opt o1) opts \<lparr>ro_gracefullCtx = Some background, ro_urlHook = None\<rparr>"

section \<open>Response writers\<close>

datatype writer_call = CallWriteHeader nat | CallWrite string | CallSetHeader string string | CallHijack

record http_writer =
  hw_header :: "string \<rightharpoonup> string"
  hw_sent :: "nat option"
  hw_body :: string
  hw_hijacked :: bool

definition fresh_writer :: http_writer where
  "fresh_writer = \<lparr>hw_header = Map.empty, hw_sent = None, hw_body = '''', hw_hijacked = False\<rparr>"

primrec http_call :: "writer_call \<Rightarrow> http_writer \<Rightarrow> http_writer" where
  "http_call (CallWriteHeader s) w =
     (if hw_hijacked w \<or> hw_sent w \<noteq> None then w else w\<lparr>hw_sent := Some s\<rparr>)"
| "http_call (CallWrite b) w =
     (if hw_hijacked w then w
      else w\<lparr>hw_sent := (case hw_sent w of None \<Rightarrow> Some 200 | Some s \<Rightarrow> Some s), hw_body := hw_body w @ b\<rparr>)"
| "http_call (CallSetHeader k v) w =
     (if hw_hijacked w \<or> hw_sent w \<noteq> None then w else w\<lparr>hw_header := (hw_header w)(k \<mapsto> v)\<rparr>)"
| "http_call CallHijack w = w\<lparr>hw_hijacked := True\<rparr>"

text \<open>What the client gets when the handler is done: a status that was not set is 200.\<close>

definition status_sent :: "http_writer \<Rightarrow> nat" where
  "status_sent w = (if hw_hijacked w then 101 else case hw_sent w of None \<Rightarrow> 200 | Some s \<Rightarrow> s)"

text \<open>\<open>logResponseWriter\<close>: the other methods are those of the writer it embeds.\<close>

record log_writer =
  lw_writer :: http_writer
  lw_status :: nat

primrec log_call :: "writer_call \<Rightarrow> log_writer \<Rightarrow> log_writer" where
  "log_call (CallWriteHeader s) w = \<lparr>lw_writer = http_call (CallWriteHeader s) (lw_writer w), lw_status = s\<rparr>"
| "log_call CallHijack w = \<lparr>lw_writer = http_call CallHijack (lw_writer w), lw_status = 101\<rparr>"
| "log_call (CallWrite b) w = w\<lparr>lw_writer := http_call (CallWrite b) (lw_writer w)\<rparr>"
| "log_call (CallSetHeader k v) w = w\<lparr>lw_writer := http_call (CallSetHeader k v) (lw_writer w)\<rparr>"

definition wrapHeaders :: "writer_call list \<Rightarrow> writer_call list" where
  "wrapHeaders calls = CallSetHeader ''Server'' ''GoSSH'' # calls"

definition access_line :: "string \<Rightarrow> nat \<Rightarrow> string \<Rightarrow> string \<Rightarrow> string" where
  "access_line remote status m path = remote @ '' '' @ nat_itoa status @ '' '' @ m @ '' '' @ path"

text \<open>The answer and the line that is logged.\<close>

definition wrapLogger :: "string \<Rightarrow> string \<Rightarrow> string \<Rightarrow> writer_call list \<Rightarrow> http_writer \<Rightarrow> http_writer \<times> string" where
  "wrapLogger remote m path calls w =
     (let lw = fold log_call calls \<lparr>lw_writer = w, lw_status = 200\<rparr>
      in (lw_writer lw, access_line remote (lw_status lw) m path))"

section \<open>What the log and the client see\<close>

text \<open>The wrapper is transparent: the client gets what it would get without the log.\<close>

lemma log_transparent [simp]: "lw_writer (fold log_call calls lw) = fold http_call calls (lw_writer lw)"
proof (induction calls arbitrary: lw)
  case (Cons c calls)
  then show ?case by (cases c) auto
qed simp

definition status_calls :: "writer_call list \<Rightarrow> nat" where
  "status_calls calls = length (filter (\<lambda>c. case c of CallWriteHeader _ \<Rightarrow> True | CallHijack \<Rightarrow> True | _ \<Rightarrow> False) calls)"

lemma no_status_calls:
  "status_calls calls = 0 \<Longrightarrow> lw_status (fold log_call calls lw) = lw_status lw
     \<and> hw_hijacked (fold http_call calls w) = hw_hijacked w
     \<and> (hw_sent w \<noteq> None \<longrightarrow> hw_sent (fold http_call calls w) = hw_sent w)
     \<and> (hw_sent w = None \<longrightarrow> hw_sent (fold http_call calls w) \<in> {None, Some 200})"
proof (induction calls arbitrary: lw w)
  case (Cons c calls)
  from Cons.prems Cons.IH [of "log_call c lw" "http_call c w"] show ?case
    by (cases c) (auto simp: status_calls_def split: option.splits if_splits)
qed simp

text \<open>
  The logged status is the one sent, for a handler that sets it at most once, before its body, as
  \<open>writeJSON\<close>, \<open>writeError\<close> and the upgrade do.
\<close>

definition sets_status_first :: "writer_call list \<Rightarrow> bool" where
  "sets_status_first calls \<longleftrightarrow>
     (case dropWhile (\<lambda>c. \<exists>k v. c = CallSetHeader k v) calls of [] \<Rightarrow> True | c # cs \<Rightarrow> status_calls cs = 0)"

lemma fold_headers:
  "list_all (\<lambda>c. \<exists>k v. c = CallSetHeader k v) hs \<Longrightarrow>
     hw_sent (fold http_call hs w) = hw_sent w \<and> hw_hijacked (fold http_call hs w) = hw_hijacked w
     \<and> lw_status (fold log_call hs lw) = lw_status lw"
proof (induction hs arbitrary: w lw)
  case (Cons c hs)
  then obtain k v where c: "c = CallSetHeader k v" by auto
  with Cons.prems Cons.IH [of "http_call c w" "log_call c lw"] show ?case
    by (auto simp: c split: if_splits)
qed simp

lemma logged_status_sent:
  assumes "sets_status_first calls" "hw_sent w = None" "\<not> hw_hijacked w"
  shows "snd (wrapLogger remote m path calls w)
     = access_line remote (status_sent (fst (wrapLogger remote m path calls w))) m path"
proof -
  let ?hdr = "\<lambda>c. \<exists>k v. c = CallSetHeader k v"
  define hs where "hs = takeWhile ?hdr calls"
  define rest where "rest = dropWhile ?hdr calls"
  define w1 where "w1 = fold http_call hs w"
  define l1 where "l1 = fold log_call hs \<lparr>lw_writer = w, lw_status = 200\<rparr>"
  have split: "calls = hs @ rest" by (simp add: hs_def rest_def)
  have "list_all ?hdr hs" by (auto simp: hs_def list_all_iff dest: set_takeWhileD)
  from fold_headers [OF this, of w "\<lparr>lw_writer = w, lw_status = 200\<rparr>"] assms(2,3)
  have 1: "hw_sent w1 = None" "\<not> hw_hijacked w1" "lw_status l1 = 200"
    by (auto simp: w1_def l1_def)
  have "lw_status (fold log_call rest l1) = status_sent (fold http_call rest w1)"
  proof (cases rest)
    case (Cons c cs)
    then have "status_calls cs = 0" using assms(1) by (simp add: sets_status_first_def rest_def)
    from no_status_calls [OF this, of "log_call c l1" "http_call c w1"] 1 show ?thesis
      by (cases c) (auto simp: Cons status_sent_def)
  qed (simp add: 1 status_sent_def)
  then show ?thesis by (simp add: wrapLogger_def Let_def split w1_def l1_def)
qed

text \<open>A status that is set too late reaches the log and not the client.\<close>

lemma late_status_logged:
  "wrapLogger r m p [CallWrite ''x'', CallWriteHeader 500] fresh_writer
     = (\<lparr>hw_header = Map.empty, hw_sent = Some 200, hw_body = ''x'', hw_hijacked = False\<rparr>, access_line r 500 m p)"
  by (simp add: wrapLogger_def fresh_writer_def)

text \<open>
  Requests with the same method, path and status are logged alike: the token, in the query or in a
  header, does not reach the access log.
\<close>

definition logged_request :: "('v, 't, 's, 'd, 'c) gossh_env \<Rightarrow> happening \<Rightarrow> string \<Rightarrow> http_request
    \<Rightarrow> ('v, 't, 's, 'd) gossh \<Rightarrow> string option" where
  "logged_request ge hp remote q st =
     map_option (\<lambda>a. access_line remote (hr_status a) (in_method q) (in_path q)) (fst (serve ge hp q st))"

lemma strangers_logged_alike:
  assumes "\<not> requireToken (ge_token ge) (request_token (ge_unquery ge) q)"
    and "find_target (ge_unescape ge) (in_method q) (in_path q) = ApiRoute r"
  shows "logged_request ge hp remote q st = Some (access_line remote 401 (in_method q) (in_path q))"
  using assms by (simp add: logged_request_def serve_def Let_def unauthorized_def text_answer_def)

end
