(* ===== verification/Multiplex.thy ===== *)
theory Multiplex
  imports Ws_Router Session_Props "HOL-Library.Sublist"
begin

text \<open>
  The socket and the sessions together: \<open>ws_handler.go\<close> reads frames into the channels, and the attach of
  each session (\<open>Session.Attach\<close>, whose relay is \<open>masterToSlave\<close>) reads its own channel.  They are
  goroutines; the system is a step relation in which they act in any order, and the result is what
  a terminal gets of what was sent on the socket.
\<close>

section \<open>The system\<close>

text \<open>
  The router, the events the read loop has handled, and for every channel its relay: the error it
  has ended with, if it has, and its state.  A relay has the terminal of its session, its options,
  and the writes on its channel.
\<close>

record 'm mux =
  mx_rt :: router
  mx_in :: "ws_event list"
  mx_relay :: "nat \<Rightarrow> sess_error option \<times> 'm relay"

record 'm mux_env =
  me_tok :: "nat \<Rightarrow> term_oracle"
  me_cok :: "nat \<Rightarrow> conn_oracle"
  me_opts :: "nat \<Rightarrow> attach_options"
  me_mirror :: "'m mirror_ops"
  me_parse :: json_parser

definition run_relay :: "'m mux_env \<Rightarrow> nat \<Rightarrow> relay_input \<Rightarrow> 'm mux \<Rightarrow> 'm mux" where
  "run_relay e c i s =
     s\<lparr>mx_relay := (mx_relay s)(c :=
         masterToSlave (me_tok e c) (me_cok e c) (me_mirror e) (me_parse e) (me_opts e c) [i] (snd (mx_relay s c)))\<rparr>"

definition with_router :: "router \<Rightarrow> 'm mux \<Rightarrow> 'm mux" where
  "with_router rt s = s\<lparr>mx_rt := rt\<rparr>"

text \<open>
  The read loop takes an event, after an error none; a relay that runs reads a message, the end of its
  channel, or is cancelled; the frames of a session are written; an attach starts, ends, or is evicted.
\<close>

inductive mux_step :: "'m mux_env \<Rightarrow> 'm mux \<Rightarrow> 'm mux \<Rightarrow> bool" for e where
  socket: "WsErr \<notin> set (mx_in s) \<Longrightarrow>
     mux_step e s (s\<lparr>mx_rt := rt_serve cok exists [ev] (mx_rt s), mx_in := mx_in s @ [ev]\<rparr>)"
| read_frame: "fst (mx_relay s c) = None \<Longrightarrow> vc_readMessage (rt_conns (mx_rt s) ! c) = (RFrame msg, v) \<Longrightarrow>
     mux_step e s (run_relay e c (ClientMsg msg) (with_router (vc_upd c (\<lambda>_. v) (mx_rt s)) s))"
| read_end: "fst (mx_relay s c) = None \<Longrightarrow> vc_readMessage (rt_conns (mx_rt s) ! c) = (REof, v) \<Longrightarrow>
     mux_step e s (run_relay e c ReadFailed s)"
| cancelled: "fst (mx_relay s c) = None \<Longrightarrow> mux_step e s (run_relay e c CtxDone s)"
| write_frame: "mux_step e s (with_router (snd (vc_write cok c p (mx_rt s))) s)"
| attach_start: "mux_step e s (with_router (snd (rt_attach_start cok c (mx_rt s))) s)"
| attach_end: "mux_step e s (with_router (rt_attach_end c (mx_rt s)) s)"
| evicted: "mux_step e s (with_router (vc_close cok destroyed c (mx_rt s)) s)"

inductive mux_reach :: "'m mux_env \<Rightarrow> 'm mux \<Rightarrow> 'm mux \<Rightarrow> bool" for e s0 where
  start: "mux_reach e s0 s0"
| step: "mux_reach e s0 s \<Longrightarrow> mux_step e s s' \<Longrightarrow> mux_reach e s0 s'"

section \<open>A channel and the other channels\<close>

text \<open>An operation keeps a channel: its queue is the same, and it is registered only if it was.\<close>

definition keeps :: "nat \<Rightarrow> router \<Rightarrow> router \<Rightarrow> bool" where
  "keeps c rt rt' \<longleftrightarrow>
     c < length (rt_conns rt') \<and> vc_sid (rt_conns rt' ! c) = vc_sid (rt_conns rt ! c)
     \<and> vc_queue (rt_conns rt' ! c) = vc_queue (rt_conns rt ! c)
     \<and> (\<forall>sid. map_of (rt_chans rt') sid = Some c \<longrightarrow> map_of (rt_chans rt) sid = Some c)"

lemma keeps_refl [simp]: "c < length (rt_conns rt) \<Longrightarrow> keeps c rt rt"
  by (simp add: keeps_def)

lemma keeps_trans: "keeps c rt rt1 \<Longrightarrow> keeps c rt1 rt2 \<Longrightarrow> keeps c rt rt2"
  by (auto simp: keeps_def)

lemma keeps_write [simp]:
  "c < length (rt_conns rt) \<Longrightarrow> keeps c rt (snd (vc_write cok d p rt))"
  "c < length (rt_conns rt) \<Longrightarrow> keeps c rt (snd (rt_writeRouted cok sid t p rt))"
  "c < length (rt_conns rt) \<Longrightarrow> keeps c rt (snd (rt_writeRaw cok f rt))"
  by (simp_all add: keeps_def)

lemma keeps_remove: "c < length (rt_conns rt) \<Longrightarrow> keeps c rt (rt_remove sid d rt)"
  by (auto simp: keeps_def rt_remove_def split: if_splits)

lemma keeps_closeLocal: "c < length (rt_conns rt) \<Longrightarrow> keeps c rt (vc_closeLocal d rt)"
  by (cases "d = c") (auto simp: keeps_def closeLocal_conns closeLocal_chans split: if_splits)

lemma keeps_attach_start: "c < length (rt_conns rt) \<Longrightarrow> keeps c rt (snd (rt_attach_start cok d rt))"
  using keeps_trans [OF keeps_write(2) keeps_remove] 
  by (auto simp: rt_attach_start_def Let_def case_prod_beta split: if_splits)

lemma keeps_attach_end: "c < length (rt_conns rt) \<Longrightarrow> keeps c rt (rt_attach_end d rt)"
  unfolding rt_attach_end_def
  by (rule keeps_trans [OF keeps_remove keeps_closeLocal]) (auto simp: rt_remove_def)

lemma keeps_evicted: "c < length (rt_conns rt) \<Longrightarrow> keeps c rt (vc_close cok destroyed d rt)"
  unfolding vc_close_def Let_def
  by (rule keeps_trans [OF keeps_closeLocal keeps_write(2)]) (auto simp: closeLocal_conns)

lemma keeps_closeAll: "c < length (rt_conns rt) \<Longrightarrow> keeps c rt (rt_closeAll rt)"
proof -
  assume c: "c < length (rt_conns rt)"
  have "c < length (rt_conns r) \<Longrightarrow> keeps c r (fold vc_closeLocal ds r)" for r ds
  proof (induction ds arbitrary: r)
    case (Cons d ds)
    then show ?case
      using keeps_trans [OF keeps_closeLocal, of c r d] by (auto simp: closeLocal_conns)
  qed simp
  from this [of "rt\<lparr>rt_chans := []\<rparr>"] c show ?thesis by (auto simp: rt_closeAll_def keeps_def)
qed

text \<open>A frame is put into the queue of the channel it is for, and of no other.\<close>

definition delivered :: "nat \<Rightarrow> routed_frame \<Rightarrow> router \<Rightarrow> bytes list" where
  "delivered c f rt =
     (if rf_session f \<noteq> '''' \<and> rf_type f \<noteq> Attach \<and> rf_type f \<noteq> Detach \<and> map_of (rt_chans rt) (rf_session f) = Some c
      then [rf_type f # rf_payload f] else [])"

lemma dispatch_delivers:
  assumes "router_inv rt" "c < length (rt_conns rt)"
  shows "c < length (rt_conns (fst (rt_dispatch cok exists f rt)))
    \<and> vc_sid (rt_conns (fst (rt_dispatch cok exists f rt)) ! c) = vc_sid (rt_conns rt ! c)
    \<and> vc_queue (rt_conns (fst (rt_dispatch cok exists f rt)) ! c) = vc_queue (rt_conns rt ! c) @ delivered c f rt
    \<and> (\<forall>sid. map_of (rt_chans (fst (rt_dispatch cok exists f rt))) sid = Some c \<longrightarrow> map_of (rt_chans rt) sid = Some c)"
proof (cases "isConnLevel f")
  case True
  with assms show ?thesis by (simp add: rt_dispatch_def delivered_def isConnLevel_def)
next
  case False
  then have ne: "rf_session f \<noteq> ''''" by (simp add: isConnLevel_def)
  consider "rf_type f = Attach" | "rf_type f = Detach" | "rf_type f \<noteq> Attach" "rf_type f \<noteq> Detach" by blast
  then show ?thesis
  proof cases
    case 1
    with False assms show ?thesis by (auto simp: rt_dispatch_def Let_def delivered_def nth_append)
  next
    case 2
    have "keeps c rt (rt_detach (rf_session f) rt)"
    proof (cases "map_of (rt_chans rt) (rf_session f)")
      case (Some d)
      have "keeps c rt (rt\<lparr>rt_chans := map_delete (rf_session f) (rt_chans rt)\<rparr>)"
        using assms(2) by (auto simp: keeps_def split: if_splits)
      from keeps_trans [OF this keeps_closeLocal] Some assms(2) show ?thesis by (simp add: rt_detach_def)
    qed (simp add: rt_detach_def assms(2))
    then show ?thesis using 2 False by (auto simp: rt_dispatch_def Let_def delivered_def keeps_def msg_types)
  next
    case 3
    show ?thesis
    proof (cases "map_of (rt_chans rt) (rf_session f)")
      case None
      with 3 False ne assms show ?thesis by (simp add: rt_dispatch_def Let_def rt_channel_def delivered_def)
    next
      case (Some d)
      with router_invD [OF assms(1) this] 3 False ne assms(2) show ?thesis
        by (auto simp: rt_dispatch_def Let_def rt_channel_def delivered_def vc_deliver_def nth_list_update)
    qed
  qed
qed

section \<open>What a terminal has been given\<close>

text \<open>
  The input sent on the socket for a session, which its options permit; the writes to the terminal of
  a channel; the input that waits in its queue.
\<close>

definition routed_input :: "attach_options \<Rightarrow> string \<Rightarrow> ws_event list \<Rightarrow> bytes list" where
  "routed_input opts sid evs = typed_input opts (map ClientMsg (frames_for sid evs))"

definition terminal_writes :: "nat \<Rightarrow> 'm mux \<Rightarrow> bytes list" where
  "terminal_writes c s = writes_of (re_term (snd (mx_relay s c)))"

definition queued_input :: "'m mux_env \<Rightarrow> nat \<Rightarrow> 'm mux \<Rightarrow> bytes list" where
  "queued_input e c s = typed_input (me_opts e c) (map ClientMsg (vc_queue (rt_conns (mx_rt s) ! c)))"

lemma typed_input_append: "typed_input opts (xs @ ys) = typed_input opts xs @ typed_input opts ys"
  by (induction opts xs rule: typed_input.induct) auto

lemma frames_for_append: "WsErr \<notin> set evs \<Longrightarrow> frames_for sid (evs @ evs') = frames_for sid evs @ frames_for sid evs'"
  by (induction sid evs rule: frames_for.induct) (auto split: sum.split)

text \<open>One input of a relay: what it writes is the input, or nothing when the write failed.\<close>

lemma relay_one:
  assumes "masterToSlave tok cok mo unmarshal opts [i] r = (err, r')"
  shows "prefix (writes_of (re_term r')) (writes_of (re_term r) @ typed_input opts [i])
    \<and> (err = None \<longrightarrow> writes_of (re_term r') = writes_of (re_term r) @ typed_input opts [i])"
  using relay_input_in_order [where tok = tok and cok = cok and mo = mo and unmarshal = unmarshal and opts = opts
      and ins = "[i]" and r = r] assms
  by (auto split: if_splits simp: take_is_prefix)

text \<open>One event of the socket: the queue of a channel grows by the frames for its session.\<close>

lemma socket_event:
  fixes cok :: conn_oracle and exists :: "string \<Rightarrow> bool" and ev :: ws_event
  assumes "router_inv rt" "c < length (rt_conns rt)" "sid \<noteq> ''''" "vc_sid (rt_conns rt ! c) = sid"
  defines "rt' \<equiv> rt_serve cok exists [ev] rt"
  shows "c < length (rt_conns rt') \<and> vc_sid (rt_conns rt' ! c) = sid
    \<and> (map_of (rt_chans rt') sid = Some c \<longrightarrow> map_of (rt_chans rt) sid = Some c)
    \<and> vc_queue (rt_conns rt' ! c) = vc_queue (rt_conns rt ! c)
        @ (if map_of (rt_chans rt) sid = Some c then frames_for sid [ev] else [])"
proof (cases ev)
  case WsErr
  with keeps_closeAll [OF assms(2)] assms(4) show ?thesis by (auto simp: rt'_def keeps_def)
next
  case (WsMsg binary msg)
  show ?thesis
  proof (cases "binary \<and> is_ok (decodeRouted msg)")
    case False
    then have "rt' = rt" "frames_for sid [ev] = []" by (auto simp: rt'_def WsMsg split: sum.split)
    with assms(2,4) show ?thesis by simp
  next
    case True
    then obtain f where f: "decodeRouted msg = Inr f" and b: "binary" by auto
    have "delivered c f rt = (if map_of (rt_chans rt) sid = Some c then frames_for sid [ev] else [])"
    proof (cases "rf_session f = sid")
      case True
      then show ?thesis using assms(3) by (simp add: delivered_def WsMsg f b)
    next
      case False
      then have "map_of (rt_chans rt) (rf_session f) \<noteq> Some c"
        using router_invD [OF assms(1), of "rf_session f" c] assms(4) by auto
      with False show ?thesis by (simp add: delivered_def WsMsg f)
    qed
    moreover have "rt' = fst (rt_dispatch cok exists f rt)" by (simp add: rt'_def WsMsg f b)
    ultimately show ?thesis
      using dispatch_delivers [OF assms(1,2), of cok exists f] assms(4) by simp
  qed
qed

definition mux_inv :: "'m mux_env \<Rightarrow> nat \<Rightarrow> string \<Rightarrow> bytes list \<Rightarrow> 'm mux \<Rightarrow> bool" where
  "mux_inv e c sid w0 s \<longleftrightarrow>
     router_inv (mx_rt s) \<and> c < length (rt_conns (mx_rt s)) \<and> vc_sid (rt_conns (mx_rt s) ! c) = sid
     \<and> prefix (terminal_writes c s) (w0 @ routed_input (me_opts e c) sid (mx_in s))
     \<and> (fst (mx_relay s c) = None \<longrightarrow>
          prefix (terminal_writes c s @ queued_input e c s) (w0 @ routed_input (me_opts e c) sid (mx_in s))
          \<and> (map_of (rt_chans (mx_rt s)) sid = Some c \<longrightarrow>
               terminal_writes c s @ queued_input e c s = w0 @ routed_input (me_opts e c) sid (mx_in s)))"

lemma router_step_keeps:
  assumes "mux_inv e c sid w0 s" "keeps c (mx_rt s) rt" "router_inv rt"
  shows "mux_inv e c sid w0 (with_router rt s)"
  using assms by (auto simp: mux_inv_def keeps_def with_router_def terminal_writes_def queued_input_def)

lemma relay_frame [simp]: "mx_rt (run_relay e c i s) = mx_rt s" "mx_in (run_relay e c i s) = mx_in s"
  by (simp_all add: run_relay_def)

text \<open>A relay that ends without reading a frame.\<close>

lemma relay_ends:
  assumes "mux_inv e c sid w0 s" "i = ReadFailed \<or> i = CtxDone" "fst (mx_relay s d) = None"
  shows "mux_inv e c sid w0 (run_relay e d i s)"
  using assms by (auto simp: mux_inv_def run_relay_def terminal_writes_def queued_input_def split: if_splits)

lemma relay_reads:
  assumes "mux_inv e c sid w0 s" "fst (mx_relay s d) = None"
    and "vc_readMessage (rt_conns (mx_rt s) ! d) = (RFrame msg, v)"
  shows "mux_inv e c sid w0 (run_relay e d (ClientMsg msg) (with_router (vc_upd d (\<lambda>_. v) (mx_rt s)) s))"
proof -
  let ?s = "run_relay e d (ClientMsg msg) (with_router (vc_upd d (\<lambda>_. v) (mx_rt s)) s)"
  obtain fs where q: "vc_queue (rt_conns (mx_rt s) ! d) = msg # fs" "v = (rt_conns (mx_rt s) ! d)\<lparr>vc_queue := fs\<rparr>"
    using assms(3) by (auto simp: vc_readMessage_def split: list.splits if_splits)
  have "vc_upd d (\<lambda>_. v) (mx_rt s) = vc_upd d (\<lambda>v. snd (vc_readMessage v)) (mx_rt s)"
    using assms(3) by (simp add: vc_upd_def)
  moreover have "router_inv (vc_upd d (\<lambda>v. snd (vc_readMessage v)) (mx_rt s))"
    using assms(1) by (intro upd_inv) (auto simp: mux_inv_def vc_readMessage_def split: list.split)
  ultimately have inv: "router_inv (mx_rt ?s)" by (simp add: with_router_def)
  show ?thesis
  proof (cases "d = c")
    case False
    then show ?thesis
      using assms(1) inv by (auto simp: mux_inv_def run_relay_def with_router_def terminal_writes_def queued_input_def)
  next
    case True
    obtain err r where r: "masterToSlave (me_tok e c) (me_cok e c) (me_mirror e) (me_parse e) (me_opts e c)
        [ClientMsg msg] (snd (mx_relay s c)) = (err, r)" by fastforce
    have after: "terminal_writes c ?s = writes_of (re_term r)" "fst (mx_relay ?s c) = err"
      by (simp_all add: terminal_writes_def run_relay_def with_router_def True r del: masterToSlave.simps)
    have "queued_input e c s = typed_input (me_opts e c) [ClientMsg msg] @ queued_input e c ?s"
      using q True assms(1) typed_input_append [of "me_opts e c" "[ClientMsg msg]" "map ClientMsg fs"]
      by (simp add: queued_input_def run_relay_def with_router_def mux_inv_def)
    then have eq: "terminal_writes c s @ queued_input e c s
      = (terminal_writes c s @ typed_input (me_opts e c) [ClientMsg msg]) @ queued_input e c ?s"
      by simp
    let ?w = "terminal_writes c s @ typed_input (me_opts e c) [ClientMsg msg]"
    let ?all = "w0 @ routed_input (me_opts e c) sid (mx_in s)"
    have alive: "fst (mx_relay s c) = None" using assms(2) True by simp
    have old: "prefix (?w @ queued_input e c ?s) ?all"
      "map_of (rt_chans (mx_rt s)) sid = Some c \<longrightarrow> ?w @ queued_input e c ?s = ?all"
      using assms(1) alive unfolding mux_inv_def eq by (simp_all del: append_assoc typed_input.simps)
    have one: "prefix (terminal_writes c ?s) ?w" "err = None \<Longrightarrow> terminal_writes c ?s = ?w"
      using relay_one [OF r] unfolding after(1) by (simp_all add: terminal_writes_def del: typed_input.simps)
    have "prefix (terminal_writes c ?s) ?all"
      by (rule prefix_order.trans [OF one(1) append_prefixD [OF old(1)]])
    moreover have "c < length (rt_conns (mx_rt ?s)) \<and> vc_sid (rt_conns (mx_rt ?s) ! c) = sid"
      "rt_chans (mx_rt ?s) = rt_chans (mx_rt s)" "mx_in ?s = mx_in s"
      using assms(1) q True by (simp_all add: mux_inv_def with_router_def)
    ultimately show ?thesis
      unfolding mux_inv_def using inv old one(2) after(2) by metis
  qed
qed

lemma step_mux_inv:
  assumes "mux_step e s s'" "mux_inv e c sid w0 s" "sid \<noteq> ''''"
  shows "mux_inv e c sid w0 s'"
  using assms
proof (induction rule: mux_step.induct)
  case (socket s ev cok exists)
  then have i: "router_inv (mx_rt s)" "c < length (rt_conns (mx_rt s))" "vc_sid (rt_conns (mx_rt s) ! c) = sid"
    by (simp_all add: mux_inv_def)
  have inv: "router_inv (rt_serve cok exists [ev] (mx_rt s))" by (rule serve_inv [OF i(1)])
  have ri: "routed_input (me_opts e c) sid (mx_in s @ [ev])
      = routed_input (me_opts e c) sid (mx_in s) @ typed_input (me_opts e c) (map ClientMsg (frames_for sid [ev]))"
    using socket.hyps by (simp add: routed_input_def frames_for_append typed_input_append)
  show ?case
    using socket_event [OF i(1,2) socket.prems(2) i(3), where cok = cok and exists = exists and ev = ev] inv socket.prems(1)
    by (auto simp: mux_inv_def ri terminal_writes_def queued_input_def typed_input_append
        simp flip: append_assoc intro: prefix_prefix split: if_splits)
next
  case (read_frame s d msg v)
  then show ?case by (intro relay_reads)
next
  case (read_end s d v)
  then show ?case by (intro relay_ends) auto
next
  case (cancelled s d)
  then show ?case by (intro relay_ends) auto
next
  case (write_frame s cok d p)
  then show ?case
    by (intro router_step_keeps keeps_write step_router_inv [OF rt_step.bridge_write]) (auto simp: mux_inv_def)
next
  case (attach_start s cok d)
  then show ?case
    by (intro router_step_keeps keeps_attach_start step_router_inv [OF rt_step.attach_start]) (auto simp: mux_inv_def)
next
  case (attach_end s d)
  then show ?case
    by (intro router_step_keeps keeps_attach_end step_router_inv [OF rt_step.attach_end]) (auto simp: mux_inv_def)
next
  case (evicted s cok destroyed d)
  then show ?case
    by (intro router_step_keeps keeps_evicted step_router_inv [OF rt_step.evicted]) (auto simp: mux_inv_def)
qed

section \<open>Properties\<close>

lemma reach_mux_inv:
  "mux_reach e s0 s \<Longrightarrow> mux_inv e c sid w0 s0 \<Longrightarrow> sid \<noteq> '''' \<Longrightarrow> mux_inv e c sid w0 s"
  by (induction rule: mux_reach.induct) (auto intro: step_mux_inv)

text \<open>
  Property C18.  What is typed for a session reaches its terminal and no other.  Many sessions share a
  socket; the read loop, the relays, the writers, the attaches and the evictions act in any order.  From
  when the channel of a session is attached, its terminal is given, in order and each once, the inputs
  that the socket carried for this session under its permissions: at any time a prefix of them, and,
  while the channel is open and its relay runs, all but those that wait in the queue.
\<close>

theorem typed_input_reaches_terminal:
  assumes "rt_reach (mx_rt s0)" and "map_of (rt_chans (mx_rt s0)) sid = Some c" and "sid \<noteq> ''''"
    and "vc_queue (rt_conns (mx_rt s0) ! c) = []" and "mx_in s0 = []"
    and "mux_reach e s0 s"
  shows "prefix (terminal_writes c s) (terminal_writes c s0 @ routed_input (me_opts e c) sid (mx_in s))
    \<and> (map_of (rt_chans (mx_rt s)) sid = Some c \<and> fst (mx_relay s c) = None \<longrightarrow>
         terminal_writes c s @ queued_input e c s = terminal_writes c s0 @ routed_input (me_opts e c) sid (mx_in s))"
proof -
  have "mux_inv e c sid (terminal_writes c s0) s0"
    using reach_router_inv [OF assms(1)] router_invD [OF reach_router_inv [OF assms(1)] assms(2)] assms(4,5)
    by (simp add: mux_inv_def queued_input_def routed_input_def)
  from reach_mux_inv [OF assms(6) this assms(3)] show ?thesis by (simp add: mux_inv_def)
qed

definition demo_mux_env :: "unit mux_env" where
  "demo_mux_env =
     \<lparr>me_tok = (\<lambda>_ _ _. True), me_cok = (\<lambda>_ _ _. True),
      me_opts = (\<lambda>_. \<lparr>ao_permitWrite = True, ao_fixedCols = 0, ao_fixedRows = 0, ao_windowTitle = [],
                       ao_reconnectSeconds = 0, ao_preferences = []\<rparr>),
      me_mirror = \<lparr>mo_write = (\<lambda>_ m. m), mo_resize = (\<lambda>_ _ m. m), mo_drain = (\<lambda>m. ([], m)), mo_text = (\<lambda>_. '''')\<rparr>,
      me_parse = (\<lambda>_. None)\<rparr>"

definition demo_mux :: "unit mux" where
  "demo_mux =
     \<lparr>mx_rt = demo_attached_router, mx_in = [],
      mx_relay = (\<lambda>_. (None, \<lparr>re_session = new_session demo_sid \<lparr>cs_hostID = '''', cs_name = '''', cs_addr = '''', cs_user = ''''\<rparr>
                                None True 0,
                              re_term = [], re_conn = [], re_firstResize = True\<rparr>))\<rparr>"

lemma demo_input_decoded:
  "decodeRouted (routed_layout demo_sid Input [7]) = Inr \<lparr>rf_session = demo_sid, rf_type = Input, rf_payload = [7]\<rparr>"
proof -
  have "length demo_sid = 16" by (simp add: demo_sid_def)
  moreover have "demo_sid \<noteq> connLevelID" by (simp add: demo_sid_def connLevelID_def numeral_eq_Suc)
  ultimately show ?thesis using decodeRouted_layout [of demo_sid "[7]" Input] by simp
qed

theorem typed_input_reaches_terminal_witness:
  "\<exists>s. mux_reach demo_mux_env demo_mux s \<and> mx_in s = [WsMsg True (routed_layout demo_sid Input [7])]
     \<and> terminal_writes 0 s = [[7]]"
proof -
  let ?ev = "WsMsg True (routed_layout demo_sid Input [7])"
  let ?rt1 = "rt_serve (\<lambda>_ _. True) (\<lambda>_. True) [?ev] (mx_rt demo_mux)"
  define s1 where "s1 = demo_mux\<lparr>mx_rt := ?rt1, mx_in := mx_in demo_mux @ [?ev]\<rparr>"
  define v where "v = newVirtualConn demo_sid"
  define s2 where "s2 = run_relay demo_mux_env 0 (ClientMsg [Input, 7]) (with_router (vc_upd 0 (\<lambda>_. v) (mx_rt s1)) s1)"
  have ne: "demo_sid \<noteq> ''''" by (simp add: demo_sid_def)
  have t: "Input \<noteq> Attach" "Input \<noteq> Detach" by (simp_all add: msg_types)
  have rt1: "?rt1 = \<lparr>rt_chans = [(demo_sid, 0)], rt_conns = [(newVirtualConn demo_sid)\<lparr>vc_queue := [[Input, 7]]\<rparr>], rt_out = []\<rparr>"
    using ne t by (simp add: demo_mux_def demo_attached_router_eq demo_input_decoded rt_dispatch_def isConnLevel_def
        rt_channel_def vc_upd_def vc_deliver_def newVirtualConn_def Let_def)
  have m1: "mx_rt s1 = ?rt1" by (simp add: s1_def del: rt_serve.simps)
  note m1 = m1 [unfolded rt1]
  have n1: "mx_in s1 = [?ev]" "mx_relay s1 = mx_relay demo_mux" by (simp_all add: s1_def demo_mux_def del: rt_serve.simps)
  have "mux_step demo_mux_env demo_mux s1" unfolding s1_def by (rule mux_step.socket) (simp add: demo_mux_def)
  moreover have "mux_step demo_mux_env s1 s2"
    unfolding s2_def by (rule mux_step.read_frame) (simp_all add: m1 n1 v_def vc_readMessage_def demo_mux_def newVirtualConn_def)
  ultimately have r: "mux_reach demo_mux_env demo_mux s2" by (meson mux_reach.intros)
  have a: "rt_reach (mx_rt demo_mux)"
    unfolding demo_mux_def demo_attached_router_def by simp (rule rt_reach.step [OF rt_reach.init rt_step.frame])
  have "map_of (rt_chans (mx_rt s2)) demo_sid = Some 0" "queued_input demo_mux_env 0 s2 = []"
    "mx_in s2 = [?ev]" "terminal_writes 0 demo_mux = []"
    by (simp_all add: s2_def m1 n1 with_router_def v_def queued_input_def terminal_writes_def demo_mux_def newVirtualConn_def)
  moreover have "fst (mx_relay s2 0) = None"
    by (simp add: s2_def n1 run_relay_def with_router_def demo_mux_env_def demo_mux_def decodeClientFrame_def
        dispatch_def term_do_def)
  moreover have "routed_input (me_opts demo_mux_env 0) demo_sid [?ev] = [[7]]"
    using t by (simp add: routed_input_def demo_input_decoded demo_mux_env_def)
  ultimately show ?thesis
    using typed_input_reaches_terminal [OF a _ ne _ _ r, of 0] r
    by (auto simp: demo_mux_def demo_attached_router_eq newVirtualConn_def)
qed

text \<open>
  The other direction: a frame that a session writes on its channel is, when the socket takes it, seen by
  the client under the session's id, whole, and the other sessions' frames are those they were.
\<close>

definition seen_by_client :: "string \<Rightarrow> conn_log \<Rightarrow> bytes list" where
  "seen_by_client sid out =
     concat (map (\<lambda>f. case decodeRouted f of
                Inr r \<Rightarrow> if rf_session r = sid then [rf_type r # rf_payload r] else []
              | Inl _ \<Rightarrow> []) out)"

lemma frame_seen_by_own_pane:
  assumes "vc_write cok c p rt = (True, rt')" "p \<noteq> []" "vc_sid (rt_conns rt ! c) \<noteq> connLevelID"
  shows "seen_by_client sid (rt_out rt')
    = seen_by_client sid (rt_out rt) @ (if sid = vc_sid (rt_conns rt ! c) then [p] else [])"
proof -
  obtain f where f: "encodeRoutedSession (vc_sid (rt_conns rt ! c)) p = Inr f" "rt_out rt' = rt_out rt @ [f]"
    using assms(1,2) by (auto simp: vc_write_def rt_writeRoutedSession_def rt_writeRaw_def conn_write_def
        split: sum.splits if_splits)
  obtain r where "decodeRouted f = Inr r" "rf_session r = vc_sid (rt_conns rt ! c)" "rf_type r # rf_payload r = p"
    using routed_session_frame_trip [OF f(1) assms(3)] by (auto simp: encodeFrame_def)
  then show ?thesis by (simp add: seen_by_client_def f(2))
qed

end
