(* ===== verification/Constructors.thy ===== *)
theory Constructors
  imports Assembly
begin

text \<open>
  How sessions and the manager are built from options: \<open>New\<close> of \<open>session.go\<close> and \<open>NewManager\<close> of
  \<open>manager.go\<close> start from defaults and apply functions in order.  The rest of the model builds both in
  one go (\<open>new_session\<close>, \<open>newManager\<close>); here that is shown to be what the options the program passes
  give.
\<close>

section \<open>Sessions\<close>

type_synonym 'm session_option = "'m session \<Rightarrow> 'm session"

definition withScreenMirror :: "'m option \<Rightarrow> 'm session_option" where
  "withScreenMirror m s = s\<lparr>s_mirror := m\<rparr>"

definition withAnswerQueries :: "bool \<Rightarrow> 'm session_option" where
  "withAnswerQueries enabled s = s\<lparr>s_answerQueries := enabled\<rparr>"

definition withSpec :: "connect_spec \<Rightarrow> 'm session_option" where
  "withSpec spec s = s\<lparr>s_spec := spec\<rparr>"

definition zero_spec :: connect_spec where
  "zero_spec = \<lparr>cs_hostID = '''', cs_name = '''', cs_addr = '''', cs_user = ''''\<rparr>"

definition session_New :: "string \<Rightarrow> int \<Rightarrow> 'm session_option list \<Rightarrow> 'm session" where
  "session_New sid now opts = fold (\<lambda>opt s. opt s) opts (new_session sid zero_spec None True now)"

text \<open>The options that \<open>createWithID\<close> passes, in its order.\<close>

lemma session_New_created:
  "session_New sid now [withScreenMirror m, withAnswerQueries aq, withSpec spec] = new_session sid spec m aq now"
  by (simp add: session_New_def withScreenMirror_def withAnswerQueries_def withSpec_def new_session_def)

text \<open>Options of different kinds commute, and the last one of a kind counts.\<close>

lemma session_options_commute:
  "withScreenMirror m (withAnswerQueries b s) = withAnswerQueries b (withScreenMirror m s)"
  "withScreenMirror m (withSpec sp s) = withSpec sp (withScreenMirror m s)"
  "withAnswerQueries b (withSpec sp s) = withSpec sp (withAnswerQueries b s)"
  "withAnswerQueries b (withAnswerQueries b' s) = withAnswerQueries b s"
  by (simp_all add: withScreenMirror_def withAnswerQueries_def withSpec_def)

section \<open>The manager\<close>

text \<open>
  The fields that options set; the factories are kept beside the manager of the model, whose operations
  take them as arguments.  \<open>None\<close> is the nil factory, the store is the one given last.
\<close>

record ('m, 't, 's) mgr_config =
  mc_store :: 's
  mc_maxSession :: int
  mc_idleTimeout :: int
  mc_baseOpts :: "term_option list"
  mc_factory :: "'t factory option"
  mc_mirrorF :: "('t \<Rightarrow> 'm option) option"
  mc_answerQueries :: bool

type_synonym ('m, 't, 's) mgr_option = "('m, 't, 's) mgr_config \<Rightarrow> ('m, 't, 's) mgr_config"

definition withMaxSession :: "int \<Rightarrow> ('m, 't, 's) mgr_option" where
  "withMaxSession n c = c\<lparr>mc_maxSession := n\<rparr>"

definition withIdleTimeout :: "int \<Rightarrow> ('m, 't, 's) mgr_option" where
  "withIdleTimeout d c = c\<lparr>mc_idleTimeout := d\<rparr>"

definition withManagerTerminalOptions :: "term_options \<Rightarrow> ('m, 't, 's) mgr_option" where
  "withManagerTerminalOptions o1 c = c\<lparr>mc_baseOpts := mc_baseOpts c @ withTerminalOptions o1\<rparr>"

definition withTerminalFactory :: "'t factory \<Rightarrow> ('m, 't, 's) mgr_option" where
  "withTerminalFactory f c = c\<lparr>mc_factory := Some f\<rparr>"

definition withStore :: "'s \<Rightarrow> ('m, 't, 's) mgr_option" where
  "withStore st c = c\<lparr>mc_store := st\<rparr>"

definition withMirrorFactory :: "('t \<Rightarrow> 'm option) \<Rightarrow> ('m, 't, 's) mgr_option" where
  "withMirrorFactory f c = c\<lparr>mc_mirrorF := Some f\<rparr>"

definition withManagerAnswerQueries :: "bool \<Rightarrow> ('m, 't, 's) mgr_option" where
  "withManagerAnswerQueries b c = c\<lparr>mc_answerQueries := b\<rparr>"

text \<open>A manager without a factory gets one that always fails.\<close>

definition no_factory :: "'t factory" where
  "no_factory spec opts = None"

definition mgr_New :: "'s \<Rightarrow> ('m, 't, 's) mgr_option list \<Rightarrow> ('m, 't, 's) mgr_config" where
  "mgr_New store opts =
     (let c = fold (\<lambda>opt c. opt c) opts
                \<lparr>mc_store = store, mc_maxSession = 0, mc_idleTimeout = 0, mc_baseOpts = [], mc_factory = None,
                 mc_mirrorF = None, mc_answerQueries = False\<rparr>
      in if mc_factory c = None then c\<lparr>mc_factory := Some no_factory\<rparr> else c)"

definition mgr_of :: "('m, 't, 's) mgr_config \<Rightarrow> ('m, 't, 's) manager" where
  "mgr_of c = newManager (mc_store c) (mc_maxSession c) (mc_idleTimeout c) (mc_baseOpts c) (mc_answerQueries c)"

text \<open>The mirror of a new session: none without a mirror factory.\<close>

definition mc_mirror :: "('m, 't, 's) mgr_config \<Rightarrow> 't \<Rightarrow> 'm option" where
  "mc_mirror c t = (case mc_mirrorF c of None \<Rightarrow> None | Some f \<Rightarrow> f t)"

text \<open>The options of \<open>assembleServer\<close>, with the names that the options of the server have.\<close>

definition serve_options ::
  "struct_values \<Rightarrow> struct_values \<Rightarrow> 's \<Rightarrow> ('t \<Rightarrow> 'm option) \<Rightarrow> ('m, 't, 's) mgr_option list" where
  "serve_options app term store mirrorF =
     [withMaxSession (int_value app ''MaxSession''), withIdleTimeout (int_value app ''Timeout'' * 1000000000),
      withManagerTerminalOptions (struct_term_options term), withStore store, withMirrorFactory mirrorF,
      withManagerAnswerQueries (bool_value app ''AnswerQueries'')]"

lemma assembled_manager_options:
  assumes "assembleParts e app term d = (Inr ab, d')"
  shows "\<exists>store0 store. ab_manager ab = mgr_of (mgr_New store0 (serve_options app term store mirrorF))"
proof -
  obtain store where "ab_manager ab = newManager store (int_value app ''MaxSession'') (int_value app ''Timeout'' * 1000000000)
      (withTerminalOptions (struct_term_options term)) (bool_value app ''AnswerQueries'')"
    using assms by (auto simp: assembleParts_def Let_def split: prod.splits option.splits sum.splits)
  moreover have "mgr_of (mgr_New store (serve_options app term store mirrorF)) = newManager store (int_value app ''MaxSession'')
      (int_value app ''Timeout'' * 1000000000) (withTerminalOptions (struct_term_options term))
      (bool_value app ''AnswerQueries'')" for store
    by (simp add: mgr_of_def mgr_New_def serve_options_def Let_def withMaxSession_def withIdleTimeout_def
        withManagerTerminalOptions_def withStore_def withMirrorFactory_def withManagerAnswerQueries_def)
  ultimately show ?thesis by metis
qed

text \<open>
  A manager that was given no factory creates nothing, whatever is asked for.
\<close>

lemma no_factory_creates_nothing:
  assumes "mc_factory (mgr_New store opts) = Some no_factory"
  shows "\<exists>err. fst (create_session ops no_factory mirrorF now sid spec record termOpts m) = Inl err
    \<and> snd (create_session ops no_factory mirrorF now sid spec record termOpts m) = m"
  by (simp add: create_session_def no_factory_def)

text \<open>
  The comment of \<open>WithAnswerQueries\<close> says that terminal queries are answered by default.  A manager that is
  built without the option does not answer them: it passes its own flag, which is false, to every
  session, over the session's default.
\<close>

lemma unset_answers_nothing:
  "mg_answerQueries (mgr_of (mgr_New store [])) = False"
  "s_answerQueries (session_New sid now [withScreenMirror m, withAnswerQueries (mg_answerQueries (mgr_of (mgr_New store []))),
      withSpec spec]) = False"
  by (simp_all add: mgr_of_def mgr_New_def newManager_def session_New_def withScreenMirror_def withAnswerQueries_def
      withSpec_def)

section \<open>The addresses of the machine\<close>

text \<open>
  \<open>listAddresses\<close>: an interface whose addresses cannot be read has none; entries that are neither a
  network nor an address are left out.
\<close>

datatype if_addr = IPNet string | IPAddr string | OtherAddr

fun if_ip :: "if_addr \<Rightarrow> string list" where
  "if_ip (IPNet ip) = [ip]"
| "if_ip (IPAddr ip) = [ip]"
| "if_ip OtherAddr = []"

definition listAddresses :: "if_addr list option list option \<Rightarrow> string list" where
  "listAddresses ifaces =
     (case ifaces of
        None \<Rightarrow> []
      | Some is1 \<Rightarrow> concat (map (\<lambda>addrs. case addrs of None \<Rightarrow> [] | Some as \<Rightarrow> concat (map if_ip as)) is1))"

text \<open>The addresses that \<open>Run\<close> logs when it listens on all of them.\<close>

definition alternative_urls :: "bool \<Rightarrow> string \<Rightarrow> string \<Rightarrow> string \<Rightarrow> if_addr list option list option \<Rightarrow> string list" where
  "alternative_urls tls address port token ifaces =
     (if address = ''0.0.0.0'' \<or> address = ''::''
      then map (\<lambda>a. (if tls then ''https'' else ''http'') @ ''://'' @ a @ '':'' @ port @ ''/?token='' @ token)
             (listAddresses ifaces)
      else [])"

end
