(* ===== verification/Spec2Isabelle.thy ===== *)
theory Spec2Isabelle
  imports Session_Props Session_Steps Manager Forward_Hosts Ws_Router Api Api_Sessions Api_Screen Cli_Props
    Server_Run Win_Handles Terminals Ws_Entry Assembly Cli_Errors Middleware Multiplex Constructors
begin

text \<open>
  A model of \<open>gossh\<close>, a server that keeps SSH and local shells alive and shows them in browsers.

  \<^bold>\<open>The program.\<close>  A session (\<open>internal/session/session.go\<close>) owns one terminal process.  A pump reads
  the terminal's output into a ring buffer and sends it to the one attached client; a client that
  attaches evicts the one before it, gets the tail of the ring replayed and is then bridged to
  the terminal.  The manager (\<open>manager.go\<close>) registers the sessions by id and writes a record of
  each to a store (\<open>store.go\<close>), from which a session is rebuilt after it died.  Clients come over
  a WebSocket (\<open>internal/api/ws_handler.go\<close>) which carries the frames of one session, or of many
  under their ids (\<open>internal/terminal/protocol.go\<close>).  Sessions connect to hosts of an inventory
  (\<open>internal/host/host.go\<close>) with credentials resolved from agents, keys and a secret store, and host
  keys pinned on first use (\<open>internal/sshx\<close>).  Port forwards belong to a session
  (\<open>forward_handler.go\<close>) or to a host, on a connection that a supervisor keeps up
  (\<open>forward_host.go\<close>).  A session's output also feeds a screen mirror (\<open>internal/capture\<close>), a terminal
  emulator whose screen is served as text, JSON and bitmap and which answers terminal queries
  while nobody is attached.  The request handlers of \<open>internal/api\<close> compose these parts.  The
  commands of \<open>cmd\<close> are clients of the same interface.

  \<^bold>\<open>The theories.\<close>

  \<^item> \<open>Prelude\<close>, \<open>Utils\<close>, \<open>Json\<close>, \<open>Files\<close>, \<open>Base64\<close>: bytes and strings, decimal numbers, Go maps as
    association lists, session ids, paths, terminal options (\<open>internal/utils\<close>, \<open>terminal/options.go\<close>);
    how \<open>encoding/json\<close> stores a value into a struct; the write-to-temporary-and-rename save that
    five parts share, with the locale \<open>atomic_persist\<close> of what it promises; base64.
  \<^item> \<open>Wire\<close>: the frames and the routed frames of \<open>protocol.go\<close>.  \<open>Ring_Buffer\<close>: \<open>ring.go\<close>.
  \<^item> \<open>Session\<close>: data and operations of \<open>session.go\<close>, each critical section one function.
    \<open>Session_Props\<close>: what a handshake, a replay, a relay and a wait do.  \<open>Session_Steps\<close>: the step
    relation that interleaves attaches, the pump and destruction, with its invariants.
  \<^item> \<open>Store\<close>: the memory store and the file store, the locale \<open>session_store\<close> with its
    interpretations, and the refinement of one by the other.  \<open>Manager\<close>: \<open>manager.go\<close>.
  \<^item> \<open>Hosts\<close>: the inventory.  \<open>Trust\<close>: \<open>knownhosts.go\<close>, \<open>secrets.go\<close>, \<open>auth.go\<close>, \<open>agent.go\<close>,
    \<open>dialer.go\<close>.
  \<^item> \<open>Forwards\<close>: the forwards of a session and the SOCKS5 server.  \<open>Forward_Hosts\<close>: the forwards of a
    host, its supervisor and the reconciliation with the configuration.
  \<^item> \<open>Ws_Router\<close>: the WebSocket connections.  \<open>Multiplex\<close>: a socket and the relays of the sessions
    attached over it, which run in any order.  \<open>Api\<close>: tokens, page title, hosts, pins and secrets.
    \<open>Api_Sessions\<close>: the handlers of live sessions and the terminal factory.
  \<^item> The screen mirror: \<open>Utf8\<close> (encoding and decoding of one character), \<open>Scanner\<close> (the byte scanner of
    \<open>emulator.go\<close>), \<open>Screen\<close> (grids, colors, text and HTML of \<open>render.go\<close>), \<open>Graphics\<close> (pictures and
    control headers of \<open>graphics.go\<close>), \<open>Emulator\<close> (the emulator, its picture handlers and snapshots),
    \<open>Emulator_Props\<close> (what it does to a stream), \<open>Paint\<close> (the bitmap as drawing operations),
    \<open>Api_Screen\<close> (the adapter of \<open>mirror.go\<close>, which instantiates the mirror of a session, and the
    screen handler).
  \<^item> The server as a whole: \<open>Http\<close> (answers, paths, queries), \<open>Api_Routes\<close> (the route tables of
    \<open>setupHandlers\<close>, the token in front of them, the written form of every answer; one request is the
    function \<open>serve\<close> on the state \<open>gossh\<close>), \<open>Middleware\<close> (the response writer that logs the status).
  \<^item> The command line: \<open>Keys\<close> (\<open>cmd/keys.go\<close>), \<open>Config\<close> (\<open>internal/config\<close> and the options of
    \<open>assembleServer\<close>), \<open>Cli\<close> (\<open>cmd/client.go\<close>), \<open>Cli_Sessions\<close> (\<open>cmd/session.go\<close>), \<open>Cli_Hosts\<close> (hosts,
    forwards, secrets, pins, title), \<open>Cli_Props\<close> (commands run against \<open>serve\<close>).  A command is a
    resumption: it ends, or issues a request and goes on with the answer.  \<open>Commands\<close> is the tree of
    commands with the flags each declares and reads, \<open>Commands_Props\<close> shows that they agree,
    \<open>Cli_Errors\<close> what every command does when a request fails.
  \<^item> The terminals: \<open>Local_Shell\<close> (which shell, with which environment: \<open>localtty.go\<close>), \<open>Pty\<close> (the pseudo
    terminals of Linux, Darwin and Windows, their handles, the locales \<open>ptmx_opener\<close> and \<open>pty_handle\<close>),
    \<open>Win_Handles\<close> (the handles of the Windows one under concurrency), \<open>Terminals\<close> (\<open>localtty.Tty\<close> and
    \<open>sshtty.Tty\<close>, the locale \<open>session_terminal\<close>), \<open>Ws_Entry\<close> (from a WebSocket request to an attached
    session, and a session on its terminal).
  \<^item> The process: \<open>Server_Run\<close> (\<open>Server.Run\<close>, \<open>runServe\<close> and the signals, as a step relation), \<open>Assembly\<close>
    (\<open>assembleServer\<close>, \<open>api.New\<close>, the maintenance loop), \<open>Constructors\<close> (the options that sessions and the manager are built
    from, and that the short constructors of the model are what they give), \<open>Desktop\<close> (\<open>gossh app\<close>: the single instance,
    autostart, the tray; the locales \<open>single_lock\<close> and \<open>autostart_switch\<close>).

  \<^bold>\<open>How state is modelled.\<close>  A struct is a record, a map an association list with distinct keys whose
  order stands for the unspecified order of iteration.  A method is a function from the state to the
  result and the new state; what it does to the outside (calls on a terminal, frames written,
  forwards launched) is a log in the state.  Code that holds a lock is one function; code that does
  not is cut into its critical sections, and the interleavings are step relations.  Objects shared
  by reference (the supervisor states, the virtual connections) live in a heap, a list indexed by
  references.

  \<^bold>\<open>Parameters.\<close>  Outside the model, and arguments of the definitions that use them: the success of
  writes on connections, terminals and disks (functions of what was done so far); the clock, random
  numbers and random ids; the JSON text grammar (a parser and a printer; a theorem that reads back
  what was written assumes that the parser inverts the printer); SHA-256, private key parsing, the
  TCP dialer and the SSH handshake; the system keyring (a map that may fail); regular expressions;
  the formatting of times.  The session takes its screen mirror as the record \<open>mirror_ops\<close>, which
  \<open>Api_Screen\<close> instantiates; the mirror's own parameters are the terminal engine of
  \<open>charmbracelet/x/vt\<close> (the record \<open>vt_ops\<close>), the picture codecs and the floating point width of an
  iTerm2 picture (\<open>gfx_env\<close>), the width of a character, the font face and the PNG encoder
  (\<open>paint_env\<close>).  The command line is parsed by a library: the record \<open>parsed\<close> has the answers of its
  getters, and the rules for arguments are a predicate; the files of a command, environment, standard input and Unicode tables are the record \<open>cli_env\<close>.  A path is
  unescaped by a parameter, of which the theorems use that it inverts the escaping.  For the terminals
  the parameters are the answers of the system calls and of the SSH library, and when a shell ends;
  of \<open>http.Server\<close> it is what \<open>Server_Run\<close> says.

  \<^bold>\<open>What the lemmas show.\<close>  Codecs: exact decoding and round trips.  Sessions: one owner at a time;
  a preempted attach changes nothing; every output byte since an attach is sent to it exactly once,
  except in the window before the replay, where a chunk is sent twice (a run is exhibited); a replay
  is a bounded suffix that starts on a character boundary; only permitted calls reach a terminal.
  Stores: a crash at any point of a save leaves the old or the new state; the file store answers as
  the memory store.  Manager: limits, ids and records in every reachable state; resurrection; the
  race of \<open>Destroy\<close>.  Hosts: the index of names.  Trust: one key per address, and the race of first
  uses.  Forwards: nothing launched is left running unowned; reconciliation and back-off.  Routing: a channel
  gets its own frames in order, and what is typed for a session reaches its terminal and no other.  Handlers: tokens, creation, deletion, typing.  Mirror: plain output
  reaches the engine unchanged; payload sequences are delivered exactly; pictures in chunks are
  put together and placed within the screen; the snapshot is the engine's screen, column by column,
  and the text, JSON and bitmap forms are made from it; no HTML comes from the screen's contents;
  everything the mirror keeps is bounded.  Server: a route is reached by its own requests only; without
  the token nothing is changed or learnt; every handler answers, in the form the clients read.
  Command line: keys are typed byte for byte into the session that was named, which is never
  guessed; an edit changes what it names; an option has one source; a command reads the flags it declares; a request that
  fails is the last one, and its error is reported.  Terminals: starting a shell loses no
  handle; both kinds close alike and in bounded time; a session and its terminal agree on the size.
  Process: a stopped server ends within a bounded number of its steps, for a reason that is stated; what
  it leaves unfinished is exhibited by runs.  Some lemmas describe runs in
  which the code does something its comments do not promise; their texts say so.

  \<^bold>\<open>Bounds and recursion.\<close>  No definition uses fuel.  Loops over buffers are recursions with a measure;
  loops that wait for the outside (the relay, the wait, the supervisor, the reader of a socket)
  recurse over the list of the events they see, and a list that ends before the loop does gives a
  separate result.  Integers are unbounded where the code's bounds cannot be reached; frame lengths,
  parsed numbers and durations carry their bounds or wrap at 64 bits.

  \<^bold>\<open>Not modelled.\<close>  The help texts of the commands; what is logged, but for the access log; the copying of bytes inside \<open>net/http\<close>, TLS and
  compression; drawing the tray and opening a browser, which are effects; network and device paths of
  Windows.
\<close>

end
